(* ===== verification/Prelude.thy ===== *)
theory Prelude
  imports Main "HOL-Library.Finite_Map" "HOL-Library.Char_ord" "HOL-Library.List_Lexorder"
begin

text \<open>
  Shared vocabulary of the development: the names of the machine and wire types, the
  wrap-around of 64-bit signed arithmetic, the HTTP error values that handlers return, the
  lemma collections, and generic lemmas on finite maps, lists and sums that several
  components use.

  Rust's \<open>i64\<close> is an \<open>int\<close> together with \<open>in_i64\<close> where the range matters; arithmetic that
  could leave the range is written with \<open>wrap_i64\<close>. \<open>HashMap\<close> and \<open>BTreeMap\<close> are finite
  maps, \<open>BTreeSet\<close> and \<open>HashSet\<close> are sets, \<open>Vec\<close> is a list, and both \<open>String\<close> and
  \<open>[u8]\<close> are lists of 8-bit characters.
\<close>

type_synonym i64 = int
type_synonym i32 = int
type_synonym u64 = nat
type_synonym u32 = nat
type_synonym usize = nat
type_synonym bytes = string

text \<open>A \<open>chrono\<close> instant, as nanoseconds since the Unix epoch.\<close>
type_synonym instant = int

named_theorems guard_simps \<open>what the guards of the handlers decide\<close>
named_theorems store_simps \<open>equations of the key-value store and its clients\<close>

section \<open>Signed 64-bit integers\<close>

definition i64_max :: i64 where
  "i64_max = 9223372036854775807"

definition i64_min :: i64 where
  "i64_min = - 9223372036854775808"

definition in_i64 :: "int \<Rightarrow> bool" where
  "in_i64 x \<longleftrightarrow> i64_min \<le> x \<and> x \<le> i64_max"

text \<open>Two's complement wrap-around, the value of overflowing arithmetic in a release build.\<close>

definition wrap_i64 :: "int \<Rightarrow> i64" where
  "wrap_i64 x = (x + 9223372036854775808) mod 18446744073709551616 - 9223372036854775808"

lemma wrap_i64_id [simp]: "in_i64 x \<Longrightarrow> wrap_i64 x = x"
  by (simp add: wrap_i64_def in_i64_def i64_min_def i64_max_def)

lemma wrap_i64_range [simp]: "in_i64 (wrap_i64 x)"
proof -
  have "0 \<le> (x + 9223372036854775808) mod 18446744073709551616"
    "(x + 9223372036854775808) mod 18446744073709551616 < 18446744073709551616"
    by simp_all
  then show ?thesis by (simp add: wrap_i64_def in_i64_def i64_min_def i64_max_def)
qed

lemma wrap_i64_mod: "wrap_i64 (x mod 18446744073709551616) = wrap_i64 x"
  by (simp add: wrap_i64_def mod_add_left_eq)

text \<open>\<open>DateTime::timestamp_millis\<close> rounds towards minus infinity.\<close>

definition timestamp_millis :: "instant \<Rightarrow> i64" where
  "timestamp_millis t = t div 1000000"

lemma timestamp_millis_mono: "t \<le> u \<Longrightarrow> timestamp_millis t \<le> timestamp_millis u"
  by (simp add: timestamp_millis_def zdiv_mono1)

section \<open>HTTP errors\<close>

datatype status =
    BAD_REQUEST
  | UNAUTHORIZED
  | FORBIDDEN
  | NOT_FOUND
  | CONFLICT
  | PAYLOAD_TOO_LARGE
  | TOO_MANY_REQUESTS
  | UNAVAILABLE_FOR_LEGAL_REASONS
  | INTERNAL_SERVER_ERROR
  | SERVICE_UNAVAILABLE

text \<open>\<open>poem::Error\<close>: a status, and the body when the code gives one.\<close>

datatype api_error = Api (err_status: status) (err_body: "string option")

abbreviation from_status :: "status \<Rightarrow> api_error" where
  "from_status s \<equiv> Api s None"

abbreviation from_string :: "string \<Rightarrow> status \<Rightarrow> api_error" where
  "from_string b s \<equiv> Api s (Some b)"

section \<open>Results\<close>

text \<open>
  \<open>Result<T, E>\<close> is the sum \<open>'e + 'a\<close>. The combinator below is the \<open>?\<close> operator:
  an error returns at once, a value goes on.
\<close>

definition try_res :: "'e + 'a \<Rightarrow> ('a \<Rightarrow> 'e + 'b) \<Rightarrow> 'e + 'b" where
  "try_res r f = (case r of Inl e \<Rightarrow> Inl e | Inr x \<Rightarrow> f x)"

lemma try_res_simps [simp]:
  "try_res (Inl e) f = Inl e"
  "try_res (Inr x) f = f x"
  by (simp_all add: try_res_def)

lemma try_res_Inr_iff:
  "try_res r f = Inr y \<longleftrightarrow> (\<exists>x. r = Inr x \<and> f x = Inr y)"
  by (cases r) simp_all

text \<open>The same in a handler on state: an error leaves the state as it is.\<close>

lemma try_state_cases:
  assumes "(case g of Inl e \<Rightarrow> (Inl e, t) | Inr u \<Rightarrow> X u) = (r, t')"
  shows "(\<exists>e. r = Inl e \<and> t' = t) \<or> (\<exists>u. g = Inr u \<and> X u = (r, t'))"
proof (cases g)
  case (Inl e)
  then have "r = Inl e \<and> t' = t" using assms by auto
  then show ?thesis by blast
next
  case (Inr u)
  then show ?thesis using assms by simp
qed

text \<open>\<open>?\<close> inside a method on \<open>&mut self\<close>: an error returns with the state as it is then.\<close>

definition and_then :: "('e + 'a) \<times> 's \<Rightarrow> ('a \<Rightarrow> 's \<Rightarrow> ('e + 'b) \<times> 's) \<Rightarrow> ('e + 'b) \<times> 's" where
  "and_then r f = (case r of (Inl e, s) \<Rightarrow> (Inl e, s) | (Inr x, s) \<Rightarrow> f x s)"

lemma and_then_simps [simp]:
  "and_then (Inl e, s) f = (Inl e, s)"
  "and_then (Inr x, s) f = f x s"
  by (simp_all add: and_then_def)

lemma and_then_Inr_iff:
  "and_then r f = (Inr y, t) \<longleftrightarrow> (\<exists>x s. r = (Inr x, s) \<and> f x s = (Inr y, t))"
  by (cases r; cases "fst r") (auto simp: and_then_def)

definition ok_or :: "'e \<Rightarrow> 'a option \<Rightarrow> 'e + 'a" where
  "ok_or e o' = (case o' of None \<Rightarrow> Inl e | Some x \<Rightarrow> Inr x)"

lemma ok_or_simps [simp]:
  "ok_or e None = Inl e"
  "ok_or e (Some x) = Inr x"
  by (simp_all add: ok_or_def)

lemma ok_or_Inr_iff [simp]: "ok_or e o' = Inr x \<longleftrightarrow> o' = Some x"
  by (cases o') simp_all

lemma ok_or_Inl_iff [simp]: "ok_or e o' = Inl x \<longleftrightarrow> o' = None \<and> x = e"
  by (cases o') auto

section \<open>Finite maps\<close>

text \<open>All values of a map satisfy a predicate, in terms of lookups.\<close>

definition fm_any :: "('v \<Rightarrow> bool) \<Rightarrow> ('k, 'v) fmap \<Rightarrow> bool" where
  "fm_any P m \<longleftrightarrow> fBex (fmran m) P"

lemma fm_any_iff: "fm_any P m \<longleftrightarrow> (\<exists>k v. fmlookup m k = Some v \<and> P v)"
  unfolding fm_any_def by (metis fBexE fBexI fmlookup_ran_iff)

text \<open>\<open>get_mut\<close> followed by an assignment: nothing happens when the key is absent.\<close>

definition fm_modify :: "'k \<Rightarrow> ('v \<Rightarrow> 'v) \<Rightarrow> ('k, 'v) fmap \<Rightarrow> ('k, 'v) fmap" where
  "fm_modify k f m = (case fmlookup m k of None \<Rightarrow> m | Some v \<Rightarrow> fmupd k (f v) m)"

lemma fmlookup_modify [simp]:
  "fmlookup (fm_modify k f m) k' = (if k = k' then map_option f (fmlookup m k) else fmlookup m k')"
  by (auto simp: fm_modify_def split: option.splits)

lemma fmdom'_modify [simp]: "fmdom' (fm_modify k f m) = fmdom' m"
  by (auto simp: fm_modify_def fmlookup_dom'_iff split: option.splits)

section \<open>Text\<close>

text \<open>A number in decimal, as \<open>format!\<close> prints it.\<close>

fun decimal :: "nat \<Rightarrow> string" where
  "decimal n = (if n < 10 then [char_of (48 + n)] else decimal (n div 10) @ [char_of (48 + n mod 10)])"

declare decimal.simps [simp del]

text \<open>
  \<open>str::trim\<close>: the encodings of the characters with the property \<open>White_Space\<close>; no encoding is a
  prefix or a suffix of another, so cutting encodings off a valid UTF-8 string cuts characters.
\<close>

definition white_spaces :: "string list" where
  "white_spaces = map (map char_of)
     ([[9], [10], [11], [12], [13], [32], [0xC2, 0x85], [0xC2, 0xA0], [0xE1, 0x9A, 0x80], [0xE2, 0x80, 0xA8],
       [0xE2, 0x80, 0xA9], [0xE2, 0x80, 0xAF], [0xE2, 0x81, 0x9F], [0xE3, 0x80, 0x80]] @
      map (\<lambda>i. [0xE2, 0x80, 0x80 + i]) [0..<11 :: nat])"

definition starts_with :: "string \<Rightarrow> string \<Rightarrow> bool" where
  "starts_with s p \<longleftrightarrow> take (length p) s = p"

definition cut_space :: "string list \<Rightarrow> string \<Rightarrow> string option" where
  "cut_space ws s = map_option (\<lambda>w. drop (length w) s) (List.find (starts_with s) ws)"

lemma cut_space_shorter:
  assumes "[] \<notin> set ws" "cut_space ws s = Some t"
  shows "length t < length s"
proof -
  obtain w where w: "w \<in> set ws" "take (length w) s = w" "t = drop (length w) s"
    using assms(2) by (auto simp: cut_space_def starts_with_def find_Some_iff) (metis nth_mem)
  then have "w \<noteq> []" "s \<noteq> []" using assms(1) by (metis, metis take_Nil)
  then show ?thesis using w(3) by simp
qed

function cut_spaces :: "string list \<Rightarrow> string \<Rightarrow> string" where
  "cut_spaces ws s =
     (case cut_space (filter (\<lambda>w. w \<noteq> []) ws) s of None \<Rightarrow> s | Some t \<Rightarrow> cut_spaces ws t)"
  by pat_completeness auto
termination
  by (relation "measure (\<lambda>(ws, s). length s)") (auto dest: cut_space_shorter [rotated])

declare cut_spaces.simps [simp del]

definition str_trim :: "string \<Rightarrow> string" where
  "str_trim s = rev (cut_spaces (map rev white_spaces) (rev (cut_spaces white_spaces s)))"

section \<open>Lists\<close>

lemma set_take_subset_elem: "x \<in> set (take n xs) \<Longrightarrow> x \<in> set xs"
  using set_take_subset [of n xs] by blast

lemma take_rev_rev: "rev (take n (rev xs)) = drop (length xs - n) xs"
  by (simp add: take_rev)

end
