(* ===== verification/Bytes.thy ===== *)
theory Bytes
  imports Prelude
begin

text \<open>
  Big-endian byte strings: \<open>i64::to_be_bytes\<close> and \<open>i64::from_be_bytes\<close> of the Rust
  standard library, their round trip, and the fact the message store rests on: on strings
  of one length the lexicographic order of the bytes is the unsigned order of the numbers,
  hence the order of the \<open>i64\<close> values themselves when these are not negative.
\<close>

fun be_bytes :: "nat \<Rightarrow> int \<Rightarrow> bytes" where
  "be_bytes 0 x = []"
| "be_bytes (Suc n) x = be_bytes n (x div 256) @ [char_of (x mod 256)]"

definition from_be :: "bytes \<Rightarrow> int" where
  "from_be bs = foldl (\<lambda>a c. a * 256 + of_char c) 0 bs"

definition i64_to_be_bytes :: "i64 \<Rightarrow> bytes" where
  "i64_to_be_bytes x = be_bytes 8 (x mod 18446744073709551616)"

definition i64_from_be_bytes :: "bytes \<Rightarrow> i64" where
  "i64_from_be_bytes bs = wrap_i64 (from_be bs)"

lemma length_be_bytes [simp]: "length (be_bytes n x) = n"
  by (induction n arbitrary: x) simp_all

lemma length_i64_to_be_bytes [simp]: "length (i64_to_be_bytes x) = 8"
  by (simp add: i64_to_be_bytes_def)

lemma from_be_snoc: "from_be (bs @ [c]) = from_be bs * 256 + of_char c"
  by (simp add: from_be_def)

lemma div_mod_256: "(x div 256) mod p * 256 + x mod 256 = x mod (256 * p)" if "0 < p" for x p :: int
  using that by (simp add: zmod_zmult2_eq [of p x 256])

lemma from_be_be_bytes: "from_be (be_bytes n x) = x mod 256 ^ n"
proof (induction n arbitrary: x)
  case 0
  then show ?case by (simp add: from_be_def)
next
  case (Suc n)
  then show ?case by (simp add: from_be_snoc div_mod_256)
qed

lemma i64_bytes_roundtrip [simp]: "in_i64 x \<Longrightarrow> i64_from_be_bytes (i64_to_be_bytes x) = x"
  by (simp add: i64_from_be_bytes_def i64_to_be_bytes_def from_be_be_bytes wrap_i64_mod)

lemma i64_to_be_bytes_inj:
  "in_i64 x \<Longrightarrow> in_i64 y \<Longrightarrow> i64_to_be_bytes x = i64_to_be_bytes y \<longleftrightarrow> x = y"
  by (metis i64_bytes_roundtrip)

section \<open>Order\<close>

lemma append_less_iff:
  "length as = length bs \<Longrightarrow> as @ xs < bs @ ys \<longleftrightarrow> as < bs \<or> as = bs \<and> xs < ys"
  for as bs xs ys :: "'a::linorder list"
  by (induction as bs rule: list_induct2) auto

lemma append_same_less_iff [simp]: "as @ xs < as @ ys \<longleftrightarrow> xs < ys"
  for as xs ys :: "'a::linorder list"
  by (simp add: append_less_iff)

lemma append_same_le_iff [simp]: "as @ xs \<le> as @ ys \<longleftrightarrow> xs \<le> ys"
  for as xs ys :: "'a::linorder list"
  by (induction as) auto

lemma of_char_char_of_int: "(of_char (char_of (x :: int)) :: nat) = nat (x mod 256)"
proof -
  have "int (of_char (char_of x)) = (of_char (char_of x) :: int)"
    by (simp only: of_nat_of_char)
  also have "\<dots> = x mod 256" by simp
  finally show ?thesis by simp
qed

lemma char_of_less_iff: "char_of x < char_of y \<longleftrightarrow> x mod 256 < y mod 256" for x y :: int
proof -
  have "0 \<le> x mod 256" by simp
  then show ?thesis by (simp only: less_char_def of_char_char_of_int nat_less_eq_zless)
qed

lemma char_of_eq_mod_iff: "char_of x = char_of y \<longleftrightarrow> x mod 256 = y mod 256" for x y :: int
  by (metis char_of_less_iff linorder_neq_iff)

lemma base_256_less_iff:
  fixes q q' r r' :: int
  assumes "0 \<le> r" "r < 256" "0 \<le> r'" "r' < 256"
  shows "q * 256 + r < q' * 256 + r' \<longleftrightarrow> q < q' \<or> q = q' \<and> r < r'"
  using assms by (cases q q' rule: linorder_cases) auto

lemma mod_mult_256_less_iff:
  fixes x y p :: int
  assumes "0 < p"
  shows "x mod (256 * p) < y mod (256 * p) \<longleftrightarrow>
    (x div 256) mod p < (y div 256) mod p \<or>
    (x div 256) mod p = (y div 256) mod p \<and> x mod 256 < y mod 256"
  unfolding div_mod_256 [OF assms, symmetric] by (rule base_256_less_iff) simp_all

lemma be_bytes_less_iff: "be_bytes n x < be_bytes n y \<longleftrightarrow> x mod 256 ^ n < y mod 256 ^ n"
  and be_bytes_eq_iff: "be_bytes n x = be_bytes n y \<longleftrightarrow> x mod 256 ^ n = y mod 256 ^ n"
proof (induction n arbitrary: x y)
  case 0
  { case 1 then show ?case by simp }
  { case 2 then show ?case by simp }
next
  case (Suc n)
  have p: "(0::int) < 256 ^ n" by simp
  { case 1
    show ?case
      by (simp add: append_less_iff Suc.IH char_of_less_iff mod_mult_256_less_iff [OF p]) }
  note less = this
  { case 2
    show ?case by (metis less linorder_neq_iff) }
qed

lemma i64_to_be_bytes_less_iff:
  assumes "0 \<le> x" "in_i64 x" "0 \<le> y" "in_i64 y"
  shows "i64_to_be_bytes x < i64_to_be_bytes y \<longleftrightarrow> x < y"
  using assms by (simp add: i64_to_be_bytes_def be_bytes_less_iff in_i64_def i64_max_def)

lemma i64_to_be_bytes_le_iff:
  assumes "0 \<le> x" "in_i64 x" "0 \<le> y" "in_i64 y"
  shows "i64_to_be_bytes x \<le> i64_to_be_bytes y \<longleftrightarrow> x \<le> y"
  using assms i64_to_be_bytes_less_iff [of y x] by (meson linorder_not_less)

end
