(* ===== verification/Msg_Keys.thy ===== *)
theory Msg_Keys
  imports Bytes
begin

text \<open>
  The key layout of the message database (\<open>crates/msgdb/src/messages.rs\<close>, and
  \<open>key_sequence\<close> of \<open>sequence.rs\<close>): one encoder per record family and the decoders the
  scans use. The lemmas give the round trips, the disjointness of the families, and the
  order facts that make a range of keys a range of message ids.
\<close>

section \<open>Encoders\<close>

definition key_sequence :: "char \<Rightarrow> bytes" where
  "key_sequence ty = ''SEQUENCE/'' @ [ty]"

definition key_msg :: "i64 \<Rightarrow> bytes" where
  "key_msg msg_id = ''MSG/'' @ i64_to_be_bytes msg_id"

definition key_merged_msg :: "i64 \<Rightarrow> bytes" where
  "key_merged_msg msg_id = ''FMSG/'' @ i64_to_be_bytes msg_id"

definition key_pending_message_marker :: "i64 \<Rightarrow> bytes" where
  "key_pending_message_marker msg_id = ''PEND/'' @ i64_to_be_bytes msg_id"

definition pending_marker_value :: "i64 \<Rightarrow> i64 \<Rightarrow> i64 \<Rightarrow> bytes" where
  "pending_marker_value sender_uid target_uid created_at_millis =
     i64_to_be_bytes sender_uid @ i64_to_be_bytes target_uid @ i64_to_be_bytes created_at_millis"

definition key_user_msg :: "i64 \<Rightarrow> i64 \<Rightarrow> bytes" where
  "key_user_msg uid msg_id = ''UMSG/'' @ i64_to_be_bytes uid @ i64_to_be_bytes msg_id"

definition key_group_msg :: "i64 \<Rightarrow> i64 \<Rightarrow> bytes" where
  "key_group_msg gid msg_id = ''GMSG/'' @ i64_to_be_bytes gid @ i64_to_be_bytes msg_id"

definition key_dm_msg :: "i64 \<Rightarrow> i64 \<Rightarrow> i64 \<Rightarrow> bytes" where
  "key_dm_msg from_uid to_uid msg_id =
     (let a = min from_uid to_uid; b = max from_uid to_uid
      in ''DM/'' @ i64_to_be_bytes a @ i64_to_be_bytes b @ i64_to_be_bytes msg_id)"

section \<open>Decoders\<close>

text \<open>\<open>slice::strip_prefix\<close> of the standard library.\<close>

definition strip_prefix :: "bytes \<Rightarrow> bytes \<Rightarrow> bytes option" where
  "strip_prefix p data =
     (if take (length p) data = p then Some (drop (length p) data) else None)"

definition decode_key_pending_message_marker :: "bytes \<Rightarrow> i64 option" where
  "decode_key_pending_message_marker data =
     (case strip_prefix ''PEND/'' data of
        None \<Rightarrow> None
      | Some d \<Rightarrow> if length d \<noteq> 8 then None else Some (i64_from_be_bytes d))"

definition decode_pending_marker_value :: "bytes \<Rightarrow> (i64 \<times> i64 \<times> i64) option" where
  "decode_pending_marker_value data =
     (if length data \<noteq> 24 then None
      else Some (i64_from_be_bytes (take 8 data),
                 i64_from_be_bytes (take 8 (drop 8 data)),
                 i64_from_be_bytes (take 8 (drop 16 data))))"

definition decode_key_user_msg :: "bytes \<Rightarrow> (i64 \<times> i64) option" where
  "decode_key_user_msg data =
     (case strip_prefix ''UMSG/'' data of
        None \<Rightarrow> None
      | Some d \<Rightarrow>
          if length d \<noteq> 16 then None
          else Some (i64_from_be_bytes (take 8 d), i64_from_be_bytes (take 8 (drop 8 d))))"

definition decode_key_group_msg :: "bytes \<Rightarrow> (i64 \<times> i64) option" where
  "decode_key_group_msg data =
     (case strip_prefix ''GMSG/'' data of
        None \<Rightarrow> None
      | Some d \<Rightarrow>
          if length d \<noteq> 16 then None
          else Some (i64_from_be_bytes (take 8 d), i64_from_be_bytes (take 8 (drop 8 d))))"

definition decode_key_dm_msg :: "bytes \<Rightarrow> (i64 \<times> i64 \<times> i64) option" where
  "decode_key_dm_msg data =
     (case strip_prefix ''DM/'' data of
        None \<Rightarrow> None
      | Some d \<Rightarrow>
          if length d \<noteq> 24 then None
          else Some (i64_from_be_bytes (take 8 d), i64_from_be_bytes (take 8 (drop 8 d)),
                     i64_from_be_bytes (take 8 (drop 16 d))))"

section \<open>Round trips\<close>

lemma strip_prefix_append [simp]: "strip_prefix p (p @ d) = Some d"
  by (simp add: strip_prefix_def)

lemmas key_defs = key_sequence_def key_msg_def key_merged_msg_def key_pending_message_marker_def
  key_user_msg_def key_group_msg_def key_dm_msg_def

lemma decode_key_user_msg_key [simp]:
  "in_i64 u \<Longrightarrow> in_i64 m \<Longrightarrow> decode_key_user_msg (key_user_msg u m) = Some (u, m)"
  by (simp only: decode_key_user_msg_def key_user_msg_def strip_prefix_append) simp

lemma decode_key_group_msg_key [simp]:
  "in_i64 g \<Longrightarrow> in_i64 m \<Longrightarrow> decode_key_group_msg (key_group_msg g m) = Some (g, m)"
  by (simp only: decode_key_group_msg_def key_group_msg_def strip_prefix_append) simp

lemma in_i64_min_max [simp]: "in_i64 a \<Longrightarrow> in_i64 b \<Longrightarrow> in_i64 (min a b)"
  "in_i64 a \<Longrightarrow> in_i64 b \<Longrightarrow> in_i64 (max a b)"
  by (auto simp: min_def max_def)

lemma decode_key_dm_msg_key [simp]:
  "in_i64 a \<Longrightarrow> in_i64 b \<Longrightarrow> in_i64 m \<Longrightarrow>
   decode_key_dm_msg (key_dm_msg a b m) = Some (min a b, max a b, m)"
  by (simp only: decode_key_dm_msg_def key_dm_msg_def Let_def strip_prefix_append) simp

lemma decode_key_pending_key [simp]:
  "in_i64 m \<Longrightarrow> decode_key_pending_message_marker (key_pending_message_marker m) = Some m"
  by (simp only: decode_key_pending_message_marker_def key_pending_message_marker_def
      strip_prefix_append) simp

lemma decode_pending_marker_value_value [simp]:
  "in_i64 s \<Longrightarrow> in_i64 t \<Longrightarrow> in_i64 c \<Longrightarrow>
   decode_pending_marker_value (pending_marker_value s t c) = Some (s, t, c)"
  by (simp add: decode_pending_marker_value_def pending_marker_value_def)

section \<open>Injectivity and disjointness\<close>

lemma key_msg_inj [simp]: "in_i64 m \<Longrightarrow> in_i64 n \<Longrightarrow> key_msg m = key_msg n \<longleftrightarrow> m = n"
  by (simp add: key_msg_def i64_to_be_bytes_inj)

lemma key_merged_msg_inj [simp]:
  "in_i64 m \<Longrightarrow> in_i64 n \<Longrightarrow> key_merged_msg m = key_merged_msg n \<longleftrightarrow> m = n"
  by (simp add: key_merged_msg_def i64_to_be_bytes_inj)

lemma key_pending_inj [simp]:
  "in_i64 m \<Longrightarrow> in_i64 n \<Longrightarrow>
   key_pending_message_marker m = key_pending_message_marker n \<longleftrightarrow> m = n"
  by (simp add: key_pending_message_marker_def i64_to_be_bytes_inj)

lemma key_user_msg_inj [simp]:
  "in_i64 u \<Longrightarrow> in_i64 v \<Longrightarrow> in_i64 m \<Longrightarrow> in_i64 n \<Longrightarrow>
   key_user_msg u m = key_user_msg v n \<longleftrightarrow> u = v \<and> m = n"
  by (simp add: key_user_msg_def append_eq_append_conv i64_to_be_bytes_inj)

lemma key_group_msg_inj [simp]:
  "in_i64 u \<Longrightarrow> in_i64 v \<Longrightarrow> in_i64 m \<Longrightarrow> in_i64 n \<Longrightarrow>
   key_group_msg u m = key_group_msg v n \<longleftrightarrow> u = v \<and> m = n"
  by (simp add: key_group_msg_def append_eq_append_conv i64_to_be_bytes_inj)

lemma key_dm_msg_commute: "key_dm_msg a b m = key_dm_msg b a m"
  by (simp add: key_dm_msg_def min.commute max.commute)

lemma key_dm_msg_inj:
  assumes "in_i64 a" "in_i64 b" "in_i64 c" "in_i64 d" "in_i64 m" "in_i64 n"
  shows "key_dm_msg a b m = key_dm_msg c d n \<longleftrightarrow> {a, b} = {c, d} \<and> m = n"
proof -
  have "key_dm_msg a b m = key_dm_msg c d n \<longleftrightarrow> min a b = min c d \<and> max a b = max c d \<and> m = n"
    using assms by (simp add: key_dm_msg_def append_eq_append_conv i64_to_be_bytes_inj)
  moreover have "min a b = min c d \<and> max a b = max c d \<longleftrightarrow> {a, b} = {c, d}"
    by (auto simp: min_def max_def doubleton_eq_iff)
  ultimately show ?thesis by blast
qed

text \<open>Two families never share a key: their first characters differ.\<close>

lemma key_families_distinct [simp]:
  "key_msg m \<noteq> key_merged_msg n" "key_msg m \<noteq> key_pending_message_marker n"
  "key_msg m \<noteq> key_user_msg u n" "key_msg m \<noteq> key_group_msg u n"
  "key_msg m \<noteq> key_dm_msg a b n" "key_msg m \<noteq> key_sequence ty"
  "key_merged_msg m \<noteq> key_pending_message_marker n"
  "key_merged_msg m \<noteq> key_user_msg u n" "key_merged_msg m \<noteq> key_group_msg u n"
  "key_merged_msg m \<noteq> key_dm_msg a b n" "key_merged_msg m \<noteq> key_sequence ty"
  "key_pending_message_marker m \<noteq> key_user_msg u n"
  "key_pending_message_marker m \<noteq> key_group_msg u n"
  "key_pending_message_marker m \<noteq> key_dm_msg a b n"
  "key_pending_message_marker m \<noteq> key_sequence ty"
  "key_user_msg v m \<noteq> key_group_msg u n" "key_user_msg v m \<noteq> key_dm_msg a b n"
  "key_user_msg v m \<noteq> key_sequence ty"
  "key_group_msg v m \<noteq> key_dm_msg a b n" "key_group_msg v m \<noteq> key_sequence ty"
  "key_dm_msg a b m \<noteq> key_sequence ty"
  by (simp_all add: key_defs Let_def)

lemmas key_families_distinct' [simp] = key_families_distinct [symmetric]

section \<open>Ranges of keys\<close>

text \<open>A key between two keys that share a prefix has that prefix.\<close>

lemma between_prefix:
  fixes p :: bytes
  assumes "p @ x \<le> k" "k < p @ y"
  shows "\<exists>d. k = p @ d"
  using assms
proof (induction p arbitrary: k)
  case (Cons c p)
  then obtain k' where "k = c # k'" "p @ x \<le> k'" "k' < p @ y"
    by (cases k) (auto dest: less_trans)
  then show ?case using Cons.IH by auto
qed simp

lemma key_user_msg_le_iff:
  assumes "0 \<le> a" "in_i64 a" "0 \<le> b" "in_i64 b"
  shows "key_user_msg u a \<le> key_user_msg u b \<longleftrightarrow> a \<le> b"
  using assms by (simp add: key_user_msg_def i64_to_be_bytes_le_iff)

lemma key_user_msg_less_iff:
  assumes "0 \<le> a" "in_i64 a" "0 \<le> b" "in_i64 b"
  shows "key_user_msg u a < key_user_msg u b \<longleftrightarrow> a < b"
  using assms by (simp add: key_user_msg_def i64_to_be_bytes_less_iff)

lemma key_group_msg_le_iff:
  assumes "0 \<le> a" "in_i64 a" "0 \<le> b" "in_i64 b"
  shows "key_group_msg u a \<le> key_group_msg u b \<longleftrightarrow> a \<le> b"
  using assms by (simp add: key_group_msg_def i64_to_be_bytes_le_iff)

lemma key_group_msg_less_iff:
  assumes "0 \<le> a" "in_i64 a" "0 \<le> b" "in_i64 b"
  shows "key_group_msg u a < key_group_msg u b \<longleftrightarrow> a < b"
  using assms by (simp add: key_group_msg_def i64_to_be_bytes_less_iff)

lemma key_dm_msg_le_iff:
  assumes "0 \<le> m" "in_i64 m" "0 \<le> n" "in_i64 n"
  shows "key_dm_msg a b m \<le> key_dm_msg a b n \<longleftrightarrow> m \<le> n"
  using assms by (simp add: key_dm_msg_def Let_def i64_to_be_bytes_le_iff)

lemma key_dm_msg_less_iff:
  assumes "0 \<le> m" "in_i64 m" "0 \<le> n" "in_i64 n"
  shows "key_dm_msg a b m < key_dm_msg a b n \<longleftrightarrow> m < n"
  using assms by (simp add: key_dm_msg_def Let_def i64_to_be_bytes_less_iff)

end
