(* ===== verification/Sled_Store.thy ===== *)
theory Sled_Store
  imports Msg_Keys
begin

text \<open>
  The interface of the embedded key-value store \<open>sled\<close>, an external crate. The model takes its
  operations as an argument, the record \<open>sled_ops\<close>; what the code relies on is the locale
  \<open>sled_contract\<close>: there is a map \<open>contents\<close> from keys to values such that reads return
  what the map holds, a write that reports success is applied, a write that reports an error has
  been applied as a whole or not at all, and a range lists the bindings between its
  bounds in the order of the keys, an item that cannot be read being an error in its place.

  \<open>sorted_sled\<close> is a concrete store, a sorted association list, that satisfies the
  contract; the concrete runs of the development execute on it.
\<close>

type_synonym sled_error = string

type_synonym batch = "(bytes \<times> bytes) list"

record 'db sled_ops =
  sled_get :: "'db \<Rightarrow> bytes \<Rightarrow> sled_error + bytes option"
  sled_insert :: "'db \<Rightarrow> bytes \<Rightarrow> bytes \<Rightarrow> sled_error option \<times> 'db"
  sled_remove :: "'db \<Rightarrow> bytes \<Rightarrow> sled_error option \<times> 'db"
  sled_apply_batch :: "'db \<Rightarrow> batch \<Rightarrow> sled_error option \<times> 'db"
  sled_update_and_fetch ::
    "'db \<Rightarrow> bytes \<Rightarrow> (bytes option \<Rightarrow> bytes option) \<Rightarrow> sled_error option \<times> 'db"
  sled_range :: "'db \<Rightarrow> bytes \<Rightarrow> bytes \<Rightarrow> (sled_error + bytes \<times> bytes) list"
  sled_scan_prefix :: "'db \<Rightarrow> bytes \<Rightarrow> (sled_error + bytes \<times> bytes) list"

text \<open>A batch of insertions; a later one overrides an earlier one.\<close>

definition apply_batch :: "batch \<Rightarrow> (bytes \<rightharpoonup> bytes) \<Rightarrow> (bytes \<rightharpoonup> bytes)" where
  "apply_batch ops m = foldl (\<lambda>m (k, v). m(k \<mapsto> v)) m ops"

lemma apply_batch_simps [simp]:
  "apply_batch [] m = m"
  "apply_batch ((k, v) # ops) m = apply_batch ops (m(k \<mapsto> v))"
  "apply_batch (xs @ ys) m = apply_batch ys (apply_batch xs m)"
  by (simp_all add: apply_batch_def)

lemma apply_batch_same_value:
  "apply_batch (map (\<lambda>x. (f x, v)) xs) m k = (if k \<in> f ` set xs then Some v else m k)"
  by (induction xs arbitrary: m) auto

definition has_prefix :: "bytes \<Rightarrow> bytes \<Rightarrow> bool" where
  "has_prefix p k \<longleftrightarrow> take (length p) k = p"

lemma has_prefix_append [simp]: "has_prefix p (p @ d)"
  by (simp add: has_prefix_def)

text \<open>\<open>items\<close> lists exactly the bindings \<open>P\<close> selects, by key, up to unreadable items.\<close>

definition lists_bindings ::
    "(bytes \<rightharpoonup> bytes) \<Rightarrow> (bytes \<Rightarrow> bool) \<Rightarrow> (sled_error + bytes \<times> bytes) list \<Rightarrow> bool" where
  "lists_bindings m P items \<longleftrightarrow>
     (\<exists>xs. sorted_wrt (<) (map fst xs) \<and> set xs = {(k, v). m k = Some v \<and> P k} \<and>
           list_all2 (\<lambda>x item. item = Inr x \<or> isl item) xs items)"

locale sled_contract =
  fixes K :: "'db sled_ops" and contents :: "'db \<Rightarrow> bytes \<rightharpoonup> bytes"
  assumes get_ok: "sled_get K db k = Inr got \<Longrightarrow> got = contents db k"
    and insert_ok: "sled_insert K db k v = (r, db') \<Longrightarrow>
      contents db' = (contents db)(k \<mapsto> v) \<or> r \<noteq> None \<and> contents db' = contents db"
    and remove_ok: "sled_remove K db k = (r, db') \<Longrightarrow>
      contents db' = (contents db)(k := None) \<or> r \<noteq> None \<and> contents db' = contents db"
    and batch_ok: "sled_apply_batch K db ops = (r, db') \<Longrightarrow>
      contents db' = apply_batch ops (contents db) \<or> r \<noteq> None \<and> contents db' = contents db"
    and update_ok: "sled_update_and_fetch K db k f = (r, db') \<Longrightarrow>
      contents db' = (contents db)(k := f (contents db k)) \<or> r \<noteq> None \<and> contents db' = contents db"
    and range_ok: "lists_bindings (contents db) (\<lambda>k. lo \<le> k \<and> k < hi) (sled_range K db lo hi)"
    and scan_ok: "lists_bindings (contents db) (has_prefix p) (sled_scan_prefix K db p)"

section \<open>A store that satisfies the contract\<close>

type_synonym sorted_db = "(bytes \<times> bytes) list"

fun sdb_upd :: "bytes \<Rightarrow> bytes \<Rightarrow> sorted_db \<Rightarrow> sorted_db" where
  "sdb_upd k v [] = [(k, v)]"
| "sdb_upd k v ((a, b) # xs) =
     (if k < a then (k, v) # (a, b) # xs
      else if k = a then (k, v) # xs else (a, b) # sdb_upd k v xs)"

definition sdb_del :: "bytes \<Rightarrow> sorted_db \<Rightarrow> sorted_db" where
  "sdb_del k xs = filter (\<lambda>(a, b). a \<noteq> k) xs"

definition sdb_put :: "bytes \<Rightarrow> bytes option \<Rightarrow> sorted_db \<Rightarrow> sorted_db" where
  "sdb_put k v xs = (case v of None \<Rightarrow> sdb_del k xs | Some w \<Rightarrow> sdb_upd k w xs)"

text \<open>The state space keeps unsorted lists out by sorting them on every access.\<close>

definition sdb_norm :: "sorted_db \<Rightarrow> sorted_db" where
  "sdb_norm xs = foldr (\<lambda>(k, v) ys. sdb_upd k v ys) xs []"

definition sorted_sled :: "sorted_db sled_ops" where
  "sorted_sled =
     \<lparr> sled_get = (\<lambda>db k. Inr (map_of (sdb_norm db) k)),
       sled_insert = (\<lambda>db k v. (None, sdb_upd k v (sdb_norm db))),
       sled_remove = (\<lambda>db k. (None, sdb_del k (sdb_norm db))),
       sled_apply_batch = (\<lambda>db ops. (None, foldl (\<lambda>d (k, v). sdb_upd k v d) (sdb_norm db) ops)),
       sled_update_and_fetch =
         (\<lambda>db k f. (None, sdb_put k (f (map_of (sdb_norm db) k)) (sdb_norm db))),
       sled_range = (\<lambda>db lo hi. map Inr (filter (\<lambda>(k, v). lo \<le> k \<and> k < hi) (sdb_norm db))),
       sled_scan_prefix = (\<lambda>db p. map Inr (filter (\<lambda>(k, v). has_prefix p k) (sdb_norm db))) \<rparr>"

lemma set_sdb_upd_keys: "fst ` set (sdb_upd k v xs) = insert k (fst ` set xs)"
  by (induction k v xs rule: sdb_upd.induct) auto

lemma sorted_sdb_upd: "sorted_wrt (<) (map fst xs) \<Longrightarrow> sorted_wrt (<) (map fst (sdb_upd k v xs))"
proof (induction k v xs rule: sdb_upd.induct)
  case (2 k v a b xs)
  then show ?case
    using set_sdb_upd_keys [of k v xs] by (auto dest: less_trans)
qed simp

lemma map_of_sdb_upd: "map_of (sdb_upd k v xs) = (map_of xs)(k \<mapsto> v)"
  by (induction k v xs rule: sdb_upd.induct) (auto simp: fun_eq_iff)

lemma sorted_sdb_norm: "sorted_wrt (<) (map fst (sdb_norm xs))"
  by (induction xs) (auto simp: sdb_norm_def sorted_sdb_upd split: prod.split)

lemma map_of_sdb_norm: "map_of (sdb_norm xs) = map_of xs"
  by (induction xs) (auto simp: sdb_norm_def map_of_sdb_upd fun_eq_iff)

lemma map_of_sdb_del: "map_of (sdb_del k xs) = (map_of xs)(k := None)"
  by (induction xs) (auto simp: sdb_del_def fun_eq_iff)

lemma map_of_sdb_batch:
  "map_of (foldl (\<lambda>d (k, v). sdb_upd k v d) xs ops) = apply_batch ops (map_of xs)"
  by (induction ops arbitrary: xs) (auto simp: map_of_sdb_upd)

lemma distinct_sorted_keys: "sorted_wrt (<) (map fst xs) \<Longrightarrow> distinct (map fst xs)"
  for xs :: sorted_db
  using strict_sorted_iff by blast

lemma sorted_map_fst_filter:
  "sorted_wrt (<) (map fst xs) \<Longrightarrow> sorted_wrt (<) (map fst (filter P xs))"
  for xs :: sorted_db
  by (induction xs) auto

lemma set_sdb_norm: "(k, v) \<in> set (sdb_norm db) \<longleftrightarrow> map_of db k = Some v"
  unfolding map_of_sdb_norm [of db, THEN sym]
  using distinct_sorted_keys [OF sorted_sdb_norm, of db] by (rule map_of_eq_Some_iff [THEN sym])

lemma lists_bindings_sdb:
  "lists_bindings (map_of db) P (map Inr (filter (\<lambda>(k, v). P k) (sdb_norm db)))"
proof -
  let ?xs = "filter (\<lambda>(k, v). P k) (sdb_norm db)"
  have "set ?xs = {(k, v). map_of db k = Some v \<and> P k}"
    by (auto simp: set_sdb_norm)
  moreover have "list_all2 (\<lambda>x item. item = Inr x \<or> isl item) ?xs (map Inr ?xs)"
    by (simp add: list_all2_map2 list.rel_refl)
  ultimately show ?thesis
    unfolding lists_bindings_def using sorted_map_fst_filter [OF sorted_sdb_norm] by blast
qed

interpretation sdb: sled_contract sorted_sled map_of
proof
  fix db :: sorted_db and lo hi p :: bytes
  show "lists_bindings (map_of db) (\<lambda>k. lo \<le> k \<and> k < hi) (sled_range sorted_sled db lo hi)"
    using lists_bindings_sdb [of db "\<lambda>k. lo \<le> k \<and> k < hi"] by (simp add: sorted_sled_def)
  show "lists_bindings (map_of db) (has_prefix p) (sled_scan_prefix sorted_sled db p)"
    using lists_bindings_sdb [of db "has_prefix p"] by (simp add: sorted_sled_def)
qed (auto simp: sorted_sled_def map_of_sdb_norm map_of_sdb_upd map_of_sdb_del map_of_sdb_batch
      sdb_put_def split: option.splits)

end
