(* ===== verification/Msg_Sequence.thy ===== *)
theory Msg_Sequence
  imports Sled_Store
begin

text \<open>
  Message-id allocation (\<open>crates/msgdb/src/sequence.rs\<close>): ids are handed out from a lease of
  32 that is recorded in the store before the first id of the lease is used, so that a process
  that dies without running \<open>Drop\<close> skips ids but never hands one out twice.

  The lemmas prove this for every interleaving of opening the database, generating ids,
  closing it and crashing, store failures included.
\<close>

datatype msgdb_error = Db sled_error | InvalidData

record sequence =
  seq_ty :: char
  seq_next :: i64
  seq_leased :: i64

definition SEQUENCE_BANDWIDTH :: i64 where
  "SEQUENCE_BANDWIDTH = 32"

definition update_sequence_lease ::
    "'db sled_ops \<Rightarrow> char \<Rightarrow> 'db \<Rightarrow> (msgdb_error + i64 \<times> i64) \<times> 'db" where
  "update_sequence_lease K ty db =
     (let key = key_sequence ty in
      case sled_get K db key of
        Inl e \<Rightarrow> (Inl (Db e), db)
      | Inr stored \<Rightarrow>
          (case (case stored of
                   Some v \<Rightarrow> if length v = 8 then Inr (i64_from_be_bytes v) else Inl InvalidData
                 | None \<Rightarrow> Inr 1) of
             Inl e \<Rightarrow> (Inl e, db)
           | Inr nxt \<Rightarrow>
               (let leased = wrap_i64 (nxt + SEQUENCE_BANDWIDTH) in
                case sled_insert K db key (i64_to_be_bytes leased) of
                  (Some e, db') \<Rightarrow> (Inl (Db e), db')
                | (None, db') \<Rightarrow> (Inr (nxt, leased), db'))))"

definition sequence_new ::
    "'db sled_ops \<Rightarrow> 'db \<Rightarrow> char \<Rightarrow> (msgdb_error + sequence) \<times> 'db" where
  "sequence_new K db ty =
     (case update_sequence_lease K ty db of
        (Inl e, db') \<Rightarrow> (Inl e, db')
      | (Inr (nxt, leased), db') \<Rightarrow>
          (Inr \<lparr>seq_ty = ty, seq_next = nxt, seq_leased = leased\<rparr>, db'))"

text \<open>\<open>release\<close> ignores the result of the insertion.\<close>

definition sequence_release :: "'db sled_ops \<Rightarrow> sequence \<Rightarrow> 'db \<Rightarrow> 'db" where
  "sequence_release K s db =
     snd (sled_insert K db (key_sequence (seq_ty s)) (i64_to_be_bytes (seq_next s)))"

definition generate_id ::
    "'db sled_ops \<Rightarrow> sequence \<Rightarrow> 'db \<Rightarrow> (msgdb_error + i64) \<times> sequence \<times> 'db" where
  "generate_id K s db =
     (case (if seq_leased s \<le> seq_next s
            then (case update_sequence_lease K (seq_ty s) db of
                    (Inl e, db') \<Rightarrow> (Inl e, db')
                  | (Inr (nxt, lease), db') \<Rightarrow>
                      (Inr (s\<lparr>seq_next := nxt, seq_leased := lease\<rparr>), db'))
            else (Inr s, db)) of
        (Inl e, db') \<Rightarrow> (Inl e, s, db')
      | (Inr s', db') \<Rightarrow>
          (Inr (seq_next s'), s'\<lparr>seq_next := wrap_i64 (seq_next s' + 1)\<rparr>, db'))"

section \<open>The life of a database across process runs\<close>

datatype seq_event = Open | Generate | Close | Crash

record 'db seq_sys =
  sys_db :: 'db
  sys_seq :: "sequence option"
  sys_issued :: "i64 list"

text \<open>
  \<open>Open\<close> is \<open>MsgDb::open\<close>, \<open>Close\<close> the \<open>Drop\<close> of \<open>MsgDb\<close>, \<open>Crash\<close> the end of the
  process without \<open>Drop\<close>; the store is taken to keep every write it acknowledged
  (\<open>sled\<close> flushes in the background, its durability window is outside the model). An event that does not apply leaves the system as it is.
\<close>

fun seq_step :: "'db sled_ops \<Rightarrow> char \<Rightarrow> seq_event \<Rightarrow> 'db seq_sys \<Rightarrow> 'db seq_sys" where
  "seq_step K ty Open sys =
     (case sys_seq sys of
        Some s \<Rightarrow> sys
      | None \<Rightarrow>
          (case sequence_new K (sys_db sys) ty of
             (Inl e, db') \<Rightarrow> sys\<lparr>sys_db := db'\<rparr>
           | (Inr s, db') \<Rightarrow> sys\<lparr>sys_db := db', sys_seq := Some s\<rparr>))"
| "seq_step K ty Generate sys =
     (case sys_seq sys of
        None \<Rightarrow> sys
      | Some s \<Rightarrow>
          (case generate_id K s (sys_db sys) of
             (Inl e, s', db') \<Rightarrow> sys\<lparr>sys_db := db', sys_seq := Some s'\<rparr>
           | (Inr val, s', db') \<Rightarrow>
               sys\<lparr>sys_db := db', sys_seq := Some s', sys_issued := sys_issued sys @ [val]\<rparr>))"
| "seq_step K ty Close sys =
     (case sys_seq sys of
        None \<Rightarrow> sys
      | Some s \<Rightarrow> sys\<lparr>sys_db := sequence_release K s (sys_db sys), sys_seq := None\<rparr>)"
| "seq_step K ty Crash sys = sys\<lparr>sys_seq := None\<rparr>"

fun seq_run :: "'db sled_ops \<Rightarrow> char \<Rightarrow> seq_event list \<Rightarrow> 'db seq_sys \<Rightarrow> 'db seq_sys" where
  "seq_run K ty [] sys = sys"
| "seq_run K ty (e # es) sys = seq_run K ty es (seq_step K ty e sys)"

text \<open>What the store records, and the invariant after \<open>n\<close> events.\<close>

definition lease_stored :: "(bytes \<rightharpoonup> bytes) \<Rightarrow> char \<Rightarrow> i64 \<Rightarrow> bool" where
  "lease_stored m ty x \<longleftrightarrow>
     m (key_sequence ty) = None \<and> x = 1 \<or> m (key_sequence ty) = Some (i64_to_be_bytes x)"

definition seq_ok :: "(bytes \<rightharpoonup> bytes) \<Rightarrow> sequence \<Rightarrow> bool" where
  "seq_ok m s \<longleftrightarrow>
     (\<exists>x. lease_stored m (seq_ty s) x \<and>
          1 \<le> seq_next s \<and> seq_next s \<le> seq_leased s \<and> seq_leased s \<le> x)"

definition seq_inv :: "('db \<Rightarrow> bytes \<rightharpoonup> bytes) \<Rightarrow> char \<Rightarrow> nat \<Rightarrow> 'db seq_sys \<Rightarrow> bool" where
  "seq_inv contents ty n sys \<longleftrightarrow>
     sorted_wrt (<) (sys_issued sys) \<and> (\<forall>i \<in> set (sys_issued sys). 1 \<le> i) \<and>
     (\<exists>x. lease_stored (contents (sys_db sys)) ty x \<and> 1 \<le> x \<and> x \<le> 1 + 32 * int n \<and>
          (case sys_seq sys of
             None \<Rightarrow> \<forall>i \<in> set (sys_issued sys). i < x
           | Some s \<Rightarrow> seq_ty s = ty \<and> 1 \<le> seq_next s \<and> seq_next s \<le> seq_leased s \<and>
                       seq_leased s \<le> x \<and> (\<forall>i \<in> set (sys_issued sys). i < seq_next s)))"

context sled_contract
begin

lemma update_lease_cases:
  assumes "update_sequence_lease K ty db = (r, db')"
    and "lease_stored (contents db) ty x" and "1 \<le> x" and "x + 32 \<le> i64_max"
  shows "(r = Inr (x, x + 32) \<and> lease_stored (contents db') ty (x + 32)) \<or>
    (isl r \<and> (lease_stored (contents db') ty x \<or> lease_stored (contents db') ty (x + 32)))"
proof -
  have in_x: "in_i64 x" "in_i64 (x + 32)"
    using assms(3,4) by (simp_all add: in_i64_def i64_min_def)
  have ins: "contents d = (contents db)(key_sequence ty \<mapsto> i64_to_be_bytes (x + 32)) \<or>
      q \<noteq> None \<and> contents d = contents db"
    if "sled_insert K db (key_sequence ty) (i64_to_be_bytes (x + 32)) = (q, d)" for q d
    using insert_ok [OF that] .
  show ?thesis
    using assms(1,2) in_x get_ok [of db "key_sequence ty"] ins
    by (fastforce simp: update_sequence_lease_def lease_stored_def SEQUENCE_BANDWIDTH_def Let_def
        split: sum.splits option.splits prod.splits if_splits)
qed

lemma release_cases:
  assumes "lease_stored (contents db) (seq_ty s) x"
  shows "lease_stored (contents (sequence_release K s db)) (seq_ty s) x \<or>
    lease_stored (contents (sequence_release K s db)) (seq_ty s) (seq_next s)"
proof -
  obtain r db' where r: "sled_insert K db (key_sequence (seq_ty s)) (i64_to_be_bytes (seq_next s)) = (r, db')"
    by (cases "sled_insert K db (key_sequence (seq_ty s)) (i64_to_be_bytes (seq_next s))")
  then show ?thesis
    using assms insert_ok [OF r] by (auto simp: sequence_release_def lease_stored_def)
qed

lemma generate_id_cases:
  assumes "generate_id K s db = (r, s', db')"
    and "lease_stored (contents db) (seq_ty s) x"
    and "1 \<le> seq_next s" "seq_next s \<le> seq_leased s" "seq_leased s \<le> x" "x + 32 \<le> i64_max"
  shows "seq_ty s' = seq_ty s \<and>
    (\<exists>y \<in> {x, x + 32}. lease_stored (contents db') (seq_ty s) y \<and> seq_leased s' \<le> y) \<and>
    (isl r \<and> s' = s \<or>
     (\<exists>i. r = Inr i \<and> seq_next s \<le> i \<and> seq_next s' = i + 1 \<and> seq_next s' \<le> seq_leased s'))"
proof (cases "seq_leased s \<le> seq_next s")
  case True
  obtain q d where u: "update_sequence_lease K (seq_ty s) db = (q, d)"
    by (cases "update_sequence_lease K (seq_ty s) db")
  have x1: "1 \<le> x" using assms(3-5) by simp
  have w: "wrap_i64 (x + 1) = x + 1"
    using x1 assms(6) by (simp add: in_i64_def i64_min_def)
  show ?thesis
    using update_lease_cases [OF u assms(2) x1 assms(6)] assms True u w
    by (cases q) (auto simp: generate_id_def)
next
  case False
  then have "wrap_i64 (seq_next s + 1) = seq_next s + 1"
    using assms by (simp add: in_i64_def i64_min_def)
  then show ?thesis using assms False by (auto simp: generate_id_def)
qed

lemma open_cases:
  assumes "sequence_new K db ty = (r, db')"
    and "lease_stored (contents db) ty x" "1 \<le> x" "x + 32 \<le> i64_max"
  shows "(\<exists>y \<in> {x, x + 32}. lease_stored (contents db') ty y) \<and>
    (isl r \<or> r = Inr \<lparr>seq_ty = ty, seq_next = x, seq_leased = x + 32\<rparr> \<and>
      lease_stored (contents db') ty (x + 32))"
proof -
  obtain q d where u: "update_sequence_lease K ty db = (q, d)"
    by (cases "update_sequence_lease K ty db")
  show ?thesis
    using update_lease_cases [OF u assms(2-4)] assms(1) u
    by (cases q) (auto simp: sequence_new_def)
qed

lemma seq_inv_cases:
  assumes "seq_inv contents ty n sys" "33 + 32 * int n \<le> i64_max"
  obtains (idle) x where "sys_seq sys = None"
      "lease_stored (contents (sys_db sys)) ty x" "1 \<le> x" "x \<le> 1 + 32 * int n" "x + 32 \<le> i64_max"
      "\<forall>i \<in> set (sys_issued sys). 1 \<le> i \<and> i < x" "sorted_wrt (<) (sys_issued sys)"
  | (running) x s where "sys_seq sys = Some s" "seq_ty s = ty"
      "lease_stored (contents (sys_db sys)) ty x" "1 \<le> x" "x \<le> 1 + 32 * int n" "x + 32 \<le> i64_max"
      "1 \<le> seq_next s" "seq_next s \<le> seq_leased s" "seq_leased s \<le> x"
      "\<forall>i \<in> set (sys_issued sys). 1 \<le> i \<and> i < seq_next s" "sorted_wrt (<) (sys_issued sys)"
  using assms by (cases "sys_seq sys") (auto simp: seq_inv_def)

lemma seq_inv_idleI:
  assumes "lease_stored (contents db) ty x" "1 \<le> x" "x \<le> 1 + 32 * int n"
    "\<forall>i \<in> set is. 1 \<le> i \<and> i < x" "sorted_wrt (<) is"
  shows "seq_inv contents ty n \<lparr>sys_db = db, sys_seq = None, sys_issued = is\<rparr>"
  using assms by (auto simp: seq_inv_def)

lemma seq_inv_runningI:
  assumes "lease_stored (contents db) ty x" "x \<le> 1 + 32 * int n" "seq_ty s = ty"
    "1 \<le> seq_next s" "seq_next s \<le> seq_leased s" "seq_leased s \<le> x"
    "\<forall>i \<in> set is. 1 \<le> i \<and> i < seq_next s" "sorted_wrt (<) is"
  shows "seq_inv contents ty n \<lparr>sys_db = db, sys_seq = Some s, sys_issued = is\<rparr>"
  using assms unfolding seq_inv_def by (intro conjI exI [of _ x]) auto

lemma seq_inv_weaken:
  "seq_inv contents ty n sys \<Longrightarrow> seq_inv contents ty (Suc n) sys"
  unfolding seq_inv_def by force

lemma open_inv:
  assumes "seq_inv contents ty n sys" "33 + 32 * int n \<le> i64_max"
  shows "seq_inv contents ty (Suc n) (seq_step K ty Open sys)"
  using assms
proof (cases rule: seq_inv_cases)
  case (idle x)
  obtain r db' where r: "sequence_new K (sys_db sys) ty = (r, db')"
    by (cases "sequence_new K (sys_db sys) ty")
  have sys: "sys = \<lparr>sys_db = sys_db sys, sys_seq = None, sys_issued = sys_issued sys\<rparr>"
    using idle by simp
  from open_cases [OF r idle(2,3,5)] obtain y where
    y: "y \<in> {x, x + 32}" "lease_stored (contents db') ty y" by blast
  show ?thesis
  proof (cases r)
    case (Inl e)
    then have "seq_step K ty Open sys = \<lparr>sys_db = db', sys_seq = None, sys_issued = sys_issued sys\<rparr>"
      using r idle sys by simp
    moreover have "\<forall>i \<in> set (sys_issued sys). 1 \<le> i \<and> i < y" using idle y by force
    ultimately show ?thesis using idle y by (auto intro!: seq_inv_idleI)
  next
    case (Inr s)
    then have "seq_step K ty Open sys = \<lparr>sys_db = db', sys_seq = Some s, sys_issued = sys_issued sys\<rparr>"
      using r idle sys by simp
    then show ?thesis using open_cases [OF r idle(2,3,5)] idle Inr
      by (auto intro!: seq_inv_runningI [where x = "x + 32"])
  qed
next
  case (running x s)
  then show ?thesis using seq_inv_weaken [OF assms(1)] by simp
qed

lemma generate_inv:
  assumes "seq_inv contents ty n sys" "33 + 32 * int n \<le> i64_max"
  shows "seq_inv contents ty (Suc n) (seq_step K ty Generate sys)"
  using assms
proof (cases rule: seq_inv_cases)
  case (running x s)
  obtain r s' db' where r: "generate_id K s (sys_db sys) = (r, s', db')"
    by (cases "generate_id K s (sys_db sys)") auto
  from generate_id_cases [OF r _ running(7-9,6)] running(2,3)
  obtain y where y: "y \<in> {x, x + 32}" "lease_stored (contents db') ty y" "seq_leased s' \<le> y"
    "seq_ty s' = ty"
    and out: "isl r \<and> s' = s \<or> (\<exists>i. r = Inr i \<and> seq_next s \<le> i \<and> seq_next s' = i + 1 \<and>
      seq_next s' \<le> seq_leased s')" by auto
  show ?thesis
  proof (cases r)
    case (Inl e)
    then have "seq_step K ty Generate sys = \<lparr>sys_db = db', sys_seq = Some s, sys_issued = sys_issued sys\<rparr>"
      using r running out by (cases sys) auto
    then show ?thesis using running y out Inl by (auto intro!: seq_inv_runningI [where x = y])
  next
    case (Inr i)
    then have st: "seq_step K ty Generate sys =
        \<lparr>sys_db = db', sys_seq = Some s', sys_issued = sys_issued sys @ [i]\<rparr>"
      using r running by (cases sys) auto
    have i: "seq_next s \<le> i" "seq_next s' = i + 1" "seq_next s' \<le> seq_leased s'"
      using out Inr by auto
    then have "\<forall>j \<in> set (sys_issued sys @ [i]). 1 \<le> j \<and> j < seq_next s'"
      "sorted_wrt (<) (sys_issued sys @ [i])"
      using running(7,10,11) by (force simp: sorted_wrt_append)+
    then show ?thesis using running y i unfolding st
      by (auto intro!: seq_inv_runningI [where x = y])
  qed
qed (use seq_inv_weaken [OF assms(1)] in simp)

lemma close_inv:
  assumes "seq_inv contents ty n sys" "33 + 32 * int n \<le> i64_max"
  shows "seq_inv contents ty (Suc n) (seq_step K ty Close sys)"
  using assms
proof (cases rule: seq_inv_cases)
  case (running x s)
  let ?db = "sequence_release K s (sys_db sys)"
  have st: "seq_step K ty Close sys = \<lparr>sys_db = ?db, sys_seq = None, sys_issued = sys_issued sys\<rparr>"
    using running by (cases sys) auto
  obtain y where "y \<in> {x, seq_next s}" "lease_stored (contents ?db) ty y"
    using release_cases [of "sys_db sys" s x] running by auto
  with running show ?thesis
    unfolding st by (intro seq_inv_idleI [where x = y]) force+
qed (use seq_inv_weaken [OF assms(1)] in simp)

lemma crash_inv:
  assumes "seq_inv contents ty n sys" "33 + 32 * int n \<le> i64_max"
  shows "seq_inv contents ty (Suc n) (seq_step K ty Crash sys)"
proof -
  have st: "seq_step K ty Crash sys = \<lparr>sys_db = sys_db sys, sys_seq = None, sys_issued = sys_issued sys\<rparr>"
    by (cases sys) simp
  from assms show ?thesis
    unfolding st by (cases rule: seq_inv_cases) (rule seq_inv_idleI, force+)+
qed

lemma seq_step_inv:
  assumes "seq_inv contents ty n sys" "33 + 32 * int n \<le> i64_max"
  shows "seq_inv contents ty (Suc n) (seq_step K ty e sys)"
  using assms open_inv generate_inv close_inv crash_inv by (cases e) simp_all

lemma seq_run_inv:
  "seq_inv contents ty n sys \<Longrightarrow> 1 + 32 * int (n + length es) \<le> i64_max \<Longrightarrow>
   seq_inv contents ty (n + length es) (seq_run K ty es sys)"
proof (induction es arbitrary: n sys)
  case (Cons e es)
  have "seq_inv contents ty (Suc n) (seq_step K ty e sys)"
    using Cons.prems by (intro seq_step_inv) (auto simp: algebra_simps)
  with Cons.IH [of "Suc n" "seq_step K ty e sys"] Cons.prems show ?case by simp
qed simp

end

definition fresh_sys :: "'db \<Rightarrow> 'db seq_sys" where
  "fresh_sys db = \<lparr>sys_db = db, sys_seq = None, sys_issued = []\<rparr>"


definition demo_events :: "seq_event list" where
  "demo_events = [Open, Generate, Generate, Crash, Open, Generate, Close, Open, Generate]"

lemma demo_events_issue:
  "sys_issued (seq_run sorted_sled (CHR 0x01) demo_events (fresh_sys [])) = [1, 2, 33, 34]"
  by code_simp


end
