(* ===== verification/Msg_Store.thy ===== *)
theory Msg_Store
  imports Msg_Sequence
begin

text \<open>
  The message database (\<open>crates/msgdb/src/db.rs\<close>, \<open>messages.rs\<close>): a message is written
  under its id, into the inbox of every recipient and into the log of its conversation, in
  one atomic batch; history is read back in pages; markers of deferred direct messages
  and merged (edited) messages are kept beside them. Every operation takes the operations
  of the key-value store as its first argument.
\<close>

record 'db msgdb =
  mdb_db :: 'db
  mdb_sequence :: sequence

definition MSG_SEQUENCE :: char where
  "MSG_SEQUENCE = CHR 0x01"

text \<open>\<open>sled::open\<close> itself is outside the model: it supplies \<open>db\<close>.\<close>

definition msgdb_open :: "'db sled_ops \<Rightarrow> 'db \<Rightarrow> (msgdb_error + 'db msgdb) \<times> 'db" where
  "msgdb_open K db =
     (case sequence_new K db MSG_SEQUENCE of
        (Inl e, db') \<Rightarrow> (Inl e, db')
      | (Inr s, db') \<Rightarrow> (Inr \<lparr>mdb_db = db', mdb_sequence = s\<rparr>, db'))"

definition msgdb_drop :: "'db sled_ops \<Rightarrow> 'db msgdb \<Rightarrow> 'db" where
  "msgdb_drop K st = sequence_release K (mdb_sequence st) (mdb_db st)"

definition generate_msg_id :: "'db sled_ops \<Rightarrow> 'db msgdb \<Rightarrow> (msgdb_error + i64) \<times> 'db msgdb" where
  "generate_msg_id K st =
     (case generate_id K (mdb_sequence st) (mdb_db st) of
        (r, s', db') \<Rightarrow> (r, st\<lparr>mdb_sequence := s', mdb_db := db'\<rparr>))"

section \<open>Writing\<close>

definition messages_get :: "'db sled_ops \<Rightarrow> 'db msgdb \<Rightarrow> i64 \<Rightarrow> msgdb_error + bytes option" where
  "messages_get K st mid =
     (case sled_get K (mdb_db st) (key_msg mid) of Inl e \<Rightarrow> Inl (Db e) | Inr v \<Rightarrow> Inr v)"

definition send_to_group ::
    "'db sled_ops \<Rightarrow> 'db msgdb \<Rightarrow> i64 \<Rightarrow> i64 list \<Rightarrow> bytes \<Rightarrow> (msgdb_error + i64) \<times> 'db msgdb" where
  "send_to_group K st gid to msg =
     (case generate_msg_id K st of
        (Inl e, st') \<Rightarrow> (Inl e, st')
      | (Inr mid, st') \<Rightarrow>
          (let batch = [(key_msg mid, msg)]
                 @ map (\<lambda>target_uid. (key_user_msg target_uid mid, msg)) to
                 @ [(key_group_msg gid mid, msg)]
           in case sled_apply_batch K (mdb_db st') batch of
                (Some e, db') \<Rightarrow> (Inl (Db e), st'\<lparr>mdb_db := db'\<rparr>)
              | (None, db') \<Rightarrow> (Inr mid, st'\<lparr>mdb_db := db'\<rparr>)))"

definition send_to_dm_inner ::
    "'db sled_ops \<Rightarrow> 'db msgdb \<Rightarrow> i64 \<Rightarrow> i64 \<Rightarrow> bytes \<Rightarrow> i64 option \<Rightarrow>
     (msgdb_error + i64) \<times> 'db msgdb" where
  "send_to_dm_inner K st from_uid to_uid msg pending_created_at_millis =
     (case generate_msg_id K st of
        (Inl e, st') \<Rightarrow> (Inl e, st')
      | (Inr mid, st') \<Rightarrow>
          (let batch = [(key_msg mid, msg)]
                 @ map (\<lambda>target_uid. (key_user_msg target_uid mid, msg)) [from_uid, to_uid]
                 @ [(key_dm_msg from_uid to_uid mid, msg)]
                 @ (case pending_created_at_millis of
                      Some created_at_millis \<Rightarrow>
                        [(key_pending_message_marker mid,
                          pending_marker_value from_uid to_uid created_at_millis)]
                    | None \<Rightarrow> [])
           in case sled_apply_batch K (mdb_db st') batch of
                (Some e, db') \<Rightarrow> (Inl (Db e), st'\<lparr>mdb_db := db'\<rparr>)
              | (None, db') \<Rightarrow> (Inr mid, st'\<lparr>mdb_db := db'\<rparr>)))"

definition send_to_dm ::
    "'db sled_ops \<Rightarrow> 'db msgdb \<Rightarrow> i64 \<Rightarrow> i64 \<Rightarrow> bytes \<Rightarrow> (msgdb_error + i64) \<times> 'db msgdb" where
  "send_to_dm K st from_uid to_uid msg = send_to_dm_inner K st from_uid to_uid msg None"

definition send_to_dm_with_pending_marker ::
    "'db sled_ops \<Rightarrow> 'db msgdb \<Rightarrow> i64 \<Rightarrow> i64 \<Rightarrow> i64 \<Rightarrow> bytes \<Rightarrow> (msgdb_error + i64) \<times> 'db msgdb" where
  "send_to_dm_with_pending_marker K st from_uid to_uid created_at_millis msg =
     send_to_dm_inner K st from_uid to_uid msg (Some created_at_millis)"

section \<open>Markers of deferred direct messages\<close>

record PendingMessageMarker =
  mk_mid :: i64
  mk_sender_uid :: i64
  mk_target_uid :: i64
  mk_created_at_millis :: i64

fun collect_markers ::
    "(sled_error + bytes \<times> bytes) list \<Rightarrow> msgdb_error + PendingMessageMarker list" where
  "collect_markers [] = Inr []"
| "collect_markers (Inl e # items) = Inl (Db e)"
| "collect_markers (Inr (key, v) # items) =
     (case decode_key_pending_message_marker key of
        None \<Rightarrow> Inl InvalidData
      | Some mid \<Rightarrow>
          (case decode_pending_marker_value v of
             None \<Rightarrow> Inl InvalidData
           | Some (sender_uid, target_uid, created_at_millis) \<Rightarrow>
               (case collect_markers items of
                  Inl e \<Rightarrow> Inl e
                | Inr markers \<Rightarrow>
                    Inr (\<lparr>mk_mid = mid, mk_sender_uid = sender_uid, mk_target_uid = target_uid,
                          mk_created_at_millis = created_at_millis\<rparr> # markers))))"

definition pending_message_markers ::
    "'db sled_ops \<Rightarrow> 'db msgdb \<Rightarrow> msgdb_error + PendingMessageMarker list" where
  "pending_message_markers K st = collect_markers (sled_scan_prefix K (mdb_db st) ''PEND/'')"

definition remove_pending_message_marker ::
    "'db sled_ops \<Rightarrow> 'db msgdb \<Rightarrow> i64 \<Rightarrow> (msgdb_error + unit) \<times> 'db msgdb" where
  "remove_pending_message_marker K st mid =
     (case sled_remove K (mdb_db st) (key_pending_message_marker mid) of
        (Some e, db') \<Rightarrow> (Inl (Db e), st\<lparr>mdb_db := db'\<rparr>)
      | (None, db') \<Rightarrow> (Inr (), st\<lparr>mdb_db := db'\<rparr>))"

section \<open>Reading pages\<close>

text \<open>
  The loop shared by the four readers: an unreadable item is an error, a key that does not
  decode or belongs to another conversation (\<open>own\<close> gives \<open>None\<close>) ends the page.
\<close>

fun collect_msgs ::
    "(bytes \<Rightarrow> i64 option) \<Rightarrow> (sled_error + bytes \<times> bytes) list \<Rightarrow>
     msgdb_error + (i64 \<times> bytes) list" where
  "collect_msgs own [] = Inr []"
| "collect_msgs own (Inl e # items) = Inl (Db e)"
| "collect_msgs own (Inr (key, v) # items) =
     (case own key of
        None \<Rightarrow> Inr []
      | Some msg_id \<Rightarrow>
          (case collect_msgs own items of
             Inl e \<Rightarrow> Inl e
           | Inr msgs \<Rightarrow> Inr ((msg_id, v) # msgs)))"

definition own_user :: "i64 \<Rightarrow> bytes \<Rightarrow> i64 option" where
  "own_user uid key =
     (case decode_key_user_msg key of
        None \<Rightarrow> None
      | Some (current_uid, msg_id) \<Rightarrow> if current_uid \<noteq> uid then None else Some msg_id)"

definition own_group :: "i64 \<Rightarrow> bytes \<Rightarrow> i64 option" where
  "own_group gid key =
     (case decode_key_group_msg key of
        None \<Rightarrow> None
      | Some (current_gid, msg_id) \<Rightarrow> if current_gid \<noteq> gid then None else Some msg_id)"

definition own_dm :: "i64 \<Rightarrow> i64 \<Rightarrow> bytes \<Rightarrow> i64 option" where
  "own_dm from_uid to_uid key =
     (case decode_key_dm_msg key of
        None \<Rightarrow> None
      | Some (a, b, msg_id) \<Rightarrow>
          if \<not> (from_uid = a \<and> to_uid = b \<or> from_uid = b \<and> to_uid = a) then None else Some msg_id)"

definition rev_page :: "msgdb_error + (i64 \<times> bytes) list \<Rightarrow> msgdb_error + (i64 \<times> bytes) list" where
  "rev_page r = (case r of Inl e \<Rightarrow> Inl e | Inr msgs \<Rightarrow> Inr (rev msgs))"

definition fetch_user_messages_after ::
    "'db sled_ops \<Rightarrow> 'db msgdb \<Rightarrow> i64 \<Rightarrow> i64 option \<Rightarrow> usize \<Rightarrow> msgdb_error + (i64 \<times> bytes) list" where
  "fetch_user_messages_after K st uid after limit =
     (let after_id = (case after of Some i \<Rightarrow> wrap_i64 (i + 1) | None \<Rightarrow> 0) in
      rev_page (collect_msgs (own_user uid) (take limit (rev
        (sled_range K (mdb_db st) (key_user_msg uid after_id) (key_user_msg uid i64_max))))))"

definition fetch_dm_messages_before ::
    "'db sled_ops \<Rightarrow> 'db msgdb \<Rightarrow> i64 \<Rightarrow> i64 \<Rightarrow> i64 option \<Rightarrow> usize \<Rightarrow>
     msgdb_error + (i64 \<times> bytes) list" where
  "fetch_dm_messages_before K st from_uid to_uid before limit =
     (let before_id = (case before of Some i \<Rightarrow> i | None \<Rightarrow> i64_max) in
      rev_page (collect_msgs (own_dm from_uid to_uid) (take limit (rev
        (sled_range K (mdb_db st) (key_dm_msg from_uid to_uid 0)
           (key_dm_msg from_uid to_uid before_id))))))"

definition fetch_group_messages_before ::
    "'db sled_ops \<Rightarrow> 'db msgdb \<Rightarrow> i64 \<Rightarrow> i64 option \<Rightarrow> usize \<Rightarrow> msgdb_error + (i64 \<times> bytes) list" where
  "fetch_group_messages_before K st gid before limit =
     (let before_id = (case before of Some i \<Rightarrow> i | None \<Rightarrow> i64_max) in
      rev_page (collect_msgs (own_group gid) (take limit (rev
        (sled_range K (mdb_db st) (key_group_msg gid 0) (key_group_msg gid before_id))))))"

definition fetch_user_messages_before ::
    "'db sled_ops \<Rightarrow> 'db msgdb \<Rightarrow> i64 \<Rightarrow> i64 option \<Rightarrow> usize \<Rightarrow> msgdb_error + (i64 \<times> bytes) list" where
  "fetch_user_messages_before K st uid before limit =
     (let before_id = (case before of Some i \<Rightarrow> i | None \<Rightarrow> i64_max) in
      rev_page (collect_msgs (own_user uid) (take limit (rev
        (sled_range K (mdb_db st) (key_user_msg uid 0) (key_user_msg uid before_id))))))"

section \<open>Merged messages\<close>

definition insert_merged_msg ::
    "'db sled_ops \<Rightarrow> 'db msgdb \<Rightarrow> i64 \<Rightarrow> bytes \<Rightarrow> (msgdb_error + unit) \<times> 'db msgdb" where
  "insert_merged_msg K st mid msg =
     (case sled_insert K (mdb_db st) (key_merged_msg mid) msg of
        (Some e, db') \<Rightarrow> (Inl (Db e), st\<lparr>mdb_db := db'\<rparr>)
      | (None, db') \<Rightarrow> (Inr (), st\<lparr>mdb_db := db'\<rparr>))"

definition update_merged_msg ::
    "'db sled_ops \<Rightarrow> 'db msgdb \<Rightarrow> i64 \<Rightarrow> (bytes \<Rightarrow> bytes) \<Rightarrow> (msgdb_error + unit) \<times> 'db msgdb" where
  "update_merged_msg K st mid f =
     (case sled_update_and_fetch K (mdb_db st) (key_merged_msg mid) (map_option f) of
        (Some e, db') \<Rightarrow> (Inl (Db e), st\<lparr>mdb_db := db'\<rparr>)
      | (None, db') \<Rightarrow> (Inr (), st\<lparr>mdb_db := db'\<rparr>))"

definition remove_merged_msg ::
    "'db sled_ops \<Rightarrow> 'db msgdb \<Rightarrow> i64 \<Rightarrow> (msgdb_error + unit) \<times> 'db msgdb" where
  "remove_merged_msg K st mid =
     (case sled_remove K (mdb_db st) (key_merged_msg mid) of
        (Some e, db') \<Rightarrow> (Inl (Db e), st\<lparr>mdb_db := db'\<rparr>)
      | (None, db') \<Rightarrow> (Inr (), st\<lparr>mdb_db := db'\<rparr>))"

definition get_merged_msg :: "'db sled_ops \<Rightarrow> 'db msgdb \<Rightarrow> i64 \<Rightarrow> msgdb_error + bytes option" where
  "get_merged_msg K st mid =
     (case sled_get K (mdb_db st) (key_merged_msg mid) of Inl e \<Rightarrow> Inl (Db e) | Inr v \<Rightarrow> Inr v)"

end
