(* ===== verification/Msg_Log.thy ===== *)
theory Msg_Log
  imports Msg_Store
begin

text \<open>
  The abstract view of the message database: every conversation -- a user's inbox, a group,
  a pair of users -- is a log, the list of its messages by increasing id. This theory shows
  that the batches of \<open>Msg_Store\<close> append to the logs of exactly the intended
  conversations and that the pages the readers return are segments of these logs.
\<close>

section \<open>Conversations and their logs\<close>

datatype conv = Inbox i64 | GroupLog i64 | DmLog i64 i64

fun conv_key :: "conv \<Rightarrow> i64 \<Rightarrow> bytes" where
  "conv_key (Inbox uid) m = key_user_msg uid m"
| "conv_key (GroupLog gid) m = key_group_msg gid m"
| "conv_key (DmLog a b) m = key_dm_msg a b m"

fun conv_ok :: "conv \<Rightarrow> bool" where
  "conv_ok (Inbox uid) = in_i64 uid"
| "conv_ok (GroupLog gid) = in_i64 gid"
| "conv_ok (DmLog a b) = (in_i64 a \<and> in_i64 b)"

text \<open>The two orders of a pair of users name the same conversation.\<close>

fun norm_conv :: "conv \<Rightarrow> conv" where
  "norm_conv (DmLog a b) = DmLog (min a b) (max a b)"
| "norm_conv cv = cv"

definition id_ok :: "i64 \<Rightarrow> bool" where
  "id_ok m \<longleftrightarrow> 1 \<le> m \<and> m < i64_max"

lemma id_ok_in_i64 [simp]: "id_ok m \<Longrightarrow> in_i64 m"
  by (simp add: id_ok_def in_i64_def i64_min_def)

definition conv_log :: "(bytes \<rightharpoonup> bytes) \<Rightarrow> conv \<Rightarrow> (i64 \<times> bytes) list" where
  "conv_log c cv =
     map (\<lambda>m. (m, the (c (conv_key cv m))))
       (sorted_list_of_set {m. id_ok m \<and> c (conv_key cv m) \<noteq> None})"

lemma finite_id_ok: "finite {m. id_ok m \<and> P m}"
proof (rule finite_subset)
  show "{m. id_ok m \<and> P m} \<subseteq> {1..<i64_max}" by (auto simp: id_ok_def)
qed simp

lemma conv_key_inj:
  assumes "conv_ok cv" "conv_ok cv'" "in_i64 m" "in_i64 n"
  shows "conv_key cv m = conv_key cv' n \<longleftrightarrow> norm_conv cv = norm_conv cv' \<and> m = n"
proof (cases cv; cases cv')
  fix a b c d assume "cv = DmLog a b" "cv' = DmLog c d"
  then show ?thesis
    using assms by (auto simp: key_dm_msg_def append_eq_append_conv i64_to_be_bytes_inj)
qed (use assms in \<open>auto simp: i64_to_be_bytes_inj\<close>)

lemma conv_key_families [simp]:
  "conv_key cv m \<noteq> key_msg n" "conv_key cv m \<noteq> key_pending_message_marker n"
  "conv_key cv m \<noteq> key_merged_msg n" "conv_key cv m \<noteq> key_sequence ty"
  by (cases cv; simp)+

lemmas conv_key_families' [simp] = conv_key_families [symmetric]

lemma conv_key_less_iff:
  assumes "0 \<le> m" "in_i64 m" "0 \<le> n" "in_i64 n"
  shows "conv_key cv m < conv_key cv n \<longleftrightarrow> m < n"
  using assms
  by (cases cv) (simp_all add: key_user_msg_less_iff key_group_msg_less_iff key_dm_msg_less_iff)

lemma conv_key_le_iff:
  assumes "0 \<le> m" "in_i64 m" "0 \<le> n" "in_i64 n"
  shows "conv_key cv m \<le> conv_key cv n \<longleftrightarrow> m \<le> n"
  using assms
  by (cases cv) (simp_all add: key_user_msg_le_iff key_group_msg_le_iff key_dm_msg_le_iff)

fun conv_prefix :: "conv \<Rightarrow> bytes" where
  "conv_prefix (Inbox uid) = ''UMSG/'' @ i64_to_be_bytes uid"
| "conv_prefix (GroupLog gid) = ''GMSG/'' @ i64_to_be_bytes gid"
| "conv_prefix (DmLog a b) = ''DM/'' @ i64_to_be_bytes (min a b) @ i64_to_be_bytes (max a b)"

lemma conv_key_prefix: "conv_key cv m = conv_prefix cv @ i64_to_be_bytes m"
  by (cases cv) (simp_all add: key_user_msg_def key_group_msg_def key_dm_msg_def)

lemma conv_prefix_families:
  "conv_prefix cv @ d \<noteq> key_msg n" "conv_prefix cv @ d \<noteq> key_pending_message_marker n"
  "conv_prefix cv @ d \<noteq> key_merged_msg n" "conv_prefix cv @ d \<noteq> key_sequence ty"
  by (cases cv; simp add: key_defs)+

lemma conv_prefix_unique:
  "conv_prefix cv @ d = conv_key cv' m \<Longrightarrow> conv_prefix cv = conv_prefix cv'"
  by (cases cv; cases cv') (auto simp: conv_key_prefix append_eq_append_conv)

section \<open>Well-formed contents\<close>

text \<open>What the database may hold when all ids handed out so far are below \<open>n\<close>.\<close>

definition entry_of :: "i64 \<Rightarrow> bytes \<Rightarrow> bytes \<Rightarrow> bool" where
  "entry_of m k v \<longleftrightarrow>
     k = key_msg m \<or> (\<exists>cv. conv_ok cv \<and> k = conv_key cv m) \<or>
     (\<exists>s t c. in_i64 s \<and> in_i64 t \<and> in_i64 c \<and>
        k = key_pending_message_marker m \<and> v = pending_marker_value s t c)"

definition wf_entry :: "i64 \<Rightarrow> bytes \<Rightarrow> bytes \<Rightarrow> bool" where
  "wf_entry n k v \<longleftrightarrow>
     (\<exists>ty. k = key_sequence ty) \<or> (\<exists>m. k = key_merged_msg m) \<or>
     (\<exists>m. id_ok m \<and> m < n \<and> entry_of m k v)"

definition store_ok :: "i64 \<Rightarrow> (bytes \<rightharpoonup> bytes) \<Rightarrow> bool" where
  "store_ok n c \<longleftrightarrow> (\<forall>k v. c k = Some v \<longrightarrow> wf_entry n k v)"

lemma wf_entry_mono: "wf_entry n k v \<Longrightarrow> n \<le> n' \<Longrightarrow> wf_entry n' k v"
  unfolding wf_entry_def by (meson less_le_trans)

lemma store_ok_mono: "store_ok n c \<Longrightarrow> n \<le> n' \<Longrightarrow> store_ok n' c"
  unfolding store_ok_def using wf_entry_mono by blast

lemma store_ok_upd: "store_ok n c \<Longrightarrow> wf_entry n k v \<Longrightarrow> store_ok n (c(k \<mapsto> v))"
  by (simp add: store_ok_def)

lemma store_ok_del: "store_ok n c \<Longrightarrow> store_ok n (c(k := None))"
  by (simp add: store_ok_def)

lemma store_ok_batch:
  "store_ok n c \<Longrightarrow> (\<And>k v. (k, v) \<in> set ops \<Longrightarrow> wf_entry n k v) \<Longrightarrow> store_ok n (apply_batch ops c)"
  by (induction ops arbitrary: c) (auto simp: store_ok_upd)

text \<open>A stored key of a well-formed conversation carries an id that was handed out.\<close>

lemma store_ok_conv_id:
  assumes "store_ok n c" "c (conv_key cv m) = Some v" "conv_ok cv" "in_i64 m"
  shows "id_ok m \<and> m < n"
proof -
  have "wf_entry n (conv_key cv m) v" using assms by (simp add: store_ok_def)
  then obtain m' cv' where "id_ok m'" "m' < n" "conv_ok cv'" "conv_key cv m = conv_key cv' m'"
    by (auto simp: wf_entry_def entry_of_def)
  then show ?thesis using assms conv_key_inj [of cv cv' m m'] by auto
qed

lemma store_ok_between:
  assumes "store_ok n c" "c k = Some v" "conv_key cv lo \<le> k" "k < conv_key cv hi"
  shows "\<exists>m. id_ok m \<and> k = conv_key cv m"
proof -
  obtain d where d: "k = conv_prefix cv @ d"
    using assms(3,4) between_prefix unfolding conv_key_prefix by blast
  have "wf_entry n k v" using assms(1,2) by (simp add: store_ok_def)
  then obtain m cv' where m: "id_ok m" "k = conv_key cv' m"
    using d conv_prefix_families unfolding wf_entry_def entry_of_def by metis
  then have "conv_prefix cv = conv_prefix cv'" using d conv_prefix_unique by metis
  then have "conv_key cv' m = conv_key cv m" by (simp add: conv_key_prefix)
  then show ?thesis using m by auto
qed

section \<open>Appending\<close>

lemma sorted_list_of_set_insert_last:
  fixes A :: "'a::linorder set"
  assumes "finite A" "\<forall>y \<in> A. y < x"
  shows "sorted_list_of_set (insert x A) = sorted_list_of_set A @ [x]"
proof -
  have "sorted_wrt (<) (sorted_list_of_set A @ [x])"
    using assms by (auto simp: sorted_wrt_append)
  moreover have "set (sorted_list_of_set A @ [x]) = insert x A" using assms by auto
  ultimately show ?thesis
    using assms(1) by (metis finite_insert sorted_list_of_set.idem_if_sorted_distinct strict_sorted_iff)
qed

text \<open>Writing id \<open>mid\<close>, above every id stored so far, into the conversations \<open>T\<close>.\<close>

lemma conv_log_append:
  assumes ok: "store_ok mid c" and mid: "id_ok mid" and cv: "conv_ok cv"
    and upd: "\<And>m. id_ok m \<Longrightarrow> c' (conv_key cv m) =
      (if m = mid \<and> norm_conv cv \<in> T then Some msg else c (conv_key cv m))"
  shows "conv_log c' cv = conv_log c cv @ (if norm_conv cv \<in> T then [(mid, msg)] else [])"
proof -
  let ?S = "{m. id_ok m \<and> c (conv_key cv m) \<noteq> None}"
  have below: "\<forall>m \<in> ?S. m < mid" using store_ok_conv_id [OF ok _ cv] by auto
  show ?thesis
  proof (cases "norm_conv cv \<in> T")
    case True
    have "{m. id_ok m \<and> c' (conv_key cv m) \<noteq> None} = insert mid ?S"
      using upd mid True by auto
    moreover have "map (\<lambda>m. (m, the (c' (conv_key cv m)))) (sorted_list_of_set ?S)
        = map (\<lambda>m. (m, the (c (conv_key cv m)))) (sorted_list_of_set ?S)"
      using below upd finite_id_ok by (intro map_cong) auto
    ultimately show ?thesis
      using True upd [OF mid] sorted_list_of_set_insert_last [OF finite_id_ok below]
      by (simp add: conv_log_def)
  next
    case False
    then have "{m. id_ok m \<and> c' (conv_key cv m) \<noteq> None} = ?S" using upd by auto
    moreover have "map (\<lambda>m. (m, the (c' (conv_key cv m)))) (sorted_list_of_set ?S)
        = map (\<lambda>m. (m, the (c (conv_key cv m)))) (sorted_list_of_set ?S)"
      using False upd finite_id_ok by (intro map_cong) auto
    ultimately show ?thesis using False by (simp add: conv_log_def)
  qed
qed

section \<open>Paging\<close>

text \<open>A page: the newest \<open>limit\<close> messages of a log with ids in \<open>[lo, hi)\<close>, oldest first.\<close>

definition log_page :: "i64 \<Rightarrow> i64 \<Rightarrow> nat \<Rightarrow> (i64 \<times> bytes) list \<Rightarrow> (i64 \<times> bytes) list" where
  "log_page lo hi limit L =
     (let sel = filter (\<lambda>(m, v). lo \<le> m \<and> m < hi) L in drop (length sel - limit) sel)"

lemma collect_msgs_Inr:
  assumes "list_all2 (\<lambda>x item. item = Inr x \<or> isl item) ys items"
    and "\<forall>(k, v) \<in> set ys. own k = Some (g k)"
    and "collect_msgs own items = Inr r"
  shows "r = map (\<lambda>(k, v). (g k, v)) ys"
  using assms
proof (induction ys items arbitrary: r rule: list_all2_induct)
  case (Cons x xs item items)
  from Cons.hyps(1) Cons.prems(2) have "item = Inr x" by (cases item) auto
  then show ?case using Cons.prems Cons.IH by (cases x) (auto split: sum.splits)
qed simp

lemma sorted_keys_unique:
  fixes xs ys :: "('a::linorder \<times> 'b) list"
  assumes "sorted_wrt (<) (map fst xs)" "sorted_wrt (<) (map fst ys)" "set xs = set ys"
  shows "xs = ys"
proof (rule map_sorted_distinct_set_unique [where f = fst])
  show "inj_on fst (set xs \<union> set ys)"
    using assms by (auto simp: strict_sorted_iff distinct_map)
qed (use assms in \<open>auto simp: strict_sorted_iff\<close>)

lemma lists_bindings_conv:
  assumes lb: "lists_bindings c (\<lambda>k. conv_key cv lo \<le> k \<and> k < conv_key cv hi) items"
    and ok: "store_ok n c" and b: "0 \<le> lo" "in_i64 lo" "0 \<le> hi" "in_i64 hi"
  shows "list_all2 (\<lambda>x item. item = Inr x \<or> isl item)
    (map (\<lambda>(m, v). (conv_key cv m, v)) (filter (\<lambda>(m, v). lo \<le> m \<and> m < hi) (conv_log c cv))) items"
proof -
  let ?sel = "filter (\<lambda>(m, v). lo \<le> m \<and> m < hi) (conv_log c cv)"
  let ?ms = "filter (\<lambda>m. lo \<le> m \<and> m < hi) (sorted_list_of_set {m. id_ok m \<and> c (conv_key cv m) \<noteq> None})"
  obtain xs where xs: "sorted_wrt (<) (map fst xs)"
    "set xs = {(k, v). c k = Some v \<and> conv_key cv lo \<le> k \<and> k < conv_key cv hi}"
    "list_all2 (\<lambda>x item. item = Inr x \<or> isl item) xs items"
    using lb unfolding lists_bindings_def by blast
  have sel: "?sel = map (\<lambda>m. (m, the (c (conv_key cv m)))) ?ms"
    by (simp add: conv_log_def filter_map o_def split_def)
  have pos: "0 \<le> m" if "id_ok m" for m using that by (simp add: id_ok_def)
  have keys: "map fst (map (\<lambda>(m, v). (conv_key cv m, v)) ?sel) = map (conv_key cv) ?ms"
    by (simp add: sel o_def)
  have "sorted_wrt (\<lambda>a b. conv_key cv a < conv_key cv b) ?ms"
    by (rule sorted_wrt_mono_rel [OF _ sorted_wrt_filter [OF strict_sorted_list_of_set]])
      (auto simp: finite_id_ok conv_key_less_iff pos)
  then have sorted: "sorted_wrt (<) (map fst (map (\<lambda>(m, v). (conv_key cv m, v)) ?sel))"
    unfolding keys by (simp add: sorted_wrt_map)
  have mem: "(k, v) \<in> set (map (\<lambda>(m, v). (conv_key cv m, v)) ?sel) \<longleftrightarrow>
      (\<exists>m. k = conv_key cv m \<and> id_ok m \<and> lo \<le> m \<and> m < hi \<and> c k = Some v)" for k v
    by (auto simp: sel finite_id_ok image_iff)
  have set: "set (map (\<lambda>(m, v). (conv_key cv m, v)) ?sel) = set xs"
  proof (intro set_eqI, clarify)
    fix k v
    have "k = conv_key cv m \<Longrightarrow> id_ok m \<Longrightarrow>
        conv_key cv lo \<le> k \<and> k < conv_key cv hi \<longleftrightarrow> lo \<le> m \<and> m < hi" for m
      using b by (simp add: conv_key_less_iff conv_key_le_iff pos)
    then show "(k, v) \<in> set (map (\<lambda>(m, v). (conv_key cv m, v)) ?sel) \<longleftrightarrow> (k, v) \<in> set xs"
      unfolding mem xs(2) using store_ok_between [OF ok, of k v cv lo hi] by blast
  qed
  have "map (\<lambda>(m, v). (conv_key cv m, v)) ?sel = xs"
    using sorted xs(1) set by (rule sorted_keys_unique)
  then show ?thesis using xs(3) by simp
qed

lemma collect_page:
  assumes "lists_bindings c (\<lambda>k. conv_key cv lo \<le> k \<and> k < conv_key cv hi) items"
    and "store_ok n c" "0 \<le> lo" "in_i64 lo" "0 \<le> hi" "in_i64 hi"
    and own: "\<And>m. id_ok m \<Longrightarrow> own (conv_key cv m) = Some m"
    and ret: "rev_page (collect_msgs own (take limit (rev items))) = Inr r"
  shows "r = log_page lo hi limit (conv_log c cv)"
proof -
  let ?sel = "filter (\<lambda>(m, v). lo \<le> m \<and> m < hi) (conv_log c cv)"
  let ?ys = "map (\<lambda>(m, v). (conv_key cv m, v)) (take limit (rev ?sel))"
  have ys: "?ys = take limit (rev (map (\<lambda>(m, v). (conv_key cv m, v)) ?sel))"
    by (simp only: rev_map take_map)
  have all: "list_all2 (\<lambda>x item. item = Inr x \<or> isl item) ?ys (take limit (rev items))"
    unfolding ys
    by (rule list_all2_takeI) (simp only: list_all2_rev lists_bindings_conv [OF assms(1-6)])
  have ids: "id_ok m" if "(m, v) \<in> set (take limit (rev ?sel))" for m v
    using set_take_subset_elem [OF that] by (auto simp: conv_log_def finite_id_ok)
  then have owned: "\<forall>(k, v) \<in> set ?ys. own k = Some (the (own k))" using own by force
  obtain r' where r': "collect_msgs own (take limit (rev items)) = Inr r'" "r = rev r'"
    using ret by (auto simp: rev_page_def split: sum.splits)
  have "r' = map (\<lambda>(k, v). (the (own k), v)) ?ys"
    by (rule collect_msgs_Inr [OF all owned r'(1)])
  also have "\<dots> = map (\<lambda>x. x) (take limit (rev ?sel))"
    unfolding map_map
  proof (rule map_cong [OF refl])
    fix x assume x: "x \<in> set (take limit (rev ?sel))"
    obtain m v where mv: "x = (m, v)" by fastforce
    with x ids own show "((\<lambda>(k, v). (the (own k), v)) \<circ> (\<lambda>(m, v). (conv_key cv m, v))) x = x"
      by simp
  qed
  finally show ?thesis using r' by (simp add: log_page_def take_rev Let_def)
qed

end
