(* ===== verification/Msg_Delivery.thy ===== *)
theory Msg_Delivery
  imports Msg_Log
begin

text \<open>
  What the message database promises its clients: the invariant of an open database, the
  effect of every send on the conversation logs, what the readers return, and, through the
  interface \<open>mailbox\<close>, in-order exactly-once delivery over any interleaving of group and
  direct sends.
\<close>

section \<open>The invariant\<close>

text \<open>\<open>store_inv contents n st\<close>: the database is sound and has room for \<open>n\<close> more leases.\<close>

definition store_inv :: "('db \<Rightarrow> bytes \<rightharpoonup> bytes) \<Rightarrow> nat \<Rightarrow> 'db msgdb \<Rightarrow> bool" where
  "store_inv contents n st \<longleftrightarrow>
     (let s = mdb_sequence st; c = contents (mdb_db st) in
      seq_ty s = MSG_SEQUENCE \<and> store_ok (seq_next s) c \<and>
      (\<exists>x. lease_stored c MSG_SEQUENCE x \<and> 1 \<le> seq_next s \<and> seq_next s \<le> seq_leased s \<and>
           seq_leased s \<le> x \<and> x + 32 * int n \<le> i64_max))"

text \<open>The log of a conversation in a database.\<close>

definition msg_log :: "('db \<Rightarrow> bytes \<rightharpoonup> bytes) \<Rightarrow> 'db msgdb \<Rightarrow> conv \<Rightarrow> (i64 \<times> bytes) list" where
  "msg_log contents st cv = conv_log (contents (mdb_db st)) cv"

section \<open>Batches\<close>

text \<open>The bindings both kinds of send write: the message, its copies, then a marker or nothing.\<close>

definition deliver_batch :: "i64 \<Rightarrow> bytes \<Rightarrow> conv list \<Rightarrow> batch \<Rightarrow> batch" where
  "deliver_batch mid msg ts extra =
     (key_msg mid, msg) # map (\<lambda>t. (conv_key t mid, msg)) ts @ extra"

definition marker_entry :: "i64 \<Rightarrow> bytes \<times> bytes \<Rightarrow> bool" where
  "marker_entry mid kv \<longleftrightarrow>
     (\<exists>s t c. in_i64 s \<and> in_i64 t \<and> in_i64 c \<and>
        kv = (key_pending_message_marker mid, pending_marker_value s t c))"

lemma marker_entry_key: "marker_entry mid kv \<Longrightarrow> fst kv = key_pending_message_marker mid"
  by (auto simp: marker_entry_def)

lemma entry_of_intros:
  "entry_of m (key_msg m) v"
  "conv_ok cv \<Longrightarrow> entry_of m (conv_key cv m) v"
  "marker_entry m (k, v) \<Longrightarrow> entry_of m k v"
  by (auto simp: marker_entry_def entry_of_def)

lemma marker_keys_image:
  "\<forall>kv \<in> set extra. marker_entry mid kv \<Longrightarrow> fst ` set extra \<subseteq> {key_pending_message_marker mid}"
  using marker_entry_key by blast

lemma apply_batch_other:
  "k \<notin> fst ` set ops \<Longrightarrow> apply_batch ops c k = c k"
  by (induction ops arbitrary: c) auto

lemma deliver_batch_conv:
  assumes "conv_ok cv" "id_ok m" "id_ok mid" "\<forall>t \<in> set ts. conv_ok t"
    and "\<forall>kv \<in> set extra. marker_entry mid kv"
  shows "apply_batch (deliver_batch mid msg ts extra) c (conv_key cv m) =
    (if m = mid \<and> norm_conv cv \<in> norm_conv ` set ts then Some msg else c (conv_key cv m))"
proof -
  have "conv_key cv m \<notin> fst ` set extra" using marker_keys_image [OF assms(5)] by auto
  moreover have "conv_key cv m \<in> (\<lambda>t. conv_key t mid) ` set ts \<longleftrightarrow>
      m = mid \<and> norm_conv cv \<in> norm_conv ` set ts"
    using assms(1-4) conv_key_inj [of cv _ m mid] by (auto simp: image_iff)
  ultimately show ?thesis
    by (simp add: deliver_batch_def apply_batch_other apply_batch_same_value)
qed

lemma deliver_batch_msg:
  assumes "\<forall>kv \<in> set extra. marker_entry mid kv"
  shows "apply_batch (deliver_batch mid msg ts extra) c (key_msg mid) = Some msg"
proof -
  have "key_msg mid \<notin> fst ` set extra" using marker_keys_image [OF assms] by auto
  then show ?thesis
    by (simp add: deliver_batch_def apply_batch_other apply_batch_same_value image_iff)
qed

lemma deliver_batch_frame:
  assumes "\<forall>kv \<in> set extra. marker_entry mid kv" "k \<noteq> key_msg mid"
    "\<And>t. k \<noteq> conv_key t mid" "k \<noteq> key_pending_message_marker mid"
  shows "apply_batch (deliver_batch mid msg ts extra) c k = c k"
proof (rule apply_batch_other)
  have "fst ` set (deliver_batch mid msg ts extra) =
      insert (key_msg mid) ((\<lambda>t. conv_key t mid) ` set ts \<union> fst ` set extra)"
    by (simp add: deliver_batch_def image_Un image_image)
  then show "k \<notin> fst ` set (deliver_batch mid msg ts extra)"
    using assms(2-4) marker_keys_image [OF assms(1)] by (simp only: insert_iff Un_iff) blast
qed

lemma deliver_batch_store_ok:
  assumes "store_ok n c" "id_ok mid" "mid < n" "\<forall>t \<in> set ts. conv_ok t"
    and "\<forall>kv \<in> set extra. marker_entry mid kv"
  shows "store_ok n (apply_batch (deliver_batch mid msg ts extra) c)"
proof (rule store_ok_batch [OF assms(1)])
  fix k v assume "(k, v) \<in> set (deliver_batch mid msg ts extra)"
  then have "entry_of mid k v"
    using assms(4,5) by (auto simp: deliver_batch_def intro: entry_of_intros)
  then show "wf_entry n k v" using assms(2,3) by (auto simp: wf_entry_def)
qed

section \<open>Allocation\<close>

context sled_contract
begin

lemma update_lease_frame:
  assumes "update_sequence_lease K ty db = (r, db')" "k \<noteq> key_sequence ty"
  shows "contents db' k = contents db k"
proof -
  have ins: "contents d k = contents db k"
    if "sled_insert K db (key_sequence ty) v = (q, d)" for v q d
    using insert_ok [OF that] assms(2) by auto
  show ?thesis
    using assms(1) ins
    by (auto simp: update_sequence_lease_def Let_def split: sum.splits option.splits prod.splits if_splits)
qed

lemma generate_id_frame:
  assumes "generate_id K s db = (r, s', db')" "k \<noteq> key_sequence (seq_ty s)"
  shows "contents db' k = contents db k"
  using assms update_lease_frame
  by (auto simp: generate_id_def split: sum.splits prod.splits if_splits)

lemma store_ok_sequence_frame:
  assumes "store_ok n c" "\<And>k. k \<noteq> key_sequence ty \<Longrightarrow> c' k = c k"
  shows "store_ok n c'"
  using assms unfolding store_ok_def wf_entry_def by metis

lemma conv_log_sequence_frame:
  assumes "\<And>k. k \<noteq> key_sequence ty \<Longrightarrow> c' k = c k"
  shows "conv_log c' cv = conv_log c cv"
  using assms by (simp add: conv_log_def)

lemma generate_msg_id_sound:
  assumes inv: "store_inv contents (Suc n) st" and gen: "generate_msg_id K st = (r, st')"
  shows "store_inv contents n st' \<and>
    (\<forall>k. k \<noteq> key_sequence MSG_SEQUENCE \<longrightarrow> contents (mdb_db st') k = contents (mdb_db st) k) \<and>
    (\<forall>mid. r = Inr mid \<longrightarrow> id_ok mid \<and> store_ok mid (contents (mdb_db st')) \<and>
       mid < seq_next (mdb_sequence st'))"
proof -
  let ?s = "mdb_sequence st" and ?c = "contents (mdb_db st)"
  obtain s' db' where g: "generate_id K ?s (mdb_db st) = (r, s', db')"
    and st': "st' = st\<lparr>mdb_sequence := s', mdb_db := db'\<rparr>"
    using gen by (auto simp: generate_msg_id_def split: prod.splits)
  obtain x where x: "seq_ty ?s = MSG_SEQUENCE" "store_ok (seq_next ?s) ?c" "lease_stored ?c MSG_SEQUENCE x"
    "1 \<le> seq_next ?s" "seq_next ?s \<le> seq_leased ?s" "seq_leased ?s \<le> x" "x + 32 * int (Suc n) \<le> i64_max"
    using inv by (auto simp: store_inv_def Let_def)
  have "x + 32 \<le> i64_max" using x(7) by simp
  from generate_id_cases [OF g _ x(4-6) this] x(1,3)
  obtain y where y: "y \<in> {x, x + 32}" "lease_stored (contents db') MSG_SEQUENCE y" "seq_leased s' \<le> y"
    "seq_ty s' = MSG_SEQUENCE"
    and out: "isl r \<and> s' = ?s \<or> (\<exists>i. r = Inr i \<and> seq_next ?s \<le> i \<and> seq_next s' = i + 1 \<and>
      seq_next s' \<le> seq_leased s')" by auto
  have frame: "contents db' k = ?c k" if "k \<noteq> key_sequence MSG_SEQUENCE" for k
    using generate_id_frame [OF g] that x(1) by simp
  have sok: "store_ok m (contents db')" if "seq_next ?s \<le> m" for m
    using store_ok_sequence_frame [OF store_ok_mono [OF x(2) that] frame] .
  have "store_ok (seq_next s') (contents db')" using out by (auto intro!: sok)
  then have "store_inv contents n st'"
    using y out x(4-7) unfolding store_inv_def st' by (auto simp: Let_def intro!: exI [of _ y])
  moreover have "id_ok mid \<and> store_ok mid (contents db') \<and> mid < seq_next s'" if "r = Inr mid" for mid
    using that out y x(4-7) sok by (auto simp: id_ok_def)
  ultimately show ?thesis using frame by (simp add: st')
qed

text \<open>
  One send, of either kind: an identifier, then one batch. The outcome is the delivery to all the
  conversations of \<open>ts\<close> or, when the store reports an error, delivery to all or to none.
\<close>

lemma deliver_sound:
  assumes inv: "store_inv contents (Suc n) st"
    and gen: "generate_msg_id K st = (Inr mid, st1)"
    and app: "sled_apply_batch K (mdb_db st1) (deliver_batch mid msg ts extra) = (r, db')"
    and ts: "\<forall>t \<in> set ts. conv_ok t" and extra: "\<forall>kv \<in> set extra. marker_entry mid kv"
  shows "store_inv contents n (st1\<lparr>mdb_db := db'\<rparr>) \<and> id_ok mid \<and>
    (contents db' = apply_batch (deliver_batch mid msg ts extra) (contents (mdb_db st1)) \<or>
     r \<noteq> None \<and> contents db' = contents (mdb_db st1)) \<and>
    (r = None \<longrightarrow> contents db' (key_msg mid) = Some msg \<and>
      (\<forall>cv. conv_ok cv \<longrightarrow> conv_log (contents db') cv = conv_log (contents (mdb_db st)) cv @
        (if norm_conv cv \<in> norm_conv ` set ts then [(mid, msg)] else [])))"
proof -
  let ?c1 = "contents (mdb_db st1)" and ?s1 = "mdb_sequence st1"
  let ?ops = "deliver_batch mid msg ts extra"
  from generate_msg_id_sound [OF inv gen]
  have inv1: "store_inv contents n st1" and mid: "id_ok mid" "store_ok mid ?c1" "mid < seq_next ?s1"
    and frame: "\<And>k. k \<noteq> key_sequence MSG_SEQUENCE \<Longrightarrow> ?c1 k = contents (mdb_db st) k" by auto
  from batch_ok [OF app] have
    out: "contents db' = apply_batch ?ops ?c1 \<or> r \<noteq> None \<and> contents db' = ?c1" .
  have "store_ok (seq_next ?s1) ?c1" using inv1 by (auto simp: store_inv_def Let_def)
  then have "store_ok (seq_next ?s1) (contents db')"
    using out deliver_batch_store_ok [OF _ mid(1,3) ts extra] by auto
  moreover have seqkey: "contents db' (key_sequence MSG_SEQUENCE) = ?c1 (key_sequence MSG_SEQUENCE)"
    using out deliver_batch_frame [OF extra, of "key_sequence MSG_SEQUENCE"] by auto
  ultimately have "store_inv contents n (st1\<lparr>mdb_db := db'\<rparr>)"
    using inv1 by (auto simp: store_inv_def Let_def lease_stored_def)
  moreover have "conv_log (contents db') cv = conv_log (contents (mdb_db st)) cv @
      (if norm_conv cv \<in> norm_conv ` set ts then [(mid, msg)] else [])"
    if "r = None" "conv_ok cv" for cv
    using conv_log_append [OF mid(2,1) that(2), of "contents db'" "norm_conv ` set ts" msg]
      conv_log_sequence_frame [OF frame, where cv = cv] deliver_batch_conv [OF that(2) _ mid(1) ts extra]
      out that(1) by auto
  moreover have "contents db' (key_msg mid) = Some msg" if "r = None"
    using out that deliver_batch_msg [OF extra] by auto
  ultimately show ?thesis using mid(1) out by blast
qed

end

section \<open>Requests\<close>

text \<open>The writes a client of the database can ask for.\<close>

datatype send_req =
    ToGroup (grp_gid: i64) (grp_to: "i64 list") (req_msg: bytes)
  | ToDm (dm_from: i64) (dm_to: i64) (dm_pending: "i64 option") (req_msg: bytes)

fun post :: "'db sled_ops \<Rightarrow> 'db msgdb \<Rightarrow> send_req \<Rightarrow> (msgdb_error + i64) \<times> 'db msgdb" where
  "post K st (ToGroup gid to msg) = send_to_group K st gid to msg"
| "post K st (ToDm from_uid to_uid None msg) = send_to_dm K st from_uid to_uid msg"
| "post K st (ToDm from_uid to_uid (Some at) msg) =
     send_to_dm_with_pending_marker K st from_uid to_uid at msg"

fun req_ok :: "send_req \<Rightarrow> bool" where
  "req_ok (ToGroup gid to msg) \<longleftrightarrow> in_i64 gid \<and> (\<forall>u \<in> set to. in_i64 u)"
| "req_ok (ToDm from_uid to_uid at msg) \<longleftrightarrow>
     in_i64 from_uid \<and> in_i64 to_uid \<and> (case at of None \<Rightarrow> True | Some t \<Rightarrow> in_i64 t)"

text \<open>The conversations a request is addressed to.\<close>

fun req_convs :: "send_req \<Rightarrow> conv list" where
  "req_convs (ToGroup gid to msg) = map Inbox to @ [GroupLog gid]"
| "req_convs (ToDm from_uid to_uid at msg) = [Inbox from_uid, Inbox to_uid, DmLog from_uid to_uid]"

definition addressed :: "send_req \<Rightarrow> conv \<Rightarrow> bool" where
  "addressed r cv \<longleftrightarrow> norm_conv cv \<in> norm_conv ` set (req_convs r)"

fun req_extra :: "i64 \<Rightarrow> send_req \<Rightarrow> batch" where
  "req_extra mid (ToDm from_uid to_uid (Some at) msg) =
     [(key_pending_message_marker mid, pending_marker_value from_uid to_uid at)]"
| "req_extra mid r = []"

lemma req_convs_ok: "req_ok r \<Longrightarrow> \<forall>t \<in> set (req_convs r). conv_ok t"
  by (cases r) auto

lemma req_extra_markers: "req_ok r \<Longrightarrow> \<forall>kv \<in> set (req_extra mid r). marker_entry mid kv"
  by (cases r; cases "dm_pending r") (auto simp: marker_entry_def)

lemma post_unfold:
  "post K st r = (case generate_msg_id K st of
     (Inl e, st') \<Rightarrow> (Inl e, st')
   | (Inr mid, st') \<Rightarrow>
       (case sled_apply_batch K (mdb_db st')
               (deliver_batch mid (req_msg r) (req_convs r) (req_extra mid r)) of
          (Some e, db') \<Rightarrow> (Inl (Db e), st'\<lparr>mdb_db := db'\<rparr>)
        | (None, db') \<Rightarrow> (Inr mid, st'\<lparr>mdb_db := db'\<rparr>)))"
proof (cases r)
  case (ToGroup gid to msg)
  then show ?thesis
    by (simp add: send_to_group_def deliver_batch_def Let_def o_def split: prod.split sum.split)
next
  case (ToDm from_uid to_uid at msg)
  then show ?thesis
    by (cases at) (simp_all add: send_to_dm_def send_to_dm_with_pending_marker_def
        send_to_dm_inner_def deliver_batch_def Let_def split: prod.split sum.split)
qed

context sled_contract
begin

lemma post_inv:
  assumes "store_inv contents (Suc n) st" "req_ok r" "post K st r = (res, st')"
  shows "store_inv contents n st'"
proof (cases "generate_msg_id K st")
  case (Pair g st1)
  show ?thesis
  proof (cases g)
    case (Inl e)
    then show ?thesis using assms Pair generate_msg_id_sound [OF assms(1) Pair] by (simp add: post_unfold)
  next
    case (Inr mid)
    obtain q db' where
      q: "sled_apply_batch K (mdb_db st1) (deliver_batch mid (req_msg r) (req_convs r) (req_extra mid r)) = (q, db')"
      by fastforce
    from deliver_sound [OF assms(1) Pair [unfolded Inr] q req_convs_ok req_extra_markers] assms(2,3)
    show ?thesis using Pair Inr q by (auto simp: post_unfold split: option.splits)
  qed
qed

lemma post_delivers:
  assumes "store_inv contents (Suc n) st" "req_ok r" "post K st r = (Inr mid, st')"
  shows "id_ok mid \<and> contents (mdb_db st') (key_msg mid) = Some (req_msg r) \<and>
    (\<forall>cv. conv_ok cv \<longrightarrow> msg_log contents st' cv =
       msg_log contents st cv @ (if addressed r cv then [(mid, req_msg r)] else []))"
proof -
  obtain st1 db' where g: "generate_msg_id K st = (Inr mid, st1)"
    and q: "sled_apply_batch K (mdb_db st1)
        (deliver_batch mid (req_msg r) (req_convs r) (req_extra mid r)) = (None, db')"
    and st': "st' = st1\<lparr>mdb_db := db'\<rparr>"
    using assms(3) by (auto simp: post_unfold split: prod.splits sum.splits option.splits)
  from deliver_sound [OF assms(1) g q req_convs_ok req_extra_markers] assms(2) st'
  show ?thesis by (auto simp: msg_log_def addressed_def)
qed

end

end
