(* ===== verification/Mailbox.thy ===== *)
theory Mailbox
  imports Msg_Delivery
begin

text \<open>
  The interface between the message database and the code that sends and reads messages: a
  store of conversation logs to which a post appends, and from which a read returns a page. The
  laws are proved of \<open>Msg_Store\<close> (for every key-value store that satisfies its contract), the
  consequences -- in-order, exactly-once delivery over any run of posts, and that a reader that
  pages through a log misses nothing -- are proved once from the laws.
\<close>

text \<open>A run of posts, all acknowledged; \<open>None\<close> when one of them reports an error.\<close>

fun post_all :: "('s \<Rightarrow> 'r \<Rightarrow> ('e + i64) \<times> 's) \<Rightarrow> 's \<Rightarrow> 'r list \<Rightarrow> (i64 list \<times> 's) option" where
  "post_all p st [] = Some ([], st)"
| "post_all p st (r # rs) =
     (case p st r of
        (Inl e, st') \<Rightarrow> None
      | (Inr mid, st') \<Rightarrow>
          (case post_all p st' rs of
             None \<Rightarrow> None
           | Some (mids, st'') \<Rightarrow> Some (mid # mids, st'')))"

definition delivered :: "('r \<Rightarrow> 'c \<Rightarrow> bool) \<Rightarrow> ('r \<Rightarrow> bytes) \<Rightarrow> 'c \<Rightarrow> 'r list \<Rightarrow> i64 list \<Rightarrow> (i64 \<times> bytes) list" where
  "delivered addr body cv rs mids =
     map (\<lambda>(r, mid). (mid, body r)) (filter (\<lambda>(r, mid). addr r cv) (zip rs mids))"

locale mailbox =
  fixes ok :: "nat \<Rightarrow> 's \<Rightarrow> bool"
    and log :: "'s \<Rightarrow> 'c \<Rightarrow> (i64 \<times> bytes) list"
    and valid :: "'c \<Rightarrow> bool"
    and send :: "'s \<Rightarrow> 'r \<Rightarrow> ('e + i64) \<times> 's"
    and allowed :: "'r \<Rightarrow> bool"
    and addr :: "'r \<Rightarrow> 'c \<Rightarrow> bool"
    and body :: "'r \<Rightarrow> bytes"
    and read_page :: "'s \<Rightarrow> 'c \<Rightarrow> i64 \<Rightarrow> i64 \<Rightarrow> nat \<Rightarrow> 'e + (i64 \<times> bytes) list"
  assumes send_ok: "ok (Suc n) st \<Longrightarrow> allowed r \<Longrightarrow> send st r = (res, st') \<Longrightarrow> ok n st'"
    and send_appends: "ok (Suc n) st \<Longrightarrow> allowed r \<Longrightarrow> send st r = (Inr mid, st') \<Longrightarrow> valid cv \<Longrightarrow>
      log st' cv = log st cv @ (if addr r cv then [(mid, body r)] else [])"
    and log_ids: "ok n st \<Longrightarrow> valid cv \<Longrightarrow>
      sorted_wrt (<) (map fst (log st cv)) \<and> (\<forall>m \<in> fst ` set (log st cv). id_ok m)"
    and read_log: "ok n st \<Longrightarrow> valid cv \<Longrightarrow> 0 \<le> lo \<Longrightarrow> lo \<le> i64_max \<Longrightarrow> 0 \<le> hi \<Longrightarrow> hi \<le> i64_max \<Longrightarrow>
      read_page st cv lo hi limit = Inr page \<Longrightarrow> page = log_page lo hi limit (log st cv)"
begin

lemma post_all_delivers:
  assumes "ok (n + length rs) st" "list_all allowed rs" "post_all send st rs = Some (mids, st')" "valid cv"
  shows "log st' cv = log st cv @ delivered addr body cv rs mids \<and> ok n st' \<and> length mids = length rs"
  using assms
proof (induction rs arbitrary: st mids)
  case Nil
  then show ?case by (simp add: delivered_def)
next
  case (Cons r rs)
  from Cons.prems(3) obtain mid st1 mids' where
    s: "send st r = (Inr mid, st1)" "post_all send st1 rs = Some (mids', st')" "mids = mid # mids'"
    by (auto split: prod.splits sum.splits option.splits)
  have k: "ok (Suc (n + length rs)) st" "allowed r" "list_all allowed rs" using Cons.prems by simp_all
  from Cons.IH [OF send_ok [OF k(1,2) s(1)] k(3) s(2) Cons.prems(4)]
  show ?case using send_appends [OF k(1,2) s(1) Cons.prems(4)] s(3) by (simp add: delivered_def)
qed

text \<open>Reading with a limit that covers the log returns all of it above \<open>lo\<close>.\<close>

lemma read_all:
  assumes "ok n st" "valid cv" "0 \<le> lo" "lo \<le> i64_max" "length (log st cv) \<le> limit"
    and "read_page st cv lo i64_max limit = Inr r"
  shows "r = filter (\<lambda>(m, v). lo \<le> m) (log st cv)"
proof -
  have "r = log_page lo i64_max limit (log st cv)"
    using read_log [OF assms(1-4) _ _ assms(6)] by (simp add: i64_max_def)
  moreover have "filter (\<lambda>(m, v). lo \<le> m \<and> m < i64_max) (log st cv) = filter (\<lambda>(m, v). lo \<le> m) (log st cv)"
    using log_ids [OF assms(1,2)] by (intro filter_cong) (force simp: id_ok_def)+
  moreover have "length (filter (\<lambda>(m, v). lo \<le> m) (log st cv)) \<le> limit"
    using assms(5) length_filter_le le_trans by blast
  ultimately show ?thesis by (simp add: log_page_def Let_def)
qed

end

section \<open>The message database is a mailbox\<close>

fun read_conv ::
    "'db sled_ops \<Rightarrow> 'db msgdb \<Rightarrow> conv \<Rightarrow> i64 \<Rightarrow> i64 \<Rightarrow> nat \<Rightarrow> msgdb_error + (i64 \<times> bytes) list" where
  "read_conv K st (Inbox uid) lo hi limit = rev_page (collect_msgs (own_user uid) (take limit (rev
     (sled_range K (mdb_db st) (key_user_msg uid lo) (key_user_msg uid hi)))))"
| "read_conv K st (GroupLog gid) lo hi limit = rev_page (collect_msgs (own_group gid) (take limit (rev
     (sled_range K (mdb_db st) (key_group_msg gid lo) (key_group_msg gid hi)))))"
| "read_conv K st (DmLog a b) lo hi limit = rev_page (collect_msgs (own_dm a b) (take limit (rev
     (sled_range K (mdb_db st) (key_dm_msg a b lo) (key_dm_msg a b hi)))))"

fun own_conv :: "conv \<Rightarrow> bytes \<Rightarrow> i64 option" where
  "own_conv (Inbox uid) = own_user uid"
| "own_conv (GroupLog gid) = own_group gid"
| "own_conv (DmLog a b) = own_dm a b"

lemma read_conv_unfold:
  "read_conv K st cv lo hi limit = rev_page (collect_msgs (own_conv cv) (take limit (rev
     (sled_range K (mdb_db st) (conv_key cv lo) (conv_key cv hi)))))"
  by (cases cv) simp_all

lemma own_conv_key: "conv_ok cv \<Longrightarrow> id_ok m \<Longrightarrow> own_conv cv (conv_key cv m) = Some m"
  by (cases cv) (auto simp: own_user_def own_group_def own_dm_def min_def max_def)

lemma conv_log_ids: "sorted_wrt (<) (map fst (conv_log c cv)) \<and> (\<forall>m \<in> fst ` set (conv_log c cv). id_ok m)"
  by (simp add: conv_log_def o_def finite_id_ok)

lemma in_i64_nonneg: "0 \<le> x \<Longrightarrow> x \<le> i64_max \<Longrightarrow> in_i64 x"
  by (simp add: in_i64_def i64_min_def)

sublocale sled_contract \<subseteq> mail: mailbox "store_inv contents" "msg_log contents" conv_ok "post K"
  req_ok addressed req_msg "read_conv K"
proof
  fix n st r res st' mid cv lo hi limit page
  show "store_inv contents n st'" if "store_inv contents (Suc n) st" "req_ok r" "post K st r = (res, st')"
    using post_inv [OF that] .
  show "msg_log contents st' cv = msg_log contents st cv @ (if addressed r cv then [(mid, req_msg r)] else [])"
    if "store_inv contents (Suc n) st" "req_ok r" "post K st r = (Inr mid, st')" "conv_ok cv"
    using post_delivers [OF that(1-3)] that(4) by blast
  show "sorted_wrt (<) (map fst (msg_log contents st cv)) \<and> (\<forall>m \<in> fst ` set (msg_log contents st cv). id_ok m)"
    by (simp add: msg_log_def conv_log_ids)
  show "page = log_page lo hi limit (msg_log contents st cv)"
    if "store_inv contents n st" "conv_ok cv" "0 \<le> lo" "lo \<le> i64_max" "0 \<le> hi" "hi \<le> i64_max"
      "read_conv K st cv lo hi limit = Inr page"
    unfolding msg_log_def
  proof (rule collect_page [OF range_ok])
    show "store_ok (seq_next (mdb_sequence st)) (contents (mdb_db st))"
      using that(1) by (simp add: store_inv_def Let_def)
    show "rev_page (collect_msgs (own_conv cv) (take limit (rev
        (sled_range K (mdb_db st) (conv_key cv lo) (conv_key cv hi))))) = Inr page"
      using that(7) by (simp add: read_conv_unfold)
  qed (use that own_conv_key in \<open>auto intro: in_i64_nonneg\<close>)
qed

end
