(* ===== verification/Msg_Contracts.thy ===== *)
theory Msg_Contracts
  imports Mailbox
begin

text \<open>
  What the message database guarantees its clients, over every key-value store that satisfies
  \<open>sled_contract\<close>: delivery, history, the life of a deferred-message marker, and survival of a
  restart. The concrete runs use \<open>sorted_sled\<close>.
\<close>

section \<open>A concrete database\<close>

definition demo_db :: "sorted_db msgdb" where
  "demo_db = \<lparr>mdb_db = [(key_sequence MSG_SEQUENCE, i64_to_be_bytes 33)],
     mdb_sequence = \<lparr>seq_ty = MSG_SEQUENCE, seq_next = 1, seq_leased = 33\<rparr>\<rparr>"

lemma demo_db_opened: "msgdb_open sorted_sled [] = (Inr demo_db, mdb_db demo_db)"
  by code_simp

lemma demo_db_inv: "33 + 32 * int n \<le> i64_max \<Longrightarrow> store_inv map_of n demo_db"
  by (auto simp: store_inv_def demo_db_def Let_def lease_stored_def store_ok_def wf_entry_def
      in_i64_def i64_min_def i64_max_def split: if_splits intro!: exI [of _ 33])

section \<open>Delivery\<close>

context sled_contract
begin

lemmas mail_delivers = mail.post_all_delivers
lemmas mail_ids = mail.log_ids
lemmas mail_read = mail.read_log
lemmas mail_read_all = mail.read_all

end

text \<open>
  C1 Over any run of acknowledged group and direct sends, every conversation log -- each inbox,
  each group, each pair of users -- grows by exactly the messages addressed to it, each once,
  in the order of the sends and under the identifiers the sends returned; the logs stay
  sorted by identifier.
\<close>

theorem sends_deliver_in_order:
  assumes "sled_contract K contents" "store_inv contents (n + length rs) st"
    and "list_all req_ok rs" "post_all (post K) st rs = Some (mids, st')" "conv_ok cv"
  shows "msg_log contents st' cv =
      msg_log contents st cv @ delivered addressed req_msg cv rs mids \<and>
    sorted_wrt (<) (map fst (msg_log contents st' cv)) \<and> length mids = length rs"
  using sled_contract.mail_delivers [OF assms] sled_contract.mail_ids [OF assms(1)] assms(5)
  by blast

definition demo_sends :: "send_req list" where
  "demo_sends = [ToDm 7 5 None ''hi'', ToGroup 3 [5, 7, 9] ''all'', ToDm 5 7 (Some 1000) ''yo'']"

lemma demo_sends_run:
  "map_option fst (post_all (post sorted_sled) demo_db demo_sends) = Some [1, 2, 3]"
  by code_simp

theorem sends_deliver_in_order_witness:
  "\<exists>st'. post_all (post sorted_sled) demo_db demo_sends = Some ([1, 2, 3], st') \<and>
     msg_log map_of st' (DmLog 5 7) =
       msg_log map_of demo_db (DmLog 5 7) @ [(1, ''hi''), (3, ''yo'')]"
proof -
  obtain st' where run: "post_all (post sorted_sled) demo_db demo_sends = Some ([1, 2, 3], st')"
    using demo_sends_run by (auto simp: map_option_eq_Some)
  have inv: "store_inv map_of (0 + length demo_sends) demo_db"
    by (rule demo_db_inv) (simp add: demo_sends_def i64_max_def)
  have ok: "list_all req_ok demo_sends" "conv_ok (DmLog 5 7)"
    by (simp_all add: demo_sends_def in_i64_def i64_min_def i64_max_def)
  have "delivered addressed req_msg (DmLog 5 7) demo_sends [1, 2, 3] = [(1, ''hi''), (3, ''yo'')]"
    by code_simp
  then show ?thesis
    using run sends_deliver_in_order [OF sdb.sled_contract_axioms inv ok(1) run ok(2)] by simp
qed

section \<open>Reading\<close>

lemma fetch_after_read_conv:
  "fetch_user_messages_after K st uid after limit =
     read_conv K st (Inbox uid) (case after of Some i \<Rightarrow> wrap_i64 (i + 1) | None \<Rightarrow> 0) i64_max limit"
  by (simp add: fetch_user_messages_after_def Let_def)

lemma filter_log_max:
  assumes "\<forall>m \<in> fst ` set L. id_ok m"
  shows "filter (\<lambda>(m, v). lo \<le> m \<and> m < i64_max) L = filter (\<lambda>(m, v). lo \<le> m) L"
  using assms by (intro filter_cong) (force simp: id_ok_def)+

text \<open>
  C29 The incremental fetch of an inbox returns, oldest first, the newest \<open>limit\<close> of the messages
  with an id above the client's cursor: all of them, none twice and none missing, as long as
  there are at most \<open>limit\<close>; without a cursor the whole inbox counts.
\<close>

theorem fetch_after_cursor:
  assumes "sled_contract K contents" "store_inv contents n st" "in_i64 uid"
    and "case after of None \<Rightarrow> True | Some i \<Rightarrow> 0 \<le> i \<and> i < i64_max"
    and "fetch_user_messages_after K st uid after limit = Inr page"
  shows "let newer = filter (\<lambda>(m, v). case after of None \<Rightarrow> True | Some i \<Rightarrow> i < m)
               (msg_log contents st (Inbox uid))
         in page = drop (length newer - limit) newer \<and> (length newer \<le> limit \<longrightarrow> page = newer)"
proof -
  let ?lo = "case after of Some i \<Rightarrow> i + 1 | None \<Rightarrow> 0" and ?L = "msg_log contents st (Inbox uid)"
  have lo: "0 \<le> ?lo" "?lo \<le> i64_max" "(case after of Some i \<Rightarrow> wrap_i64 (i + 1) | None \<Rightarrow> 0) = ?lo"
    using assms(4) by (auto simp: i64_max_def in_i64_def i64_min_def split: option.splits)
  have ids: "\<forall>m \<in> fst ` set ?L. id_ok m"
    using sled_contract.mail_ids [OF assms(1,2), of "Inbox uid"] assms(3) by simp
  have "page = log_page ?lo i64_max limit ?L"
    using sled_contract.mail_read [OF assms(1,2), of "Inbox uid" ?lo i64_max limit page]
      assms(3,5) lo by (simp add: fetch_after_read_conv i64_max_def)
  moreover have "filter (\<lambda>(m, v). ?lo \<le> m) ?L =
      filter (\<lambda>(m, v). case after of None \<Rightarrow> True | Some i \<Rightarrow> i < m) ?L"
    using ids by (intro filter_cong) (auto simp: id_ok_def split: option.splits)
  ultimately show ?thesis by (simp add: log_page_def Let_def filter_log_max [OF ids])
qed

lemma demo_fetch:
  "case post_all (post sorted_sled) demo_db demo_sends of None \<Rightarrow> False
   | Some (mids, st') \<Rightarrow> fetch_user_messages_after sorted_sled st' 5 (Some 1) 10 = Inr [(2, ''all''), (3, ''yo'')]"
  by code_simp

lemma demo_run_inv:
  assumes "post_all (post sorted_sled) demo_db demo_sends = Some (mids, st')"
  shows "store_inv map_of 0 st'"
proof -
  have "store_inv map_of (0 + length demo_sends) demo_db"
    by (rule demo_db_inv) (simp add: demo_sends_def i64_max_def)
  moreover have "list_all req_ok demo_sends" "conv_ok (Inbox 5)"
    by (simp_all add: demo_sends_def in_i64_def i64_min_def i64_max_def)
  ultimately show ?thesis
    using sled_contract.mail_delivers [OF sdb.sled_contract_axioms _ _ assms, of 0 "Inbox 5"] by blast
qed

theorem fetch_after_cursor_witness:
  "\<exists>mids st'. post_all (post sorted_sled) demo_db demo_sends = Some (mids, st') \<and>
     filter (\<lambda>(m, v). 1 < m) (msg_log map_of st' (Inbox 5)) \<noteq> [] \<and>
     fetch_user_messages_after sorted_sled st' 5 (Some 1) 10 = Inr [(2, ''all''), (3, ''yo'')]"
proof -
  obtain mids st' where run: "post_all (post sorted_sled) demo_db demo_sends = Some (mids, st')"
    and fetch: "fetch_user_messages_after sorted_sled st' 5 (Some 1) 10 = Inr [(2, ''all''), (3, ''yo'')]"
    using demo_fetch by (auto split: option.splits)
  have "in_i64 5" "0 \<le> (1::i64) \<and> 1 < i64_max" by (simp_all add: in_i64_def i64_min_def i64_max_def)
  then have "filter (\<lambda>(m, v). 1 < m) (msg_log map_of st' (Inbox 5)) \<noteq> []"
    using fetch_after_cursor [OF sdb.sled_contract_axioms demo_run_inv [OF run] _ _ fetch]
    by (auto simp: Let_def)
  then show ?thesis using run fetch by blast
qed

text \<open>The three readers of older history.\<close>

definition before_id :: "i64 option \<Rightarrow> i64" where
  "before_id before = (case before of Some i \<Rightarrow> i | None \<Rightarrow> i64_max)"

text \<open>
  C33 Reading backwards: each of the three history readers returns, oldest first, the newest
  \<open>limit\<close> messages below the given id of exactly the conversation asked for. The direct
  conversation may be named from either side.
\<close>

theorem history_before_pages:
  assumes "sled_contract K contents" "store_inv contents n st" "in_i64 a" "in_i64 b"
    and "0 \<le> before_id before" "before_id before \<le> i64_max"
  shows "(fetch_dm_messages_before K st a b before limit = Inr page \<longrightarrow>
      page = log_page 0 (before_id before) limit (msg_log contents st (DmLog b a))) \<and>
    (fetch_group_messages_before K st a before limit = Inr page \<longrightarrow>
      page = log_page 0 (before_id before) limit (msg_log contents st (GroupLog a))) \<and>
    (fetch_user_messages_before K st a before limit = Inr page \<longrightarrow>
      page = log_page 0 (before_id before) limit (msg_log contents st (Inbox a)))"
proof -
  have eqs: "fetch_dm_messages_before K st a b before limit = read_conv K st (DmLog a b) 0 (before_id before) limit"
    "fetch_group_messages_before K st a before limit = read_conv K st (GroupLog a) 0 (before_id before) limit"
    "fetch_user_messages_before K st a before limit = read_conv K st (Inbox a) 0 (before_id before) limit"
    by (simp_all add: fetch_dm_messages_before_def fetch_group_messages_before_def
        fetch_user_messages_before_def before_id_def Let_def)
  have "msg_log contents st (DmLog b a) = msg_log contents st (DmLog a b)"
    by (simp add: msg_log_def conv_log_def key_dm_msg_commute)
  then show ?thesis
    using sled_contract.mail_read [OF assms(1,2) _ _ _ assms(5,6), of _ 0] assms(3,4)
    by (simp add: eqs i64_max_def)
qed

lemma demo_history:
  "case post_all (post sorted_sled) demo_db demo_sends of None \<Rightarrow> False
   | Some (mids, st') \<Rightarrow>
       fetch_dm_messages_before sorted_sled st' 5 7 (Some 3) 10 = Inr [(1, ''hi'')] \<and>
       fetch_group_messages_before sorted_sled st' 5 (Some 3) 10 = Inr []"
  by code_simp

theorem history_before_pages_witness:
  "\<exists>mids st'. post_all (post sorted_sled) demo_db demo_sends = Some (mids, st') \<and>
     log_page 0 3 10 (msg_log map_of st' (DmLog 7 5)) = [(1, ''hi'')]"
proof -
  obtain mids st' where run: "post_all (post sorted_sled) demo_db demo_sends = Some (mids, st')"
    and fetch: "fetch_dm_messages_before sorted_sled st' 5 7 (Some 3) 10 = Inr [(1, ''hi'')]"
    using demo_history by (auto split: option.splits)
  have "in_i64 5" "in_i64 7" "0 \<le> before_id (Some 3)" "before_id (Some 3) \<le> i64_max"
    by (simp_all add: in_i64_def i64_min_def i64_max_def before_id_def)
  then have "log_page 0 3 10 (msg_log map_of st' (DmLog 7 5)) = [(1, ''hi'')]"
    using history_before_pages [OF sdb.sled_contract_axioms demo_run_inv [OF run],
        of 5 7 "Some 3" 10 "[(1, ''hi'')]"] fetch by (simp add: before_id_def)
  then show ?thesis using run by blast
qed

section \<open>Markers of deferred messages\<close>

text \<open>The markers a database holds.\<close>

definition stored_markers :: "(bytes \<rightharpoonup> bytes) \<Rightarrow> PendingMessageMarker set" where
  "stored_markers c =
     {k. id_ok (mk_mid k) \<and> in_i64 (mk_sender_uid k) \<and> in_i64 (mk_target_uid k) \<and>
         in_i64 (mk_created_at_millis k) \<and>
         c (key_pending_message_marker (mk_mid k)) =
           Some (pending_marker_value (mk_sender_uid k) (mk_target_uid k) (mk_created_at_millis k))}"

definition marker_of :: "bytes \<times> bytes \<Rightarrow> PendingMessageMarker" where
  "marker_of kv =
     (case the (decode_pending_marker_value (snd kv)) of
        (s, t, at) \<Rightarrow> \<lparr>mk_mid = the (decode_key_pending_message_marker (fst kv)),
          mk_sender_uid = s, mk_target_uid = t, mk_created_at_millis = at\<rparr>)"

lemma collect_markers_Inr:
  "list_all2 (\<lambda>x item. item = Inr x \<or> isl item) xs items \<Longrightarrow> collect_markers items = Inr ms \<Longrightarrow>
   ms = map marker_of xs"
proof (induction xs items arbitrary: ms rule: list_all2_induct)
  case (Cons x xs item items)
  then have "item = Inr x" by (cases item) auto
  then show ?case using Cons.prems Cons.IH
    by (cases x) (auto simp: marker_of_def split: option.splits sum.splits)
qed simp

lemma pending_value_inj:
  "in_i64 s \<Longrightarrow> in_i64 t \<Longrightarrow> in_i64 c \<Longrightarrow> in_i64 s' \<Longrightarrow> in_i64 t' \<Longrightarrow> in_i64 c' \<Longrightarrow>
   pending_marker_value s t c = pending_marker_value s' t' c' \<longleftrightarrow> s = s' \<and> t = t' \<and> c = c'"
  using decode_pending_marker_value_value by (metis option.inject prod.inject)

lemma pending_key_entry:
  assumes "wf_entry n k v" "has_prefix ''PEND/'' k"
  shows "\<exists>m s t c. id_ok m \<and> in_i64 s \<and> in_i64 t \<and> in_i64 c \<and>
    k = key_pending_message_marker m \<and> v = pending_marker_value s t c"
proof -
  have "k \<noteq> key_sequence ty" "k \<noteq> key_merged_msg m" "k \<noteq> key_msg m" "k \<noteq> conv_key cv m" for ty m cv
    using assms(2) by (cases cv; auto simp: has_prefix_def key_defs Let_def)+
  then show ?thesis using assms(1) unfolding wf_entry_def entry_of_def by metis
qed

context sled_contract
begin

lemma markers_listed:
  assumes "store_inv contents n st" "pending_message_markers K st = Inr ms"
  shows "set ms = stored_markers (contents (mdb_db st))"
proof -
  let ?c = "contents (mdb_db st)"
  obtain xs where xs: "set xs = {(k, v). ?c k = Some v \<and> has_prefix ''PEND/'' k}"
    "list_all2 (\<lambda>x item. item = Inr x \<or> isl item) xs (sled_scan_prefix K (mdb_db st) ''PEND/'')"
    using scan_ok unfolding lists_bindings_def by blast
  have ms: "ms = map marker_of xs"
    using collect_markers_Inr [OF xs(2)] assms(2) by (simp add: pending_message_markers_def)
  have ok: "store_ok (seq_next (mdb_sequence st)) ?c" using assms(1) by (simp add: store_inv_def Let_def)
  show ?thesis
  proof (intro set_eqI iffI)
    fix k assume "k \<in> set ms"
    then obtain x where x: "x \<in> set xs" "k = marker_of x" using ms by auto
    then have "wf_entry (seq_next (mdb_sequence st)) (fst x) (snd x)" "has_prefix ''PEND/'' (fst x)"
      "?c (fst x) = Some (snd x)" using xs(1) ok by (auto simp: store_ok_def)
    then obtain m s t c where "id_ok m" "in_i64 s" "in_i64 t" "in_i64 c"
      "fst x = key_pending_message_marker m" "snd x = pending_marker_value s t c"
      "?c (fst x) = Some (snd x)" using pending_key_entry by metis
    then show "k \<in> stored_markers ?c" using x(2) by (simp add: marker_of_def stored_markers_def)
  next
    fix k assume k: "k \<in> stored_markers ?c"
    let ?x = "(key_pending_message_marker (mk_mid k),
      pending_marker_value (mk_sender_uid k) (mk_target_uid k) (mk_created_at_millis k))"
    have "?x \<in> set xs" using k xs(1) by (simp add: stored_markers_def has_prefix_def key_defs)
    moreover have "marker_of ?x = k" using k by (simp add: stored_markers_def marker_of_def)
    ultimately show "k \<in> set ms" using ms by force
  qed
qed

end

context sled_contract
begin

lemma pending_send_marker:
  assumes "store_inv contents (Suc n) st" "in_i64 a" "in_i64 b" "in_i64 at"
    and "send_to_dm_with_pending_marker K st a b at msg = (Inr mid, st1)"
  shows "store_inv contents n st1 \<and> stored_markers (contents (mdb_db st1)) =
    insert \<lparr>mk_mid = mid, mk_sender_uid = a, mk_target_uid = b, mk_created_at_millis = at\<rparr>
      (stored_markers (contents (mdb_db st)))"
proof -
  let ?r = "ToDm a b (Some at) msg"
  have r: "req_ok ?r" "post K st ?r = (Inr mid, st1)" using assms by simp_all
  obtain st0 db' where g: "generate_msg_id K st = (Inr mid, st0)"
    and q: "sled_apply_batch K (mdb_db st0)
        (deliver_batch mid (req_msg ?r) (req_convs ?r) (req_extra mid ?r)) = (None, db')"
    and st1: "st1 = st0\<lparr>mdb_db := db'\<rparr>"
    using r(2) unfolding post_unfold by (auto split: prod.splits sum.splits option.splits)
  from generate_msg_id_sound [OF assms(1) g] have mid: "id_ok mid"
    and frame: "\<And>k. k \<noteq> key_sequence MSG_SEQUENCE \<Longrightarrow>
      contents (mdb_db st0) k = contents (mdb_db st) k" by auto
  have c1: "contents db' (key_pending_message_marker m) = (if m = mid then Some (pending_marker_value a b at)
      else contents (mdb_db st) (key_pending_message_marker m))" if "id_ok m" for m
  proof -
    have "contents db' = apply_batch
        (deliver_batch mid (req_msg ?r) (req_convs ?r) (req_extra mid ?r)) (contents (mdb_db st0))"
      using batch_ok [OF q] by simp
    then show ?thesis using that mid frame
      by (simp add: deliver_batch_def apply_batch_same_value image_iff)
  qed
  have "stored_markers (contents db') =
      insert \<lparr>mk_mid = mid, mk_sender_uid = a, mk_target_uid = b, mk_created_at_millis = at\<rparr>
        {k \<in> stored_markers (contents (mdb_db st)). mk_mid k \<noteq> mid}"
    using c1 mid assms(2-4) pending_value_inj
    by (auto simp: stored_markers_def split: if_splits intro!: PendingMessageMarker.equality)
  moreover have "mk_mid k \<noteq> mid" if "k \<in> stored_markers (contents (mdb_db st))" for k
  proof -
    from that have "contents (mdb_db st0) (key_pending_message_marker (mk_mid k)) \<noteq> None"
      using frame by (auto simp: stored_markers_def)
    then obtain v where "contents (mdb_db st0) (key_pending_message_marker (mk_mid k)) = Some v" by blast
    then have "wf_entry mid (key_pending_message_marker (mk_mid k)) v"
      using generate_msg_id_sound [OF assms(1) g] by (auto simp: store_ok_def)
    then show ?thesis
      using that by (auto simp: wf_entry_def entry_of_def stored_markers_def)
  qed
  ultimately show ?thesis
    using post_inv [OF assms(1) r] by (auto simp: st1)
qed

lemma marker_removed:
  assumes "store_inv contents n st" "in_i64 mid" "remove_pending_message_marker K st mid = (Inr (), st1)"
  shows "store_inv contents n st1 \<and>
    stored_markers (contents (mdb_db st1)) = {k \<in> stored_markers (contents (mdb_db st)). mk_mid k \<noteq> mid} \<and>
    (\<forall>cv. msg_log contents st1 cv = msg_log contents st cv)"
proof -
  obtain db' where r: "sled_remove K (mdb_db st) (key_pending_message_marker mid) = (None, db')"
    and st1: "st1 = st\<lparr>mdb_db := db'\<rparr>"
    using assms(3) by (auto simp: remove_pending_message_marker_def split: prod.splits option.splits)
  have c: "contents db' = (contents (mdb_db st))(key_pending_message_marker mid := None)"
    using remove_ok [OF r] by simp
  have "store_inv contents n st1"
    using assms(1) store_ok_del by (auto simp: store_inv_def Let_def st1 c lease_stored_def)
  moreover have "stored_markers (contents db') = {k \<in> stored_markers (contents (mdb_db st)). mk_mid k \<noteq> mid}"
    using assms(2) by (auto simp: c stored_markers_def)
  moreover have "msg_log contents st1 cv = msg_log contents st cv" for cv
    by (simp add: msg_log_def conv_log_def st1 c)
  ultimately show ?thesis by (simp add: st1)
qed

lemma reopened:
  assumes "store_inv contents (Suc n) st" "msgdb_open K (msgdb_drop K st) = (Inr st2, db2)"
  shows "store_inv contents n st2 \<and> (\<forall>cv. msg_log contents st2 cv = msg_log contents st cv) \<and>
    stored_markers (contents (mdb_db st2)) = stored_markers (contents (mdb_db st))"
proof -
  let ?s = "mdb_sequence st" and ?c = "contents (mdb_db st)" and ?d = "msgdb_drop K st"
  obtain x where x: "seq_ty ?s = MSG_SEQUENCE" "store_ok (seq_next ?s) ?c" "lease_stored ?c MSG_SEQUENCE x"
    "1 \<le> seq_next ?s" "seq_next ?s \<le> seq_leased ?s" "seq_leased ?s \<le> x" "x + 32 * int (Suc n) \<le> i64_max"
    using assms(1) by (auto simp: store_inv_def Let_def)
  have f1: "contents ?d k = ?c k" if "k \<noteq> key_sequence MSG_SEQUENCE" for k
  proof -
    obtain r d where "sled_insert K (mdb_db st) (key_sequence (seq_ty ?s)) (i64_to_be_bytes (seq_next ?s)) = (r, d)"
      by fastforce
    then show ?thesis using insert_ok that x(1) by (fastforce simp: msgdb_drop_def sequence_release_def)
  qed
  obtain y where y: "y \<in> {x, seq_next ?s}" "lease_stored (contents ?d) MSG_SEQUENCE y"
    using release_cases [of "mdb_db st" ?s x] x(1,3) by (auto simp: msgdb_drop_def)
  obtain s2 where s2: "sequence_new K ?d MSG_SEQUENCE = (Inr s2, mdb_db st2)" "mdb_sequence st2 = s2"
    using assms(2) by (auto simp: msgdb_open_def split: prod.splits sum.splits)
  have yb: "1 \<le> y" "y + 32 \<le> i64_max" using y(1) x(4-7) by auto
  from open_cases [OF s2(1) y(2) yb] have
    s2': "s2 = \<lparr>seq_ty = MSG_SEQUENCE, seq_next = y, seq_leased = y + 32\<rparr>"
    "lease_stored (contents (mdb_db st2)) MSG_SEQUENCE (y + 32)" by auto
  have f2: "contents (mdb_db st2) k = ?c k" if "k \<noteq> key_sequence MSG_SEQUENCE" for k
    using s2(1) f1 [OF that] that update_lease_frame [of MSG_SEQUENCE ?d]
    by (auto simp: sequence_new_def split: prod.splits sum.splits)
  have "seq_next ?s \<le> y" using y(1) x(4-6) by auto
  then have "store_ok y (contents (mdb_db st2))"
    using store_ok_sequence_frame [OF store_ok_mono [OF x(2)] f2] by blast
  then have "store_inv contents n st2"
    using s2(2) s2' y(1) x(4-7) yb
    by (auto simp: store_inv_def Let_def intro!: exI [of _ "y + 32"])
  moreover have "msg_log contents st2 cv = msg_log contents st cv" for cv
    unfolding msg_log_def by (rule conv_log_sequence_frame) (rule f2)
  moreover have "stored_markers (contents (mdb_db st2)) = stored_markers ?c"
    by (simp add: stored_markers_def f2)
  ultimately show ?thesis by blast
qed

end

text \<open>
  C31 A deferred direct message is discoverable until it is settled: right after the send the
  listing holds its marker with sender, target and time, beside exactly the markers there
  were before; removing the marker takes it and no other one out of the listing, and leaves
  every conversation as it is.
\<close>

theorem pending_marker_lifecycle:
  assumes "sled_contract K contents" "store_inv contents (Suc n) st"
    and "in_i64 a" "in_i64 b" "in_i64 at"
    and "send_to_dm_with_pending_marker K st a b at msg = (Inr mid, st1)"
    and "remove_pending_message_marker K st1 mid = (Inr (), st2)"
    and "pending_message_markers K st = Inr ms" "pending_message_markers K st1 = Inr ms1"
    and "pending_message_markers K st2 = Inr ms2"
  shows "set ms1 = insert \<lparr>mk_mid = mid, mk_sender_uid = a, mk_target_uid = b, mk_created_at_millis = at\<rparr> (set ms) \<and>
    set ms2 = {k \<in> set ms. mk_mid k \<noteq> mid} \<and>
    (\<forall>cv. msg_log contents st2 cv = msg_log contents st1 cv)"
proof -
  note sent = sled_contract.pending_send_marker [OF assms(1-6)]
  have "id_ok mid"
    using sled_contract.post_delivers [OF assms(1,2), of "ToDm a b (Some at) msg" mid st1] assms(3-6) by simp
  note removed = sled_contract.marker_removed [OF assms(1) _ id_ok_in_i64 [OF this] assms(7)]
  show ?thesis
    using sent removed [of n] sled_contract.markers_listed [OF assms(1,2,8)]
      sled_contract.markers_listed [OF assms(1) _ assms(9)] sled_contract.markers_listed [OF assms(1) _ assms(10)]
    by auto
qed

definition demo_sent :: "sorted_db msgdb" where
  "demo_sent = snd (send_to_dm_with_pending_marker sorted_sled demo_db 7 5 1000 ''later'')"

definition demo_settled :: "sorted_db msgdb" where
  "demo_settled = snd (remove_pending_message_marker sorted_sled demo_sent 1)"

lemma demo_pending:
  "send_to_dm_with_pending_marker sorted_sled demo_db 7 5 1000 ''later'' = (Inr 1, demo_sent)"
  "remove_pending_message_marker sorted_sled demo_sent 1 = (Inr (), demo_settled)"
  "pending_message_markers sorted_sled demo_db = Inr []"
  "pending_message_markers sorted_sled demo_sent =
     Inr [\<lparr>mk_mid = 1, mk_sender_uid = 7, mk_target_uid = 5, mk_created_at_millis = 1000\<rparr>]"
  "pending_message_markers sorted_sled demo_settled = Inr []"
  by code_simp+

theorem pending_marker_lifecycle_witness:
  "msg_log map_of demo_settled (Inbox 5) = msg_log map_of demo_sent (Inbox 5) \<and>
   pending_message_markers sorted_sled demo_settled = Inr []"
proof -
  have inv: "store_inv map_of (Suc 0) demo_db" by (rule demo_db_inv) (simp add: i64_max_def)
  have "in_i64 7" "in_i64 5" "in_i64 1000" by (simp_all add: in_i64_def i64_min_def i64_max_def)
  from pending_marker_lifecycle [OF sdb.sled_contract_axioms inv this demo_pending]
  show ?thesis using demo_pending(5) by blast
qed

text \<open>
  C34 Closing the database and opening it again loses nothing: every conversation and every marker
  is as before, and the reopened database satisfies the invariant, so its next ids are still
  above all stored ones.
\<close>

theorem reopen_preserves_messages:
  assumes "sled_contract K contents" "store_inv contents (Suc n) st"
    and "msgdb_open K (msgdb_drop K st) = (Inr st2, db2)"
  shows "store_inv contents n st2 \<and> (\<forall>cv. msg_log contents st2 cv = msg_log contents st cv) \<and>
    stored_markers (contents (mdb_db st2)) = stored_markers (contents (mdb_db st))"
  using sled_contract.reopened [OF assms] .

lemma demo_sent_inv: "store_inv map_of (Suc 0) demo_sent"
proof -
  have "store_inv map_of (Suc (Suc 0)) demo_db" by (rule demo_db_inv) (simp add: i64_max_def)
  then show ?thesis
    using sdb.post_inv [of "Suc 0" demo_db "ToDm 7 5 (Some 1000) ''later''"] demo_pending(1)
    by (simp add: in_i64_def i64_min_def i64_max_def)
qed

definition demo_reopened :: "sorted_db msgdb" where
  "demo_reopened =
     \<lparr>mdb_db = snd (msgdb_open sorted_sled (msgdb_drop sorted_sled demo_sent)),
      mdb_sequence = \<lparr>seq_ty = MSG_SEQUENCE, seq_next = 2, seq_leased = 34\<rparr>\<rparr>"

lemma demo_reopen:
  "msgdb_open sorted_sled (msgdb_drop sorted_sled demo_sent) = (Inr demo_reopened, mdb_db demo_reopened)"
  by code_simp

theorem reopen_preserves_messages_witness:
  "msg_log map_of demo_reopened (Inbox 5) = msg_log map_of demo_sent (Inbox 5) \<and>
   store_inv map_of 0 demo_reopened"
proof -
  show ?thesis
    using reopen_preserves_messages [OF sdb.sled_contract_axioms demo_sent_inv demo_reopen] by blast
qed

end
