(* ===== verification/Chat_Types.thy ===== *)
theory Chat_Types
  imports Msg_Store
begin

text \<open>
  The data of the chat server: messages (\<open>src/api/message.rs\<close>), the in-memory cache of users
  and groups and the events it broadcasts (\<open>src/state.rs\<close>, \<open>src/api/group.rs\<close>). JSON values
  (\<open>serde_json::Value\<close>) are the type variable \<open>'j\<close>. A \<open>BTreeMap\<close> or \<open>HashMap\<close> is a finite
  map, a \<open>BTreeSet\<close> a finite set that is listed in ascending order.
\<close>

type_synonym DateTime = instant
type_synonym LangId = string

definition DateTime_zero :: DateTime where
  "DateTime_zero = 0"

section \<open>Messages\<close>

datatype MessageTarget = TargetUser i64 | TargetGroup i64

record 'j ChatMessageContent =
  cc_properties :: "(string, 'j) fmap option"
  cc_content_type :: string
  cc_content :: string

record 'j MessageNormal =
  nm_content :: "'j ChatMessageContent"
  nm_expires_in :: "i64 option"

record 'j MessageReply =
  rp_mid :: i64
  rp_content :: "'j ChatMessageContent"

datatype 'j MessageReactionDetail =
    ReactionEdit "'j ChatMessageContent"
  | ReactionLike string
  | ReactionDelete

record 'j MessageReaction =
  rx_mid :: i64
  rx_detail :: "'j MessageReactionDetail"

datatype 'j MessageDetail =
    Normal "'j MessageNormal"
  | Reaction "'j MessageReaction"
  | Reply "'j MessageReply"

record 'j ChatMessagePayload =
  pl_from_uid :: i64
  pl_created_at :: DateTime
  pl_target :: MessageTarget
  pl_detail :: "'j MessageDetail"

record 'j MergedMessagePayload =
  mp_from_uid :: i64
  mp_target :: MessageTarget
  mp_content :: "'j ChatMessageContent"
  mp_created_at :: DateTime

record 'j ChatMessage =
  cm_mid :: i64
  cm_payload :: "'j ChatMessagePayload"

section \<open>Groups\<close>

datatype GroupType = Public | Private i64

fun gt_is_public :: "GroupType \<Rightarrow> bool" where
  "gt_is_public Public = True"
| "gt_is_public (Private owner) = False"

fun gt_owner :: "GroupType \<Rightarrow> i64 option" where
  "gt_owner Public = None"
| "gt_owner (Private owner) = Some owner"

record 'j PinnedMessage =
  pin_mid :: i64
  pin_created_by :: i64
  pin_created_at :: DateTime
  pin_content :: "'j ChatMessageContent"

record 'j CacheGroup =
  cg_ty :: GroupType
  cg_name :: string
  cg_description :: string
  cg_members :: "i64 set"
  cg_created_at :: DateTime
  cg_updated_at :: DateTime
  cg_avatar_updated_at :: DateTime
  cg_pinned_messages :: "'j PinnedMessage list"
  cg_e2e_enabled :: bool

record 'j Group =
  g_gid :: i64
  g_owner :: "i64 option"
  g_name :: string
  g_description :: "string option"
  g_members :: "i64 list"
  g_is_public :: bool
  g_avatar_updated_at :: DateTime
  g_pinned_messages :: "'j PinnedMessage list"
  g_e2e_enabled :: bool

definition contains_user :: "'j CacheGroup \<Rightarrow> i64 \<Rightarrow> bool" where
  "contains_user g uid \<longleftrightarrow> gt_is_public (cg_ty g) \<or> uid \<in> cg_members g"

definition description_opt :: "'j CacheGroup \<Rightarrow> string option" where
  "description_opt g = (if cg_description g \<noteq> '''' then Some (cg_description g) else None)"

definition api_group :: "'j CacheGroup \<Rightarrow> i64 \<Rightarrow> 'j Group" where
  "api_group g gid =
     \<lparr> g_gid = gid, g_owner = gt_owner (cg_ty g), g_name = cg_name g,
       g_description = description_opt g,
       g_members = sorted_list_of_set (cg_members g),
       g_is_public = gt_is_public (cg_ty g),
       g_avatar_updated_at = cg_avatar_updated_at g,
       g_pinned_messages = cg_pinned_messages g, g_e2e_enabled = cg_e2e_enabled g \<rparr>"

section \<open>Users\<close>

text \<open>A live event stream of a device: the sending end, named by a number.\<close>

type_synonym stream_id = nat

record CacheDevice =
  dev_token :: "string option"
  dev_sender :: "stream_id option"

datatype UserStatus = StatusNormal | StatusFrozen

record BotKey =
  bk_name :: string
  bk_key :: string
  bk_created_at :: DateTime
  bk_last_used :: "DateTime option"

record CacheUser =
  cu_email :: "string option"
  cu_name :: string
  cu_password :: "string option"
  cu_gender :: i32
  cu_is_admin :: bool
  cu_language :: LangId
  cu_create_by :: string
  cu_devices :: "(string, CacheDevice) fmap"
  cu_mute_user :: "(i64, DateTime option) fmap"
  cu_mute_group :: "(i64, DateTime option) fmap"
  cu_burn_after_reading_user :: "(i64, i64) fmap"
  cu_burn_after_reading_group :: "(i64, i64) fmap"
  cu_read_index_user :: "(i64, i64) fmap"
  cu_read_index_group :: "(i64, i64) fmap"
  cu_created_at :: DateTime
  cu_updated_at :: DateTime
  cu_avatar_updated_at :: DateTime
  cu_status :: UserStatus
  cu_is_guest :: bool
  cu_webhook_url :: "string option"
  cu_is_bot :: bool
  cu_bot_keys :: "(i64, BotKey) fmap"

record CodeValue =
  cv_remain_times :: i32
  cv_expired_at :: instant
  cv_email :: string

record CodeCache =
  codes :: "(string, CodeValue) fmap"
  email_code :: "(string, string) fmap"

record 'j Cache =
  ca_groups :: "(i64, 'j CacheGroup) fmap"
  ca_users :: "(i64, CacheUser) fmap"
  ca_codes :: CodeCache

section \<open>Events\<close>

datatype UpdateAction = ActionCreate | ActionUpdate | ActionDelete

datatype KickReason = LoginFromOtherDevice | DeleteUser | DeleteDevice | Logout | Frozen

datatype KickFromGroupReason = Kicked | GroupDeleted

record UserUpdateLog =
  ul_log_id :: i64
  ul_action :: UpdateAction
  ul_uid :: i64
  ul_email :: "string option"
  ul_name :: "string option"
  ul_gender :: "i32 option"
  ul_language :: "LangId option"
  ul_is_admin :: "bool option"
  ul_is_bot :: "bool option"
  ul_avatar_updated_at :: "DateTime option"

record GroupChangedMessage =
  gc_gid :: i64
  gc_name :: "string option"
  gc_description :: "string option"
  gc_owner :: "i64 option"
  gc_avatar_updated_at :: "DateTime option"
  gc_is_public :: "bool option"
  gc_e2e_enabled :: "bool option"

text \<open>What changed in the settings of a user: mutes, burn-after-reading times, read indexes.\<close>

record UserSettingsChangedMessage =
  us_from_device :: string
  us_add_mute_users :: "(i64 \<times> DateTime option) list"
  us_remove_mute_users :: "i64 list"
  us_add_mute_groups :: "(i64 \<times> DateTime option) list"
  us_remove_mute_groups :: "i64 list"
  us_read_index_users :: "(i64 \<times> i64) list"
  us_read_index_groups :: "(i64 \<times> i64) list"
  us_burn_after_reading_users :: "(i64 \<times> i64) list"
  us_burn_after_reading_groups :: "(i64 \<times> i64) list"

text \<open>
  The broadcasts the modelled code sends, with the constructors of \<open>BroadcastEvent\<close>; the one for
  the online state of a user has no sender in the model.
\<close>

datatype 'j BroadcastEvent =
    Chat "i64 set" "'j ChatMessage"
  | UserLog UserUpdateLog
  | UserJoinedGroup "i64 set" i64 "i64 list"
  | UserLeavedGroup "i64 set" i64 "i64 list"
  | JoinedGroup "i64 set" "'j Group"
  | KickFromGroup "i64 set" i64 KickFromGroupReason
  | GroupChanged "i64 set" GroupChangedMessage
  | PinnedMessageUpdated "i64 set" i64 i64 "'j PinnedMessage option"
  | E2eIdentityChanged "i64 set" i64 string i64 DateTime
  | E2ePendingEnvelopeAdded "i64 set" i64 i64 string i64 string
  | UserSettingsChanged i64 UserSettingsChangedMessage

text \<open>The users an event is for; \<open>None\<close> when it goes to every stream.\<close>

fun event_targets :: "'j BroadcastEvent \<Rightarrow> i64 set option" where
  "event_targets (Chat ts m) = Some ts"
| "event_targets (UserLog l) = None"
| "event_targets (UserJoinedGroup ts gid us) = Some ts"
| "event_targets (UserLeavedGroup ts gid us) = Some ts"
| "event_targets (JoinedGroup ts g) = Some ts"
| "event_targets (KickFromGroup ts gid r) = Some ts"
| "event_targets (GroupChanged ts m) = Some ts"
| "event_targets (PinnedMessageUpdated ts gid mid m) = Some ts"
| "event_targets (E2eIdentityChanged ts uid device_id version updated_at) = Some ts"
| "event_targets (E2ePendingEnvelopeAdded ts mid uid device_id version envelope) = Some ts"
| "event_targets (UserSettingsChanged uid m) = Some {uid}"

fun event_gid :: "'j BroadcastEvent \<Rightarrow> i64 option" where
  "event_gid (Chat ts m) = (case pl_target (cm_payload m) of TargetGroup gid \<Rightarrow> Some gid | TargetUser u \<Rightarrow> None)"
| "event_gid (UserLog l) = None"
| "event_gid (UserJoinedGroup ts gid us) = Some gid"
| "event_gid (UserLeavedGroup ts gid us) = Some gid"
| "event_gid (JoinedGroup ts g) = Some (g_gid g)"
| "event_gid (KickFromGroup ts gid r) = Some gid"
| "event_gid (GroupChanged ts m) = Some (gc_gid m)"
| "event_gid (PinnedMessageUpdated ts gid mid m) = Some gid"
| "event_gid (E2eIdentityChanged ts uid device_id version updated_at) = None"
| "event_gid (E2ePendingEnvelopeAdded ts mid uid device_id version envelope) = None"
| "event_gid (UserSettingsChanged uid m) = None"

text \<open>The authenticated caller: \<open>CurrentUser\<close> of \<open>src/api/token.rs\<close>.\<close>

record Token =
  tk_uid :: i64
  tk_device :: string
  tk_is_admin :: bool
  tk_is_guest :: bool

end
