(* ===== verification/Db_Tables.thy ===== *)
theory Db_Tables
  imports Chat_Types
begin

text \<open>
  The tables of the SQLite database (\<open>migrations/\<close>) that the group and user code uses, and the
  statements it executes on them: each is a total function on tables, \<open>None\<close> when a
  uniqueness or foreign-key constraint of the schema rejects it. Deletions cascade as the
  schema says. The other tables that reference a user or a group are outside the model.
\<close>

record group_row =
  gr_name :: string
  gr_description :: string
  gr_owner :: "i64 option"
  gr_is_public :: bool
  gr_created_at :: DateTime
  gr_updated_at :: DateTime
  gr_avatar_updated_at :: DateTime
  gr_e2e_enabled :: bool

record pin_row =
  pr_gid :: i64
  pr_mid :: i64
  pr_created_by :: i64
  pr_created_at :: DateTime

record user_row =
  ur_email :: "string option"
  ur_name :: string
  ur_password :: "string option"
  ur_gender :: i32
  ur_is_admin :: bool
  ur_language :: LangId
  ur_create_by :: string
  ur_created_at :: DateTime
  ur_updated_at :: DateTime
  ur_avatar_updated_at :: DateTime
  ur_status :: i32
  ur_is_guest :: bool
  ur_webhook_url :: "string option"
  ur_is_bot :: bool

text \<open>Rows of \<open>mute\<close>, \<open>burn_after_reading\<close> and \<open>read_index\<close>: a user, a target, a value.\<close>

record 'v setting_row =
  sr_uid :: i64
  sr_target_uid :: "i64 option"
  sr_target_gid :: "i64 option"
  sr_value :: 'v

record bot_key_row =
  br_id :: i64
  br_uid :: i64
  br_key :: BotKey

record tables =
  tb_user :: "(i64, user_row) fmap"
  tb_user_seq :: i64
  tb_user_log_seq :: i64
  tb_device :: "(i64 \<times> string \<times> string option) list"
  tb_mute :: "DateTime option setting_row list"
  tb_burn_after_reading :: "i64 setting_row list"
  tb_read_index :: "i64 setting_row list"
  tb_bot_key :: "bot_key_row list"
  tb_group :: "(i64, group_row) fmap"
  tb_group_seq :: i64
  tb_group_user :: "(i64 \<times> i64) set"
  tb_pinned_message :: "pin_row list"

section \<open>Statements on groups\<close>

text \<open>\<open>insert into `group` ...\<close>: the row id is above every one used before (\<open>autoincrement\<close>).\<close>

definition sql_insert_group :: "group_row \<Rightarrow> tables \<Rightarrow> i64 \<times> tables" where
  "sql_insert_group row db =
     (let gid = tb_group_seq db + 1
      in (gid, db\<lparr>tb_group := fmupd gid row (tb_group db), tb_group_seq := gid\<rparr>))"

definition sql_update_group :: "i64 \<Rightarrow> (group_row \<Rightarrow> group_row) \<Rightarrow> tables \<Rightarrow> tables" where
  "sql_update_group gid f db = db\<lparr>tb_group := fm_modify gid f (tb_group db)\<rparr>"

definition sql_delete_group :: "i64 \<Rightarrow> tables \<Rightarrow> tables" where
  "sql_delete_group gid db =
     db\<lparr> tb_group := fmdrop gid (tb_group db),
         tb_group_user := Set.filter (\<lambda>(g, u). g \<noteq> gid) (tb_group_user db),
         tb_pinned_message := filter (\<lambda>p. pr_gid p \<noteq> gid) (tb_pinned_message db),
         tb_mute := filter (\<lambda>r. sr_target_gid r \<noteq> Some gid) (tb_mute db),
         tb_burn_after_reading := filter (\<lambda>r. sr_target_gid r \<noteq> Some gid) (tb_burn_after_reading db),
         tb_read_index := filter (\<lambda>r. sr_target_gid r \<noteq> Some gid) (tb_read_index db) \<rparr>"

definition sql_insert_group_user :: "i64 \<Rightarrow> i64 \<Rightarrow> tables \<Rightarrow> tables option" where
  "sql_insert_group_user gid uid db =
     (if (gid, uid) \<in> tb_group_user db \<or> fmlookup (tb_group db) gid = None \<or>
         fmlookup (tb_user db) uid = None
      then None
      else Some (db\<lparr>tb_group_user := insert (gid, uid) (tb_group_user db)\<rparr>))"

fun sql_insert_group_users :: "i64 \<Rightarrow> i64 list \<Rightarrow> tables \<Rightarrow> tables option" where
  "sql_insert_group_users gid [] db = Some db"
| "sql_insert_group_users gid (uid # uids) db =
     (case sql_insert_group_user gid uid db of
        None \<Rightarrow> None
      | Some db' \<Rightarrow> sql_insert_group_users gid uids db')"

definition sql_delete_group_user :: "i64 \<Rightarrow> i64 \<Rightarrow> tables \<Rightarrow> tables" where
  "sql_delete_group_user gid uid db = db\<lparr>tb_group_user := tb_group_user db - {(gid, uid)}\<rparr>"

definition sql_delete_group_users :: "i64 \<Rightarrow> tables \<Rightarrow> tables" where
  "sql_delete_group_users gid db =
     db\<lparr>tb_group_user := Set.filter (\<lambda>(g, u). g \<noteq> gid) (tb_group_user db)\<rparr>"

definition sql_insert_pin :: "pin_row \<Rightarrow> tables \<Rightarrow> tables option" where
  "sql_insert_pin row db =
     (if fmlookup (tb_group db) (pr_gid row) = None \<or> fmlookup (tb_user db) (pr_created_by row) = None
      then None else Some (db\<lparr>tb_pinned_message := tb_pinned_message db @ [row]\<rparr>))"

definition sql_delete_pin :: "i64 \<Rightarrow> i64 \<Rightarrow> tables \<Rightarrow> tables" where
  "sql_delete_pin gid mid db =
     db\<lparr>tb_pinned_message :=
       filter (\<lambda>p. \<not> (pr_gid p = gid \<and> pr_mid p = mid)) (tb_pinned_message db)\<rparr>"

section \<open>Statements on users\<close>

text \<open>\<open>delete from user\<close> cascades to every row that references the user; groups do not.\<close>

definition sql_delete_user :: "i64 \<Rightarrow> tables \<Rightarrow> tables" where
  "sql_delete_user uid db =
     db\<lparr> tb_user := fmdrop uid (tb_user db),
         tb_device := filter (\<lambda>(u, d, t). u \<noteq> uid) (tb_device db),
         tb_mute := filter (\<lambda>r. sr_uid r \<noteq> uid \<and> sr_target_uid r \<noteq> Some uid) (tb_mute db),
         tb_burn_after_reading :=
           filter (\<lambda>r. sr_uid r \<noteq> uid \<and> sr_target_uid r \<noteq> Some uid) (tb_burn_after_reading db),
         tb_read_index :=
           filter (\<lambda>r. sr_uid r \<noteq> uid \<and> sr_target_uid r \<noteq> Some uid) (tb_read_index db),
         tb_bot_key := filter (\<lambda>r. br_uid r \<noteq> uid) (tb_bot_key db),
         tb_group_user := Set.filter (\<lambda>(g, u). u \<noteq> uid) (tb_group_user db),
         tb_pinned_message := filter (\<lambda>p. pr_created_by p \<noteq> uid) (tb_pinned_message db) \<rparr>"

text \<open>\<open>insert into user_log\<close>: only the row id it allocates is used.\<close>

definition sql_insert_user_log :: "tables \<Rightarrow> i64 \<times> tables" where
  "sql_insert_user_log db =
     (let i = tb_user_log_seq db + 1 in (i, db\<lparr>tb_user_log_seq := i\<rparr>))"

definition sql_delete_expired_mute :: "DateTime \<Rightarrow> tables \<Rightarrow> tables" where
  "sql_delete_expired_mute now db =
     db\<lparr>tb_mute := filter (\<lambda>r. \<not> (case sr_value r of Some t \<Rightarrow> t < now | None \<Rightarrow> False)) (tb_mute db)\<rparr>"

section \<open>Facts about the statements\<close>

lemma sql_insert_group_users_Some:
  "sql_insert_group_users gid uids db = Some db' \<longleftrightarrow>
   (distinct uids \<and> (\<forall>u \<in> set uids. (gid, u) \<notin> tb_group_user db \<and> fmlookup (tb_user db) u \<noteq> None) \<and>
    (uids \<noteq> [] \<longrightarrow> fmlookup (tb_group db) gid \<noteq> None) \<and>
    db' = db\<lparr>tb_group_user := Pair gid ` set uids \<union> tb_group_user db\<rparr>)"
proof (induction uids arbitrary: db)
  case (Cons u uids)
  show ?case by (auto simp: sql_insert_group_user_def Cons.IH split: option.splits)
qed auto

end
