(* ===== verification/Chat_State.thy ===== *)
theory Chat_State
  imports Db_Tables
begin

text \<open>
  The state the request handlers share (\<open>State\<close> and \<open>Cache\<close> of \<open>src/state.rs\<close>), and the pieces
  most handlers use. Broadcasts, events for single streams and ids on the channel of updated
  messages are lists, newest last. The JSON encoders of the stored messages are the
  argument \<open>'j codec\<close>.
\<close>

record ('j, 'db) State =
  st_cache :: "'j Cache"
  st_tables :: tables
  st_msg_db :: "'db msgdb"
  st_events :: "'j BroadcastEvent list"
  st_stream_events :: "(stream_id \<times> KickReason) list"
  st_msg_updated :: "i64 list"

type_synonym ('j, 'db, 'a) handler = "('j, 'db) State \<Rightarrow> (api_error + 'a) \<times> ('j, 'db) State"

record 'j codec =
  enc_payload :: "'j ChatMessagePayload \<Rightarrow> bytes option"
  dec_payload :: "bytes \<Rightarrow> 'j ChatMessagePayload option"
  enc_merged :: "'j MergedMessagePayload \<Rightarrow> bytes option"
  dec_merged :: "bytes \<Rightarrow> 'j MergedMessagePayload option"

section \<open>Access\<close>

text \<open>The keys of an ordered map, ascending.\<close>

definition fm_keys :: "(i64, 'v) fmap \<Rightarrow> i64 list" where
  "fm_keys m = sorted_list_of_set (fmdom' m)"

lemma set_fm_keys [simp]: "set (fm_keys m) = fmdom' m"
  by (simp add: fm_keys_def)

lemma sorted_fm_keys [simp]: "sorted_wrt (<) (fm_keys m)"
  by (simp add: fm_keys_def)

lemma distinct_fm_keys [simp]: "distinct (fm_keys m)"
  by (simp add: fm_keys_def)

abbreviation st_groups :: "('j, 'db) State \<Rightarrow> (i64, 'j CacheGroup) fmap" where
  "st_groups st \<equiv> ca_groups (st_cache st)"

abbreviation st_users :: "('j, 'db) State \<Rightarrow> (i64, CacheUser) fmap" where
  "st_users st \<equiv> ca_users (st_cache st)"

definition find_group :: "('j, 'db) State \<Rightarrow> i64 \<Rightarrow> 'j CacheGroup option" where
  "find_group st gid = fmlookup (st_groups st) gid"

definition put_group :: "i64 \<Rightarrow> 'j CacheGroup \<Rightarrow> ('j, 'db) State \<Rightarrow> ('j, 'db) State" where
  "put_group gid g st =
     st\<lparr>st_cache := (st_cache st)\<lparr>ca_groups := fmupd gid g (st_groups st)\<rparr>\<rparr>"

definition set_tables :: "tables \<Rightarrow> ('j, 'db) State \<Rightarrow> ('j, 'db) State" where
  "set_tables db st = st\<lparr>st_tables := db\<rparr>"

definition broadcast :: "'j BroadcastEvent list \<Rightarrow> ('j, 'db) State \<Rightarrow> ('j, 'db) State" where
  "broadcast evs st = st\<lparr>st_events := st_events st @ evs\<rparr>"

text \<open>Whom the events about a group are for.\<close>

definition group_audience :: "(i64, CacheUser) fmap \<Rightarrow> 'j CacheGroup \<Rightarrow> i64 set" where
  "group_audience users g = (if gt_is_public (cg_ty g) then fmdom' users else cg_members g)"

lemma state_access [simp]:
  "find_group (put_group gid g st) gid' = (if gid = gid' then Some g else find_group st gid')"
  "find_group (set_tables db st) gid' = find_group st gid'"
  "find_group (broadcast evs st) gid' = find_group st gid'"
  "st_users (put_group gid g st) = st_users st"
  "st_groups (put_group gid g st) = fmupd gid g (st_groups st)"
  "st_cache (set_tables db st) = st_cache st"
  "st_cache (broadcast evs st) = st_cache st"
  "st_tables (put_group gid g st) = st_tables st"
  "st_tables (set_tables db st) = db"
  "st_tables (broadcast evs st) = st_tables st"
  "st_msg_db (put_group gid g st) = st_msg_db st"
  "st_msg_db (set_tables db st) = st_msg_db st"
  "st_msg_db (broadcast evs st) = st_msg_db st"
  "st_events (put_group gid g st) = st_events st"
  "st_events (set_tables db st) = st_events st"
  "st_events (broadcast evs st) = st_events st @ evs"
  by (auto simp: find_group_def put_group_def set_tables_def broadcast_def)

section \<open>Guards and results\<close>

text \<open>The middleware \<open>guest_forbidden\<close> (\<open>src/middleware.rs\<close>) around a handler.\<close>

definition guest_forbidden :: "Token \<Rightarrow> ('j, 'db, 'a) handler \<Rightarrow> ('j, 'db, 'a) handler" where
  "guest_forbidden token ep st =
     (if tk_is_guest token then (Inl (from_status FORBIDDEN), st) else ep st)"

abbreviation internal_error :: api_error where
  "internal_error \<equiv> from_status INTERNAL_SERVER_ERROR"

definition get_merged_message ::
    "'db sled_ops \<Rightarrow> 'j codec \<Rightarrow> 'db msgdb \<Rightarrow> i64 \<Rightarrow> api_error + 'j MergedMessagePayload option" where
  "get_merged_message K C db mid =
     (case get_merged_msg K db mid of
        Inl e \<Rightarrow> Inl internal_error
      | Inr data \<Rightarrow> Inr (Option.bind data (dec_merged C)))"

end
