(* ===== verification/Group_Api.thy ===== *)
theory Group_Api
  imports Chat_State
begin

text \<open>
  The group endpoints (\<open>src/api/group.rs\<close>). Each handler is a function on the state that returns
  a value or an error; it takes the time (\<open>now\<close>) where it reads the clock, and \<open>db_ok\<close>, false
  when the database fails: a statement or the commit of the handler's transaction reports an
  error and nothing of it is kept.
\<close>

record UpdateGroupRequest =
  ug_name :: "string option"
  ug_description :: "string option"
  ug_owner :: "i64 option"
  ug_e2e_enabled :: "bool option"

record ChangeGroupTypeRequest =
  ct_is_public :: bool
  ct_members :: "i64 list"

definition ug_is_empty :: "UpdateGroupRequest \<Rightarrow> bool" where
  "ug_is_empty req \<longleftrightarrow> ug_name req = None \<and> ug_owner req = None \<and>
     ug_description req = None \<and> ug_e2e_enabled req = None"

text \<open>
  The check of \<open>upload_avatar\<close>, \<open>delete\<close>, \<open>update\<close> and \<open>change_type\<close>: only an administrator may
  change a public group, only its owner or an administrator a private one.
\<close>

fun manage_forbidden :: "GroupType \<Rightarrow> Token \<Rightarrow> bool" where
  "manage_forbidden Public token = (\<not> tk_is_admin token)"
| "manage_forbidden (Private owner) token = (owner \<noteq> tk_uid token \<and> \<not> tk_is_admin token)"

section \<open>Creating\<close>

definition create_group_body ::
    "bool \<Rightarrow> DateTime \<Rightarrow> 'j Group \<Rightarrow> Token \<Rightarrow> ('j, 'db, i64 \<times> DateTime) handler" where
  "create_group_body db_ok now req token st =
     (if g_is_public req \<and> \<not> tk_is_admin token then (Inl (from_status FORBIDDEN), st)
      else if g_is_public req \<and> g_members req \<noteq> [] then (Inl (from_status BAD_REQUEST), st)
      else
        let members = (if \<not> g_is_public req then set (g_members req) \<union> {tk_uid token} else {});
            users = st_users st
        in if \<not> members \<subseteq> fmdom' users then (Inl (from_status BAD_REQUEST), st)
           else if \<not> db_ok then (Inl internal_error, st)
           else
             let owner = (if g_is_public req then None else Some (tk_uid token));
                 desc = (case g_description req of Some d \<Rightarrow> d | None \<Rightarrow> '''');
                 row = \<lparr> gr_name = g_name req, gr_description = desc, gr_owner = owner,
                         gr_is_public = g_is_public req, gr_created_at = now, gr_updated_at = now,
                         gr_avatar_updated_at = DateTime_zero, gr_e2e_enabled = g_e2e_enabled req \<rparr>
             in case sql_insert_group row (st_tables st) of
                  (gid, db1) \<Rightarrow>
                    (case sql_insert_group_users gid (sorted_list_of_set members) db1 of
                       None \<Rightarrow> (Inl internal_error, st)
                     | Some db2 \<Rightarrow>
                         let cached = \<lparr> cg_ty = (if g_is_public req then Public else Private (tk_uid token)),
                               cg_name = g_name req, cg_description = desc, cg_members = members,
                               cg_created_at = now, cg_updated_at = now,
                               cg_avatar_updated_at = DateTime_zero, cg_pinned_messages = [],
                               cg_e2e_enabled = g_e2e_enabled req \<rparr>;
                             group = \<lparr> g_gid = gid, g_owner = owner, g_name = g_name req,
                               g_description = g_description req,
                               g_members = sorted_list_of_set members,
                               g_is_public = g_is_public req,
                               g_avatar_updated_at = g_avatar_updated_at req,
                               g_pinned_messages = [], g_e2e_enabled = g_e2e_enabled req \<rparr>
                         in (Inr (gid, now),
                             broadcast
                               [JoinedGroup (if \<not> g_is_public req then members else fmdom' users) group]
                               (put_group gid cached (set_tables db2 st)))))"

definition create_group ::
    "bool \<Rightarrow> DateTime \<Rightarrow> 'j Group \<Rightarrow> Token \<Rightarrow> ('j, 'db, i64 \<times> DateTime) handler" where
  "create_group db_ok now req token = guest_forbidden token (create_group_body db_ok now req token)"

section \<open>Avatar, deletion, update\<close>

text \<open>The uploaded body: its bytes, more than the configured limit, or a transport error.\<close>

datatype upload_body = BodyBytes bytes | BodyTooLarge | BodyError api_error

datatype UploadAvatarApiResponse = AvatarOk | AvatarPayloadTooLarge

definition no_change :: "i64 \<Rightarrow> GroupChangedMessage" where
  "no_change gid = \<lparr> gc_gid = gid, gc_name = None, gc_description = None, gc_owner = None,
     gc_avatar_updated_at = None, gc_is_public = None, gc_e2e_enabled = None \<rparr>"

text \<open>\<open>save_group_avatar\<close> decodes the image and writes a file: an argument, \<open>Some\<close> on an error.\<close>

definition upload_avatar ::
    "(i64 \<Rightarrow> bytes \<Rightarrow> api_error option) \<Rightarrow> bool \<Rightarrow> DateTime \<Rightarrow> Token \<Rightarrow> i64 \<Rightarrow> upload_body \<Rightarrow>
     ('j, 'db, UploadAvatarApiResponse) handler" where
  "upload_avatar save_group_avatar db_ok now token gid req st =
     (case find_group st gid of
        None \<Rightarrow> (Inl (from_status UNAUTHORIZED), st)
      | Some g \<Rightarrow>
          if manage_forbidden (cg_ty g) token then (Inl (from_status FORBIDDEN), st)
          else
            (case req of
               BodyTooLarge \<Rightarrow> (Inr AvatarPayloadTooLarge, st)
             | BodyError e \<Rightarrow> (Inl e, st)
             | BodyBytes data \<Rightarrow>
                 (case save_group_avatar gid data of
                    Some e \<Rightarrow> (Inl e, st)
                  | None \<Rightarrow>
                      if \<not> db_ok then (Inl internal_error, st)
                      else
                        let g' = g\<lparr>cg_avatar_updated_at := now\<rparr>
                        in (Inr AvatarOk,
                            broadcast [GroupChanged (group_audience (st_users st) g')
                                ((no_change gid)\<lparr>gc_avatar_updated_at := Some now\<rparr>)]
                              (put_group gid g'
                                (set_tables (sql_update_group gid
                                  (\<lambda>r. r\<lparr>gr_avatar_updated_at := now\<rparr>) (st_tables st)) st))))))"

definition delete_group :: "bool \<Rightarrow> Token \<Rightarrow> i64 \<Rightarrow> ('j, 'db, unit) handler" where
  "delete_group db_ok token gid st =
     (case find_group st gid of
        None \<Rightarrow> (Inl (from_status NOT_FOUND), st)
      | Some g \<Rightarrow>
          if manage_forbidden (cg_ty g) token then (Inl (from_status FORBIDDEN), st)
          else if \<not> db_ok then (Inl internal_error, st)
          else
            let users = fmmap (\<lambda>u. u\<lparr>cu_read_index_group := fmdrop gid (cu_read_index_group u)\<rparr>)
                  (st_users st);
                cache = (st_cache st)\<lparr>ca_groups := fmdrop gid (st_groups st), ca_users := users\<rparr>
            in (Inr (),
                broadcast [KickFromGroup (group_audience users g) gid GroupDeleted]
                  (set_tables (sql_delete_group gid (st_tables st)) st\<lparr>st_cache := cache\<rparr>)))"

definition update_row :: "UpdateGroupRequest \<Rightarrow> DateTime \<Rightarrow> group_row \<Rightarrow> group_row" where
  "update_row req now r =
     r\<lparr> gr_name := (case ug_name req of Some n \<Rightarrow> n | None \<Rightarrow> gr_name r),
        gr_owner := (case ug_owner req of Some u \<Rightarrow> Some u | None \<Rightarrow> gr_owner r),
        gr_description := (case ug_description req of Some d \<Rightarrow> d | None \<Rightarrow> gr_description r),
        gr_e2e_enabled := (case ug_e2e_enabled req of Some b \<Rightarrow> b | None \<Rightarrow> gr_e2e_enabled r),
        gr_updated_at := now \<rparr>"

text \<open>The cached group after an update, field by field as the code assigns them.\<close>

definition update_cached :: "UpdateGroupRequest \<Rightarrow> 'j CacheGroup \<Rightarrow> 'j CacheGroup" where
  "update_cached req g =
     (let g1 = (case ug_name req of Some n \<Rightarrow> g\<lparr>cg_name := n\<rparr> | None \<Rightarrow> g);
          g2 = (case ug_description req of Some d \<Rightarrow> g1\<lparr>cg_description := d\<rparr> | None \<Rightarrow> g1);
          g3 = (case ug_owner req of
                  Some u \<Rightarrow> (case cg_ty g2 of Private owner \<Rightarrow> g2\<lparr>cg_ty := Private u\<rparr> | Public \<Rightarrow> g2)
                | None \<Rightarrow> g2)
      in (case ug_e2e_enabled req of Some b \<Rightarrow> g3\<lparr>cg_e2e_enabled := b\<rparr> | None \<Rightarrow> g3))"

definition update_message :: "i64 \<Rightarrow> UpdateGroupRequest \<Rightarrow> GroupType \<Rightarrow> GroupChangedMessage" where
  "update_message gid req ty =
     (no_change gid)\<lparr> gc_name := ug_name req, gc_description := ug_description req,
       gc_owner := (case ty of Private owner \<Rightarrow> ug_owner req | Public \<Rightarrow> None),
       gc_e2e_enabled := ug_e2e_enabled req \<rparr>"

definition update_group ::
    "bool \<Rightarrow> DateTime \<Rightarrow> Token \<Rightarrow> i64 \<Rightarrow> UpdateGroupRequest \<Rightarrow> ('j, 'db, unit) handler" where
  "update_group db_ok now token gid req st =
     (if ug_is_empty req then (Inl (from_status BAD_REQUEST), st)
      else
        case find_group st gid of
          None \<Rightarrow> (Inl (from_status NOT_FOUND), st)
        | Some g \<Rightarrow>
            if manage_forbidden (cg_ty g) token then (Inl (from_status FORBIDDEN), st)
            else if ug_owner req \<noteq> None \<and> gt_is_public (cg_ty g) then (Inl (from_status FORBIDDEN), st)
            else if (case ug_owner req of Some u \<Rightarrow> \<not> contains_user g u | None \<Rightarrow> False)
            then (Inl (from_status BAD_REQUEST), st)
            else if \<not> db_ok then (Inl internal_error, st)
            else
              let g' = update_cached req g
              in (Inr (),
                  broadcast [GroupChanged (group_audience (st_users st) g')
                      (update_message gid req (cg_ty g))]
                    (put_group gid g'
                      (set_tables (sql_update_group gid (update_row req now) (st_tables st)) st))))"

section \<open>Changing between public and private\<close>

definition registered_users :: "(i64, CacheUser) fmap \<Rightarrow> i64 list" where
  "registered_users users =
     filter (\<lambda>uid. case fmlookup users uid of Some u \<Rightarrow> \<not> cu_is_guest u | None \<Rightarrow> False) (fm_keys users)"

definition change_type ::
    "bool \<Rightarrow> Token \<Rightarrow> i64 \<Rightarrow> ChangeGroupTypeRequest \<Rightarrow> ('j, 'db, unit) handler" where
  "change_type db_ok token gid req st =
     (case find_group st gid of
        None \<Rightarrow> (Inl (from_status NOT_FOUND), st)
      | Some g \<Rightarrow>
          if manage_forbidden (cg_ty g) token then (Inl (from_status FORBIDDEN), st)
          else if \<not> db_ok then (Inl internal_error, st)
          else
            let users = st_users st in
            (case (gt_is_public (cg_ty g), ct_is_public req) of
               (True, False) \<Rightarrow>
                 let members = (if ct_members req \<noteq> [] then ct_members req else registered_users users)
                 in (case sql_insert_group_users gid members
                            (sql_update_group gid (\<lambda>r. r\<lparr>gr_is_public := False, gr_owner := Some (tk_uid token)\<rparr>)
                              (st_tables st)) of
                       None \<Rightarrow> (Inl internal_error, st)
                     | Some db \<Rightarrow>
                         (Inr (),
                          broadcast [GroupChanged (fmdom' users)
                              ((no_change gid)\<lparr>gc_owner := Some gid, gc_is_public := Some False\<rparr>)]
                            (put_group gid (g\<lparr>cg_ty := Private (tk_uid token), cg_members := set members\<rparr>)
                              (set_tables db st))))
             | (False, True) \<Rightarrow>
                 let origin_members = cg_members g;
                     new_members = set (registered_users users) - origin_members;
                     g' = g\<lparr>cg_ty := Public, cg_members := {}\<rparr>;
                     db = sql_delete_group_users gid
                       (sql_update_group gid (\<lambda>r. r\<lparr>gr_is_public := True, gr_owner := None\<rparr>) (st_tables st))
                 in (Inr (),
                     broadcast
                       [GroupChanged (fmdom' users) ((no_change gid)\<lparr>gc_is_public := Some True\<rparr>),
                        UserJoinedGroup origin_members gid (sorted_list_of_set new_members),
                        JoinedGroup new_members (api_group g' gid)]
                       (put_group gid g' (set_tables db st)))
             | _ \<Rightarrow> (Inr (), st)))"

section \<open>Membership\<close>

definition leave_group :: "bool \<Rightarrow> Token \<Rightarrow> i64 \<Rightarrow> ('j, 'db, unit) handler" where
  "leave_group db_ok token gid st =
     (case find_group st gid of
        None \<Rightarrow> (Inl (from_status NOT_FOUND), st)
      | Some g \<Rightarrow>
          (case cg_ty g of
             Public \<Rightarrow> (Inl (from_status FORBIDDEN), st)
           | Private owner \<Rightarrow>
               if \<not> contains_user g (tk_uid token) then (Inl (from_status FORBIDDEN), st)
               else if owner = tk_uid token then (Inl (from_status FORBIDDEN), st)
               else if \<not> db_ok then (Inl internal_error, st)
               else
                 (Inr (),
                  broadcast [UserLeavedGroup (cg_members g) gid [tk_uid token]]
                    (put_group gid (g\<lparr>cg_members := cg_members g - {tk_uid token}\<rparr>)
                      (set_tables (sql_delete_group_user gid (tk_uid token) (st_tables st)) st)))))"

definition get_group :: "('j, 'db) State \<Rightarrow> i64 \<Rightarrow> api_error + 'j Group" where
  "get_group st gid =
     ok_or (from_status NOT_FOUND) (map_option (\<lambda>g. api_group g gid) (find_group st gid))"

definition get_related_groups :: "(i64, 'j CacheGroup) fmap \<Rightarrow> i64 \<Rightarrow> bool \<Rightarrow> 'j Group list" where
  "get_related_groups groups uid public_only =
     map (\<lambda>(gid, g). api_group g gid)
       (filter (\<lambda>(gid, g). gt_is_public (cg_ty g) \<or> (\<not> public_only \<and> contains_user g uid))
         (map (\<lambda>gid. (gid, the (fmlookup groups gid))) (fm_keys groups)))"

definition add_members :: "bool \<Rightarrow> Token \<Rightarrow> i64 \<Rightarrow> i64 list \<Rightarrow> ('j, 'db, unit) handler" where
  "add_members db_ok token gid members st =
     (if \<not> set members \<subseteq> fmdom' (st_users st) then (Inl (from_status BAD_REQUEST), st)
      else
        case find_group st gid of
          None \<Rightarrow> (Inl (from_status NOT_FOUND), st)
        | Some g \<Rightarrow>
            (case cg_ty g of
               Public \<Rightarrow> (Inl (from_status FORBIDDEN), st)
             | Private owner \<Rightarrow>
                 if tk_uid token \<notin> cg_members g \<and> \<not> tk_is_admin token
                 then (Inl (from_status FORBIDDEN), st)
                 else if list_ex (contains_user g) members then (Inl (from_status BAD_REQUEST), st)
                 else if \<not> db_ok then (Inl internal_error, st)
                 else
                   (case sql_insert_group_users gid members (st_tables st) of
                      None \<Rightarrow> (Inl internal_error, st)
                    | Some db \<Rightarrow>
                        let g' = g\<lparr>cg_members := cg_members g \<union> set members\<rparr>
                        in (Inr (),
                            broadcast
                              [JoinedGroup (set members) (api_group g' gid),
                               UserJoinedGroup (cg_members g) gid members]
                              (put_group gid g' (set_tables db st))))))"

text \<open>The checks of \<open>remove_members\<close>, in the order of the list.\<close>

fun remove_error :: "i64 \<Rightarrow> 'j CacheGroup \<Rightarrow> i64 list \<Rightarrow> api_error option" where
  "remove_error owner g [] = None"
| "remove_error owner g (uid # uids) =
     (if owner = uid then Some (from_status FORBIDDEN)
      else if \<not> contains_user g uid then Some (from_status NOT_FOUND)
      else remove_error owner g uids)"

definition remove_members :: "bool \<Rightarrow> Token \<Rightarrow> i64 \<Rightarrow> i64 list \<Rightarrow> ('j, 'db, unit) handler" where
  "remove_members db_ok token gid members st =
     (case find_group st gid of
        None \<Rightarrow> (Inl (from_status NOT_FOUND), st)
      | Some g \<Rightarrow>
          (case cg_ty g of
             Public \<Rightarrow> (Inl (from_status FORBIDDEN), st)
           | Private owner \<Rightarrow>
               if owner \<noteq> tk_uid token \<and> \<not> tk_is_admin token then (Inl (from_status FORBIDDEN), st)
               else
                 (case remove_error owner g members of
                    Some e \<Rightarrow> (Inl e, st)
                  | None \<Rightarrow>
                      if \<not> db_ok then (Inl internal_error, st)
                      else
                        let g' = g\<lparr>cg_members := cg_members g - set members\<rparr>
                        in (Inr (),
                            broadcast
                              [KickFromGroup (set members) gid Kicked,
                               UserLeavedGroup (cg_members g') gid members]
                              (put_group gid g'
                                (set_tables (fold (sql_delete_group_user gid) members (st_tables st)) st))))))"

section \<open>Pinned messages\<close>

fun pin_forbidden :: "GroupType \<Rightarrow> Token \<Rightarrow> bool" where
  "pin_forbidden Public token = (\<not> tk_is_admin token)"
| "pin_forbidden (Private owner) token = (\<not> (owner = tk_uid token \<or> tk_is_admin token))"

definition pin_message ::
    "'db sled_ops \<Rightarrow> 'j codec \<Rightarrow> bool \<Rightarrow> DateTime \<Rightarrow> i64 \<Rightarrow> Token \<Rightarrow> i64 \<Rightarrow> ('j, 'db, unit) handler" where
  "pin_message K C db_ok now gid token mid st =
     (case find_group st gid of
        None \<Rightarrow> (Inl (from_status NOT_FOUND), st)
      | Some g \<Rightarrow>
          if pin_forbidden (cg_ty g) token then (Inl (from_status FORBIDDEN), st)
          else if list_ex (\<lambda>p. pin_mid p = mid) (cg_pinned_messages g) then (Inl (from_status CONFLICT), st)
          else
            (case get_merged_message K C (st_msg_db st) mid of
               Inl e \<Rightarrow> (Inl e, st)
             | Inr None \<Rightarrow> (Inl (from_status NOT_FOUND), st)
             | Inr (Some merged_msg) \<Rightarrow>
                 if \<not> db_ok then (Inl internal_error, st)
                 else
                   (case sql_insert_pin \<lparr>pr_gid = gid, pr_mid = mid, pr_created_by = tk_uid token,
                           pr_created_at = now\<rparr> (st_tables st) of
                      None \<Rightarrow> (Inl internal_error, st)
                    | Some db \<Rightarrow>
                        let pinned_msg = \<lparr>pin_mid = mid, pin_created_by = tk_uid token,
                              pin_created_at = now, pin_content = mp_content merged_msg\<rparr>;
                            g' = g\<lparr>cg_pinned_messages :=
                              sort_key pin_created_at (cg_pinned_messages g @ [pinned_msg])\<rparr>
                        in (Inr (),
                            broadcast [PinnedMessageUpdated (group_audience (st_users st) g') gid mid (Some pinned_msg)]
                              (put_group gid g' (set_tables db st))))))"

text \<open>\<open>Vec::remove\<close> at the first index whose message has the id.\<close>

fun remove_pin :: "i64 \<Rightarrow> 'j PinnedMessage list \<Rightarrow> 'j PinnedMessage list" where
  "remove_pin mid [] = []"
| "remove_pin mid (p # ps) = (if pin_mid p = mid then ps else p # remove_pin mid ps)"

definition unpin_message :: "bool \<Rightarrow> i64 \<Rightarrow> Token \<Rightarrow> i64 \<Rightarrow> ('j, 'db, unit) handler" where
  "unpin_message db_ok gid token mid st =
     (case find_group st gid of
        None \<Rightarrow> (Inl (from_status NOT_FOUND), st)
      | Some g \<Rightarrow>
          if pin_forbidden (cg_ty g) token then (Inl (from_status FORBIDDEN), st)
          else if \<not> list_ex (\<lambda>p. pin_mid p = mid) (cg_pinned_messages g)
          then (Inl (from_status NOT_FOUND), st)
          else if \<not> db_ok then (Inl internal_error, st)
          else
            let g' = g\<lparr>cg_pinned_messages := remove_pin mid (cg_pinned_messages g)\<rparr>
            in (Inr (),
                broadcast [PinnedMessageUpdated (group_audience (st_users st) g') gid mid None]
                  (put_group gid g' (set_tables (sql_delete_pin gid mid (st_tables st)) st))))"

end
