(* ===== verification/Service.thy ===== *)
theory Service
  imports Prelude "HOL-Library.Multiset"
begin

text \<open>
  The contract of a request handler on shared state: it keeps an invariant (\<open>preserving\<close>), and a request that is
  answered with an error leaves the state as it was (\<open>service\<close>). Proved once from it: the invariant holds
  after any sequence of requests, and the sequence has the effect of its accepted requests.
  Also here: facts about stable sorting that the handlers' ordered lists need.
\<close>

definition run_requests :: "('q \<Rightarrow> 's \<Rightarrow> ('e + 'a) \<times> 's) \<Rightarrow> 'q list \<Rightarrow> 's \<Rightarrow> 's" where
  "run_requests exec qs s = fold (\<lambda>q s. snd (exec q s)) qs s"

fun accepted :: "('q \<Rightarrow> 's \<Rightarrow> ('e + 'a) \<times> 's) \<Rightarrow> 'q list \<Rightarrow> 's \<Rightarrow> 'q list" where
  "accepted exec [] s = []"
| "accepted exec (q # qs) s =
     (case exec q s of
        (Inl e, s') \<Rightarrow> accepted exec qs s'
      | (Inr x, s') \<Rightarrow> q # accepted exec qs s')"

lemma run_requests_simps [simp]:
  "run_requests exec [] s = s"
  "run_requests exec (q # qs) s = run_requests exec qs (snd (exec q s))"
  by (simp_all add: run_requests_def)

locale preserving =
  fixes exec :: "'q \<Rightarrow> 's \<Rightarrow> ('e + 'a) \<times> 's" and inv :: "'s \<Rightarrow> bool"
  assumes exec_inv: "inv s \<Longrightarrow> exec q s = (r, s') \<Longrightarrow> inv s'"
begin

lemma run_inv: "inv s \<Longrightarrow> inv (run_requests exec qs s)"
proof (induction qs arbitrary: s)
  case (Cons q qs)
  then show ?case using exec_inv by (cases "exec q s") simp
qed simp

end

locale service = preserving exec inv
  for exec :: "'q \<Rightarrow> 's \<Rightarrow> ('e + 'a) \<times> 's" and inv :: "'s \<Rightarrow> bool" +
  assumes exec_error: "exec q s = (Inl e, s') \<Longrightarrow> s' = s"
begin

lemma run_accepted: "run_requests exec (accepted exec qs s) s = run_requests exec qs s"
proof (induction qs arbitrary: s)
  case (Cons q qs)
  obtain r s' where r: "exec q s = (r, s')" by fastforce
  then show ?case using Cons exec_error [of q s] by (cases r) simp_all
qed simp

end

text \<open>The accepted requests with their answers.\<close>

fun run_trace :: "('q \<Rightarrow> 's \<Rightarrow> ('e + 'a) \<times> 's) \<Rightarrow> 'q list \<Rightarrow> 's \<Rightarrow> ('q \<times> 'a) list" where
  "run_trace exec [] s = []"
| "run_trace exec (q # qs) s =
     (case exec q s of
        (Inl e, s') \<Rightarrow> run_trace exec qs s'
      | (Inr x, s') \<Rightarrow> (q, x) # run_trace exec qs s')"

text \<open>
  A service that keeps a queue: \<open>enq\<close> is what a request adds at the end, \<open>deq\<close> what an answer takes
  from the front.
\<close>

locale fifo_service = service exec inv
  for exec :: "'q \<Rightarrow> 's \<Rightarrow> ('e + 'a) \<times> 's" and inv :: "'s \<Rightarrow> bool" +
  fixes items :: "'s \<Rightarrow> 'x list" and enq :: "'q \<Rightarrow> 'x list" and deq :: "'q \<Rightarrow> 'a \<Rightarrow> 'x list"
  assumes exec_items: "inv s \<Longrightarrow> exec q s = (Inr x, s') \<Longrightarrow> deq q x @ items s' = items s @ enq q"
begin

lemma run_fifo:
  "inv s \<Longrightarrow> concat (map (\<lambda>(q, x). deq q x) (run_trace exec qs s)) @ items (run_requests exec qs s) =
     items s @ concat (map (\<lambda>(q, x). enq q) (run_trace exec qs s))"
proof (induction qs arbitrary: s)
  case (Cons q qs)
  obtain r s' where r: "exec q s = (r, s')" by fastforce
  show ?case
  proof (cases r)
    case (Inl e)
    then show ?thesis using Cons r exec_error [of q s e s'] by simp
  next
    case (Inr x)
    have "concat (map (\<lambda>(q, x). deq q x) (run_trace exec qs s')) @ items (run_requests exec qs s') =
        items s' @ concat (map (\<lambda>(q, x). enq q) (run_trace exec qs s'))"
      by (rule Cons.IH [OF exec_inv [OF Cons.prems r]])
    moreover have "deq q x @ items s' = items s @ enq q"
      using exec_items [OF Cons.prems] r Inr by simp
    ultimately show ?thesis using r Inr by (simp flip: append_assoc) (metis append_assoc)
  qed
qed simp

end

text \<open>
  A service that hands out items: an item handed out was not used before and is used from then on, and used
  items stay used. So no item is handed out twice.
\<close>

definition handed_out :: "('q \<Rightarrow> 'a \<Rightarrow> 'k option) \<Rightarrow> ('q \<times> 'a) list \<Rightarrow> 'k list" where
  "handed_out gives tr = List.map_filter (\<lambda>(q, x). gives q x) tr"

lemma handed_out_simps [simp]:
  "handed_out gives [] = []"
  "handed_out gives ((q, x) # tr) = (case gives q x of None \<Rightarrow> handed_out gives tr | Some k \<Rightarrow> k # handed_out gives tr)"
  by (auto simp: handed_out_def List.map_filter_def split: option.splits)

locale handout_service = service exec inv
  for exec :: "'q \<Rightarrow> 's \<Rightarrow> ('e + 'a) \<times> 's" and inv :: "'s \<Rightarrow> bool" +
  fixes used :: "'s \<Rightarrow> 'k set" and gives :: "'q \<Rightarrow> 'a \<Rightarrow> 'k option"
  assumes used_stays: "inv s \<Longrightarrow> exec q s = (Inr x, s') \<Longrightarrow> used s \<subseteq> used s'"
    and gives_fresh: "inv s \<Longrightarrow> exec q s = (Inr x, s') \<Longrightarrow> gives q x = Some k \<Longrightarrow> k \<notin> used s \<and> k \<in> used s'"
begin

lemma handed_out_once:
  "inv s \<Longrightarrow> distinct (handed_out gives (run_trace exec qs s)) \<and>
     set (handed_out gives (run_trace exec qs s)) \<inter> used s = {}"
proof (induction qs arbitrary: s)
  case (Cons q qs)
  obtain r s' where r: "exec q s = (r, s')" by fastforce
  show ?case
  proof (cases r)
    case (Inl e)
    then show ?thesis using Cons r exec_error [of q s e s'] by simp
  next
    case (Inr x)
    note step = r [unfolded Inr]
    show ?thesis
      using Cons.IH [OF exec_inv [OF Cons.prems step]] used_stays [OF Cons.prems step] gives_fresh [OF Cons.prems step]
      by (auto simp: step split: option.splits)
  qed
qed simp

end

section \<open>Stable sorting\<close>

lemma map_insort_key: "map h (insort_key (\<lambda>y. g (h y)) x xs) = insort_key g (h x) (map h xs)"
  by (induction xs) auto

lemma map_sort_key: "map h (sort_key (\<lambda>y. g (h y)) xs) = sort_key g (map h xs)"
  by (induction xs) (simp_all add: map_insort_key)

lemma sort_key_append_last: "sort_key f (sort_key f xs @ [y]) = sort_key f (xs @ [y])"
proof (rule properties_for_sort_key [symmetric])
  show "mset (sort_key f (sort_key f xs @ [y])) = mset (xs @ [y])" by simp
  show "filter (\<lambda>x. f k = f x) (sort_key f (sort_key f xs @ [y])) = filter (\<lambda>x. f k = f x) (xs @ [y])" for k
  proof -
    have "filter (\<lambda>x. f x = f k) (sort_key f (sort_key f xs @ [y])) = filter (\<lambda>x. f x = f k) (xs @ [y])"
      by (simp add: sort_key_stable)
    then show ?thesis by (simp add: eq_commute)
  qed
qed simp

end
