(* ===== verification/Group_Sync.thy ===== *)
theory Group_Sync
  imports Group_Api Service
begin

text \<open>
  The invariant that ties the in-memory groups to the database, and that every group endpoint
  keeps it, database failures included.
\<close>

section \<open>Requests\<close>

datatype 'j group_req =
    CreateGroup "'j Group"
  | UploadAvatar i64 upload_body
  | DeleteGroup i64
  | UpdateGroup i64 UpdateGroupRequest
  | ChangeType i64 ChangeGroupTypeRequest
  | LeaveGroup i64
  | AddMembers i64 "i64 list"
  | RemoveMembers i64 "i64 list"
  | PinMessage i64 i64
  | UnpinMessage i64 i64

text \<open>A call: the request with its caller, the time, and whether the database works.\<close>

record 'j group_call =
  call_token :: Token
  call_now :: DateTime
  call_db_ok :: bool
  call_req :: "'j group_req"

definition no_value :: "(api_error + 'a) \<times> 's \<Rightarrow> (api_error + unit) \<times> 's" where
  "no_value r = (case r of (Inl e, s) \<Rightarrow> (Inl e, s) | (Inr x, s) \<Rightarrow> (Inr (), s))"

definition group_exec ::
    "'db sled_ops \<Rightarrow> 'j codec \<Rightarrow> (i64 \<Rightarrow> bytes \<Rightarrow> api_error option) \<Rightarrow> 'j group_call \<Rightarrow>
     ('j, 'db, unit) handler" where
  "group_exec K C save c st =
     (let token = call_token c; now = call_now c; ok = call_db_ok c in
      case call_req c of
        CreateGroup req \<Rightarrow> no_value (create_group ok now req token st)
      | UploadAvatar gid body \<Rightarrow> no_value (upload_avatar save ok now token gid body st)
      | DeleteGroup gid \<Rightarrow> delete_group ok token gid st
      | UpdateGroup gid req \<Rightarrow> update_group ok now token gid req st
      | ChangeType gid req \<Rightarrow> change_type ok token gid req st
      | LeaveGroup gid \<Rightarrow> leave_group ok token gid st
      | AddMembers gid us \<Rightarrow> add_members ok token gid us st
      | RemoveMembers gid us \<Rightarrow> remove_members ok token gid us st
      | PinMessage gid mid \<Rightarrow> pin_message K C ok now gid token mid st
      | UnpinMessage gid mid \<Rightarrow> unpin_message ok gid token mid st)"

lemma no_value_iff:
  "no_value r = (Inl e, s) \<longleftrightarrow> r = (Inl e, s)"
  "no_value r = (Inr u, s) \<longleftrightarrow> (\<exists>x. r = (Inr x, s))"
  by (auto simp: no_value_def split: prod.splits sum.splits)

section \<open>The invariant\<close>

definition pin_key :: "'j PinnedMessage \<Rightarrow> i64 \<times> i64 \<times> DateTime" where
  "pin_key p = (pin_mid p, pin_created_by p, pin_created_at p)"

definition row_key :: "pin_row \<Rightarrow> i64 \<times> i64 \<times> DateTime" where
  "row_key p = (pr_mid p, pr_created_by p, pr_created_at p)"

definition pin_rows :: "i64 \<Rightarrow> tables \<Rightarrow> pin_row list" where
  "pin_rows gid db = filter (\<lambda>p. pr_gid p = gid) (tb_pinned_message db)"

definition pins_match :: "i64 \<Rightarrow> 'j CacheGroup \<Rightarrow> tables \<Rightarrow> bool" where
  "pins_match gid g db \<longleftrightarrow>
     map pin_key (cg_pinned_messages g) = map row_key (sort_key pr_created_at (pin_rows gid db)) \<and>
     distinct (map pin_mid (cg_pinned_messages g))"

definition row_matches :: "'j CacheGroup \<Rightarrow> group_row \<Rightarrow> bool" where
  "row_matches g r \<longleftrightarrow> gr_is_public r = gt_is_public (cg_ty g) \<and> gr_owner r = gt_owner (cg_ty g) \<and>
     gr_name r = cg_name g \<and> gr_description r = cg_description g \<and>
     gr_created_at r = cg_created_at g \<and> gr_avatar_updated_at r = cg_avatar_updated_at g \<and>
     gr_e2e_enabled r = cg_e2e_enabled g"

definition group_synced :: "tables \<Rightarrow> i64 set \<Rightarrow> i64 \<Rightarrow> 'j CacheGroup \<Rightarrow> bool" where
  "group_synced db users gid g \<longleftrightarrow>
     (\<exists>r. fmlookup (tb_group db) gid = Some r \<and> row_matches g r) \<and>
     (\<forall>u. (gid, u) \<in> tb_group_user db \<longleftrightarrow> u \<in> cg_members g) \<and>
     (gt_is_public (cg_ty g) \<longrightarrow> cg_members g = {}) \<and> cg_members g \<subseteq> users \<and>
     pins_match gid g db"

definition groups_synced :: "('j, 'db) State \<Rightarrow> bool" where
  "groups_synced st \<longleftrightarrow>
     (let db = st_tables st; dom = fmdom' (st_groups st) in
      fmdom' (st_users st) = fmdom' (tb_user db) \<and> fmdom' (tb_group db) = dom \<and>
      (\<forall>gid u. (gid, u) \<in> tb_group_user db \<longrightarrow> gid \<in> dom) \<and>
      (\<forall>p \<in> set (tb_pinned_message db). pr_gid p \<in> dom) \<and>
      (\<forall>gid \<in> dom. gid \<le> tb_group_seq db) \<and>
      (\<forall>gid g. find_group st gid = Some g \<longrightarrow> group_synced db (fmdom' (st_users st)) gid g))"

lemma groups_syncedD:
  assumes "groups_synced st" "find_group st gid = Some g"
  shows "group_synced (st_tables st) (fmdom' (st_users st)) gid g"
    "fmdom' (st_users st) = fmdom' (tb_user (st_tables st))"
  using assms by (auto simp: groups_synced_def Let_def)

section \<open>Changing one group\<close>

text \<open>A change of the tables that only touches the rows of one group.\<close>

definition only_group :: "i64 \<Rightarrow> tables \<Rightarrow> tables \<Rightarrow> bool" where
  "only_group gid db db' \<longleftrightarrow>
     tb_user db' = tb_user db \<and> tb_group_seq db \<le> tb_group_seq db' \<and>
     gid \<le> tb_group_seq db' \<and>
     (\<forall>h. h \<noteq> gid \<longrightarrow> fmlookup (tb_group db') h = fmlookup (tb_group db) h \<and>
        (\<forall>u. (h, u) \<in> tb_group_user db' \<longleftrightarrow> (h, u) \<in> tb_group_user db) \<and>
        pin_rows h db' = pin_rows h db)"

lemma fmdom'_find: "gid \<in> fmdom' (st_groups st) \<longleftrightarrow> find_group st gid \<noteq> None"
  by (auto simp: find_group_def fmlookup_dom'_iff)

lemma pin_rows_mem: "p \<in> set (tb_pinned_message db) \<longleftrightarrow> p \<in> set (pin_rows (pr_gid p) db)"
  by (simp add: pin_rows_def)

lemma groups_synced_put:
  assumes inv: "groups_synced st" and only: "only_group gid (st_tables st) db'"
    and g': "group_synced db' (fmdom' (st_users st)) gid g'"
  shows "groups_synced (broadcast evs (put_group gid g' (set_tables db' st)))"
proof -
  let ?st' = "broadcast evs (put_group gid g' (set_tables db' st))" and ?db = "st_tables st"
  have find: "find_group ?st' h = (if gid = h then Some g' else find_group st h)" for h by simp
  have grp: "fmdom' (tb_group db') = insert gid (fmdom' (tb_group ?db))"
  proof (intro set_eqI)
    fix h
    show "h \<in> fmdom' (tb_group db') \<longleftrightarrow> h \<in> insert gid (fmdom' (tb_group ?db))"
      using only g' by (cases "h = gid") (auto simp: only_group_def group_synced_def fmlookup_dom'_iff)
  qed
  have other: "group_synced db' (fmdom' (st_users st)) h g" if "h \<noteq> gid" "find_group st h = Some g" for h g
    using groups_syncedD(1) [OF inv that(2)] only that(1)
    by (simp add: only_group_def group_synced_def pins_match_def)
  have gu: "h \<in> insert gid (fmdom' (st_groups st))" if "(h, u) \<in> tb_group_user db'" for h u
    using that inv only by (cases "h = gid") (auto simp: groups_synced_def Let_def only_group_def)
  have pr: "pr_gid p \<in> insert gid (fmdom' (st_groups st))" if "p \<in> set (tb_pinned_message db')" for p
    using that inv only unfolding pin_rows_mem [of p]
    by (cases "pr_gid p = gid") (auto simp: groups_synced_def Let_def only_group_def pin_rows_mem [of p ?db])
  have seq: "h \<le> tb_group_seq db'" if "h \<in> insert gid (fmdom' (st_groups st))" for h
    using that inv only by (auto simp: groups_synced_def Let_def only_group_def)
  show ?thesis
    using inv only g' grp gu pr seq other
    by (auto simp: groups_synced_def Let_def find only_group_def split: if_splits)
qed

text \<open>The statements touch one group only.\<close>

lemma pin_rows_update [simp]:
  "pin_rows h (db\<lparr>tb_group := x\<rparr>) = pin_rows h db"
  "pin_rows h (db\<lparr>tb_group_user := y\<rparr>) = pin_rows h db"
  "pin_rows h (db\<lparr>tb_group_seq := z\<rparr>) = pin_rows h db"
  by (simp_all add: pin_rows_def)

lemma fold_delete_group_user:
  "fold (sql_delete_group_user gid) us db = db\<lparr>tb_group_user := tb_group_user db - Pair gid ` set us\<rparr>"
  by (induction us arbitrary: db) (auto simp: sql_delete_group_user_def intro!: arg_cong2 [where f = tb_group_user_update])

lemma groups_synced_seq:
  "groups_synced st \<Longrightarrow> find_group st gid = Some g \<Longrightarrow> gid \<le> tb_group_seq (st_tables st)"
  by (auto simp: groups_synced_def Let_def fmdom'_find)


lemma only_group_statements:
  assumes "gid \<le> tb_group_seq db"
  shows "only_group gid db (sql_update_group gid f db)"
    "only_group gid db (sql_delete_group_user gid u db)"
    "only_group gid db (sql_delete_group_users gid db)"
    "only_group gid db (db\<lparr>tb_group_user := tb_group_user db - Pair gid ` us\<rparr>)"
    "only_group gid db (db\<lparr>tb_group_user := Pair gid ` us \<union> tb_group_user db\<rparr>)"
    "only_group gid db (sql_delete_pin gid mid db)"
    "pr_gid row = gid \<Longrightarrow> only_group gid db (db\<lparr>tb_pinned_message := tb_pinned_message db @ [row]\<rparr>)"
  using assms
  by (auto simp: only_group_def sql_update_group_def sql_delete_group_user_def
      sql_delete_group_users_def sql_delete_pin_def pin_rows_def intro!: filter_cong)

lemma only_group_trans: "only_group gid a b \<Longrightarrow> only_group gid b c \<Longrightarrow> only_group gid a c"
  by (auto simp: only_group_def)

text \<open>What a statement on the row, or on the members, does to the agreement of one group.\<close>

lemma synced_row:
  assumes "group_synced db users gid g" "\<And>r. row_matches g r \<Longrightarrow> row_matches g' (f r)"
    and "cg_members g' = cg_members g" "gt_is_public (cg_ty g') = gt_is_public (cg_ty g)"
    "cg_pinned_messages g' = cg_pinned_messages g"
  shows "group_synced (sql_update_group gid f db) users gid g'"
  using assms by (auto simp: group_synced_def sql_update_group_def pins_match_def)

lemma synced_members:
  assumes "group_synced db users gid g" "cg_members g' \<subseteq> users" "row_matches g' = row_matches g"
    and "gt_is_public (cg_ty g') \<longrightarrow> cg_members g' = {}"
    and "\<And>u. (gid, u) \<in> S \<longleftrightarrow> u \<in> cg_members g'" "cg_pinned_messages g' = cg_pinned_messages g"
  shows "group_synced (db\<lparr>tb_group_user := S\<rparr>) users gid g'"
  using assms by (auto simp: group_synced_def pins_match_def)

lemma row_matches_members [simp]:
  "row_matches (g\<lparr>cg_members := m\<rparr>) = row_matches g"
  "row_matches (g\<lparr>cg_pinned_messages := ps\<rparr>) = row_matches g"
  by (simp_all add: row_matches_def fun_eq_iff)

section \<open>Every endpoint keeps the invariant\<close>

lemma leave_synced:
  assumes "groups_synced st" "leave_group ok token gid st = (r, st')"
  shows "groups_synced st'"
proof (cases "st' = st")
  case False
  then obtain g where g: "find_group st gid = Some g" "\<not> gt_is_public (cg_ty g)"
    and st': "st' = broadcast [UserLeavedGroup (cg_members g) gid [tk_uid token]]
      (put_group gid (g\<lparr>cg_members := cg_members g - {tk_uid token}\<rparr>)
        (set_tables (sql_delete_group_user gid (tk_uid token) (st_tables st)) st))"
    using assms(2) by (auto simp: leave_group_def split: option.splits GroupType.splits if_splits)
  note s = groups_syncedD [OF assms(1) g(1)]
  have "group_synced (sql_delete_group_user gid (tk_uid token) (st_tables st)) (fmdom' (st_users st)) gid
      (g\<lparr>cg_members := cg_members g - {tk_uid token}\<rparr>)"
    unfolding sql_delete_group_user_def
    by (rule synced_members [OF s(1)]) (use s(1) g(2) in \<open>auto simp: group_synced_def\<close>)
  then show ?thesis unfolding st'
    using groups_synced_put assms(1) only_group_statements(2) groups_synced_seq [OF assms(1) g(1)] by blast
qed (use assms in simp)

lemma add_members_synced:
  assumes "groups_synced st" "add_members ok token gid us st = (r, st')"
  shows "groups_synced st'"
proof (cases "st' = st")
  case False
  let ?db = "st_tables st"
  from False obtain g db evs where g: "find_group st gid = Some g" "\<not> gt_is_public (cg_ty g)"
    and us: "set us \<subseteq> fmdom' (st_users st)" and db: "sql_insert_group_users gid us ?db = Some db"
    and st': "st' = broadcast evs (put_group gid (g\<lparr>cg_members := cg_members g \<union> set us\<rparr>) (set_tables db st))"
    using assms(2) by (auto simp: add_members_def Let_def split: option.splits GroupType.splits if_splits)
  have db': "db = ?db\<lparr>tb_group_user := Pair gid ` set us \<union> tb_group_user ?db\<rparr>"
    using db by (simp add: sql_insert_group_users_Some)
  note s = groups_syncedD [OF assms(1) g(1)]
  have "group_synced db (fmdom' (st_users st)) gid (g\<lparr>cg_members := cg_members g \<union> set us\<rparr>)"
    unfolding db'
    by (rule synced_members [OF s(1)]) (use s(1) g(2) us in \<open>auto simp: group_synced_def\<close>)
  then show ?thesis unfolding st'
    using groups_synced_put assms(1) only_group_statements(5) groups_synced_seq [OF assms(1) g(1)] db' by blast
qed (use assms in simp)

lemma remove_members_synced:
  assumes "groups_synced st" "remove_members ok token gid us st = (r, st')"
  shows "groups_synced st'"
proof (cases "st' = st")
  case False
  let ?db = "st_tables st"
  from False obtain g evs where g: "find_group st gid = Some g" "\<not> gt_is_public (cg_ty g)"
    and st': "st' = broadcast evs (put_group gid (g\<lparr>cg_members := cg_members g - set us\<rparr>)
      (set_tables (?db\<lparr>tb_group_user := tb_group_user ?db - Pair gid ` set us\<rparr>) st))"
    using assms(2) by (auto simp: remove_members_def Let_def fold_delete_group_user
        split: option.splits GroupType.splits if_splits)
  note s = groups_syncedD [OF assms(1) g(1)]
  have "group_synced (?db\<lparr>tb_group_user := tb_group_user ?db - Pair gid ` set us\<rparr>) (fmdom' (st_users st)) gid
      (g\<lparr>cg_members := cg_members g - set us\<rparr>)"
    by (rule synced_members [OF s(1)]) (use s(1) g(2) in \<open>auto simp: group_synced_def\<close>)
  then show ?thesis unfolding st'
    using groups_synced_put assms(1) only_group_statements(4) groups_synced_seq [OF assms(1) g(1)] by blast
qed (use assms in simp)

lemma update_row_matches:
  assumes "row_matches g r" "ug_owner req = None \<or> \<not> gt_is_public (cg_ty g)"
  shows "row_matches (update_cached req g) (update_row req now r)"
  using assms
  by (cases "cg_ty g") (auto simp: row_matches_def update_cached_def update_row_def Let_def split: option.split)

lemma update_cached_simps [simp]:
  "cg_members (update_cached req g) = cg_members g"
  "gt_is_public (cg_ty (update_cached req g)) = gt_is_public (cg_ty g)"
  "cg_pinned_messages (update_cached req g) = cg_pinned_messages g"
  by (auto simp: update_cached_def Let_def split: option.split GroupType.split)

lemma update_synced:
  assumes "groups_synced st" "update_group ok now token gid req st = (r, st')"
  shows "groups_synced st'"
proof (cases "st' = st")
  case False
  then obtain g evs where g: "find_group st gid = Some g"
    "ug_owner req = None \<or> \<not> gt_is_public (cg_ty g)"
    and st': "st' = broadcast evs (put_group gid (update_cached req g)
      (set_tables (sql_update_group gid (update_row req now) (st_tables st)) st))"
    using assms(2) by (auto simp: update_group_def Let_def split: option.splits if_splits)
  note s = groups_syncedD [OF assms(1) g(1)]
  have "group_synced (sql_update_group gid (update_row req now) (st_tables st)) (fmdom' (st_users st)) gid
      (update_cached req g)"
    by (rule synced_row [OF s(1)]) (simp_all add: update_row_matches g(2))
  then show ?thesis unfolding st'
    using groups_synced_put assms(1) only_group_statements(1) groups_synced_seq [OF assms(1) g(1)] by blast
qed (use assms in simp)

lemma upload_avatar_synced:
  assumes "groups_synced st" "upload_avatar save ok now token gid body st = (r, st')"
  shows "groups_synced st'"
proof (cases "st' = st")
  case False
  then obtain g evs where g: "find_group st gid = Some g"
    and st': "st' = broadcast evs (put_group gid (g\<lparr>cg_avatar_updated_at := now\<rparr>)
      (set_tables (sql_update_group gid (\<lambda>r. r\<lparr>gr_avatar_updated_at := now\<rparr>) (st_tables st)) st))"
    using assms(2) by (auto simp: upload_avatar_def Let_def split: option.splits if_splits upload_body.splits)
  note s = groups_syncedD [OF assms(1) g(1)]
  have "group_synced (sql_update_group gid (\<lambda>r. r\<lparr>gr_avatar_updated_at := now\<rparr>) (st_tables st))
      (fmdom' (st_users st)) gid (g\<lparr>cg_avatar_updated_at := now\<rparr>)"
    by (rule synced_row [OF s(1)]) (simp_all add: row_matches_def)
  then show ?thesis unfolding st'
    using groups_synced_put assms(1) only_group_statements(1) groups_synced_seq [OF assms(1) g(1)] by blast
qed (use assms in simp)

lemma registered_users_subset: "set (registered_users users) \<subseteq> fmdom' users"
  by (auto simp: registered_users_def)

lemma change_type_synced:
  assumes "groups_synced st" "change_type ok token gid req st = (r, st')"
  shows "groups_synced st'"
proof (cases "st' = st")
  case False
  let ?db = "st_tables st"
  from False obtain g where g: "find_group st gid = Some g"
    using assms(2) by (auto simp: change_type_def split: option.splits)
  note s = groups_syncedD [OF assms(1) g] and seq = groups_synced_seq [OF assms(1) g]
  show ?thesis
  proof (cases "gt_is_public (cg_ty g)")
    case True
    let ?upd = "sql_update_group gid (\<lambda>r. r\<lparr>gr_is_public := False, gr_owner := Some (tk_uid token)\<rparr>) ?db"
    from False True g obtain us db evs where
      db: "sql_insert_group_users gid us ?upd = Some db"
      and st': "st' = broadcast evs (put_group gid (g\<lparr>cg_ty := Private (tk_uid token), cg_members := set us\<rparr>)
        (set_tables db st))"
      using assms(2) by (auto simp: change_type_def Let_def split: option.splits if_splits bool.splits)
    have db': "db = ?upd\<lparr>tb_group_user := Pair gid ` set us \<union> tb_group_user ?upd\<rparr>"
      and us: "\<forall>u \<in> set us. fmlookup (tb_user ?upd) u \<noteq> None"
      using db by (simp_all add: sql_insert_group_users_Some)
    have "set us \<subseteq> fmdom' (st_users st)"
      using us s(2) by (auto simp: sql_update_group_def fmlookup_dom'_iff)
    moreover have "tb_group_user ?upd = tb_group_user ?db" by (simp add: sql_update_group_def)
    ultimately have "group_synced db (fmdom' (st_users st)) gid
        (g\<lparr>cg_ty := Private (tk_uid token), cg_members := set us\<rparr>)"
      using s(1) True unfolding db'
      by (auto simp: group_synced_def sql_update_group_def row_matches_def pins_match_def)
    moreover have "only_group gid ?db db"
      unfolding db'
      by (rule only_group_trans [OF only_group_statements(1)], rule seq, rule only_group_statements(5))
        (simp add: sql_update_group_def seq)
    ultimately show ?thesis unfolding st' using groups_synced_put assms(1) by blast
  next
    case priv: False
    let ?upd = "sql_update_group gid (\<lambda>r. r\<lparr>gr_is_public := True, gr_owner := None\<rparr>) ?db"
    from False priv g obtain evs where
      st': "st' = broadcast evs (put_group gid (g\<lparr>cg_ty := Public, cg_members := {}\<rparr>)
        (set_tables (sql_delete_group_users gid ?upd) st))"
      using assms(2) by (auto simp: change_type_def Let_def split: option.splits if_splits bool.splits)
    have "group_synced (sql_delete_group_users gid ?upd) (fmdom' (st_users st)) gid
        (g\<lparr>cg_ty := Public, cg_members := {}\<rparr>)"
      using s(1) priv by (auto simp: group_synced_def sql_update_group_def sql_delete_group_users_def
          row_matches_def pins_match_def)
    moreover have "only_group gid ?db (sql_delete_group_users gid ?upd)"
      by (rule only_group_trans [OF only_group_statements(1)], rule seq, rule only_group_statements(3))
        (simp add: sql_update_group_def seq)
    ultimately show ?thesis unfolding st' using groups_synced_put assms(1) by blast
  qed
qed (use assms in simp)

lemma create_synced:
  assumes "groups_synced st" "create_group ok now req token st = (r, st')"
  shows "groups_synced st'"
proof (cases "st' = st")
  case False
  let ?db = "st_tables st" and ?gid = "tb_group_seq (st_tables st) + 1"
  let ?ms = "if \<not> g_is_public req then set (g_members req) \<union> {tk_uid token} else {}"
  let ?owner = "if g_is_public req then None else Some (tk_uid token)"
  let ?desc = "case g_description req of Some d \<Rightarrow> d | None \<Rightarrow> ''''"
  define row where "row = \<lparr> gr_name = g_name req, gr_description = ?desc, gr_owner = ?owner,
    gr_is_public = g_is_public req, gr_created_at = now, gr_updated_at = now,
    gr_avatar_updated_at = DateTime_zero, gr_e2e_enabled = g_e2e_enabled req \<rparr>"
  define g :: "'a CacheGroup" where
    "g = \<lparr> cg_ty = (if g_is_public req then Public else Private (tk_uid token)), cg_name = g_name req,
      cg_description = ?desc, cg_members = ?ms, cg_created_at = now, cg_updated_at = now,
      cg_avatar_updated_at = DateTime_zero, cg_pinned_messages = [], cg_e2e_enabled = g_e2e_enabled req \<rparr>"
  have g: "cg_members g = ?ms" "cg_pinned_messages g = []" "gt_is_public (cg_ty g) = g_is_public req"
    and row: "row_matches g row"
    by (auto simp: g_def row_def row_matches_def)
  from False obtain db evs where
    db: "sql_insert_group_users ?gid (sorted_list_of_set ?ms)
      (?db\<lparr>tb_group := fmupd ?gid row (tb_group ?db), tb_group_seq := ?gid\<rparr>) = Some db"
    and ms: "?ms \<subseteq> fmdom' (st_users st)"
    and st': "st' = broadcast evs (put_group ?gid g (set_tables db st))"
    using assms(2)
    unfolding create_group_def guest_forbidden_def create_group_body_def Let_def sql_insert_group_def
      prod.case row_def [symmetric] g_def [symmetric]
    by (auto split: if_split_asm option.split_asm)
  have fin: "set (sorted_list_of_set ?ms) = ?ms" by simp
  have db': "db = ?db\<lparr>tb_group := fmupd ?gid row (tb_group ?db), tb_group_seq := ?gid,
      tb_group_user := Pair ?gid ` ?ms \<union> tb_group_user ?db\<rparr>"
    using db unfolding sql_insert_group_users_Some fin by simp
  have fresh: "?gid \<notin> fmdom' (st_groups st)"
    using assms(1) by (auto simp: groups_synced_def Let_def)
  then have no: "(?gid, u) \<notin> tb_group_user ?db" "pin_rows ?gid ?db = []" for u
    using assms(1) by (auto simp: groups_synced_def Let_def pin_rows_def filter_empty_conv)
  have "group_synced db (fmdom' (st_users st)) ?gid g"
    using row g ms no unfolding db' by (auto simp: group_synced_def pins_match_def split: if_splits)
  moreover have "only_group ?gid ?db db" unfolding db' by (auto simp: only_group_def)
  ultimately show ?thesis unfolding st' using groups_synced_put assms(1) by blast
qed (use assms in simp)

lemma sql_delete_group_sel [simp]:
  "tb_user (sql_delete_group gid db) = tb_user db"
  "tb_group (sql_delete_group gid db) = fmdrop gid (tb_group db)"
  "(h, u) \<in> tb_group_user (sql_delete_group gid db) \<longleftrightarrow> h \<noteq> gid \<and> (h, u) \<in> tb_group_user db"
  "tb_pinned_message (sql_delete_group gid db) = filter (\<lambda>p. pr_gid p \<noteq> gid) (tb_pinned_message db)"
  "tb_group_seq (sql_delete_group gid db) = tb_group_seq db"
  by (auto simp: sql_delete_group_def)

lemma delete_synced:
  assumes "groups_synced st" "delete_group ok token gid st = (r, st')"
  shows "groups_synced st'"
proof (cases "st' = st")
  case False
  let ?db = "sql_delete_group gid (st_tables st)"
  let ?users = "fmmap (\<lambda>u. u\<lparr>cu_read_index_group := fmdrop gid (cu_read_index_group u)\<rparr>) (st_users st)"
  have users: "fmdom' ?users = fmdom' (st_users st)" by simp
  from False obtain g evs where g: "find_group st gid = Some g"
    and st': "st' = broadcast evs ((set_tables ?db st)\<lparr>st_cache :=
      (st_cache st)\<lparr>ca_groups := fmdrop gid (st_groups st), ca_users := ?users\<rparr>\<rparr>)"
    using assms(2) by (auto simp: delete_group_def Let_def split: option.splits if_splits)
  have find: "find_group st' h = (if h = gid then None else find_group st h)" for h
    by (simp add: st' find_group_def)
  have sel: "st_tables st' = ?db" "fmdom' (st_groups st') = fmdom' (st_groups st) - {gid}"
    "fmdom' (st_users st') = fmdom' (st_users st)" by (simp_all add: st' users)
  have pins: "pin_rows h ?db = pin_rows h (st_tables st)" if "h \<noteq> gid" for h
    using that by (auto simp: pin_rows_def intro!: filter_cong)
  have sync: "group_synced ?db (fmdom' (st_users st)) h k" if "h \<noteq> gid" "find_group st h = Some k" for h k
    using groups_syncedD(1) [OF assms(1) that(2)] that(1) pins
    by (auto simp: group_synced_def pins_match_def)
  show ?thesis
    using assms(1) sync users
    by (auto simp: groups_synced_def Let_def find sel split: if_splits)
qed (use assms in simp)

lemma pin_synced:
  assumes "groups_synced st" "pin_message K C ok now gid token mid st = (r, st')"
  shows "groups_synced st'"
proof (cases "st' = st")
  case False
  let ?row = "\<lparr>pr_gid = gid, pr_mid = mid, pr_created_by = tk_uid token, pr_created_at = now\<rparr>"
  let ?db = "(st_tables st)\<lparr>tb_pinned_message := tb_pinned_message (st_tables st) @ [?row]\<rparr>"
  let ?pin = "\<lambda>m. \<lparr>pin_mid = mid, pin_created_by = tk_uid token, pin_created_at = now, pin_content = m\<rparr>"
  from False obtain g m evs where g: "find_group st gid = Some g"
    and new: "\<not> list_ex (\<lambda>p. pin_mid p = mid) (cg_pinned_messages g)"
    and st0: "st' = broadcast evs (put_group gid
      (g\<lparr>cg_pinned_messages := sort_key pin_created_at (cg_pinned_messages g @ [?pin m])\<rparr>) (set_tables ?db st))"
    using assms(2)
    by (auto simp: pin_message_def sql_insert_pin_def Let_def split: option.splits if_splits sum.splits)
  define pin where "pin = ?pin m"
  have pin: "pin_key pin = row_key ?row" by (simp add: pin_def pin_key_def row_key_def)
  have st': "st' = broadcast evs (put_group gid
      (g\<lparr>cg_pinned_messages := sort_key pin_created_at (cg_pinned_messages g @ [pin])\<rparr>) (set_tables ?db st))"
    by (simp add: st0 pin_def)
  note s = groups_syncedD [OF assms(1) g] and seq = groups_synced_seq [OF assms(1) g]
  let ?rows = "pin_rows gid (st_tables st)" and ?snd = "\<lambda>k :: i64 \<times> i64 \<times> DateTime. snd (snd k)"
  have keys: "?snd (pin_key p) = pin_created_at p" "?snd (row_key q) = pr_created_at q" for p q
    by (simp_all add: pin_key_def row_key_def)
  have old: "map pin_key (cg_pinned_messages g) = sort_key ?snd (map row_key ?rows)"
    "distinct (map pin_mid (cg_pinned_messages g))"
    using s(1) map_sort_key [of row_key ?snd ?rows] by (simp_all add: group_synced_def pins_match_def keys)
  have "map pin_key (sort_key pin_created_at (cg_pinned_messages g @ [pin])) =
      sort_key ?snd (map row_key (?rows @ [?row]))"
    using map_sort_key [of pin_key ?snd "cg_pinned_messages g @ [pin]"] old(1) pin
    by (simp add: keys sort_key_append_last)
  also have "\<dots> = map row_key (sort_key pr_created_at (?rows @ [?row]))"
    using map_sort_key [of row_key ?snd "?rows @ [?row]"] by (simp add: keys)
  also have "?rows @ [?row] = pin_rows gid ?db" by (simp add: pin_rows_def)
  finally have pins: "map pin_key (sort_key pin_created_at (cg_pinned_messages g @ [pin])) =
      map row_key (sort_key pr_created_at (pin_rows gid ?db))" .
  have "pin_mid pin = mid" using pin by (simp add: pin_key_def row_key_def)
  then have "distinct (map pin_mid (cg_pinned_messages g @ [pin]))"
    using new old(2) by (auto simp: list_ex_iff)
  moreover have "mset (map pin_mid (sort_key pin_created_at (cg_pinned_messages g @ [pin]))) =
      mset (map pin_mid (cg_pinned_messages g @ [pin]))" by simp
  ultimately have "distinct (map pin_mid (sort_key pin_created_at (cg_pinned_messages g @ [pin])))"
    by (metis mset_eq_imp_distinct_iff)
  with pins s(1) have "group_synced ?db (fmdom' (st_users st)) gid
      (g\<lparr>cg_pinned_messages := sort_key pin_created_at (cg_pinned_messages g @ [pin])\<rparr>)"
    by (auto simp: group_synced_def pins_match_def)
  then show ?thesis unfolding st'
    using groups_synced_put assms(1) only_group_statements(7) seq by (metis pin_row.select_convs(1))
qed (use assms in simp)

lemma remove_pin_filter:
  "distinct (map pin_mid ps) \<Longrightarrow> remove_pin mid ps = filter (\<lambda>p. pin_mid p \<noteq> mid) ps"
proof (induction ps)
  case (Cons p ps)
  have "filter (\<lambda>q. pin_mid q \<noteq> mid) ps = ps" if "pin_mid p = mid"
  proof (rule filter_True)
    have "mid \<notin> pin_mid ` set ps" using Cons.prems that by auto
    then show "\<forall>q \<in> set ps. pin_mid q \<noteq> mid" by (auto simp: image_iff)
  qed
  with Cons show ?case by simp
qed simp

lemma unpin_synced:
  assumes "groups_synced st" "unpin_message ok gid token mid st = (r, st')"
  shows "groups_synced st'"
proof (cases "st' = st")
  case False
  let ?db = "sql_delete_pin gid mid (st_tables st)"
  from False obtain g evs where g: "find_group st gid = Some g"
    and st': "st' = broadcast evs (put_group gid
      (g\<lparr>cg_pinned_messages := remove_pin mid (cg_pinned_messages g)\<rparr>) (set_tables ?db st))"
    using assms(2) by (auto simp: unpin_message_def Let_def split: option.splits if_splits)
  note s = groups_syncedD [OF assms(1) g] and seq = groups_synced_seq [OF assms(1) g]
  have old: "map pin_key (cg_pinned_messages g) =
      map row_key (sort_key pr_created_at (pin_rows gid (st_tables st)))"
    "distinct (map pin_mid (cg_pinned_messages g))"
    using s(1) by (simp_all add: group_synced_def pins_match_def)
  let ?keep = "\<lambda>k :: i64 \<times> i64 \<times> DateTime. fst k \<noteq> mid"
  have pinned: "map pin_key (filter (\<lambda>p. pin_mid p \<noteq> mid) ps) = filter ?keep (map pin_key ps)"
    for ps :: "'a PinnedMessage list" by (simp add: filter_map o_def pin_key_def)
  have rows: "map row_key (filter (\<lambda>p. pr_mid p \<noteq> mid) qs) = filter ?keep (map row_key qs)"
    for qs by (simp add: filter_map o_def row_key_def)
  have "pin_rows gid ?db = filter (\<lambda>p. pr_mid p \<noteq> mid) (pin_rows gid (st_tables st))"
    by (auto simp: pin_rows_def sql_delete_pin_def conj_commute intro!: filter_cong)
  then have "map pin_key (remove_pin mid (cg_pinned_messages g)) =
      map row_key (sort_key pr_created_at (pin_rows gid ?db))"
    using old pinned rows by (simp add: remove_pin_filter filter_sort [symmetric])
  moreover have "distinct (map pin_mid (remove_pin mid (cg_pinned_messages g)))"
    using old(2) by (simp add: remove_pin_filter distinct_map_filter)
  ultimately have "group_synced ?db (fmdom' (st_users st)) gid
      (g\<lparr>cg_pinned_messages := remove_pin mid (cg_pinned_messages g)\<rparr>)"
    using s(1) by (auto simp: group_synced_def pins_match_def sql_delete_pin_def)
  then show ?thesis unfolding st'
    using groups_synced_put assms(1) only_group_statements(6) seq by blast
qed (use assms in simp)

section \<open>The endpoints as a service\<close>

lemma handler_errors:
  "create_group ok now req token st = (Inl e, st') \<Longrightarrow> st' = st"
  "upload_avatar save ok now token gid body st = (Inl e, st') \<Longrightarrow> st' = st"
  "delete_group ok token gid st = (Inl e, st') \<Longrightarrow> st' = st"
  "update_group ok now token gid ureq st = (Inl e, st') \<Longrightarrow> st' = st"
  "change_type ok token gid creq st = (Inl e, st') \<Longrightarrow> st' = st"
  "leave_group ok token gid st = (Inl e, st') \<Longrightarrow> st' = st"
  "add_members ok token gid us st = (Inl e, st') \<Longrightarrow> st' = st"
  "remove_members ok token gid us st = (Inl e, st') \<Longrightarrow> st' = st"
  "pin_message K C ok now gid token mid st = (Inl e, st') \<Longrightarrow> st' = st"
  "unpin_message ok gid token mid st = (Inl e, st') \<Longrightarrow> st' = st"
  by (auto simp: create_group_def guest_forbidden_def create_group_body_def upload_avatar_def
      delete_group_def update_group_def change_type_def leave_group_def add_members_def
      remove_members_def pin_message_def unpin_message_def Let_def
      split: if_splits option.splits prod.splits upload_body.splits GroupType.splits sum.splits bool.splits)

lemmas handler_synced = create_synced upload_avatar_synced delete_synced update_synced
  change_type_synced leave_synced add_members_synced remove_members_synced pin_synced unpin_synced

lemma no_value_error: "no_value r = (Inl e, s) \<Longrightarrow> r = (Inl e, s)"
  by (simp add: no_value_iff)

lemma group_exec_synced:
  assumes "groups_synced st" "group_exec K C save c st = (r, st')"
  shows "groups_synced st'"
proof (cases "call_req c")
  case (CreateGroup req)
  then have "no_value (create_group (call_db_ok c) (call_now c) req (call_token c) st) = (r, st')"
      using assms(2) by (simp add: group_exec_def Let_def)
  then show ?thesis using create_synced [OF assms(1)]
      by (auto simp: no_value_def split: prod.splits sum.splits)
next
  case (UploadAvatar gid body)
  then have "no_value (upload_avatar save (call_db_ok c) (call_now c) (call_token c) gid body st) = (r, st')"
      using assms(2) by (simp add: group_exec_def Let_def)
  then show ?thesis using upload_avatar_synced [OF assms(1)]
      by (auto simp: no_value_def split: prod.splits sum.splits)
qed (use assms in \<open>auto simp: group_exec_def Let_def intro: handler_synced\<close>)

lemma group_exec_error: "group_exec K C save c st = (Inl e, st') \<Longrightarrow> st' = st"
  by (cases "call_req c") (auto simp: group_exec_def Let_def dest!: no_value_error dest: handler_errors)

interpretation groups: service "group_exec K C save" groups_synced
  using group_exec_synced group_exec_error by unfold_locales blast+

end
