(* ===== verification/Group_Spec.thy ===== *)
theory Group_Spec
  imports Group_Sync
begin

text \<open>
  What the group endpoints promise, as a relation between the group before and after an
  accepted request: who may ask for it, what becomes of type and membership, and which
  events go to whom. The handlers of \<open>Group_Api\<close> refine it; access control, confidentiality
  of events and the position of the owner follow from the relation alone.
\<close>

abbreviation manages :: "Token \<Rightarrow> 'j CacheGroup \<Rightarrow> bool" where
  "manages token g \<equiv> \<not> manage_forbidden (cg_ty g) token"

text \<open>\<open>group_spec users token req gid old new evs\<close>: \<open>None\<close> stands for no group.\<close>

inductive group_spec ::
    "(i64, CacheUser) fmap \<Rightarrow> Token \<Rightarrow> 'j group_req \<Rightarrow> i64 \<Rightarrow> 'j CacheGroup option \<Rightarrow>
     'j CacheGroup option \<Rightarrow> 'j BroadcastEvent list \<Rightarrow> bool"
  for users :: "(i64, CacheUser) fmap" and token :: Token
where
  created: "gt_is_public (cg_ty g) \<longrightarrow> tk_is_admin token \<Longrightarrow>
    (\<forall>owner. cg_ty g = Private owner \<longrightarrow> owner = tk_uid token \<and> owner \<in> cg_members g) \<Longrightarrow>
    g_gid G = gid \<Longrightarrow>
    group_spec users token (CreateGroup req) gid None (Some g)
      [JoinedGroup (group_audience users g) G]"
| changed: "req = UpdateGroup gid u \<or> req = UploadAvatar gid b \<Longrightarrow> manages token g \<Longrightarrow>
    cg_members g' = cg_members g \<Longrightarrow>
    cg_ty g' = cg_ty g \<or> (\<exists>a \<in> cg_members g. \<not> gt_is_public (cg_ty g) \<and> cg_ty g' = Private a) \<Longrightarrow>
    gc_gid m = gid \<Longrightarrow>
    group_spec users token req gid (Some g) (Some g') [GroupChanged (group_audience users g') m]"
| pinned: "req = PinMessage gid mid \<or> req = UnpinMessage gid mid \<Longrightarrow> manages token g \<Longrightarrow>
    cg_members g' = cg_members g \<Longrightarrow> cg_ty g' = cg_ty g \<Longrightarrow>
    group_spec users token req gid (Some g) (Some g')
      [PinnedMessageUpdated (group_audience users g') gid mid p]"
| deleted: "manages token g \<Longrightarrow>
    group_spec users token (DeleteGroup gid) gid (Some g) None
      [KickFromGroup (group_audience users g) gid GroupDeleted]"
| made_private: "gt_is_public (cg_ty g) \<Longrightarrow> tk_is_admin token \<Longrightarrow> \<not> ct_is_public creq \<Longrightarrow>
    cg_ty g' = Private (tk_uid token) \<Longrightarrow>
    cg_members g' = set (if ct_members creq \<noteq> [] then ct_members creq else registered_users users) \<Longrightarrow>
    gc_gid m = gid \<Longrightarrow>
    group_spec users token (ChangeType gid creq) gid (Some g) (Some g') [GroupChanged (fmdom' users) m]"
| made_public: "\<not> gt_is_public (cg_ty g) \<Longrightarrow> manages token g \<Longrightarrow> ct_is_public creq \<Longrightarrow>
    cg_ty g' = Public \<Longrightarrow> cg_members g' = {} \<Longrightarrow> gc_gid m = gid \<Longrightarrow> g_gid G = gid \<Longrightarrow>
    new_members = set (registered_users users) - cg_members g \<Longrightarrow>
    group_spec users token (ChangeType gid creq) gid (Some g) (Some g')
      [GroupChanged (fmdom' users) m, UserJoinedGroup (cg_members g) gid us, JoinedGroup new_members G]"
| left: "cg_ty g = Private owner \<Longrightarrow> owner \<noteq> tk_uid token \<Longrightarrow> tk_uid token \<in> cg_members g \<Longrightarrow>
    cg_ty g' = cg_ty g \<Longrightarrow> cg_members g' = cg_members g - {tk_uid token} \<Longrightarrow>
    group_spec users token (LeaveGroup gid) gid (Some g) (Some g')
      [UserLeavedGroup (cg_members g) gid [tk_uid token]]"
| added: "cg_ty g = Private owner \<Longrightarrow> tk_uid token \<in> cg_members g \<or> tk_is_admin token \<Longrightarrow>
    set us \<subseteq> fmdom' users \<Longrightarrow> cg_members g \<inter> set us = {} \<Longrightarrow>
    cg_ty g' = cg_ty g \<Longrightarrow> cg_members g' = cg_members g \<union> set us \<Longrightarrow> g_gid G = gid \<Longrightarrow>
    group_spec users token (AddMembers gid us) gid (Some g) (Some g')
      [JoinedGroup (set us) G, UserJoinedGroup (cg_members g) gid us]"
| removed: "cg_ty g = Private owner \<Longrightarrow> manages token g \<Longrightarrow> owner \<notin> set us \<Longrightarrow> set us \<subseteq> cg_members g \<Longrightarrow>
    cg_ty g' = cg_ty g \<Longrightarrow> cg_members g' = cg_members g - set us \<Longrightarrow>
    group_spec users token (RemoveMembers gid us) gid (Some g) (Some g')
      [KickFromGroup (set us) gid Kicked, UserLeavedGroup (cg_members g - set us) gid us]"

inductive_cases group_specE: "group_spec users token req gid old new evs"

section \<open>Refinement\<close>

text \<open>An accepted request that changes something changes one group as the relation says.\<close>

definition refines_spec :: "Token \<Rightarrow> 'j group_req \<Rightarrow> ('j, 'db) State \<Rightarrow> ('j, 'db) State \<Rightarrow> bool" where
  "refines_spec token req st st' \<longleftrightarrow>
     (\<exists>gid new evs. group_spec (st_users st) token req gid (find_group st gid) new evs \<and>
        st_events st' = st_events st @ evs \<and> fmdom' (st_users st') = fmdom' (st_users st) \<and>
        (\<forall>h. find_group st' h = (if h = gid then new else find_group st h)))"

lemma refines_put:
  assumes "group_spec (st_users st) token req gid (find_group st gid) (Some g') evs"
  shows "refines_spec token req st (broadcast evs (put_group gid g' (set_tables db st)))"
  unfolding refines_spec_def using assms by (intro exI [of _ gid] exI [of _ "Some g'"] exI [of _ evs]) auto

lemma pin_forbidden_manage: "pin_forbidden ty token = manage_forbidden ty token"
  by (cases ty) auto

lemma remove_error_None:
  "remove_error owner g us = None \<longleftrightarrow> owner \<notin> set us \<and> (\<forall>u \<in> set us. contains_user g u)"
  by (induction us) auto

lemma create_refines:
  assumes "groups_synced st" "create_group ok now req token st = (Inr x, st')"
  shows "refines_spec token (CreateGroup req) st st'"
proof -
  let ?gid = "tb_group_seq (st_tables st) + 1"
  let ?ms = "if \<not> g_is_public req then set (g_members req) \<union> {tk_uid token} else {}"
  have none: "find_group st ?gid = None"
    using assms(1) groups_synced_seq [OF assms(1)] by (metis add_le_same_cancel1 not_None_eq not_one_le_zero)
  define g :: "'a CacheGroup" where
    "g = \<lparr> cg_ty = (if g_is_public req then Public else Private (tk_uid token)), cg_name = g_name req,
      cg_description = (case g_description req of Some d \<Rightarrow> d | None \<Rightarrow> ''''), cg_members = ?ms,
      cg_created_at = now, cg_updated_at = now, cg_avatar_updated_at = DateTime_zero,
      cg_pinned_messages = [], cg_e2e_enabled = g_e2e_enabled req \<rparr>"
  define G :: "'a Group" where "G = \<lparr> g_gid = ?gid, g_owner = (if g_is_public req then None else Some (tk_uid token)),
    g_name = g_name req, g_description = g_description req, g_members = sorted_list_of_set ?ms,
    g_is_public = g_is_public req, g_avatar_updated_at = g_avatar_updated_at req,
    g_pinned_messages = [], g_e2e_enabled = g_e2e_enabled req \<rparr>"
  have aud: "(if \<not> g_is_public req then ?ms else fmdom' (st_users st)) = group_audience (st_users st) g"
    by (simp add: group_audience_def g_def)
  obtain db where adm: "g_is_public req \<longrightarrow> tk_is_admin token"
    and st': "st' = broadcast [JoinedGroup (group_audience (st_users st) g) G] (put_group ?gid g (set_tables db st))"
    using assms(2)
    unfolding create_group_def guest_forbidden_def create_group_body_def Let_def sql_insert_group_def
      prod.case g_def [symmetric] G_def [symmetric] aud
    by (auto split: if_split_asm option.split_asm)
  show ?thesis unfolding st'
    by (rule refines_put, subst none, rule created) (use adm in \<open>auto simp: g_def G_def\<close>)
qed

lemma upload_avatar_refines:
  assumes "upload_avatar save ok now token gid body st = (Inr x, st')"
  shows "st' = st \<or> refines_spec token (UploadAvatar gid body) st st'"
  using assms
  by (auto simp: upload_avatar_def Let_def no_change_def split: option.splits if_splits upload_body.splits
      intro!: refines_put changed)

lemma update_cached_ty:
  "case ug_owner req of None \<Rightarrow> True | Some a \<Rightarrow> a \<in> cg_members g \<and> \<not> gt_is_public (cg_ty g) \<Longrightarrow>
   cg_ty (update_cached req g) = cg_ty g \<or>
   (\<exists>a \<in> cg_members g. \<not> gt_is_public (cg_ty g) \<and> cg_ty (update_cached req g) = Private a)"
  by (auto simp: update_cached_def Let_def split: option.splits GroupType.splits)

lemma update_refines:
  assumes "update_group ok now token gid req st = (Inr x, st')"
  shows "refines_spec token (UpdateGroup gid req) st st'"
  using assms
  by (auto simp: update_group_def Let_def update_message_def no_change_def contains_user_def
      split: option.splits if_splits intro!: refines_put changed update_cached_ty)

lemma delete_refines:
  assumes "delete_group ok token gid st = (Inr x, st')"
  shows "refines_spec token (DeleteGroup gid) st st'"
proof -
  let ?users = "fmmap (\<lambda>u. u\<lparr>cu_read_index_group := fmdrop gid (cu_read_index_group u)\<rparr>) (st_users st)"
  obtain g where g: "find_group st gid = Some g" "manages token g"
    and st': "st' = broadcast [KickFromGroup (group_audience ?users g) gid GroupDeleted]
      (set_tables (sql_delete_group gid (st_tables st)) st\<lparr>st_cache :=
        (st_cache st)\<lparr>ca_groups := fmdrop gid (st_groups st), ca_users := ?users\<rparr>\<rparr>)"
    using assms by (auto simp: delete_group_def Let_def split: option.splits if_splits)
  have aud: "group_audience ?users g = group_audience (st_users st) g" by (simp add: group_audience_def)
  show ?thesis unfolding refines_spec_def
  proof (intro exI conjI)
    show "group_spec (st_users st) token (DeleteGroup gid) gid (find_group st gid) None
        [KickFromGroup (group_audience (st_users st) g) gid GroupDeleted]"
      using g by (auto intro: deleted)
  qed (auto simp: st' aud find_group_def set_tables_def)
qed

lemma manage_public: "gt_is_public ty \<Longrightarrow> \<not> manage_forbidden ty token \<Longrightarrow> tk_is_admin token"
  by (cases ty) auto

lemma change_type_refines:
  assumes "change_type ok token gid req st = (Inr x, st')"
  shows "st' = st \<or> refines_spec token (ChangeType gid req) st st'"
proof -
  obtain g where g: "find_group st gid = Some g" "manages token g"
    using assms by (auto simp: change_type_def split: option.splits if_splits)
  consider (priv) "gt_is_public (cg_ty g)" "\<not> ct_is_public req"
    | (publ) "\<not> gt_is_public (cg_ty g)" "ct_is_public req" | (same) "gt_is_public (cg_ty g) = ct_is_public req"
    by blast
  then show ?thesis
  proof cases
    case priv
    then have adm: "tk_is_admin token" using manage_public g(2) by blast
    from priv assms g show ?thesis
      by (auto simp: change_type_def Let_def no_change_def adm split: option.splits if_splits
          intro!: refines_put made_private)
  next
    case publ
    with assms g show ?thesis
      by (auto simp: change_type_def Let_def no_change_def api_group_def split: option.splits if_splits
          intro!: refines_put made_public)
  next
    case same
    with assms g show ?thesis
      by (cases "ct_is_public req") (auto simp: change_type_def Let_def split: option.splits if_splits)
  qed
qed

lemma leave_refines:
  assumes "leave_group ok token gid st = (Inr x, st')"
  shows "refines_spec token (LeaveGroup gid) st st'"
  using assms
  by (auto simp: leave_group_def contains_user_def split: option.splits if_splits GroupType.splits
      intro!: refines_put left)

lemma add_refines:
  assumes "add_members ok token gid us st = (Inr x, st')"
  shows "refines_spec token (AddMembers gid us) st st'"
  using assms
  by (auto simp: add_members_def contains_user_def Let_def api_group_def list_ex_iff
      split: option.splits if_splits GroupType.splits intro!: refines_put added)

lemma remove_refines:
  assumes "remove_members ok token gid us st = (Inr x, st')"
  shows "refines_spec token (RemoveMembers gid us) st st'"
  using assms
  by (auto simp: remove_members_def contains_user_def Let_def remove_error_None
      split: option.splits if_splits GroupType.splits intro!: refines_put removed)

lemma pin_refines:
  assumes "pin_message K C ok now gid token mid st = (Inr x, st')"
  shows "refines_spec token (PinMessage gid mid) st st'"
  using assms
  by (auto simp: pin_message_def Let_def pin_forbidden_manage
      split: option.splits if_splits sum.splits intro!: refines_put pinned)

lemma unpin_refines:
  assumes "unpin_message ok gid token mid st = (Inr x, st')"
  shows "refines_spec token (UnpinMessage gid mid) st st'"
  using assms
  by (auto simp: unpin_message_def Let_def pin_forbidden_manage
      split: option.splits if_splits intro!: refines_put pinned)

lemma group_exec_refines:
  assumes "groups_synced st" "group_exec K C save c st = (Inr x, st')"
  shows "st' = st \<or> refines_spec (call_token c) (call_req c) st st'"
proof (cases "call_req c")
  case (CreateGroup req)
  then obtain y where "create_group (call_db_ok c) (call_now c) req (call_token c) st = (Inr y, st')"
    using assms(2) by (auto simp: group_exec_def Let_def no_value_iff)
  then show ?thesis using create_refines [OF assms(1)] CreateGroup by simp
next
  case (UploadAvatar gid body)
  then obtain y where "upload_avatar save (call_db_ok c) (call_now c) (call_token c) gid body st = (Inr y, st')"
    using assms(2) by (auto simp: group_exec_def Let_def no_value_iff)
  then show ?thesis using upload_avatar_refines UploadAvatar by metis
next
  case (ChangeType gid creq)
  then have "change_type (call_db_ok c) (call_token c) gid creq st = (Inr x, st')"
    using assms(2) by (simp add: group_exec_def Let_def)
  then show ?thesis using change_type_refines ChangeType by metis
qed (use assms in \<open>auto simp: group_exec_def Let_def dest: update_refines delete_refines
    leave_refines add_refines remove_refines pin_refines unpin_refines\<close>)

section \<open>Consequences of the relation\<close>

definition audience :: "(i64, CacheUser) fmap \<Rightarrow> 'j CacheGroup option \<Rightarrow> i64 set" where
  "audience users old = (case old of None \<Rightarrow> {} | Some g \<Rightarrow> group_audience users g)"

lemma registered_users_dom: "uid \<in> set (registered_users users) \<Longrightarrow> uid \<in> fmdom' users"
  using registered_users_subset by blast

lemma spec_audience:
  assumes "group_spec users token req gid old new evs" "e \<in> set evs"
  shows "event_gid e = Some gid \<and>
    (\<exists>ts. event_targets e = Some ts \<and> ts \<subseteq> audience users old \<union> audience users new)"
  using assms
  by (cases rule: group_spec.cases)
    (auto simp: audience_def group_audience_def dest: registered_users_dom split: if_splits)

lemma spec_access:
  assumes "group_spec users token req gid (Some g) new evs" "\<not> tk_is_admin token"
  shows "\<exists>owner. cg_ty g = Private owner \<and> (tk_uid token = owner \<or>
    tk_uid token \<in> cg_members g \<and> (req = LeaveGroup gid \<or> (\<exists>us. req = AddMembers gid us)))"
proof -
  have manages: "\<exists>owner. cg_ty g = Private owner \<and> tk_uid token = owner" if "manages token g"
    using that assms(2) by (cases "cg_ty g") auto
  from assms show ?thesis
    by (cases rule: group_spec.cases) (auto dest: manages)
qed

definition owner_is_member :: "'j CacheGroup \<Rightarrow> bool" where
  "owner_is_member g \<longleftrightarrow> (case cg_ty g of Public \<Rightarrow> True | Private owner \<Rightarrow> owner \<in> cg_members g)"

text \<open>The members that \<open>change_type\<close> gives a group that becomes private.\<close>

definition new_private_members :: "(i64, CacheUser) fmap \<Rightarrow> ChangeGroupTypeRequest \<Rightarrow> i64 set" where
  "new_private_members users req =
     set (if ct_members req \<noteq> [] then ct_members req else registered_users users)"

lemma spec_owner_member:
  assumes "group_spec users token req gid old (Some g') evs"
    and "\<forall>g. old = Some g \<longrightarrow> owner_is_member g"
    and "\<forall>r. req = ChangeType gid r \<and> \<not> ct_is_public r \<longrightarrow> tk_uid token \<in> new_private_members users r"
  shows "owner_is_member g'"
  using assms
  by (cases rule: group_spec.cases)
    (auto simp: owner_is_member_def new_private_members_def split: GroupType.splits)

end
