(* ===== verification/User_Cache.thy ===== *)
theory User_Cache
  imports Chat_State
begin

text \<open>
  The cache of \<open>src/state.rs\<close>: loading it from the database at start-up, mutes, magic-link codes,
  user names, and the deletion of a user.
\<close>

section \<open>Users\<close>

definition is_online :: "CacheUser \<Rightarrow> bool" where
  "is_online u = fm_any (\<lambda>d. dev_sender d \<noteq> None) (cu_devices u)"

text \<open>The check both mute queries make of an entry, at time \<open>now\<close>.\<close>

definition mute_entry_active :: "DateTime \<Rightarrow> DateTime option option \<Rightarrow> bool" where
  "mute_entry_active now entry =
     (case entry of
        Some (Some expired_at) \<Rightarrow> expired_at < now
      | Some None \<Rightarrow> True
      | None \<Rightarrow> False)"

definition is_user_muted :: "DateTime \<Rightarrow> CacheUser \<Rightarrow> i64 \<Rightarrow> bool" where
  "is_user_muted now u uid = mute_entry_active now (fmlookup (cu_mute_user u) uid)"

definition is_group_muted :: "DateTime \<Rightarrow> CacheUser \<Rightarrow> i64 \<Rightarrow> bool" where
  "is_group_muted now u gid = mute_entry_active now (fmlookup (cu_mute_group u) gid)"

definition burn_after_reading_to_user_expires_in :: "CacheUser \<Rightarrow> i64 \<Rightarrow> i64 option" where
  "burn_after_reading_to_user_expires_in u uid = fmlookup (cu_burn_after_reading_user u) uid"

definition burn_after_reading_to_group_expires_in :: "CacheUser \<Rightarrow> i64 \<Rightarrow> i64 option" where
  "burn_after_reading_to_group_expires_in u gid = fmlookup (cu_burn_after_reading_group u) gid"

record UserInfo =
  ui_uid :: i64
  ui_email :: "string option"
  ui_name :: string
  ui_gender :: i32
  ui_language :: LangId
  ui_is_admin :: bool
  ui_is_bot :: bool
  ui_avatar_updated_at :: DateTime
  ui_create_by :: string

definition api_user_info :: "CacheUser \<Rightarrow> i64 \<Rightarrow> UserInfo" where
  "api_user_info u uid =
     \<lparr> ui_uid = uid, ui_email = cu_email u, ui_name = cu_name u, ui_gender = cu_gender u,
       ui_language = cu_language u, ui_is_admin = cu_is_admin u, ui_is_bot = cu_is_bot u,
       ui_avatar_updated_at = cu_avatar_updated_at u, ui_create_by = cu_create_by u \<rparr>"

section \<open>User names\<close>

definition ascii_lower :: "char \<Rightarrow> char" where
  "ascii_lower c =
     (if 65 \<le> (of_char c :: nat) \<and> (of_char c :: nat) \<le> 90 then char_of ((of_char c :: nat) + 32) else c)"

definition eq_ignore_ascii_case :: "string \<Rightarrow> string \<Rightarrow> bool" where
  "eq_ignore_ascii_case a b \<longleftrightarrow> map ascii_lower a = map ascii_lower b"

text \<open>True when there is no conflict.\<close>

definition check_name_conflict :: "'j Cache \<Rightarrow> string \<Rightarrow> bool" where
  "check_name_conflict cache name =
     (\<not> fm_any (\<lambda>u. eq_ignore_ascii_case (cu_name u) name) (ca_users cache))"

definition check_email_conflict :: "'j Cache \<Rightarrow> string \<Rightarrow> bool" where
  "check_email_conflict cache email =
     (\<not> fm_any (\<lambda>u. case cu_email u of Some e \<Rightarrow> eq_ignore_ascii_case e email | None \<Rightarrow> False)
        (ca_users cache))"

text \<open>
  The loop over random suffixes: \<open>draws\<close> are the numbers \<open>fastrand\<close> yields; the code retries until
  a name is free, the model gives \<open>None\<close> when the draws are used up.
\<close>

fun draw_name :: "'j Cache \<Rightarrow> string \<Rightarrow> u32 list \<Rightarrow> string option" where
  "draw_name cache base [] = None"
| "draw_name cache base (n # draws) =
     (let new_name = base @ decimal n
      in if check_name_conflict cache new_name then Some new_name else draw_name cache base draws)"

definition assign_username_by_name :: "'j Cache \<Rightarrow> u32 list \<Rightarrow> string \<Rightarrow> string option" where
  "assign_username_by_name cache draws name =
     (if check_name_conflict cache name then Some name else draw_name cache name draws)"

definition assign_username_by_email :: "'j Cache \<Rightarrow> u32 list \<Rightarrow> string \<Rightarrow> string option" where
  "assign_username_by_email cache draws email =
     (let local = takeWhile (\<lambda>c. c \<noteq> CHR ''@'') email
      in if local \<noteq> email \<and> local \<noteq> '''' then assign_username_by_name cache draws local
         else assign_username_by_name cache draws email)"

definition assign_username ::
    "'j Cache \<Rightarrow> u32 list \<Rightarrow> string option \<Rightarrow> string option \<Rightarrow> string option" where
  "assign_username cache draws name email =
     (case name of
        Some n \<Rightarrow> assign_username_by_name cache draws n
      | None \<Rightarrow>
          (case email of
             Some e \<Rightarrow> assign_username_by_email cache draws e
           | None \<Rightarrow> draw_name cache ''User'' draws))"

section \<open>Magic-link codes\<close>

definition wrap_i32 :: "int \<Rightarrow> i32" where
  "wrap_i32 x = (x + 2147483648) mod 4294967296 - 2147483648"

definition magic_code_check_code :: "instant \<Rightarrow> string \<Rightarrow> CodeCache \<Rightarrow> bool \<times> CodeCache" where
  "magic_code_check_code now code cc =
     (case fmlookup (codes cc) code of
        None \<Rightarrow> (False, cc)
      | Some v \<Rightarrow>
          if cv_expired_at v < now \<or> cv_remain_times v \<le> 0
          then (False, cc\<lparr>codes := fmdrop code (codes cc)\<rparr>)
          else (True, cc\<lparr>codes := fmupd code
                  (v\<lparr>cv_remain_times := wrap_i32 (cv_remain_times v - (-1))\<rparr>) (codes cc)\<rparr>))"

definition reg_magic_code_add :: "string \<Rightarrow> instant \<Rightarrow> i32 \<Rightarrow> CodeCache \<Rightarrow> CodeCache" where
  "reg_magic_code_add code expired_at max_times cc =
     cc\<lparr>codes := fmupd code \<lparr>cv_remain_times = max_times, cv_expired_at = expired_at, cv_email = ''''\<rparr>
       (codes cc)\<rparr>"

definition login_magic_code_add ::
    "string \<Rightarrow> string \<Rightarrow> instant \<Rightarrow> i32 \<Rightarrow> CodeCache \<Rightarrow> CodeCache" where
  "login_magic_code_add code email expired_at max_times cc =
     (let last_code = fmlookup (email_code cc) email;
          codes1 = (case last_code of Some c \<Rightarrow> fmdrop c (codes cc) | None \<Rightarrow> codes cc)
      in \<lparr> codes = fmupd code
             \<lparr>cv_remain_times = max_times, cv_expired_at = expired_at, cv_email = email\<rparr> codes1,
           email_code = fmupd email code (email_code cc) \<rparr>)"

definition login_magic_code_remove :: "string \<Rightarrow> CodeCache \<Rightarrow> CodeCache" where
  "login_magic_code_remove code cc =
     (case fmlookup (codes cc) code of
        None \<Rightarrow> cc
      | Some v \<Rightarrow> \<lparr> codes = fmdrop code (codes cc), email_code = fmdrop (cv_email v) (email_code cc) \<rparr>)"

definition code_dead :: "instant \<Rightarrow> CodeValue \<Rightarrow> bool" where
  "code_dead now v \<longleftrightarrow> cv_expired_at v < now \<or> cv_remain_times v \<le> 0"

definition magic_code_clean :: "instant \<Rightarrow> CodeCache \<Rightarrow> CodeCache" where
  "magic_code_clean now cc =
     \<lparr> codes = fmfilter (\<lambda>k. case fmlookup (codes cc) k of Some v \<Rightarrow> \<not> code_dead now v | None \<Rightarrow> False) (codes cc),
       email_code = fmfilter (\<lambda>e. \<not> fm_any (\<lambda>v. code_dead now v \<and> cv_email v = e) (codes cc)) (email_code cc) \<rparr>"

section \<open>Expired mutes\<close>

definition drop_expired :: "DateTime \<Rightarrow> (i64, DateTime option) fmap \<Rightarrow> (i64, DateTime option) fmap" where
  "drop_expired now m =
     fmfilter (\<lambda>k. case fmlookup m k of Some (Some t) \<Rightarrow> \<not> t < now | _ \<Rightarrow> True) m"

text \<open>A failing deletion is only logged; the cache is cleaned in any case.\<close>

definition clean_mute :: "bool \<Rightarrow> DateTime \<Rightarrow> ('j, 'db) State \<Rightarrow> ('j, 'db) State" where
  "clean_mute db_ok now st =
     (let st1 = (if db_ok then set_tables (sql_delete_expired_mute now (st_tables st)) st else st)
      in st1\<lparr>st_cache := (st_cache st1)\<lparr>ca_users :=
           fmmap (\<lambda>u. u\<lparr>cu_mute_user := drop_expired now (cu_mute_user u),
                        cu_mute_group := drop_expired now (cu_mute_group u)\<rparr>) (st_users st1)\<rparr>\<rparr>)"

section \<open>Loading the cache\<close>

definition status_of_code :: "i32 \<Rightarrow> UserStatus" where
  "status_of_code n = (if n = 0 then StatusNormal else StatusFrozen)"

text \<open>The two maps read from a settings table: entries for users, entries for groups.\<close>

definition settings_user :: "i64 \<Rightarrow> 'v setting_row list \<Rightarrow> (i64, 'v) fmap" where
  "settings_user uid rows = fold
     (\<lambda>r m. if sr_uid r = uid
            then (case (sr_target_uid r, sr_target_gid r) of
                    (Some u, None) \<Rightarrow> fmupd u (sr_value r) m | _ \<Rightarrow> m)
            else m) rows fmempty"

definition settings_group :: "i64 \<Rightarrow> 'v setting_row list \<Rightarrow> (i64, 'v) fmap" where
  "settings_group uid rows = fold
     (\<lambda>r m. if sr_uid r = uid
            then (case (sr_target_uid r, sr_target_gid r) of
                    (None, Some g) \<Rightarrow> fmupd g (sr_value r) m | _ \<Rightarrow> m)
            else m) rows fmempty"

definition load_user :: "tables \<Rightarrow> i64 \<Rightarrow> user_row \<Rightarrow> CacheUser" where
  "load_user db uid r =
     \<lparr> cu_email = ur_email r, cu_name = ur_name r, cu_password = ur_password r,
       cu_gender = ur_gender r, cu_is_admin = ur_is_admin r, cu_language = ur_language r,
       cu_create_by = ur_create_by r,
       cu_devices = fold (\<lambda>(u, d, t) m. if u = uid then fmupd d \<lparr>dev_token = t, dev_sender = None\<rparr> m else m)
         (tb_device db) fmempty,
       cu_mute_user = settings_user uid (tb_mute db), cu_mute_group = settings_group uid (tb_mute db),
       cu_burn_after_reading_user = settings_user uid (tb_burn_after_reading db),
       cu_burn_after_reading_group = settings_group uid (tb_burn_after_reading db),
       cu_read_index_user = settings_user uid (tb_read_index db),
       cu_read_index_group = settings_group uid (tb_read_index db),
       cu_created_at = ur_created_at r, cu_updated_at = ur_updated_at r,
       cu_avatar_updated_at = ur_avatar_updated_at r, cu_status = status_of_code (ur_status r),
       cu_is_guest = ur_is_guest r, cu_webhook_url = ur_webhook_url r, cu_is_bot = ur_is_bot r,
       cu_bot_keys = fold (\<lambda>k m. if br_uid k = uid then fmupd (br_id k) (br_key k) m else m)
         (tb_bot_key db) fmempty \<rparr>"

definition load_users_cache :: "tables \<Rightarrow> (i64, CacheUser) fmap" where
  "load_users_cache db = fmmap_keys (load_user db) (tb_user db)"

fun load_pins ::
    "'db sled_ops \<Rightarrow> 'j codec \<Rightarrow> 'db msgdb \<Rightarrow> pin_row list \<Rightarrow> 'j PinnedMessage list" where
  "load_pins K C mdb [] = []"
| "load_pins K C mdb (p # ps) =
     (case get_merged_message K C mdb (pr_mid p) of
        Inr (Some merged_msg) \<Rightarrow>
          \<lparr>pin_mid = pr_mid p, pin_created_by = pr_created_by p, pin_created_at = pr_created_at p,
           pin_content = mp_content merged_msg\<rparr> # load_pins K C mdb ps
      | _ \<Rightarrow> load_pins K C mdb ps)"

text \<open>\<open>None\<close> where \<open>owner.unwrap()\<close> panics: a private group without an owner.\<close>

definition load_group ::
    "'db sled_ops \<Rightarrow> 'j codec \<Rightarrow> 'db msgdb \<Rightarrow> tables \<Rightarrow> i64 \<Rightarrow> group_row \<Rightarrow> 'j CacheGroup option" where
  "load_group K C mdb db gid r =
     (case (if gr_is_public r then Some Public else map_option Private (gr_owner r)) of
        None \<Rightarrow> None
      | Some ty \<Rightarrow>
          Some \<lparr> cg_ty = ty, cg_name = gr_name r, cg_description = gr_description r,
             cg_members = snd ` Set.filter (\<lambda>(g, u). g = gid) (tb_group_user db),
             cg_created_at = gr_created_at r, cg_updated_at = gr_updated_at r,
             cg_avatar_updated_at = gr_avatar_updated_at r,
             cg_pinned_messages = sort_key pin_created_at
               (load_pins K C mdb (filter (\<lambda>p. pr_gid p = gid) (tb_pinned_message db))),
             cg_e2e_enabled = gr_e2e_enabled r \<rparr>)"

text \<open>\<open>None\<close> when the loading panics.\<close>

definition load_groups_cache ::
    "'db sled_ops \<Rightarrow> 'j codec \<Rightarrow> 'db msgdb \<Rightarrow> tables \<Rightarrow> (i64, 'j CacheGroup) fmap option" where
  "load_groups_cache K C mdb db =
     (let loaded = fmmap_keys (load_group K C mdb db) (tb_group db)
      in if fm_any (\<lambda>g. g = None) loaded then None else Some (fmmap the loaded))"

section \<open>Deleting a user\<close>

text \<open>The live streams of the user's devices, in some order.\<close>

definition kick_streams :: "CacheUser \<Rightarrow> KickReason \<Rightarrow> (stream_id \<times> KickReason) list" where
  "kick_streams u reason =
     map (\<lambda>s. (s, reason)) (sorted_list_of_set (Option.these (dev_sender ` fmran' (cu_devices u))))"

definition delete_user :: "bool \<Rightarrow> i64 \<Rightarrow> ('j, 'db, unit) handler" where
  "delete_user db_ok uid st =
     (case fmlookup (st_users st) uid of
        None \<Rightarrow> (Inl (from_status NOT_FOUND), st)
      | Some user \<Rightarrow>
          if \<not> db_ok then (Inl internal_error, st)
          else
            let db1 = sql_delete_user uid (st_tables st);
                (log_id, db2) = (if cu_is_guest user then (None, db1)
                                 else case sql_insert_user_log db1 of (i, d) \<Rightarrow> (Some i, d));
                groups = st_groups st;
                gids = fm_keys groups;
                ty = (\<lambda>gid. cg_ty (the (fmlookup groups gid)));
                exit_public = filter (\<lambda>gid. ty gid = Public) gids;
                removed = filter (\<lambda>gid. ty gid = Private uid) gids;
                exit_private = filter (\<lambda>gid. ty gid \<noteq> Public \<and> ty gid \<noteq> Private uid) gids;
                groups1 = fold (\<lambda>gid. fm_modify gid (\<lambda>g. g\<lparr>cg_members := cg_members g - {uid}\<rparr>))
                  exit_private groups;
                groups2 = fold fmdrop removed groups1;
                users1 = fmmap (\<lambda>u. u\<lparr>cu_read_index_user := fmdrop uid (cu_read_index_user u),
                    cu_read_index_group := fold fmdrop removed (cu_read_index_group u)\<rparr>)
                  (fmdrop uid (st_users st));
                members1 = (\<lambda>gid. cg_members (the (fmlookup groups1 gid)));
                evs = (case log_id of
                    None \<Rightarrow> []
                  | Some i \<Rightarrow>
                      [UserLog \<lparr>ul_log_id = i, ul_action = ActionDelete, ul_uid = uid, ul_email = None,
                         ul_name = None, ul_gender = None, ul_language = None, ul_is_admin = None,
                         ul_is_bot = None, ul_avatar_updated_at = None\<rparr>]
                      @ map (\<lambda>gid. KickFromGroup (members1 gid) gid GroupDeleted) removed
                      @ map (\<lambda>gid. UserLeavedGroup (members1 gid) gid [uid]) exit_private
                      @ map (\<lambda>gid. UserLeavedGroup (fmdom' users1) gid [uid]) exit_public)
            in (Inr (),
                broadcast evs
                  (st\<lparr>st_tables := db2,
                      st_cache := (st_cache st)\<lparr>ca_users := users1, ca_groups := groups2\<rparr>,
                      st_stream_events := st_stream_events st @ kick_streams user DeleteUser\<rparr>)))"

end
