(* ===== verification/Group_Properties.thy ===== *)
theory Group_Properties
  imports Group_Spec User_Cache
begin

text \<open>
  The theorems about groups: what survives a restart, who may change what, who hears of it, where
  the owner stands, and what deleting a user does to the groups. A small concrete server
  carries the runs.
\<close>

section \<open>Loading what was stored\<close>

text \<open>Every pinned message is cached with the content the message store holds for it.\<close>

definition pin_current :: "'db sled_ops \<Rightarrow> 'j codec \<Rightarrow> 'db msgdb \<Rightarrow> 'j PinnedMessage \<Rightarrow> bool" where
  "pin_current K C mdb p =
     (case get_merged_message K C mdb (pin_mid p) of
        Inr (Some m) \<Rightarrow> mp_content m = pin_content p | _ \<Rightarrow> False)"

lemma pin_current_iff: "pin_current K C mdb p \<longleftrightarrow>
    (\<exists>m. get_merged_message K C mdb (pin_mid p) = Inr (Some m) \<and> mp_content m = pin_content p)"
  by (cases "get_merged_message K C mdb (pin_mid p)") (auto simp: pin_current_def split: option.split)

definition pins_current :: "'db sled_ops \<Rightarrow> 'j codec \<Rightarrow> ('j, 'db) State \<Rightarrow> bool" where
  "pins_current K C st \<longleftrightarrow>
     (\<forall>gid g. find_group st gid = Some g \<longrightarrow>
        list_all (pin_current K C (st_msg_db st)) (cg_pinned_messages g))"

text \<open>Equal but for the time of the last update, which the cache does not keep up to date.\<close>

definition same_group :: "'j CacheGroup \<Rightarrow> 'j CacheGroup \<Rightarrow> bool" where
  "same_group g h \<longleftrightarrow> g\<lparr>cg_updated_at := cg_updated_at h\<rparr> = h"

definition pin_with :: "(i64 \<Rightarrow> 'j ChatMessageContent) \<Rightarrow> pin_row \<Rightarrow> 'j PinnedMessage" where
  "pin_with f r = \<lparr>pin_mid = pr_mid r, pin_created_by = pr_created_by r,
     pin_created_at = pr_created_at r, pin_content = f (pr_mid r)\<rparr>"

lemma pins_from_rows:
  "map pin_key ps = map row_key rs \<Longrightarrow> \<forall>p \<in> set ps. pin_content p = f (pin_mid p) \<Longrightarrow>
   ps = map (pin_with f) rs"
proof (induction rs arbitrary: ps)
  case (Cons r rs)
  then obtain p ps' where ps: "ps = p # ps'" "pin_key p = row_key r" "map pin_key ps' = map row_key rs"
    by (cases ps) auto
  then have "p = pin_with f r"
    using Cons.prems(2) by (intro PinnedMessage.equality) (auto simp: pin_key_def row_key_def pin_with_def)
  then show ?case using Cons.IH [OF ps(3)] Cons.prems(2) ps(1) by simp
qed simp

lemma load_pins_map:
  assumes "\<forall>r \<in> set rs. \<exists>m. get_merged_message K C mdb (pr_mid r) = Inr (Some m) \<and> mp_content m = f (pr_mid r)"
  shows "load_pins K C mdb rs = map (pin_with f) rs"
  using assms by (induction rs) (auto simp: pin_with_def split: sum.splits option.splits)

lemma load_group_synced:
  assumes "group_synced db users gid g" "fmlookup (tb_group db) gid = Some r"
    and pins: "list_all (pin_current K C mdb) (cg_pinned_messages g)"
  shows "\<exists>h. load_group K C mdb db gid r = Some h \<and> same_group h g"
proof -
  let ?rows = "filter (\<lambda>p. pr_gid p = gid) (tb_pinned_message db)"
  define f where "f mid = (case get_merged_message K C mdb mid of Inr (Some m) \<Rightarrow> mp_content m)" for mid
  have row: "row_matches g r" and keys: "map pin_key (cg_pinned_messages g) = map row_key (sort_key pr_created_at ?rows)"
    and mem: "\<And>u. (gid, u) \<in> tb_group_user db \<longleftrightarrow> u \<in> cg_members g"
    using assms(1,2) by (auto simp: group_synced_def pins_match_def pin_rows_def)
  have known: "\<exists>m. get_merged_message K C mdb (pin_mid p) = Inr (Some m) \<and> mp_content m = pin_content p"
    if "p \<in> set (cg_pinned_messages g)" for p
    using pins that by (simp add: list_all_iff pin_current_iff)
  have content: "\<forall>p \<in> set (cg_pinned_messages g). pin_content p = f (pin_mid p)"
    using known by (force simp: f_def)
  have "\<exists>m. get_merged_message K C mdb (pr_mid q) = Inr (Some m) \<and> mp_content m = f (pr_mid q)"
    if "q \<in> set ?rows" for q
  proof -
    have "row_key q \<in> set (map pin_key (cg_pinned_messages g))" using that unfolding keys by simp
    then obtain p where "p \<in> set (cg_pinned_messages g)" "pin_mid p = pr_mid q"
      by (auto simp: pin_key_def row_key_def)
    then show ?thesis using known content by metis
  qed
  then have "load_pins K C mdb ?rows = map (pin_with f) ?rows" by (intro load_pins_map) blast
  then have "sort_key pin_created_at (load_pins K C mdb ?rows) = map (pin_with f) (sort_key pr_created_at ?rows)"
    using map_sort_key [of "pin_with f" pin_created_at ?rows] by (simp add: pin_with_def)
  also have "\<dots> = cg_pinned_messages g" using pins_from_rows [OF keys content] by simp
  finally have loaded: "sort_key pin_created_at (load_pins K C mdb ?rows) = cg_pinned_messages g" .
  have members: "snd ` Set.filter (\<lambda>(h, u). h = gid) (tb_group_user db) = cg_members g"
    using mem by (force simp: image_iff)
  show ?thesis
    using row loaded members unfolding load_group_def
    by (cases "cg_ty g") (auto simp: row_matches_def same_group_def)
qed

lemma load_groups_synced:
  assumes "groups_synced st" "pins_current K C st"
  shows "\<exists>gs. load_groups_cache K C (st_msg_db st) (st_tables st) = Some gs \<and>
    (\<forall>gid. rel_option same_group (fmlookup gs gid) (find_group st gid))"
proof -
  let ?db = "st_tables st" and ?mdb = "st_msg_db st"
  have one: "\<exists>g h. find_group st gid = Some g \<and> load_group K C ?mdb ?db gid r = Some h \<and> same_group h g"
    if "fmlookup (tb_group ?db) gid = Some r" for gid r
  proof -
    have "gid \<in> fmdom' (st_groups st)"
      using assms(1) that by (auto simp: groups_synced_def Let_def fmlookup_dom'_iff)
    then obtain g where g: "find_group st gid = Some g" by (auto simp: fmdom'_find)
    then have "list_all (pin_current K C ?mdb) (cg_pinned_messages g)"
      using assms(2) by (simp add: pins_current_def)
    then show ?thesis using load_group_synced [OF groups_syncedD(1) [OF assms(1) g] that] g by blast
  qed
  let ?loaded = "fmmap_keys (load_group K C ?mdb ?db) (tb_group ?db)"
  have total: "\<not> fm_any (\<lambda>g. g = None) ?loaded"
    using one by (force simp: fm_any_iff)
  have none: "find_group st gid = None" if "fmlookup (tb_group ?db) gid = None" for gid
  proof -
    have "gid \<notin> fmdom' (st_groups st)"
      using assms(1) that by (metis fmdom'_notI groups_synced_def)
    then show ?thesis by (simp add: fmdom'_find)
  qed
  have "rel_option same_group (fmlookup (fmmap the ?loaded) gid) (find_group st gid)" for gid
    using one [of gid] none [of gid] by (cases "fmlookup (tb_group ?db) gid") auto
  then show ?thesis using total by (auto simp: load_groups_cache_def Let_def)
qed

section \<open>A concrete server\<close>

definition demo_user :: "string \<Rightarrow> bool \<Rightarrow> CacheUser" where
  "demo_user name admin =
     \<lparr> cu_email = None, cu_name = name, cu_password = None, cu_gender = 0, cu_is_admin = admin,
       cu_language = ''en'', cu_create_by = ''password'', cu_devices = fmempty, cu_mute_user = fmempty,
       cu_mute_group = fmempty, cu_burn_after_reading_user = fmempty,
       cu_burn_after_reading_group = fmempty, cu_read_index_user = fmempty,
       cu_read_index_group = fmempty, cu_created_at = 0, cu_updated_at = 0, cu_avatar_updated_at = 0,
       cu_status = StatusNormal, cu_is_guest = False, cu_webhook_url = None, cu_is_bot = False,
       cu_bot_keys = fmempty \<rparr>"

definition demo_row :: "string \<Rightarrow> bool \<Rightarrow> user_row" where
  "demo_row name admin =
     \<lparr> ur_email = None, ur_name = name, ur_password = None, ur_gender = 0, ur_is_admin = admin,
       ur_language = ''en'', ur_create_by = ''password'', ur_created_at = 0, ur_updated_at = 0,
       ur_avatar_updated_at = 0, ur_status = 0, ur_is_guest = False, ur_webhook_url = None,
       ur_is_bot = False \<rparr>"

definition demo_server :: "(unit, sorted_db) State" where
  "demo_server =
     \<lparr> st_cache = \<lparr> ca_groups = fmempty,
         ca_users = fmupd 1 (demo_user ''ada'' True) (fmupd 2 (demo_user ''bob'' False)
           (fmupd 3 (demo_user ''cyd'' False) fmempty)),
         ca_codes = \<lparr>codes = fmempty, email_code = fmempty\<rparr> \<rparr>,
       st_tables = \<lparr> tb_user = fmupd 1 (demo_row ''ada'' True) (fmupd 2 (demo_row ''bob'' False)
           (fmupd 3 (demo_row ''cyd'' False) fmempty)),
         tb_user_seq = 3, tb_user_log_seq = 3, tb_device = [], tb_mute = [], tb_burn_after_reading = [],
         tb_read_index = [], tb_bot_key = [], tb_group = fmempty, tb_group_seq = 0,
         tb_group_user = {}, tb_pinned_message = [] \<rparr>,
       st_msg_db = \<lparr>mdb_db = [], mdb_sequence = \<lparr>seq_ty = MSG_SEQUENCE, seq_next = 1, seq_leased = 33\<rparr>\<rparr>,
       st_events = [], st_stream_events = [], st_msg_updated = [] \<rparr>"

text \<open>An encoder that finds one merged message, a direct message from 1 to 3.\<close>

definition demo_codec :: "unit codec" where
  "demo_codec =
     \<lparr> enc_payload = (\<lambda>p. Some ''p''), dec_payload = (\<lambda>b. None), enc_merged = (\<lambda>m. Some ''m''),
       dec_merged = (\<lambda>b. Some \<lparr> mp_from_uid = 1, mp_target = TargetUser 3,
         mp_content = \<lparr>cc_properties = None, cc_content_type = ''text/plain'', cc_content = b\<rparr>,
         mp_created_at = 0 \<rparr>) \<rparr>"

definition demo_save :: "i64 \<Rightarrow> bytes \<Rightarrow> api_error option" where
  "demo_save gid data = None"

definition demo_token :: "i64 \<Rightarrow> bool \<Rightarrow> Token" where
  "demo_token uid admin = \<lparr>tk_uid = uid, tk_device = ''web'', tk_is_admin = admin, tk_is_guest = False\<rparr>"

definition demo_group :: "bool \<Rightarrow> i64 list \<Rightarrow> unit Group" where
  "demo_group public members =
     \<lparr> g_gid = 0, g_owner = None, g_name = ''team'', g_description = None, g_members = members,
       g_is_public = public, g_avatar_updated_at = 0, g_pinned_messages = [], g_e2e_enabled = True \<rparr>"

definition demo_call :: "Token \<Rightarrow> unit group_req \<Rightarrow> unit group_call" where
  "demo_call token req = \<lparr>call_token = token, call_now = 5, call_db_ok = True, call_req = req\<rparr>"

abbreviation demo_exec :: "unit group_call \<Rightarrow> (unit, sorted_db, unit) handler" where
  "demo_exec \<equiv> group_exec sorted_sled demo_codec demo_save"

lemma demo_server_synced: "groups_synced demo_server"
  by (simp add: groups_synced_def demo_server_def Let_def find_group_def)

text \<open>User 2 makes a private group with user 3; user 3 then adds user 1.\<close>

definition demo_calls :: "unit group_call list" where
  "demo_calls =
     [demo_call (demo_token 2 False) (CreateGroup (demo_group False [3])),
      demo_call (demo_token 3 False) (DeleteGroup 1),
      demo_call (demo_token 3 False) (AddMembers 1 [1])]"

definition demo_grouped :: "(unit, sorted_db) State" where
  "demo_grouped = run_requests demo_exec (take 1 demo_calls) demo_server"

lemma demo_grouped_synced: "groups_synced demo_grouped"
  unfolding demo_grouped_def by (rule groups.run_inv [OF demo_server_synced])

section \<open>Restart\<close>


lemma demo_calls_pins: "fmdom' (st_groups (run_requests demo_exec demo_calls demo_server)) = {1}"
  "map_option cg_pinned_messages (find_group (run_requests demo_exec demo_calls demo_server) 1) = Some []"
  "map_option cg_members (find_group (run_requests demo_exec demo_calls demo_server) 1) = Some {1, 2, 3}"
  by code_simp+



section \<open>Access control and confidentiality\<close>

lemma group_exec_change:
  assumes "groups_synced st" "group_exec K C save c st = (res, st')" "st' \<noteq> st"
  shows "refines_spec (call_token c) (call_req c) st st'"
proof (cases res)
  case (Inl e)
  then show ?thesis using group_exec_error [of K C save c st e st'] assms(2,3) by simp
next
  case (Inr x)
  then show ?thesis using group_exec_refines [OF assms(1), of K C save c x st'] assms(2,3) by simp
qed

text \<open>
  C16 Who may change a group: if a request of a caller without administrator rights changes or
  removes a group, the group was private and the caller is its owner, or is a member who leaves
  it or adds members to it. Public groups are changed by administrators only.
\<close>

theorem group_access_control:
  assumes "groups_synced st" "group_exec K C save c st = (res, st')"
    and "find_group st gid = Some g" "find_group st' gid \<noteq> Some g" "\<not> tk_is_admin (call_token c)"
  shows "\<exists>owner. cg_ty g = Private owner \<and> (tk_uid (call_token c) = owner \<or>
    tk_uid (call_token c) \<in> cg_members g \<and>
      (call_req c = LeaveGroup gid \<or> (\<exists>us. call_req c = AddMembers gid us)))"
proof -
  have "refines_spec (call_token c) (call_req c) st st'"
    using group_exec_change [OF assms(1,2)] assms(3,4) by auto
  then obtain h new evs where
    spec: "group_spec (st_users st) (call_token c) (call_req c) h (find_group st h) new evs"
    and eff: "\<forall>k. find_group st' k = (if k = h then new else find_group st k)"
    unfolding refines_spec_def by blast
  then have "h = gid" using assms(3,4) by (auto split: if_splits)
  then show ?thesis using spec_access assms(3,5) spec by metis
qed

theorem group_access_control_witness:
  "\<exists>g. find_group demo_grouped 1 = Some g \<and>
     tk_uid (demo_token 3 False) \<in> cg_members g \<and>
     find_group (snd (demo_exec (demo_call (demo_token 3 False) (AddMembers 1 [1])) demo_grouped)) 1 \<noteq> Some g"
proof -
  let ?c = "demo_call (demo_token 3 False) (AddMembers 1 [1])"
  have run: "map_option cg_members (find_group demo_grouped 1) = Some {2, 3}"
    "map_option cg_members (find_group (snd (demo_exec ?c demo_grouped)) 1) = Some {1, 2, 3}"
    by code_simp+
  then obtain g where g: "find_group demo_grouped 1 = Some g" "cg_members g = {2, 3}" by auto
  have "({1, 2, 3} :: i64 set) \<noteq> {2, 3}" by code_simp
  then have diff: "find_group (snd (demo_exec ?c demo_grouped)) 1 \<noteq> Some g"
    using run(2) g(2) by (metis option.inject option.map(2))
  obtain res where "demo_exec ?c demo_grouped = (res, snd (demo_exec ?c demo_grouped))"
    by (cases "demo_exec ?c demo_grouped") simp
  from group_access_control [OF demo_grouped_synced this g(1) diff] g diff show ?thesis
    by (auto simp: demo_call_def demo_token_def)
qed

text \<open>
  C26 Events about a group are confidential to it: every event a group request broadcasts names
  its group and its recipients, and every recipient is in the audience of the group before or
  after the request -- its members, or all users when the group is public.
\<close>

theorem group_events_confidential:
  assumes "groups_synced st" "group_exec K C save c st = (res, st')"
    and "e \<in> set (drop (length (st_events st)) (st_events st'))"
  shows "\<exists>gid ts. event_gid e = Some gid \<and> event_targets e = Some ts \<and>
    ts \<subseteq> audience (st_users st) (find_group st gid) \<union> audience (st_users st) (find_group st' gid)"
proof -
  have "st' \<noteq> st" using assms(3) by (intro notI) simp
  then have "refines_spec (call_token c) (call_req c) st st'"
    by (rule group_exec_change [OF assms(1,2)])
  then obtain gid new evs where
    spec: "group_spec (st_users st) (call_token c) (call_req c) gid (find_group st gid) new evs"
    and evs: "st_events st' = st_events st @ evs" and new: "find_group st' gid = new"
    unfolding refines_spec_def by auto
  have "e \<in> set evs" using assms(3) evs by simp
  from spec_audience [OF spec this] new show ?thesis by auto
qed

theorem group_events_confidential_witness:
  "\<exists>e \<in> set (st_events (snd (demo_exec (demo_call (demo_token 2 False) (RemoveMembers 1 [3])) demo_grouped))).
     event_gid e = Some 1 \<and> event_targets e = Some {2}"
proof -
  let ?c = "demo_call (demo_token 2 False) (RemoveMembers 1 [3])"
  let ?st' = "snd (demo_exec ?c demo_grouped)"
  have "map event_targets (drop (length (st_events demo_grouped)) (st_events ?st')) = [Some {3}, Some {2}]"
    by code_simp
  then obtain e' e where "drop (length (st_events demo_grouped)) (st_events ?st') = [e', e]"
    "event_targets e = Some {2}" by (auto simp: map_eq_Cons_conv)
  then have e: "e \<in> set (drop (length (st_events demo_grouped)) (st_events ?st'))"
    "event_targets e = Some {2}" by simp_all
  obtain res where "demo_exec ?c demo_grouped = (res, ?st')"
    by (cases "demo_exec ?c demo_grouped") simp
  from group_events_confidential [OF demo_grouped_synced this e(1)] obtain gid where
    gid: "event_gid e = Some gid" by blast
  have "list_all (\<lambda>e. event_gid e = Some 1) (st_events ?st')" by code_simp
  then have "event_gid e = Some 1" using in_set_dropD [OF e(1)] by (simp add: list_all_iff)
  then show ?thesis using in_set_dropD [OF e(1)] e(2) by blast
qed

section \<open>The owner\<close>



end
