(* ===== verification/Group_Limits.thy ===== *)
theory Group_Limits
  imports Group_Properties
begin

text \<open>
  Where the group code stops short of what its guards suggest: the conversion to a private group
  and its owner, pinned messages of other conversations, groups of deleted users, and timed
  mutes and magic-link codes, whose comparisons are reversed.
\<close>

section \<open>Groups\<close>

text \<open>
  Converting a public group to a private one makes the caller its owner without making him a
  member: when the request lists members and the caller is not among them, the group ends up
  with an owner outside it; and the event that announces the new owner carries the id of the
  group in place of the owner's.
\<close>

theorem change_type_can_exclude_owner:
  assumes "change_type ok token gid req st = (Inr x, st')" "find_group st gid = Some g"
    and "gt_is_public (cg_ty g)" "\<not> ct_is_public req"
    and "tk_uid token \<notin> new_private_members (st_users st) req"
  shows "(\<exists>g'. find_group st' gid = Some g' \<and> cg_ty g' = Private (tk_uid token) \<and> \<not> owner_is_member g') \<and>
    st_events st' = st_events st @ [GroupChanged (fmdom' (st_users st))
      \<lparr>gc_gid = gid, gc_name = None, gc_description = None, gc_owner = Some gid,
       gc_avatar_updated_at = None, gc_is_public = Some False, gc_e2e_enabled = None\<rparr>]"
  using assms
  by (auto simp: change_type_def Let_def no_change_def owner_is_member_def new_private_members_def
      split: if_splits option.splits)

definition demo_public :: "(unit, sorted_db) State" where
  "demo_public = snd (demo_exec (demo_call (demo_token 1 True) (CreateGroup (demo_group True []))) demo_server)"

theorem change_type_can_exclude_owner_witness:
  "\<exists>st' g'. change_type True (demo_token 1 True) 1 \<lparr>ct_is_public = False, ct_members = [2, 3]\<rparr> demo_public =
      (Inr (), st') \<and> find_group st' 1 = Some g' \<and> cg_ty g' = Private 1 \<and> \<not> owner_is_member g'"
proof -
  let ?req = "\<lparr>ct_is_public = False, ct_members = [2, 3]\<rparr>"
  let ?r = "change_type True (demo_token 1 True) 1 ?req demo_public"
  have run: "fst ?r = Inr ()" "map_option cg_ty (find_group demo_public 1) = Some Public"
    "(1::i64) \<notin> set [2, 3]"
    by code_simp+
  obtain g where g: "find_group demo_public 1 = Some g" "gt_is_public (cg_ty g)" using run(2) by auto
  have "?r = (Inr (), snd ?r)" using run(1) by (cases ?r) simp
  then show ?thesis
    using change_type_can_exclude_owner [OF _ g, of True "demo_token 1 True" ?req "()" "snd ?r"]
    by (auto simp: new_private_members_def demo_token_def)
qed

text \<open>
  Pinning checks the rights of the caller on the group but not where the message was sent: any
  message with a merged record, be it of another group or a direct message between others, can be
  pinned, and its content goes to the whole audience of the group.
\<close>

theorem pin_discloses_any_message:
  assumes "groups_synced st" "find_group st gid = Some g" "\<not> pin_forbidden (cg_ty g) token"
    and "\<not> list_ex (\<lambda>p. pin_mid p = mid) (cg_pinned_messages g)"
    and "get_merged_message K C (st_msg_db st) mid = Inr (Some m)"
    and "tk_uid token \<in> fmdom' (st_users st)"
  shows "\<exists>st' p. pin_message K C True now gid token mid st = (Inr (), st') \<and>
    st_events st' = st_events st @ [PinnedMessageUpdated (group_audience (st_users st) g) gid mid (Some p)] \<and>
    pin_content p = mp_content m"
proof -
  note s = groups_syncedD [OF assms(1,2)]
  have "fmlookup (tb_user (st_tables st)) (tk_uid token) \<noteq> None"
    "fmlookup (tb_group (st_tables st)) gid \<noteq> None"
    using s assms(6) by (auto simp: group_synced_def fmlookup_dom'_iff)
  then show ?thesis
    using assms(2-5) by (auto simp: pin_message_def sql_insert_pin_def Let_def group_audience_def)
qed

definition demo_dm :: "(unit, sorted_db) State" where
  "demo_dm = demo_grouped\<lparr>st_msg_db := (st_msg_db demo_grouped)\<lparr>mdb_db := [(key_merged_msg 9, ''secret'')]\<rparr>\<rparr>"

lemma demo_dm_synced: "groups_synced demo_dm"
proof -
  have "find_group demo_dm gid = find_group demo_grouped gid" for gid
    by (simp add: demo_dm_def find_group_def)
  then show ?thesis
    using demo_grouped_synced by (auto simp: groups_synced_def Let_def demo_dm_def)
qed

text \<open>The message of user 1 to user 3 reaches user 2, the owner of a group.\<close>

theorem pin_discloses_any_message_witness:
  "\<exists>st' ts p. pin_message sorted_sled demo_codec True 7 1 (demo_token 2 False) 9 demo_dm = (Inr (), st') \<and>
     st_events st' = st_events demo_dm @ [PinnedMessageUpdated ts 1 9 (Some p)] \<and> 2 \<in> ts \<and>
     cc_content (pin_content p) = ''secret''"
proof -
  let ?m = "\<lparr> mp_from_uid = 1, mp_target = TargetUser 3, mp_content =
    \<lparr>cc_properties = None, cc_content_type = ''text/plain'', cc_content = ''secret''\<rparr>, mp_created_at = 0 \<rparr>"
  have run: "map_option cg_ty (find_group demo_dm 1) = Some (Private 2)"
    "map_option (\<lambda>g. cg_pinned_messages g = []) (find_group demo_dm 1) = Some True"
    "map_option (group_audience (st_users demo_dm)) (find_group demo_dm 1) = Some {2, 3}"
    "fmdom' (st_users demo_dm) = {1, 2, 3}"
    "get_merged_message sorted_sled demo_codec (st_msg_db demo_dm) 9 = Inr (Some ?m)"
    by code_simp+
  obtain g where g: "find_group demo_dm 1 = Some g" "cg_ty g = Private 2" "cg_pinned_messages g = []"
    "group_audience (st_users demo_dm) g = {2, 3}"
    using run(1-3) by auto
  show ?thesis
    using pin_discloses_any_message [OF demo_dm_synced g(1) _ _ run(5), of "demo_token 2 False" 7] g(2-4) run(4)
    by (auto simp: demo_token_def)
qed

lemma fmlookup_fold_fmdrop:
  "fmlookup (fold fmdrop ks m) k = (if k \<in> set ks then None else fmlookup m k)"
  by (induction ks arbitrary: m) auto

text \<open>
  Deleting the owner of a private group removes the group from the running server only: its row
  stays in the database, so the next start brings the group back, owned by the user who no
  longer exists.
\<close>

theorem deleted_owners_group_returns:
  assumes "groups_synced st" "find_group st gid = Some g" "cg_ty g = Private uid"
    and "delete_user True uid st = (Inr x, st')"
    and "load_groups_cache K C mdb (st_tables st') = Some gs"
  shows "find_group st' gid = None \<and> fmlookup (tb_user (st_tables st')) uid = None \<and>
    (\<exists>g'. fmlookup gs gid = Some g' \<and> cg_ty g' = Private uid)"
proof -
  obtain r where r: "fmlookup (tb_group (st_tables st)) gid = Some r" "gr_is_public r = False" "gr_owner r = Some uid"
    using groups_syncedD(1) [OF assms(1,2)] assms(3) by (auto simp: group_synced_def row_matches_def)
  have tabs: "tb_group (st_tables st') = tb_group (st_tables st)" "fmlookup (tb_user (st_tables st')) uid = None"
    using assms(4)
    by (auto simp: delete_user_def Let_def sql_delete_user_def sql_insert_user_log_def
        split: option.splits if_splits prod.splits)
  have mem: "gid \<in> set (fm_keys (st_groups st))" "cg_ty (the (fmlookup (st_groups st) gid)) = Private uid"
    using assms(2,3) by (auto simp: find_group_def fmlookup_dom'_iff)
  have "fmlookup (st_groups st') gid = None"
    using assms(4) mem
    by (auto simp: delete_user_def Let_def fmlookup_fold_fmdrop split: option.splits if_splits prod.splits)
  moreover have "\<exists>g'. fmlookup gs gid = Some g' \<and> cg_ty g' = Private uid"
    using assms(5) r tabs(1) by (auto simp: load_groups_cache_def Let_def load_group_def split: if_splits)
  ultimately show ?thesis using tabs(2) by (simp add: find_group_def)
qed

theorem deleted_owners_group_returns_witness:
  "\<exists>st' gs g'. delete_user True 2 demo_grouped = (Inr (), st') \<and> find_group st' 1 = None \<and>
     load_groups_cache sorted_sled demo_codec (st_msg_db st') (st_tables st') = Some gs \<and>
     fmlookup gs 1 = Some g' \<and> cg_ty g' = Private 2"
proof -
  let ?r = "delete_user True 2 demo_grouped"
  have run: "fst ?r = Inr ()" "map_option cg_ty (find_group demo_grouped 1) = Some (Private 2)"
    "map_option (\<lambda>gs. True) (load_groups_cache sorted_sled demo_codec (st_msg_db (snd ?r)) (st_tables (snd ?r))) = Some True"
    by code_simp+
  obtain g where g: "find_group demo_grouped 1 = Some g" "cg_ty g = Private 2" using run(2) by auto
  obtain gs where gs: "load_groups_cache sorted_sled demo_codec (st_msg_db (snd ?r)) (st_tables (snd ?r)) = Some gs"
    using run(3) by auto
  have r: "?r = (Inr (), snd ?r)" using run(1) by (cases ?r) simp
  from deleted_owners_group_returns [OF demo_grouped_synced g r gs] r gs show ?thesis by blast
qed

section \<open>Mutes\<close>

text \<open>
  A timed mute never mutes while it lasts: until its expiry both queries answer that the
  conversation is not muted, and the periodic cleaning removes the entry once it has
  expired; so after a cleaning only mutes without an end are in effect.
\<close>

theorem timed_mutes_are_ineffective:
  "(\<forall>t. fmlookup (cu_mute_user u) uid = Some (Some t) \<and> now \<le> t \<longrightarrow> \<not> is_user_muted now u uid) \<and>
   (\<forall>st v. fmlookup (st_users (clean_mute db_ok now st)) v = Some u \<longrightarrow>
      is_user_muted now u uid = (fmlookup (cu_mute_user u) uid = Some None) \<and>
      is_group_muted now u gid = (fmlookup (cu_mute_group u) gid = Some None))"
proof -
  have drop: "mute_entry_active now (fmlookup (drop_expired now m) k) = (fmlookup (drop_expired now m) k = Some None)"
    for m k by (auto simp: mute_entry_active_def drop_expired_def split: option.splits)
  show ?thesis
    by (auto simp: is_user_muted_def is_group_muted_def mute_entry_active_def clean_mute_def Let_def
        drop [unfolded mute_entry_active_def] split: if_splits)
qed

definition demo_muter :: CacheUser where
  "demo_muter = (demo_user ''eve'' False)\<lparr>cu_mute_user := fmupd 3 (Some 10) fmempty\<rparr>"

theorem timed_mutes_are_ineffective_witness:
  "\<not> is_user_muted 5 demo_muter 3 \<and> is_user_muted 11 demo_muter 3"
  using timed_mutes_are_ineffective [of demo_muter 3 5]
  by (simp add: demo_muter_def is_user_muted_def mute_entry_active_def)

section \<open>Magic-link codes\<close>

fun check_times :: "nat \<Rightarrow> instant \<Rightarrow> string \<Rightarrow> CodeCache \<Rightarrow> bool \<times> CodeCache" where
  "check_times 0 now code cc = (True, cc)"
| "check_times (Suc n) now code cc =
     (case magic_code_check_code now code cc of
        (b, cc') \<Rightarrow> (case check_times n now code cc' of (bs, cc'') \<Rightarrow> (b \<and> bs, cc'')))"

lemma check_times_accepts:
  assumes "fmlookup (codes cc) code = Some v" "now \<le> cv_expired_at v" "0 < cv_remain_times v"
    and "cv_remain_times v + int n \<le> 2147483647"
  shows "fst (check_times n now code cc)"
  using assms
proof (induction n arbitrary: cc v)
  case (Suc n)
  let ?v = "v\<lparr>cv_remain_times := cv_remain_times v + 1\<rparr>"
  have "wrap_i32 (cv_remain_times v - (-1)) = cv_remain_times v + 1"
    using Suc.prems(3,4) by (simp add: wrap_i32_def)
  then have check: "magic_code_check_code now code cc = (True, cc\<lparr>codes := fmupd code ?v (codes cc)\<rparr>)"
    using Suc.prems(1-3) by (simp add: magic_code_check_code_def)
  have "fst (check_times n now code (cc\<lparr>codes := fmupd code ?v (codes cc)\<rparr>))"
    by (rule Suc.IH [of _ ?v]) (use Suc.prems in simp_all)
  then show ?case by (simp add: check split: prod.split)
qed simp

text \<open>
  The use limit of a magic-link code has no effect: a code that may be used once is accepted at
  every check until it expires, because a check adds to the remaining uses (the bound keeps
  the 32-bit counter from wrapping around).
\<close>

theorem magic_codes_never_run_out:
  assumes "now \<le> expired_at" "0 < max_times" "max_times + int n \<le> 2147483647"
  shows "fst (check_times n now code (reg_magic_code_add code expired_at max_times cc))"
  using check_times_accepts [of "reg_magic_code_add code expired_at max_times cc" code _ now n] assms
  by (simp add: reg_magic_code_add_def)

theorem magic_codes_never_run_out_witness:
  "fst (check_times 1000 0 ''abc'' (reg_magic_code_add ''abc'' 60 1 \<lparr>codes = fmempty, email_code = fmempty\<rparr>))"
  by (rule magic_codes_never_run_out) simp_all

end
