(* ===== verification/E2ee_Routing.thy ===== *)
theory E2ee_Routing
  imports Chat_State
begin

text \<open>
  The routing properties of end-to-end encrypted messages (\<open>src/e2ee_v2.rs\<close>): the server never
  reads the ciphertext, it validates the JSON properties beside it. The accessors of
  \<open>serde_json::Value\<close> are the argument \<open>'j json_ops\<close>.
\<close>

record 'j json_ops =
  as_str :: "'j \<Rightarrow> string option"
  as_u64 :: "'j \<Rightarrow> u64 option"
  as_i64 :: "'j \<Rightarrow> i64 option"
  as_bool :: "'j \<Rightarrow> bool option"
  as_array :: "'j \<Rightarrow> 'j list option"
  json_string :: "string \<Rightarrow> 'j"
  json_u64 :: "u64 \<Rightarrow> 'j"

definition CONTENT_TYPE :: string where
  "CONTENT_TYPE = ''application/vnd.vocechat.e2ee.v2''"

datatype Protocol = Dr | DrPending | Mls

datatype WireClass = DrEnvelope | MlsHandshake | MlsApplication

datatype MlsHandshakeKind = Commit | Welcome

record RoutingProperties =
  rt_protocol :: Protocol
  rt_wire_class :: WireClass
  rt_sender_device_id :: string
  rt_recipient_device_id :: "string option"
  rt_local_id :: string
  rt_mls_epoch :: "u64 option"
  rt_mls_generation :: "u32 option"
  rt_mls_handshake_kind :: "MlsHandshakeKind option"
  rt_mls_commit_id :: "string option"

datatype E2eV2Error = InvalidProperty string | ProtocolMismatch | DeviceMismatch

fun e2e_error_message :: "E2eV2Error \<Rightarrow> string" where
  "e2e_error_message (InvalidProperty property) = ''missing or invalid E2EE v2 property: '' @ property"
| "e2e_error_message ProtocolMismatch = ''wire_class does not match protocol''"
| "e2e_error_message DeviceMismatch = ''E2E_DEVICE_MISMATCH''"

type_synonym 'j props = "(string, 'j) fmap"

definition prop_str :: "'j json_ops \<Rightarrow> 'j props \<Rightarrow> string \<Rightarrow> string option" where
  "prop_str J ps key = Option.bind (fmlookup ps key) (as_str J)"

definition prop_u64 :: "'j json_ops \<Rightarrow> 'j props \<Rightarrow> string \<Rightarrow> u64 option" where
  "prop_u64 J ps key = Option.bind (fmlookup ps key) (as_u64 J)"

section \<open>Validation\<close>

definition parse_protocol :: "'j json_ops \<Rightarrow> 'j props \<Rightarrow> E2eV2Error + Protocol" where
  "parse_protocol J ps =
     (if prop_str J ps ''protocol'' = Some ''dr'' then Inr Dr
      else if prop_str J ps ''protocol'' = Some ''dr-pending'' then Inr DrPending
      else if prop_str J ps ''protocol'' = Some ''mls'' then Inr Mls
      else Inl (InvalidProperty ''protocol''))"

definition parse_wire_class :: "'j json_ops \<Rightarrow> 'j props \<Rightarrow> E2eV2Error + WireClass" where
  "parse_wire_class J ps =
     (if prop_str J ps ''wire_class'' = Some ''dr_envelope'' then Inr DrEnvelope
      else if prop_str J ps ''wire_class'' = Some ''mls_handshake'' then Inr MlsHandshake
      else if prop_str J ps ''wire_class'' = Some ''mls_application'' then Inr MlsApplication
      else Inl (InvalidProperty ''wire_class''))"

fun class_matches :: "Protocol \<Rightarrow> WireClass \<Rightarrow> bool" where
  "class_matches Dr DrEnvelope = True"
| "class_matches DrPending DrEnvelope = True"
| "class_matches Mls MlsHandshake = True"
| "class_matches Mls MlsApplication = True"
| "class_matches _ _ = False"

definition required_string :: "'j json_ops \<Rightarrow> 'j props \<Rightarrow> string \<Rightarrow> E2eV2Error + string" where
  "required_string J ps key =
     (case prop_str J ps key of
        Some v \<Rightarrow> if v \<noteq> '''' then Inr v else Inl (InvalidProperty key)
      | None \<Rightarrow> Inl (InvalidProperty key))"

text \<open>A string that may be absent, but is not empty and not of another type when present.\<close>

definition optional_string :: "'j json_ops \<Rightarrow> 'j props \<Rightarrow> string \<Rightarrow> E2eV2Error + string option" where
  "optional_string J ps key =
     (case fmlookup ps key of
        None \<Rightarrow> Inr None
      | Some value \<Rightarrow>
          (case as_str J value of
             Some v \<Rightarrow> if v \<noteq> '''' then Inr (Some v) else Inl (InvalidProperty key)
           | None \<Rightarrow> Inl (InvalidProperty key)))"

definition parse_handshake_kind ::
    "'j json_ops \<Rightarrow> 'j props \<Rightarrow> E2eV2Error + MlsHandshakeKind option" where
  "parse_handshake_kind J ps =
     (case fmlookup ps ''mls_handshake_kind'' of
        None \<Rightarrow> Inr None
      | Some value \<Rightarrow>
          if as_str J value = Some ''commit'' then Inr (Some Commit)
          else if as_str J value = Some ''welcome'' then Inr (Some Welcome)
          else Inl (InvalidProperty ''mls_handshake_kind''))"

definition has_mls_fields :: "RoutingProperties \<Rightarrow> bool" where
  "has_mls_fields r \<longleftrightarrow> rt_mls_epoch r \<noteq> None \<or> rt_mls_generation r \<noteq> None \<or>
     rt_mls_handshake_kind r \<noteq> None \<or> rt_mls_commit_id r \<noteq> None"

text \<open>The final match of the validation: its guarded arms in their order.\<close>

definition check_fields :: "RoutingProperties \<Rightarrow> E2eV2Error option" where
  "check_fields r =
     (if rt_protocol r = Dr \<and> rt_wire_class r = DrEnvelope \<and> rt_recipient_device_id r = None
      then Some (InvalidProperty ''recipient_device_id'')
      else if rt_protocol r = Dr \<and> rt_wire_class r = DrEnvelope \<and> has_mls_fields r
      then Some ProtocolMismatch
      else if rt_protocol r = DrPending \<and> rt_wire_class r = DrEnvelope \<and>
              (rt_recipient_device_id r \<noteq> None \<or> has_mls_fields r)
      then Some ProtocolMismatch
      else if rt_protocol r = Mls \<and> rt_recipient_device_id r \<noteq> None then Some ProtocolMismatch
      else if rt_protocol r = Mls \<and> rt_mls_epoch r = None then Some (InvalidProperty ''mls_epoch'')
      else if rt_protocol r = Mls \<and> rt_mls_generation r = None
      then Some (InvalidProperty ''mls_generation'')
      else if rt_protocol r = Mls \<and> rt_wire_class r = MlsHandshake \<and>
              (rt_mls_handshake_kind r = None \<or> rt_mls_commit_id r = None)
      then Some (InvalidProperty ''mls_handshake_kind'')
      else if rt_protocol r = Mls \<and> rt_wire_class r = MlsHandshake \<and> rt_mls_generation r \<noteq> Some 0
      then Some (InvalidProperty ''mls_generation'')
      else if rt_protocol r = Mls \<and> rt_wire_class r = MlsApplication \<and>
              (rt_mls_handshake_kind r \<noteq> None \<or> rt_mls_commit_id r \<noteq> None)
      then Some ProtocolMismatch
      else None)"

definition validate_properties :: "'j json_ops \<Rightarrow> 'j props \<Rightarrow> E2eV2Error + RoutingProperties" where
  "validate_properties J ps =
     (if prop_u64 J ps ''e2e_version'' \<noteq> Some 2 then Inl (InvalidProperty ''e2e_version'')
      else try_res (parse_protocol J ps) (\<lambda>protocol.
        if protocol = DrPending \<and> prop_str J ps ''algorithm'' \<noteq> Some ''DEFERRED+AES-GCM''
        then Inl (InvalidProperty ''algorithm'')
        else try_res (parse_wire_class J ps) (\<lambda>wire_class.
        if \<not> class_matches protocol wire_class then Inl ProtocolMismatch
        else try_res (required_string J ps ''sender_device_id'') (\<lambda>sender_device_id.
        try_res (required_string J ps ''local_id'') (\<lambda>local_id.
        try_res (optional_string J ps ''recipient_device_id'') (\<lambda>recipient_device_id.
        let mls_epoch = prop_u64 J ps ''mls_epoch'';
            mls_generation = Option.bind (prop_u64 J ps ''mls_generation'')
              (\<lambda>v. if v < 4294967296 then Some v else None)
        in try_res (parse_handshake_kind J ps) (\<lambda>mls_handshake_kind.
        try_res (optional_string J ps ''mls_commit_id'') (\<lambda>mls_commit_id.
        let r = \<lparr> rt_protocol = protocol, rt_wire_class = wire_class,
                  rt_sender_device_id = sender_device_id,
                  rt_recipient_device_id = recipient_device_id, rt_local_id = local_id,
                  rt_mls_epoch = mls_epoch, rt_mls_generation = mls_generation,
                  rt_mls_handshake_kind = mls_handshake_kind, rt_mls_commit_id = mls_commit_id \<rparr>
        in case check_fields r of Some e \<Rightarrow> Inl e | None \<Rightarrow> Inr r))))))))"

definition validate_authenticated_device :: "string \<Rightarrow> string \<Rightarrow> E2eV2Error + unit" where
  "validate_authenticated_device provided_device authenticated_device =
     (if provided_device \<noteq> authenticated_device then Inl DeviceMismatch else Inr ())"

definition validate_authenticated_sender ::
    "'j json_ops \<Rightarrow> 'j props \<Rightarrow> string \<Rightarrow> E2eV2Error + RoutingProperties" where
  "validate_authenticated_sender J ps authenticated_device =
     try_res (validate_properties J ps) (\<lambda>route.
       if rt_sender_device_id route \<noteq> authenticated_device then Inl DeviceMismatch else Inr route)"

section \<open>What validated properties are\<close>

text \<open>The four kinds of messages the server routes.\<close>

definition routing_ok :: "RoutingProperties \<Rightarrow> bool" where
  "routing_ok r \<longleftrightarrow> rt_sender_device_id r \<noteq> '''' \<and> rt_local_id r \<noteq> '''' \<and>
     rt_recipient_device_id r \<noteq> Some '''' \<and> rt_mls_commit_id r \<noteq> Some '''' \<and>
     (case rt_mls_generation r of Some g \<Rightarrow> g < 4294967296 | None \<Rightarrow> True) \<and>
     (case (rt_protocol r, rt_wire_class r) of
        (Dr, DrEnvelope) \<Rightarrow> rt_recipient_device_id r \<noteq> None \<and> \<not> has_mls_fields r
      | (DrPending, DrEnvelope) \<Rightarrow> rt_recipient_device_id r = None \<and> \<not> has_mls_fields r
      | (Mls, MlsHandshake) \<Rightarrow> rt_recipient_device_id r = None \<and> rt_mls_epoch r \<noteq> None \<and>
          rt_mls_generation r = Some 0 \<and> rt_mls_handshake_kind r \<noteq> None \<and> rt_mls_commit_id r \<noteq> None
      | (Mls, MlsApplication) \<Rightarrow> rt_recipient_device_id r = None \<and> rt_mls_epoch r \<noteq> None \<and>
          rt_mls_generation r \<noteq> None \<and> rt_mls_handshake_kind r = None \<and> rt_mls_commit_id r = None
      | _ \<Rightarrow> False)"

lemma check_fields_None:
  "class_matches (rt_protocol r) (rt_wire_class r) \<Longrightarrow> check_fields r = None \<longleftrightarrow>
     (case (rt_protocol r, rt_wire_class r) of
        (Dr, DrEnvelope) \<Rightarrow> rt_recipient_device_id r \<noteq> None \<and> \<not> has_mls_fields r
      | (DrPending, DrEnvelope) \<Rightarrow> rt_recipient_device_id r = None \<and> \<not> has_mls_fields r
      | (Mls, MlsHandshake) \<Rightarrow> rt_recipient_device_id r = None \<and> rt_mls_epoch r \<noteq> None \<and>
          rt_mls_generation r = Some 0 \<and> rt_mls_handshake_kind r \<noteq> None \<and> rt_mls_commit_id r \<noteq> None
      | (Mls, MlsApplication) \<Rightarrow> rt_recipient_device_id r = None \<and> rt_mls_epoch r \<noteq> None \<and>
          rt_mls_generation r \<noteq> None \<and> rt_mls_handshake_kind r = None \<and> rt_mls_commit_id r = None
      | _ \<Rightarrow> False)"
  by (cases "rt_protocol r"; cases "rt_wire_class r") (auto simp: check_fields_def)

lemma required_string_Inr: "required_string J ps key = Inr v \<longleftrightarrow> prop_str J ps key = Some v \<and> v \<noteq> ''''"
  by (auto simp: required_string_def split: option.splits)

lemma optional_string_nonempty: "optional_string J ps key = Inr v \<Longrightarrow> v \<noteq> Some ''''"
  by (auto simp: optional_string_def split: option.splits if_splits)

lemma validate_properties_ok:
  assumes "validate_properties J ps = Inr r"
  shows "routing_ok r \<and> prop_u64 J ps ''e2e_version'' = Some 2 \<and>
    prop_str J ps ''sender_device_id'' = Some (rt_sender_device_id r) \<and>
    prop_str J ps ''local_id'' = Some (rt_local_id r)"
proof -
  from assms have
    "rt_sender_device_id r \<noteq> '''' \<and> rt_local_id r \<noteq> '''' \<and>
     prop_u64 J ps ''e2e_version'' = Some 2 \<and>
     prop_str J ps ''sender_device_id'' = Some (rt_sender_device_id r) \<and>
     prop_str J ps ''local_id'' = Some (rt_local_id r) \<and>
     class_matches (rt_protocol r) (rt_wire_class r) \<and> check_fields r = None \<and>
     rt_recipient_device_id r \<noteq> Some '''' \<and> rt_mls_commit_id r \<noteq> Some '''' \<and>
     (case rt_mls_generation r of Some g \<Rightarrow> g < 4294967296 | None \<Rightarrow> True)"
    unfolding validate_properties_def Let_def
    by (auto simp: try_res_Inr_iff required_string_Inr dest: optional_string_nonempty
        split: if_splits option.splits Option.bind_splits)
  then show ?thesis using check_fields_None [of r] by (simp add: routing_ok_def)
qed

section \<open>Rendering\<close>

text \<open>The properties a client sends for a route.\<close>

definition opt_upd :: "string \<Rightarrow> 'j option \<Rightarrow> 'j props \<Rightarrow> 'j props" where
  "opt_upd key v ps = (case v of None \<Rightarrow> ps | Some x \<Rightarrow> fmupd key x ps)"

lemma fmlookup_opt_upd [simp]:
  "fmlookup (opt_upd key v ps) k = (if k = key \<and> v \<noteq> None then v else fmlookup ps k)"
  by (cases v) (auto simp: opt_upd_def)

fun protocol_name :: "Protocol \<Rightarrow> string" where
  "protocol_name Dr = ''dr''" | "protocol_name DrPending = ''dr-pending''" | "protocol_name Mls = ''mls''"

fun wire_class_name :: "WireClass \<Rightarrow> string" where
  "wire_class_name DrEnvelope = ''dr_envelope''" | "wire_class_name MlsHandshake = ''mls_handshake''"
| "wire_class_name MlsApplication = ''mls_application''"

fun kind_name :: "MlsHandshakeKind \<Rightarrow> string" where
  "kind_name Commit = ''commit''" | "kind_name Welcome = ''welcome''"

definition render_properties :: "'j json_ops \<Rightarrow> RoutingProperties \<Rightarrow> 'j props" where
  "render_properties J r =
     opt_upd ''mls_commit_id'' (map_option (json_string J) (rt_mls_commit_id r))
     (opt_upd ''mls_handshake_kind'' (map_option (json_string J \<circ> kind_name) (rt_mls_handshake_kind r))
     (opt_upd ''mls_generation'' (map_option (json_u64 J) (rt_mls_generation r))
     (opt_upd ''mls_epoch'' (map_option (json_u64 J) (rt_mls_epoch r))
     (opt_upd ''recipient_device_id'' (map_option (json_string J) (rt_recipient_device_id r))
     (opt_upd ''algorithm'' (if rt_protocol r = DrPending then Some (json_string J ''DEFERRED+AES-GCM'') else None)
     (fmupd ''local_id'' (json_string J (rt_local_id r))
     (fmupd ''sender_device_id'' (json_string J (rt_sender_device_id r))
     (fmupd ''wire_class'' (json_string J (wire_class_name (rt_wire_class r)))
     (fmupd ''protocol'' (json_string J (protocol_name (rt_protocol r)))
     (fmupd ''e2e_version'' (json_u64 J 2) fmempty))))))))))"

text \<open>What the code relies on: strings and numbers read back as they were made.\<close>

locale json_values =
  fixes J :: "'j json_ops"
  assumes str_back: "as_str J (json_string J s) = Some s"
    and u64_back: "n < 2 ^ 64 \<Longrightarrow> as_u64 J (json_u64 J n) = Some n"
begin

lemma render_lookups:
  assumes "case rt_mls_epoch r of Some e \<Rightarrow> e < 2 ^ 64 | None \<Rightarrow> True"
    and "case rt_mls_generation r of Some g \<Rightarrow> g < 4294967296 | None \<Rightarrow> True"
  shows "prop_u64 J (render_properties J r) ''e2e_version'' = Some 2"
    "prop_str J (render_properties J r) ''protocol'' = Some (protocol_name (rt_protocol r))"
    "prop_str J (render_properties J r) ''wire_class'' = Some (wire_class_name (rt_wire_class r))"
    "prop_str J (render_properties J r) ''sender_device_id'' = Some (rt_sender_device_id r)"
    "prop_str J (render_properties J r) ''local_id'' = Some (rt_local_id r)"
    "rt_protocol r = DrPending \<Longrightarrow> prop_str J (render_properties J r) ''algorithm'' = Some ''DEFERRED+AES-GCM''"
    "prop_u64 J (render_properties J r) ''mls_epoch'' = rt_mls_epoch r"
    "prop_u64 J (render_properties J r) ''mls_generation'' = rt_mls_generation r"
  using assms
  by (auto simp: render_properties_def prop_str_def prop_u64_def str_back u64_back split: option.splits)

lemma render_validates:
  assumes "routing_ok r" "case rt_mls_epoch r of Some e \<Rightarrow> e < 2 ^ 64 | None \<Rightarrow> True"
  shows "validate_properties J (render_properties J r) = Inr r"
proof -
  have gen: "case rt_mls_generation r of Some g \<Rightarrow> g < 4294967296 | None \<Rightarrow> True"
    and ne: "rt_sender_device_id r \<noteq> ''''" "rt_local_id r \<noteq> ''''" "rt_recipient_device_id r \<noteq> Some ''''"
      "rt_mls_commit_id r \<noteq> Some ''''"
    using assms(1) by (simp_all add: routing_ok_def)
  have cls: "class_matches (rt_protocol r) (rt_wire_class r)"
    using assms(1) by (cases "rt_protocol r"; cases "rt_wire_class r") (auto simp: routing_ok_def)
  then have chk: "check_fields r = None"
    using assms(1) check_fields_None [OF cls] by (simp add: routing_ok_def)
  note look = render_lookups [OF assms(2) gen]
  let ?ps = "render_properties J r"
  have "parse_protocol J ?ps = Inr (rt_protocol r)"
    by (cases "rt_protocol r") (simp_all add: parse_protocol_def look)
  moreover have "parse_wire_class J ?ps = Inr (rt_wire_class r)"
    by (cases "rt_wire_class r") (simp_all add: parse_wire_class_def look)
  moreover have "required_string J ?ps ''sender_device_id'' = Inr (rt_sender_device_id r)"
    "required_string J ?ps ''local_id'' = Inr (rt_local_id r)"
    by (simp_all add: required_string_Inr look ne)
  moreover have "optional_string J ?ps ''recipient_device_id'' = Inr (rt_recipient_device_id r)"
    "optional_string J ?ps ''mls_commit_id'' = Inr (rt_mls_commit_id r)"
    using ne(3,4) by (cases "rt_recipient_device_id r"; cases "rt_mls_commit_id r";
        auto simp: optional_string_def render_properties_def str_back)+
  moreover have "parse_handshake_kind J ?ps = Inr (rt_mls_handshake_kind r)"
  proof (cases "rt_mls_handshake_kind r")
    case (Some k)
    then show ?thesis by (cases k) (simp_all add: parse_handshake_kind_def render_properties_def str_back)
  qed (simp add: parse_handshake_kind_def render_properties_def)
  moreover have "Option.bind (rt_mls_generation r) (\<lambda>v. if v < 4294967296 then Some v else None) = rt_mls_generation r"
    using gen by (cases "rt_mls_generation r") auto
  moreover have "check_fields \<lparr> rt_protocol = rt_protocol r, rt_wire_class = rt_wire_class r,
      rt_sender_device_id = rt_sender_device_id r, rt_recipient_device_id = rt_recipient_device_id r,
      rt_local_id = rt_local_id r, rt_mls_epoch = rt_mls_epoch r, rt_mls_generation = rt_mls_generation r,
      rt_mls_handshake_kind = rt_mls_handshake_kind r, rt_mls_commit_id = rt_mls_commit_id r \<rparr> = None"
    using chk by (cases r) simp
  ultimately show ?thesis
    using cls look by (simp add: validate_properties_def Let_def)
qed

end

end
