(* ===== verification/Json_Values.thy ===== *)
theory Json_Values
  imports E2ee_Routing
begin

text \<open>
  A concrete JSON type with the accessors the code uses, and the theorems about routing
  properties that the contract \<open>json_values\<close> gives.
\<close>

datatype json =
    JNull
  | JBool bool
  | JInt int
  | JString string
  | JArray "json list"

definition json_accessors :: "json json_ops" where
  "json_accessors =
     \<lparr> as_str = (\<lambda>v. case v of JString s \<Rightarrow> Some s | _ \<Rightarrow> None),
       as_u64 = (\<lambda>v. case v of JInt i \<Rightarrow> if 0 \<le> i \<and> i < 18446744073709551616 then Some (nat i) else None | _ \<Rightarrow> None),
       as_i64 = (\<lambda>v. case v of JInt i \<Rightarrow> if in_i64 i then Some i else None | _ \<Rightarrow> None),
       as_bool = (\<lambda>v. case v of JBool b \<Rightarrow> Some b | _ \<Rightarrow> None),
       as_array = (\<lambda>v. case v of JArray vs \<Rightarrow> Some vs | _ \<Rightarrow> None),
       json_string = JString,
       json_u64 = (\<lambda>n. JInt (int n)) \<rparr>"

interpretation json: json_values json_accessors
  by unfold_locales (simp_all add: json_accessors_def)

text \<open>
  C38 What validation lets through is one of four kinds of messages, each with exactly the fields
  its kind needs: a ratchet message for one device, a deferred message for none yet, an MLS
  handshake (generation 0, a kind and a commit id) or an MLS application message; device and
  local ids are never empty, and a sender check ties the first to the caller.
\<close>

theorem validated_properties_are_routable:
  assumes "validate_authenticated_sender J ps device = Inr r"
  shows "routing_ok r \<and> rt_sender_device_id r = device \<and> validate_properties J ps = Inr r"
  using assms validate_properties_ok [of J ps r]
  by (auto simp: validate_authenticated_sender_def try_res_Inr_iff split: if_splits)

definition demo_route :: RoutingProperties where
  "demo_route = \<lparr> rt_protocol = Mls, rt_wire_class = MlsHandshake, rt_sender_device_id = ''web'',
     rt_recipient_device_id = None, rt_local_id = ''l1'', rt_mls_epoch = Some 1,
     rt_mls_generation = Some 0, rt_mls_handshake_kind = Some Commit, rt_mls_commit_id = Some ''c1'' \<rparr>"

theorem validated_properties_are_routable_witness:
  "validate_authenticated_sender json_accessors (render_properties json_accessors demo_route) ''web'' = Inr demo_route \<and>
   routing_ok demo_route"
proof -
  have "validate_authenticated_sender json_accessors (render_properties json_accessors demo_route) ''web'' =
      Inr demo_route"
    using json.render_validates [of demo_route]
    by (simp add: validate_authenticated_sender_def demo_route_def routing_ok_def)
  then show ?thesis using validated_properties_are_routable by blast
qed

text \<open>
  C39 Every route of the four kinds can be expressed: rendering it as JSON properties and
  validating them gives it back, so validation neither rejects nor alters a legal route.
\<close>

theorem routes_round_trip:
  assumes "json_values J" "routing_ok r"
    and "case rt_mls_epoch r of Some e \<Rightarrow> e < 2 ^ 64 | None \<Rightarrow> True"
  shows "validate_properties J (render_properties J r) = Inr r"
  using json_values.render_validates [OF assms] .

theorem routes_round_trip_witness:
  "validate_properties json_accessors (render_properties json_accessors demo_route) = Inr demo_route"
  by (rule routes_round_trip [OF json.json_values_axioms]) (simp_all add: demo_route_def routing_ok_def)

end
