(* ===== verification/Mls_Sequence.thy ===== *)
theory Mls_Sequence
  imports Json_Values Service
begin

text \<open>
  The server-side order of MLS messages (\<open>reserve_mls_sequence\<close> of \<open>src/e2ee_v2.rs\<close>): a commit
  must name the epoch after the current one, a welcome an existing commit, an application
  message the current epoch and the next generation of its sender. The three tables are lists
  of rows; their primary keys are those of \<open>migrations/20260718010000_e2ee_v2_mls_sequence.sql\<close>.
\<close>

record mls_commit =
  mc_gid :: i64
  mc_epoch :: i64
  mc_commit_id :: string
  mc_sender_uid :: i64
  mc_sender_device_id :: string

record mls_application =
  ma_gid :: i64
  ma_epoch :: i64
  ma_sender_uid :: i64
  ma_sender_device_id :: string
  ma_generation :: i64

record mls_tables =
  mt_commit :: "mls_commit list"
  mt_welcome :: "mls_commit list"
  mt_application :: "mls_application list"

datatype MlsSequenceError = Conflict | Database

text \<open>\<open>select max(...)\<close>: no value for no rows.\<close>

fun sql_max :: "int list \<Rightarrow> int option" where
  "sql_max [] = None"
| "sql_max (x # xs) = (case sql_max xs of None \<Rightarrow> Some x | Some m \<Rightarrow> Some (max x m))"

definition commit_epochs :: "i64 \<Rightarrow> mls_tables \<Rightarrow> i64 list" where
  "commit_epochs gid t = map mc_epoch (filter (\<lambda>c. mc_gid c = gid) (mt_commit t))"

definition current_epoch :: "i64 \<Rightarrow> mls_tables \<Rightarrow> i64" where
  "current_epoch gid t = (case sql_max (commit_epochs gid t) of None \<Rightarrow> 0 | Some m \<Rightarrow> m)"

definition generations :: "i64 \<Rightarrow> i64 \<Rightarrow> i64 \<Rightarrow> string \<Rightarrow> mls_tables \<Rightarrow> i64 list" where
  "generations gid epoch uid device t =
     map ma_generation (filter (\<lambda>a. ma_gid a = gid \<and> ma_epoch a = epoch \<and>
       ma_sender_uid a = uid \<and> ma_sender_device_id a = device) (mt_application t))"

text \<open>The insertions; \<open>None\<close> on a violated key.\<close>

definition sql_insert_commit :: "mls_commit \<Rightarrow> mls_tables \<Rightarrow> mls_tables option" where
  "sql_insert_commit c t =
     (if list_ex (\<lambda>d. mc_gid d = mc_gid c \<and> (mc_epoch d = mc_epoch c \<or> mc_commit_id d = mc_commit_id c))
           (mt_commit t)
      then None else Some (t\<lparr>mt_commit := mt_commit t @ [c]\<rparr>))"

definition sql_insert_welcome :: "mls_commit \<Rightarrow> mls_tables \<Rightarrow> mls_tables option" where
  "sql_insert_welcome c t =
     (if list_ex (\<lambda>d. mc_gid d = mc_gid c \<and> mc_epoch d = mc_epoch c \<and> mc_commit_id d = mc_commit_id c)
           (mt_welcome t)
      then None else Some (t\<lparr>mt_welcome := mt_welcome t @ [c]\<rparr>))"

definition sql_insert_application :: "mls_application \<Rightarrow> mls_tables \<Rightarrow> mls_tables option" where
  "sql_insert_application a t =
     (if a \<in> set (mt_application t) then None
      else Some (t\<lparr>mt_application := mt_application t @ [a]\<rparr>))"

definition commit_exists :: "i64 \<Rightarrow> i64 \<Rightarrow> string \<Rightarrow> mls_tables \<Rightarrow> bool" where
  "commit_exists gid epoch cid t \<longleftrightarrow>
     length (filter (\<lambda>c. mc_gid c = gid \<and> mc_epoch c = epoch \<and> mc_commit_id c = cid) (mt_commit t)) = 1"

text \<open>A unique-key error of an insertion is a conflict (\<open>sequence_database_error\<close>).\<close>

definition commit_or_conflict :: "bool \<Rightarrow> mls_tables option \<Rightarrow> mls_tables \<Rightarrow> (MlsSequenceError + unit) \<times> mls_tables" where
  "commit_or_conflict db_ok t' t =
     (case t' of None \<Rightarrow> (Inl Conflict, t) | Some u \<Rightarrow> if db_ok then (Inr (), u) else (Inl Database, t))"

definition reserve_mls_sequence ::
    "bool \<Rightarrow> i64 \<Rightarrow> i64 \<Rightarrow> RoutingProperties \<Rightarrow> mls_tables \<Rightarrow> (MlsSequenceError + unit) \<times> mls_tables" where
  "reserve_mls_sequence db_ok gid sender_uid route t =
     (if rt_protocol route \<noteq> Mls then (Inl Conflict, t)
      else case (rt_mls_epoch route, rt_mls_generation route) of
        (Some e, Some g) \<Rightarrow>
          if int e > i64_max then (Inl Conflict, t)
          else if \<not> db_ok then (Inl Database, t)
          else
            let epoch = int e; generation = int g; device = rt_sender_device_id route in
            (case (rt_wire_class route, rt_mls_handshake_kind route) of
               (MlsHandshake, Some Commit) \<Rightarrow>
                 if epoch \<noteq> wrap_i64 (current_epoch gid t + 1) then (Inl Conflict, t)
                 else (case rt_mls_commit_id route of
                     None \<Rightarrow> (Inl Conflict, t)
                   | Some cid \<Rightarrow> commit_or_conflict db_ok
                       (sql_insert_commit \<lparr>mc_gid = gid, mc_epoch = epoch, mc_commit_id = cid,
                          mc_sender_uid = sender_uid, mc_sender_device_id = device\<rparr> t) t)
             | (MlsHandshake, Some Welcome) \<Rightarrow>
                 (case rt_mls_commit_id route of
                     None \<Rightarrow> (Inl Conflict, t)
                   | Some cid \<Rightarrow>
                       if \<not> commit_exists gid epoch cid t then (Inl Conflict, t)
                       else commit_or_conflict db_ok
                         (sql_insert_welcome \<lparr>mc_gid = gid, mc_epoch = epoch, mc_commit_id = cid,
                            mc_sender_uid = sender_uid, mc_sender_device_id = device\<rparr> t) t)
             | (MlsApplication, None) \<Rightarrow>
                 if epoch \<noteq> current_epoch gid t then (Inl Conflict, t)
                 else
                   let last_generation = sql_max (generations gid epoch sender_uid device t);
                       expected = (case last_generation of None \<Rightarrow> 0 | Some v \<Rightarrow> wrap_i64 (v + 1))
                   in if generation \<noteq> expected then (Inl Conflict, t)
                      else commit_or_conflict db_ok
                        (sql_insert_application \<lparr>ma_gid = gid, ma_epoch = epoch,
                           ma_sender_uid = sender_uid, ma_sender_device_id = device,
                           ma_generation = generation\<rparr> t) t
             | _ \<Rightarrow> (Inl Conflict, t))
      | _ \<Rightarrow> (Inl Conflict, t))"

section \<open>A linear history\<close>

text \<open>
  Epochs of a group are \<open>1, 2, ...\<close> in the order of the commits; generations of a sender in an
  epoch are \<open>0, 1, ...\<close> in the order of the messages.
\<close>

definition counts_from :: "int \<Rightarrow> int list \<Rightarrow> bool" where
  "counts_from k xs \<longleftrightarrow> xs = map (\<lambda>i. k + int i) [0..<length xs]"

lemma counts_from_append: "counts_from k xs \<Longrightarrow> x = k + int (length xs) \<Longrightarrow> counts_from k (xs @ [x])"
  by (simp add: counts_from_def)

lemma sql_max_append: "sql_max (xs @ [x]) = (case sql_max xs of None \<Rightarrow> Some x | Some m \<Rightarrow> Some (max m x))"
  by (induction xs) (auto split: option.splits)

lemma sql_max_counts:
  assumes "counts_from k xs"
  shows "sql_max xs = (if xs = [] then None else Some (k + int (length xs) - 1))"
proof -
  have "sql_max (map (\<lambda>i. k + int i) [0..<n]) = (if n = 0 then None else Some (k + int n - 1))" for n
    by (induction n) (auto simp: sql_max_append)
  from this [of "length xs"] show ?thesis using assms unfolding counts_from_def by (metis length_0_conv)
qed

lemma counts_from_last:
  assumes "counts_from k xs" "xs \<noteq> []"
  shows "last xs = k + int (length xs) - 1"
proof -
  obtain n where n: "length xs = Suc n" using assms(2) by (cases xs) auto
  have "xs = map (\<lambda>i. k + int i) ([0..<n] @ [n])"
    using assms(1) unfolding counts_from_def n by (metis upt_Suc_append zero_le)
  then have "last xs = last (map (\<lambda>i. k + int i) ([0..<n] @ [n]))" by (rule arg_cong)
  then show ?thesis using n by simp
qed

definition linear_history :: "mls_tables \<Rightarrow> bool" where
  "linear_history t \<longleftrightarrow>
     (\<forall>gid. counts_from 1 (commit_epochs gid t)) \<and>
     (\<forall>gid epoch uid device. counts_from 0 (generations gid epoch uid device t)) \<and>
     (\<forall>c \<in> set (mt_commit t). mc_epoch c \<le> i64_max) \<and>
     (\<forall>a \<in> set (mt_application t). ma_generation a \<le> i64_max \<and> ma_epoch a \<le> current_epoch (ma_gid a) t) \<and>
     (\<forall>w \<in> set (mt_welcome t). \<exists>c \<in> set (mt_commit t). mc_gid c = mc_gid w \<and>
         mc_epoch c = mc_epoch w \<and> mc_commit_id c = mc_commit_id w)"

lemma wrap_succ:
  assumes "x \<le> i64_max" "0 \<le> x" "0 \<le> wrap_i64 (x + 1)"
  shows "wrap_i64 (x + 1) = x + 1"
proof (cases "x = i64_max")
  case True
  then show ?thesis using assms(3) by (simp add: wrap_i64_def i64_max_def)
next
  case False
  then show ?thesis using assms by (simp add: in_i64_def i64_min_def)
qed

lemma current_epoch_length:
  "linear_history t \<Longrightarrow> current_epoch gid t = int (length (commit_epochs gid t))"
  using sql_max_counts [of 1 "commit_epochs gid t"]
  by (auto simp: linear_history_def current_epoch_def)

lemma current_epoch_bounds:
  assumes "linear_history t"
  shows "0 \<le> current_epoch gid t" "current_epoch gid t \<le> i64_max"
proof -
  have mem: "x \<le> i64_max" if "x \<in> set (commit_epochs gid t)" for x
    using assms that by (auto simp: linear_history_def commit_epochs_def)
  show "0 \<le> current_epoch gid t" by (simp add: current_epoch_length [OF assms])
  show "current_epoch gid t \<le> i64_max"
  proof (cases "commit_epochs gid t = []")
    case False
    have "counts_from 1 (commit_epochs gid t)" using assms by (simp add: linear_history_def)
    then have "last (commit_epochs gid t) = int (length (commit_epochs gid t))"
      using counts_from_last [OF _ False] by simp
    then show ?thesis using mem last_in_set [OF False] current_epoch_length [OF assms] by metis
  qed (simp add: current_epoch_length [OF assms] i64_max_def)
qed

lemma commit_or_conflict_Inr:
  "commit_or_conflict ok u t = (Inr x, t') \<longleftrightarrow> u = Some t' \<and> ok"
  by (auto simp: commit_or_conflict_def split: option.splits)

lemma commit_or_conflict_Inl: "commit_or_conflict ok u t = (Inl e, t') \<Longrightarrow> t' = t"
  by (auto simp: commit_or_conflict_def split: option.splits if_splits)

lemma wrap_succ_differs:
  assumes "in_i64 y"
  shows "wrap_i64 (y + 1) \<noteq> y"
proof (cases "y = i64_max")
  case True
  then show ?thesis by (simp add: wrap_i64_def i64_max_def)
next
  case False
  then have "in_i64 (y + 1)" using assms by (simp add: in_i64_def i64_min_def)
  then show ?thesis by simp
qed

text \<open>What an accepted reservation did.\<close>

lemma reserve_cases:
  assumes "reserve_mls_sequence ok gid uid route t = (Inr x, t')"
  obtains (commits) e g cid where "rt_protocol route = Mls" "rt_mls_generation route = Some g"
      "rt_mls_epoch route = Some e" "rt_wire_class route = MlsHandshake"
      "rt_mls_handshake_kind route = Some Commit" "rt_mls_commit_id route = Some cid" "int e \<le> i64_max"
      "int e = wrap_i64 (current_epoch gid t + 1)"
      "sql_insert_commit \<lparr>mc_gid = gid, mc_epoch = int e, mc_commit_id = cid, mc_sender_uid = uid,
        mc_sender_device_id = rt_sender_device_id route\<rparr> t = Some t'"
  | (welcomes) e g cid where "rt_protocol route = Mls" "rt_mls_generation route = Some g"
      "rt_mls_epoch route = Some e" "rt_wire_class route = MlsHandshake"
      "rt_mls_handshake_kind route = Some Welcome" "rt_mls_commit_id route = Some cid" "int e \<le> i64_max"
      "commit_exists gid (int e) cid t"
      "sql_insert_welcome \<lparr>mc_gid = gid, mc_epoch = int e, mc_commit_id = cid, mc_sender_uid = uid,
        mc_sender_device_id = rt_sender_device_id route\<rparr> t = Some t'"
  | (applications) e g where "rt_protocol route = Mls"
      "rt_mls_epoch route = Some e" "rt_mls_generation route = Some g"
      "rt_wire_class route = MlsApplication" "rt_mls_handshake_kind route = None" "int e \<le> i64_max"
      "int e = current_epoch gid t"
      "int g = (case sql_max (generations gid (int e) uid (rt_sender_device_id route) t) of
        None \<Rightarrow> 0 | Some v \<Rightarrow> wrap_i64 (v + 1))"
      "sql_insert_application \<lparr>ma_gid = gid, ma_epoch = int e, ma_sender_uid = uid,
        ma_sender_device_id = rt_sender_device_id route, ma_generation = int g\<rparr> t = Some t'"
  using assms unfolding reserve_mls_sequence_def Let_def
  by (auto simp: commit_or_conflict_Inr split: if_split_asm option.split_asm WireClass.split_asm
      MlsHandshakeKind.split_asm)

lemma reserve_error:
  "reserve_mls_sequence ok gid uid route t = (Inl e, t') \<Longrightarrow> t' = t"
  unfolding reserve_mls_sequence_def Let_def
  by (auto dest: commit_or_conflict_Inl split: if_split_asm option.split_asm WireClass.split_asm
      MlsHandshakeKind.split_asm)

lemma table_updates [simp]:
  "commit_epochs gid (t\<lparr>mt_commit := mt_commit t @ [c]\<rparr>) =
     commit_epochs gid t @ (if mc_gid c = gid then [mc_epoch c] else [])"
  "commit_epochs gid (t\<lparr>mt_welcome := w\<rparr>) = commit_epochs gid t"
  "commit_epochs gid (t\<lparr>mt_application := a\<rparr>) = commit_epochs gid t"
  "generations gid epoch uid device (t\<lparr>mt_commit := cs\<rparr>) = generations gid epoch uid device t"
  "generations gid epoch uid device (t\<lparr>mt_welcome := w\<rparr>) = generations gid epoch uid device t"
  "generations gid epoch uid device (t\<lparr>mt_application := mt_application t @ [b]\<rparr>) =
     generations gid epoch uid device t @
     (if ma_gid b = gid \<and> ma_epoch b = epoch \<and> ma_sender_uid b = uid \<and> ma_sender_device_id b = device
      then [ma_generation b] else [])"
  "current_epoch gid (t\<lparr>mt_welcome := w\<rparr>) = current_epoch gid t"
  "current_epoch gid (t\<lparr>mt_application := a\<rparr>) = current_epoch gid t"
  by (auto simp: commit_epochs_def generations_def current_epoch_def)

lemma current_epoch_commit:
  "current_epoch gid (t\<lparr>mt_commit := mt_commit t @ [c]\<rparr>) =
     (if mc_gid c = gid then (case sql_max (commit_epochs gid t) of None \<Rightarrow> mc_epoch c | Some m \<Rightarrow> max m (mc_epoch c))
      else current_epoch gid t)"
  by (simp add: current_epoch_def sql_max_append split: option.split)

lemma current_epoch_mono:
  assumes "linear_history t"
  shows "current_epoch gid t \<le> current_epoch gid (t\<lparr>mt_commit := mt_commit t @ [c]\<rparr>) \<or>
    mc_gid c = gid \<and> mc_epoch c < 0"
  by (auto simp: current_epoch_commit current_epoch_def sql_max_append split: option.splits)

lemma commit_epoch_next:
  assumes "linear_history t" "int e = wrap_i64 (current_epoch gid t + 1)"
  shows "int e = 1 + int (length (commit_epochs gid t))"
proof -
  have "0 \<le> wrap_i64 (current_epoch gid t + 1)" using assms(2) by (metis of_nat_0_le_iff)
  then have "wrap_i64 (current_epoch gid t + 1) = current_epoch gid t + 1"
    by (intro wrap_succ current_epoch_bounds [OF assms(1)])
  then show ?thesis using assms(2) current_epoch_length [OF assms(1)] by simp
qed

lemma reserve_linear:
  assumes "linear_history t" "reserve_mls_sequence ok gid uid route t = (r, t')"
  shows "linear_history t'"
proof (cases r)
  case (Inl e)
  then show ?thesis using assms reserve_error by blast
next
  case (Inr x)
  with assms(2) have "reserve_mls_sequence ok gid uid route t = (Inr x, t')" by simp
  then show ?thesis
  proof (cases rule: reserve_cases)
    case (commits e g cid)
    let ?c = "\<lparr>mc_gid = gid, mc_epoch = int e, mc_commit_id = cid, mc_sender_uid = uid,
        mc_sender_device_id = rt_sender_device_id route\<rparr>"
    have e: "int e = 1 + int (length (commit_epochs gid t))"
      by (rule commit_epoch_next [OF assms(1) commits(8)])
    have t': "t' = t\<lparr>mt_commit := mt_commit t @ [?c]\<rparr>"
      using commits(9) by (auto simp: sql_insert_commit_def split: if_splits)
    have mono: "current_epoch h t \<le> current_epoch h t'" for h
      using current_epoch_mono [OF assms(1), of h ?c] by (simp add: t')
    have "ma_epoch a \<le> current_epoch (ma_gid a) t'" if "a \<in> set (mt_application t)" for a
      using assms(1) that mono [of "ma_gid a"] by (fastforce simp: linear_history_def)
    then show ?thesis
      using assms(1) e commits(7) by (auto simp: linear_history_def t' counts_from_append)
  next
    case (welcomes e g cid)
    have "filter (\<lambda>c. mc_gid c = gid \<and> mc_epoch c = int e \<and> mc_commit_id c = cid) (mt_commit t) \<noteq> []"
      using welcomes(8) by (auto simp: commit_exists_def)
    then obtain d where d: "d \<in> set (mt_commit t)" "mc_gid d = gid" "mc_epoch d = int e" "mc_commit_id d = cid"
      by (auto simp: filter_empty_conv)
    let ?w = "\<lparr>mc_gid = gid, mc_epoch = int e, mc_commit_id = cid, mc_sender_uid = uid,
        mc_sender_device_id = rt_sender_device_id route\<rparr>"
    have t': "t' = t\<lparr>mt_welcome := mt_welcome t @ [?w]\<rparr>"
      using welcomes(9) by (simp add: sql_insert_welcome_def split: if_splits)
    have "\<exists>c \<in> set (mt_commit t). mc_gid c = mc_gid w \<and> mc_epoch c = mc_epoch w \<and> mc_commit_id c = mc_commit_id w"
      if "w \<in> set (mt_welcome t')" for w
    proof (cases "w = ?w")
      case True
      then show ?thesis using d by (intro bexI [of _ d]) simp_all
    next
      case False
      then have "w \<in> set (mt_welcome t)" using that by (simp add: t')
      then show ?thesis using assms(1) unfolding linear_history_def by blast
    qed
    then show ?thesis using assms(1) by (simp add: linear_history_def t')
  next
    case (applications e g)
    let ?gs = "generations gid (int e) uid (rt_sender_device_id route) t"
    let ?a = "\<lparr>ma_gid = gid, ma_epoch = int e, ma_sender_uid = uid,
        ma_sender_device_id = rt_sender_device_id route, ma_generation = int g\<rparr>"
    have cnt: "counts_from 0 ?gs" and le: "\<forall>v \<in> set ?gs. v \<le> i64_max"
      using assms(1) by (auto simp: linear_history_def generations_def)
    have g: "int g = int (length ?gs) \<and> int g \<le> i64_max"
    proof (cases "?gs = []")
      case False
      have v: "sql_max ?gs = Some (last ?gs)" "last ?gs = int (length ?gs) - 1"
        using sql_max_counts [OF cnt] counts_from_last [OF cnt False] False by simp_all
      have "0 \<le> last ?gs" using v(2) False by (cases ?gs) auto
      moreover have "last ?gs \<le> i64_max" using le last_in_set [OF False] by blast
      moreover have "in_i64 (wrap_i64 (last ?gs + 1))" by (rule wrap_i64_range)
      ultimately show ?thesis
        using wrap_succ [of "last ?gs"] applications(8) v by (simp add: in_i64_def)
    next
      case True
      then show ?thesis using applications(8) by (simp add: i64_max_def)
    qed
    have t': "t' = t\<lparr>mt_application := mt_application t @ [?a]\<rparr>"
      using applications(9) by (auto simp: sql_insert_application_def split: if_splits)
    show ?thesis
      using assms(1) g applications(7) by (auto simp: linear_history_def t' counts_from_append)
  qed
qed

record mls_call =
  ml_db_ok :: bool
  ml_gid :: i64
  ml_uid :: i64
  ml_route :: RoutingProperties

definition mls_exec :: "mls_call \<Rightarrow> mls_tables \<Rightarrow> (MlsSequenceError + unit) \<times> mls_tables" where
  "mls_exec c t = reserve_mls_sequence (ml_db_ok c) (ml_gid c) (ml_uid c) (ml_route c) t"

interpretation mls: service mls_exec linear_history
  by unfold_locales (auto simp: mls_exec_def dest: reserve_linear reserve_error)

text \<open>
  C37 Whatever messages arrive in whatever order, the accepted commits of a group have the epochs
  1, 2, 3, ... in the order of their acceptance, and the accepted application messages of a device
  in an epoch have the generations 0, 1, 2, ...: no gap, no fork, no repetition, and every welcome
  belongs to an accepted commit.
\<close>

theorem mls_history_is_linear:
  "let t = run_requests mls_exec cs \<lparr>mt_commit = [], mt_welcome = [], mt_application = []\<rparr> in
     (\<forall>gid. commit_epochs gid t = map (\<lambda>i. 1 + int i) [0..<length (commit_epochs gid t)]) \<and>
     (\<forall>gid epoch uid device. generations gid epoch uid device t =
        map int [0..<length (generations gid epoch uid device t)]) \<and>
     (\<forall>w \<in> set (mt_welcome t). \<exists>c \<in> set (mt_commit t). mc_gid c = mc_gid w \<and>
         mc_epoch c = mc_epoch w \<and> mc_commit_id c = mc_commit_id w)"
proof -
  let ?e = "\<lparr>mt_commit = [], mt_welcome = [], mt_application = []\<rparr>"
  have "linear_history ?e"
    by (simp add: linear_history_def commit_epochs_def generations_def counts_from_def)
  then have "linear_history (run_requests mls_exec cs ?e)" by (rule mls.run_inv)
  then show ?thesis by (auto simp: linear_history_def counts_from_def Let_def)
qed

definition demo_mls_calls :: "mls_call list" where
  "demo_mls_calls = map (\<lambda>r. \<lparr>ml_db_ok = True, ml_gid = 4, ml_uid = 1, ml_route = r\<rparr>)
     [demo_route, demo_route, demo_route\<lparr>rt_mls_handshake_kind := Some Welcome\<rparr>,
      demo_route\<lparr>rt_wire_class := MlsApplication, rt_mls_handshake_kind := None, rt_mls_commit_id := None\<rparr>]"

theorem mls_history_is_linear_witness:
  "let t = run_requests mls_exec demo_mls_calls \<lparr>mt_commit = [], mt_welcome = [], mt_application = []\<rparr> in
     commit_epochs 4 t = [1] \<and> generations 4 1 1 ''web'' t = [0] \<and> length (mt_welcome t) = 1 \<and>
     (\<exists>c \<in> set (mt_commit t). mc_commit_id c = ''c1'')"
proof -
  let ?t = "run_requests mls_exec demo_mls_calls \<lparr>mt_commit = [], mt_welcome = [], mt_application = []\<rparr>"
  have run: "commit_epochs 4 ?t = [1]" "generations 4 1 1 ''web'' ?t = [0]"
    "map mc_commit_id (mt_welcome ?t) = [''c1'']" by code_simp+
  then obtain w where "mt_welcome ?t = [w]" "mc_commit_id w = ''c1''" by (auto simp: map_eq_Cons_conv)
  then show ?thesis using mls_history_is_linear [of demo_mls_calls] run by (auto simp: Let_def)
qed

text \<open>
  An accepted MLS message cannot be replayed: reserving the same route again, right after it
  was accepted, is a conflict, whether it is a commit, a welcome or an application message.
\<close>

theorem mls_replay_conflicts:
  assumes "linear_history t" "reserve_mls_sequence ok gid uid route t = (Inr x, t')"
  shows "reserve_mls_sequence True gid uid route t' = (Inl Conflict, t')"
proof -
  note next_differs = wrap_succ_differs
  have lin: "linear_history t'" using reserve_linear assms by blast
  show ?thesis using assms(2)
  proof (cases rule: reserve_cases)
    case (commits e g cid)
    have "int e = 1 + int (length (commit_epochs gid t))"
      by (rule commit_epoch_next [OF assms(1) commits(8)])
    moreover have "length (commit_epochs gid t') = Suc (length (commit_epochs gid t))"
      using commits(9) by (auto simp: sql_insert_commit_def split: if_splits)
    ultimately have "current_epoch gid t' = int e" by (simp add: current_epoch_length [OF lin])
    moreover have "int e \<noteq> wrap_i64 (int e + 1)"
      using next_differs [of "int e"] commits(7) by (simp add: in_i64_def i64_min_def)
    ultimately show ?thesis
      using commits(1-7) by (simp add: reserve_mls_sequence_def Let_def)
  next
    case (welcomes e g cid)
    let ?c = "\<lparr>mc_gid = gid, mc_epoch = int e, mc_commit_id = cid, mc_sender_uid = uid,
        mc_sender_device_id = rt_sender_device_id route\<rparr>"
    have t': "t' = t\<lparr>mt_welcome := mt_welcome t @ [?c]\<rparr>"
      using welcomes(9) by (auto simp: sql_insert_welcome_def split: if_splits)
    then have "sql_insert_welcome ?c t' = None" by (simp add: sql_insert_welcome_def)
    moreover have "commit_exists gid (int e) cid t'" using welcomes(8) by (simp add: commit_exists_def t')
    ultimately show ?thesis
      using welcomes(1-7) by (simp add: reserve_mls_sequence_def commit_or_conflict_def Let_def)
  next
    case (applications e g)
    let ?d = "rt_sender_device_id route" and ?gs = "generations gid (int e) uid (rt_sender_device_id route) t'"
    have cnt: "counts_from 0 ?gs" using lin by (simp add: linear_history_def)
    have gs: "?gs \<noteq> []" "last ?gs = int g"
      using applications(9) by (auto simp: sql_insert_application_def split: if_splits)
    have "sql_max ?gs = Some (int g)"
      using sql_max_counts [OF cnt] counts_from_last [OF cnt gs(1)] gs by simp
    moreover have "int g \<le> i64_max"
      using lin last_in_set [OF gs(1)] gs(2) by (force simp: linear_history_def generations_def)
    then have "int g \<noteq> wrap_i64 (int g + 1)"
      using next_differs [of "int g"] by (simp add: in_i64_def i64_min_def)
    moreover have "current_epoch gid t' = current_epoch gid t"
      using applications(9) by (auto simp: sql_insert_application_def split: if_splits)
    ultimately show ?thesis
      using applications(1-7) by (simp add: reserve_mls_sequence_def Let_def)
  qed
qed

theorem mls_replay_conflicts_witness:
  "\<exists>t'. reserve_mls_sequence True 4 1 demo_route \<lparr>mt_commit = [], mt_welcome = [], mt_application = []\<rparr> = (Inr (), t') \<and>
     reserve_mls_sequence True 4 1 demo_route t' = (Inl Conflict, t')"
proof -
  let ?e = "\<lparr>mt_commit = [], mt_welcome = [], mt_application = []\<rparr>"
  have "fst (reserve_mls_sequence True 4 1 demo_route ?e) = Inr ()" by code_simp
  then obtain t' where t': "reserve_mls_sequence True 4 1 demo_route ?e = (Inr (), t')"
    by (metis prod.collapse)
  have "linear_history ?e"
    by (simp add: linear_history_def commit_epochs_def generations_def counts_from_def)
  from mls_replay_conflicts [OF this t'] t' show ?thesis by blast
qed

end
