(* ===== verification/Pending_Dm.thy ===== *)
theory Pending_Dm
  imports Msg_Contracts Chat_Types
begin

text \<open>
  Deferred direct messages (\<open>src/e2ee_v2.rs\<close>, lines 218-351): the durable markers of the message
  database are projected into the table \<open>e2e_pending_message\<close> and removed only afterwards;
  recipient envelopes are appended to a pending message, the first one completing it.
\<close>

record pending_row =
  pp_sender_uid :: i64
  pp_target_uid :: i64
  pp_completed_at :: "DateTime option"
  pp_created_at :: DateTime

record envelope_row =
  pe_mid :: i64
  pe_recipient_uid :: i64
  pe_device_id :: string
  pe_identity_version :: i64
  pe_envelope :: string
  pe_created_at :: DateTime

record pending_tables =
  pd_message :: "(i64, pending_row) fmap"
  pd_envelope :: "envelope_row list"

datatype PendingProjectionError =
    MetadataConflict
  | InvalidMarker
  | Sqlite
  | Marker msgdb_error

section \<open>Projection\<close>

text \<open>
  \<open>valid_millis\<close>: the milliseconds \<open>chrono\<close> can represent. The insertion does nothing when the id
  is present; a new row must name existing users (\<open>users\<close>), or the database reports an error.
\<close>

definition project_pending_dm_marker ::
    "(i64 \<Rightarrow> bool) \<Rightarrow> bool \<Rightarrow> i64 set \<Rightarrow> PendingMessageMarker \<Rightarrow> pending_tables \<Rightarrow>
     (PendingProjectionError + unit) \<times> pending_tables" where
  "project_pending_dm_marker valid_millis db_ok users marker pt =
     (if \<not> valid_millis (mk_created_at_millis marker) then (Inl InvalidMarker, pt)
      else if \<not> db_ok then (Inl Sqlite, pt)
      else
        let created_at = mk_created_at_millis marker * 1000000 in
        (case fmlookup (pd_message pt) (mk_mid marker) of
           None \<Rightarrow>
             if mk_sender_uid marker \<notin> users \<or> mk_target_uid marker \<notin> users then (Inl Sqlite, pt)
             else (Inr (), pt\<lparr>pd_message := fmupd (mk_mid marker)
                 \<lparr>pp_sender_uid = mk_sender_uid marker, pp_target_uid = mk_target_uid marker,
                  pp_completed_at = None, pp_created_at = created_at\<rparr> (pd_message pt)\<rparr>)
         | Some row \<Rightarrow>
             if (pp_sender_uid row, pp_target_uid row) \<noteq> (mk_sender_uid marker, mk_target_uid marker)
             then (Inl MetadataConflict, pt) else (Inr (), pt)))"

text \<open>The loop over the markers; \<open>db_ok\<close> says for which of them the database works.\<close>

fun reconcile_markers ::
    "'db sled_ops \<Rightarrow> (i64 \<Rightarrow> bool) \<Rightarrow> (i64 \<Rightarrow> bool) \<Rightarrow> i64 set \<Rightarrow> PendingMessageMarker list \<Rightarrow> nat \<Rightarrow>
     pending_tables \<Rightarrow> 'db msgdb \<Rightarrow> (PendingProjectionError + nat) \<times> pending_tables \<times> 'db msgdb" where
  "reconcile_markers K valid_millis db_ok users [] reconciled pt st = (Inr reconciled, pt, st)"
| "reconcile_markers K valid_millis db_ok users (marker # markers) reconciled pt st =
     (case project_pending_dm_marker valid_millis (db_ok (mk_mid marker)) users marker pt of
        (Inl e, pt') \<Rightarrow> (Inl e, pt', st)
      | (Inr u, pt') \<Rightarrow>
          (case remove_pending_message_marker K st (mk_mid marker) of
             (Inl e, st') \<Rightarrow> (Inl (Marker e), pt', st')
           | (Inr u, st') \<Rightarrow>
               reconcile_markers K valid_millis db_ok users markers (Suc reconciled) pt' st'))"

definition reconcile_pending_dm_markers ::
    "'db sled_ops \<Rightarrow> (i64 \<Rightarrow> bool) \<Rightarrow> (i64 \<Rightarrow> bool) \<Rightarrow> i64 set \<Rightarrow> pending_tables \<Rightarrow> 'db msgdb \<Rightarrow>
     (PendingProjectionError + nat) \<times> pending_tables \<times> 'db msgdb" where
  "reconcile_pending_dm_markers K valid_millis db_ok users pt st =
     (case pending_message_markers K st of
        Inl e \<Rightarrow> (Inl (Marker e), pt, st)
      | Inr markers \<Rightarrow> reconcile_markers K valid_millis db_ok users markers 0 pt st)"

section \<open>Envelopes\<close>

text \<open>\<open>Inl ()\<close>: the database reports an error (a foreign key, or a failure) and nothing is kept.\<close>

definition append_pending_envelope_internal ::
    "bool \<Rightarrow> DateTime \<Rightarrow> i64 set \<Rightarrow> i64 \<Rightarrow> i64 \<Rightarrow> string \<Rightarrow> i64 \<Rightarrow> string \<Rightarrow> pending_tables \<Rightarrow>
     (unit + bool) \<times> pending_tables" where
  "append_pending_envelope_internal db_ok now users mid recipient_uid device_id identity_version envelope pt =
     (if \<not> db_ok then (Inl (), pt)
      else if list_ex (\<lambda>e. pe_mid e = mid \<and> pe_recipient_uid e = recipient_uid \<and>
                 pe_device_id e = device_id \<and> pe_identity_version e = identity_version) (pd_envelope pt)
      then (Inr False, pt)
      else if fmlookup (pd_message pt) mid = None \<or> recipient_uid \<notin> users then (Inl (), pt)
      else (Inr True, \<lparr>
          pd_message = fm_modify mid (\<lambda>r. if pp_completed_at r = None then r\<lparr>pp_completed_at := Some now\<rparr> else r)
            (pd_message pt),
          pd_envelope = pd_envelope pt @ [\<lparr>pe_mid = mid, pe_recipient_uid = recipient_uid,
            pe_device_id = device_id, pe_identity_version = identity_version,
            pe_envelope = envelope, pe_created_at = now\<rparr>]\<rparr>))"

section \<open>No marker is lost\<close>

definition projected :: "pending_tables \<Rightarrow> PendingMessageMarker \<Rightarrow> bool" where
  "projected pt k \<longleftrightarrow>
     (case fmlookup (pd_message pt) (mk_mid k) of
        None \<Rightarrow> False
      | Some row \<Rightarrow> pp_sender_uid row = mk_sender_uid k \<and> pp_target_uid row = mk_target_uid k)"

lemma project_projected:
  "project_pending_dm_marker v ok users k pt = (Inr u, pt') \<Longrightarrow> projected pt' k"
  by (auto simp: project_pending_dm_marker_def projected_def Let_def split: if_splits option.splits)

lemma project_keeps:
  "project_pending_dm_marker v ok users m pt = (r, pt') \<Longrightarrow> projected pt k \<Longrightarrow> projected pt' k"
  by (auto simp: project_pending_dm_marker_def projected_def Let_def split: if_splits option.splits)

lemma project_other:
  "project_pending_dm_marker v ok users m pt = (r, pt') \<Longrightarrow> pd_envelope pt' = pd_envelope pt"
  by (auto simp: project_pending_dm_marker_def Let_def split: if_splits option.splits)

lemma stored_marker_unique:
  "k \<in> stored_markers c \<Longrightarrow> m \<in> stored_markers c \<Longrightarrow> mk_mid k = mk_mid m \<Longrightarrow> k = m"
  using pending_value_inj by (fastforce simp: stored_markers_def intro!: PendingMessageMarker.equality)

context sled_contract
begin

lemma remove_marker_error:
  assumes "remove_pending_message_marker K st mid = (Inl e, st1)" "store_inv contents n st" "in_i64 mid"
  shows "store_inv contents n st1 \<and>
    (\<forall>k \<in> stored_markers (contents (mdb_db st)). mk_mid k \<noteq> mid \<longrightarrow> k \<in> stored_markers (contents (mdb_db st1))) \<and>
    (\<forall>cv. msg_log contents st1 cv = msg_log contents st cv)"
proof -
  obtain q db' where r: "sled_remove K (mdb_db st) (key_pending_message_marker mid) = (q, db')"
    and st1: "st1 = st\<lparr>mdb_db := db'\<rparr>"
    using assms(1) by (auto simp: remove_pending_message_marker_def split: prod.splits option.splits)
  from remove_ok [OF r] consider
    (gone) "contents db' = (contents (mdb_db st))(key_pending_message_marker mid := None)"
    | (kept) "contents db' = contents (mdb_db st)" by blast
  then show ?thesis
  proof cases
    case gone
    have "store_inv contents n st1"
      using assms(2) store_ok_del by (auto simp: store_inv_def Let_def st1 gone lease_stored_def)
    moreover have "k \<in> stored_markers (contents (mdb_db st1))"
      if "k \<in> stored_markers (contents (mdb_db st))" "mk_mid k \<noteq> mid" for k
      using that assms(3) by (simp add: st1 gone stored_markers_def)
    ultimately show ?thesis by (simp add: msg_log_def conv_log_def st1 gone)
  next
    case kept
    then show ?thesis using assms(2) by (simp add: store_inv_def Let_def st1 msg_log_def)
  qed
qed

lemma reconcile_loop:
  assumes "reconcile_markers K v ok users ms n pt st = (r, pt', st')" "store_inv contents i st"
    and "\<forall>m \<in> set ms. in_i64 (mk_mid m) \<and>
      (\<forall>k \<in> stored_markers (contents (mdb_db st)). mk_mid k = mk_mid m \<longrightarrow> k = m)"
  shows "store_inv contents i st' \<and> (\<forall>cv. msg_log contents st' cv = msg_log contents st cv) \<and>
    (\<forall>k. projected pt k \<longrightarrow> projected pt' k) \<and>
    (\<forall>k \<in> stored_markers (contents (mdb_db st)).
       k \<in> stored_markers (contents (mdb_db st')) \<or> projected pt' k) \<and>
    (\<not> isl r \<longrightarrow> stored_markers (contents (mdb_db st')) =
       {k \<in> stored_markers (contents (mdb_db st)). mk_mid k \<notin> mk_mid ` set ms})"
  using assms
proof (induction ms arbitrary: n pt st)
  case (Cons m ms)
  let ?S = "stored_markers (contents (mdb_db st))"
  obtain q pt1 where q: "project_pending_dm_marker v (ok (mk_mid m)) users m pt = (q, pt1)" by fastforce
  show ?case
  proof (cases q)
    case (Inl e)
    then show ?thesis using Cons.prems q project_keeps [OF q] by auto
  next
    case (Inr u)
    then have pm: "projected pt1 m" using q project_projected by blast
    obtain z st1 where z: "remove_pending_message_marker K st (mk_mid m) = (z, st1)" by fastforce
    show ?thesis
    proof (cases z)
      case (Inl e)
      then have "r = Inl (Marker e)" "pt' = pt1" "st' = st1" using Cons.prems(1) q Inr z by auto
      moreover note remove_marker_error [OF z [unfolded Inl] Cons.prems(2)]
      ultimately show ?thesis using Cons.prems(3) pm project_keeps [OF q] by fastforce
    next
      case (Inr w)
      have m: "in_i64 (mk_mid m)" using Cons.prems(3) by simp
      have z1: "remove_pending_message_marker K st (mk_mid m) = (Inr (), st1)" using z Inr by simp
      note rem = marker_removed [OF Cons.prems(2) m z1]
      have loop: "reconcile_markers K v ok users ms (Suc n) pt1 st1 = (r, pt', st')"
        using Cons.prems(1) q \<open>q = Inr u\<close> z1 by simp
      have side: "\<forall>m \<in> set ms. in_i64 (mk_mid m) \<and>
          (\<forall>k \<in> stored_markers (contents (mdb_db st1)). mk_mid k = mk_mid m \<longrightarrow> k = m)"
        using Cons.prems(3) rem by simp
      note ih = Cons.IH [OF loop conjunct1 [OF rem] side]
      have "k \<in> stored_markers (contents (mdb_db st')) \<or> projected pt' k" if "k \<in> ?S" for k
      proof (cases "mk_mid k = mk_mid m")
        case True
        then have "k = m" using Cons.prems(3) that by simp
        then show ?thesis using ih pm by blast
      next
        case False
        then show ?thesis using ih rem that by blast
      qed
      then show ?thesis using ih rem project_keeps [OF q] by auto
    qed
  qed
qed simp

lemma reconcile_sound:
  assumes "reconcile_pending_dm_markers K v ok users pt st = (r, pt', st')" "store_inv contents i st"
  shows "store_inv contents i st' \<and> (\<forall>cv. msg_log contents st' cv = msg_log contents st cv) \<and>
    (\<forall>k \<in> stored_markers (contents (mdb_db st)).
       k \<in> stored_markers (contents (mdb_db st')) \<or> projected pt' k) \<and>
    (\<not> isl r \<longrightarrow> stored_markers (contents (mdb_db st')) = {})"
proof (cases "pending_message_markers K st")
  case (Inl e)
  then show ?thesis using assms by (auto simp: reconcile_pending_dm_markers_def)
next
  case (Inr ms)
  then have loop: "reconcile_markers K v ok users ms 0 pt st = (r, pt', st')"
    using assms(1) by (simp add: reconcile_pending_dm_markers_def)
  have ms: "set ms = stored_markers (contents (mdb_db st))" using markers_listed [OF assms(2) Inr] .
  have "\<forall>m \<in> set ms. in_i64 (mk_mid m) \<and>
      (\<forall>k \<in> stored_markers (contents (mdb_db st)). mk_mid k = mk_mid m \<longrightarrow> k = m)"
    using stored_marker_unique unfolding ms by (auto simp: stored_markers_def)
  from reconcile_loop [OF loop assms(2) this] show ?thesis unfolding ms by auto
qed

end

text \<open>
  C36 Reconciling loses no deferred message, wherever it fails: every marker that was stored is
  afterwards still stored or is recorded in the database with its sender and target; when it
  reports success no marker is left, and the conversations are never touched.
\<close>

theorem reconcile_loses_no_marker:
  assumes "sled_contract K contents" "store_inv contents i st"
    and "reconcile_pending_dm_markers K v ok users pt st = (r, pt', st')"
  shows "(\<forall>k \<in> stored_markers (contents (mdb_db st)).
       k \<in> stored_markers (contents (mdb_db st')) \<or> projected pt' k) \<and>
    (\<not> isl r \<longrightarrow> stored_markers (contents (mdb_db st')) = {}) \<and>
    (\<forall>cv. msg_log contents st' cv = msg_log contents st cv)"
  using sled_contract.reconcile_sound [OF assms(1,3,2)] by blast

definition demo_marker :: PendingMessageMarker where
  "demo_marker = \<lparr>mk_mid = 1, mk_sender_uid = 7, mk_target_uid = 5, mk_created_at_millis = 1000\<rparr>"

theorem reconcile_loses_no_marker_witness:
  "\<exists>pt' st'. reconcile_pending_dm_markers sorted_sled (\<lambda>t. True) (\<lambda>m. True) {5, 7}
       \<lparr>pd_message = fmempty, pd_envelope = []\<rparr> demo_sent = (Inr 1, pt', st') \<and>
     stored_markers (map_of (mdb_db st')) = {} \<and> projected pt' demo_marker"
proof -
  let ?r = "reconcile_pending_dm_markers sorted_sled (\<lambda>t. True) (\<lambda>m. True) {5, 7}
    \<lparr>pd_message = fmempty, pd_envelope = []\<rparr> demo_sent"
  have "fst ?r = Inr 1" by code_simp
  then obtain pt' st' where r: "?r = (Inr 1, pt', st')" by (metis prod.collapse)
  have "demo_marker \<in> stored_markers (map_of (mdb_db demo_sent))"
    by (simp add: sdb.markers_listed [OF demo_sent_inv demo_pending(4), symmetric] demo_marker_def)
  then show ?thesis
    using reconcile_loses_no_marker [OF sdb.sled_contract_axioms demo_sent_inv r] r by auto
qed

text \<open>
  The first envelope for a device wins and completes the deferred message: after an accepted
  append, the message is completed, and appending any other envelope for the same message,
  recipient, device and identity version is answered "not added" and changes nothing.
\<close>

theorem first_envelope_wins:
  assumes "append_pending_envelope_internal ok now users mid uid device ver env pt = (Inr True, pt')"
  shows "append_pending_envelope_internal True now' users' mid uid device ver env' pt' = (Inr False, pt') \<and>
    (\<exists>row. fmlookup (pd_message pt') mid = Some row \<and> pp_completed_at row \<noteq> None \<and>
       (\<forall>old t. fmlookup (pd_message pt) mid = Some old \<and> pp_completed_at old = Some t \<longrightarrow> row = old))"
  using assms by (auto simp: append_pending_envelope_internal_def split: if_splits)

theorem first_envelope_wins_witness:
  "\<exists>pt'. append_pending_envelope_internal True 9 {5} 1 5 ''phone'' 1 ''key''
      \<lparr>pd_message = fmupd 1 \<lparr>pp_sender_uid = 7, pp_target_uid = 5, pp_completed_at = None,
         pp_created_at = 0\<rparr> fmempty, pd_envelope = []\<rparr> = (Inr True, pt') \<and>
    append_pending_envelope_internal True 11 {5} 1 5 ''phone'' 1 ''other'' pt' = (Inr False, pt')"
proof -
  let ?r = "append_pending_envelope_internal True 9 {5} 1 5 ''phone'' 1 ''key''
    \<lparr>pd_message = fmupd 1 \<lparr>pp_sender_uid = 7, pp_target_uid = 5, pp_completed_at = None,
       pp_created_at = 0\<rparr> fmempty, pd_envelope = []\<rparr>"
  have "fst ?r = Inr True" by (simp add: append_pending_envelope_internal_def)
  then obtain pt' where "?r = (Inr True, pt')" by (metis prod.collapse)
  then show ?thesis using first_envelope_wins by blast
qed

end
