(* ===== verification/Message_Api.thy ===== *)
theory Message_Api
  imports Mls_Sequence Pending_Dm User_Cache
begin

text \<open>
  Sending messages (\<open>src/api/message.rs\<close>, and \<open>send\<close> of \<open>src/api/group.rs\<close>): from the request body
  to the stored message, its broadcast and its push notification. What the handlers take from
  outside -- the key-value store, the JSON codec, the clock, the files, the settings tables
  they only read -- is the record \<open>Env\<close>.
\<close>

record FileMeta =
  fm_content_type :: string
  fm_filename :: "string option"

record ('j, 'db) Env =
  en_K :: "'db sled_ops"
  en_C :: "'j codec"
  en_J :: "'j json_ops"
  en_now :: DateTime
  en_generation_two :: bool
  en_dm_setting :: "i64 \<Rightarrow> i64 \<Rightarrow> unit + bool option"
  en_valid_millis :: "i64 \<Rightarrow> bool"
  en_pending_db_ok :: "i64 \<Rightarrow> bool"
  en_mls_db_ok :: bool
  en_file_size :: "string \<Rightarrow> u64 option"
  en_file_meta :: "string \<Rightarrow> FileMeta option"

text \<open>A push notification: the device tokens it goes to (a set: the order is that of a hash map).\<close>

record notification =
  nt_tokens :: "string set"
  nt_title :: string
  nt_message :: string

record ('j, 'db) Server =
  sv_state :: "('j, 'db) State"
  sv_pending :: pending_tables
  sv_mls :: mls_tables
  sv_notifications :: "notification list"

section \<open>Reactions and notifications\<close>

definition can_reaction :: "'j MessageReactionDetail \<Rightarrow> i64 \<Rightarrow> bool \<Rightarrow> 'j ChatMessagePayload \<Rightarrow> bool" where
  "can_reaction detail current_uid is_admin payload =
     (case pl_detail payload of
        Reaction r \<Rightarrow> False
      | _ \<Rightarrow>
          (case detail of
             ReactionEdit c \<Rightarrow> current_uid = pl_from_uid payload
           | ReactionLike a \<Rightarrow> True
           | ReactionDelete \<Rightarrow> current_uid = pl_from_uid payload \<or> is_admin))"

text \<open>\<open>str::replace\<close>: every occurrence from left to right; the pattern is never empty here.\<close>

function str_replace :: "string \<Rightarrow> string \<Rightarrow> string \<Rightarrow> string" where
  "str_replace pat rep s =
     (if s = '''' then ''''
      else if pat \<noteq> '''' \<and> take (length pat) s = pat then rep @ str_replace pat rep (drop (length pat) s)
      else hd s # str_replace pat rep (tl s))"
  by pat_completeness auto
termination by (relation "measure (\<lambda>(p, r, s). length s)") auto

declare str_replace.simps [simp del]

definition decimal_int :: "int \<Rightarrow> string" where
  "decimal_int i = (if i < 0 then ''-'' @ decimal (nat (- i)) else decimal (nat i))"

definition mention_text :: "string \<Rightarrow> string" where
  "mention_text name = '' @'' @ name @ '' ''"

text \<open>The names of the mentioned users replace their ids, in some order of the users.\<close>

definition replace_mentions :: "'j Cache \<Rightarrow> i64 set \<Rightarrow> string \<Rightarrow> string" where
  "replace_mentions cache mentions text' =
     fold (\<lambda>uid msg. case fmlookup (ca_users cache) uid of
             Some user \<Rightarrow> str_replace (mention_text (decimal_int uid)) (mention_text (cu_name user)) msg
           | None \<Rightarrow> msg)
       (sorted_list_of_set mentions) text'"

definition notify_content ::
    "'j json_ops \<Rightarrow> 'j Cache \<Rightarrow> i64 set \<Rightarrow> 'j ChatMessageContent \<Rightarrow> string option" where
  "notify_content J cache mentions c =
     (if cc_content_type c = ''text/plain'' then
        (if mentions = {} then Some (cc_content c) else Some (replace_mentions cache mentions (cc_content c)))
      else if cc_content_type c = ''text/markdown'' then Some ''You have a new message''
      else if cc_content_type c = ''vocechat/file'' then Some ''You have a new file''
      else if cc_content_type c = CONTENT_TYPE then Some ''You have a new message''
      else if Option.bind (Option.bind (cc_properties c) (\<lambda>p. fmlookup p ''e2e'')) (as_bool J) = Some True
      then Some ''You have a new message''
      else None)"

definition notify_message ::
    "'j json_ops \<Rightarrow> 'j Cache \<Rightarrow> i64 set \<Rightarrow> 'j ChatMessagePayload \<Rightarrow> string option" where
  "notify_message J cache mentions payload =
     (case pl_detail payload of
        Normal n \<Rightarrow> notify_content J cache mentions (nm_content n)
      | Reply r \<Rightarrow> notify_content J cache mentions (rp_content r)
      | Reaction r \<Rightarrow> None)"

definition device_tokens :: "CacheUser \<Rightarrow> string set" where
  "device_tokens u = Option.these (dev_token ` fset (fmran (cu_devices u)))"

section \<open>Request bodies\<close>

datatype SendMessageRequest =
    ReqText string
  | ReqMarkdown string
  | ReqFile string
  | ReqArchive string
  | ReqE2eV2 string

definition content_of ::
    "'j props option \<Rightarrow> string \<Rightarrow> string \<Rightarrow> 'j ChatMessageContent" where
  "content_of properties ct text' =
     \<lparr>cc_properties = properties, cc_content_type = ct, cc_content = text'\<rparr>"

fun into_chat_message_content ::
    "('j, 'db) Env \<Rightarrow> SendMessageRequest \<Rightarrow> 'j props option \<Rightarrow> api_error + 'j ChatMessageContent" where
  "into_chat_message_content E (ReqText t) properties = Inr (content_of properties ''text/plain'' t)"
| "into_chat_message_content E (ReqMarkdown t) properties = Inr (content_of properties ''text/markdown'' t)"
| "into_chat_message_content E (ReqFile path) properties =
     (case en_file_size E path of
        None \<Rightarrow> Inl (from_status BAD_REQUEST)
      | Some filesize \<Rightarrow>
          let meta = (case en_file_meta E path of Some m \<Rightarrow> m
                | None \<Rightarrow> \<lparr>fm_content_type = ''application/octet-stream'', fm_filename = None\<rparr>);
              ps = (case properties of Some p \<Rightarrow> p | None \<Rightarrow> fmempty);
              ps1 = opt_upd ''name'' (map_option (json_string (en_J E)) (fm_filename meta)) ps;
              ps2 = fmupd ''size'' (json_u64 (en_J E) filesize)
                (fmupd ''content_type'' (json_string (en_J E) (fm_content_type meta)) ps1)
          in Inr (content_of (Some ps2) ''vocechat/file'' path))"
| "into_chat_message_content E (ReqArchive path) properties =
     Inr (content_of properties ''vocechat/archive'' path)"
| "into_chat_message_content E (ReqE2eV2 cipher) properties =
     (case properties of
        None \<Rightarrow> Inl (from_status BAD_REQUEST)
      | Some ps \<Rightarrow>
          (case validate_properties (en_J E) ps of
             Inl e \<Rightarrow> Inl (from_string (e2e_error_message e) BAD_REQUEST)
           | Inr r \<Rightarrow> Inr (content_of (Some ps) CONTENT_TYPE cipher)))"

definition into_chat_message_payload ::
    "('j, 'db) Env \<Rightarrow> SendMessageRequest \<Rightarrow> i64 \<Rightarrow> MessageTarget \<Rightarrow> 'j props option \<Rightarrow>
     api_error + 'j ChatMessagePayload" where
  "into_chat_message_payload E req from_uid target properties =
     try_res (into_chat_message_content E req properties) (\<lambda>c.
       Inr \<lparr>pl_from_uid = from_uid, pl_created_at = en_now E, pl_target = target,
            pl_detail = Normal \<lparr>nm_content = c, nm_expires_in = None\<rparr>\<rparr>)"

section \<open>Encryption policy\<close>

text \<open>The content a payload carries; likes and deletions carry none.\<close>

definition payload_content :: "'j ChatMessagePayload \<Rightarrow> 'j ChatMessageContent option" where
  "payload_content payload =
     (case pl_detail payload of
        Normal n \<Rightarrow> Some (nm_content n)
      | Reply r \<Rightarrow> Some (rp_content r)
      | Reaction r \<Rightarrow>
          (case rx_detail r of
             ReactionEdit c \<Rightarrow> Some c
           | ReactionLike a \<Rightarrow> None
           | ReactionDelete \<Rightarrow> None))"

abbreviation e2e_required_error :: api_error where
  "e2e_required_error \<equiv> from_string ''E2E_REQUIRED'' FORBIDDEN"

definition enforce_e2e_required ::
    "('j, 'db) Env \<Rightarrow> 'j Cache \<Rightarrow> 'j ChatMessagePayload \<Rightarrow> api_error + unit" where
  "enforce_e2e_required E cache payload =
     (case payload_content payload of
        None \<Rightarrow> if en_generation_two E then Inl e2e_required_error else Inr ()
      | Some content \<Rightarrow>
          if cc_content_type content = CONTENT_TYPE then Inr ()
          else
            try_res
              (if en_generation_two E then Inr True
               else case pl_target payload of
                 TargetUser uid \<Rightarrow>
                   (case en_dm_setting E (min (pl_from_uid payload) uid) (max (pl_from_uid payload) uid) of
                      Inl u \<Rightarrow> Inl internal_error
                    | Inr setting \<Rightarrow> Inr (case setting of Some b \<Rightarrow> b | None \<Rightarrow> True))
               | TargetGroup gid \<Rightarrow>
                   Inr (case fmlookup (ca_groups cache) gid of Some g \<Rightarrow> cg_e2e_enabled g | None \<Rightarrow> True))
              (\<lambda>required. if required then Inl e2e_required_error else Inr ()))"

definition enforce_e2e_v2_target_protocol ::
    "'j json_ops \<Rightarrow> 'j ChatMessagePayload \<Rightarrow> api_error + i64 option" where
  "enforce_e2e_v2_target_protocol J payload =
     (case payload_content payload of
        None \<Rightarrow> Inr None
      | Some content \<Rightarrow>
          if cc_content_type content \<noteq> CONTENT_TYPE then Inr None
          else
            (case cc_properties content of
               None \<Rightarrow> Inl (from_status BAD_REQUEST)
             | Some ps \<Rightarrow>
                 (case validate_properties J ps of
                    Inl e \<Rightarrow> Inl (from_string (e2e_error_message e) BAD_REQUEST)
                  | Inr routing \<Rightarrow>
                      (case (pl_target payload, rt_protocol routing) of
                         (TargetUser uid, DrPending) \<Rightarrow> Inr (Some uid)
                       | (TargetUser uid, Dr) \<Rightarrow> Inr None
                       | (TargetGroup gid, Mls) \<Rightarrow> Inr None
                       | _ \<Rightarrow> Inl (from_string ''E2E_PROTOCOL_TARGET_MISMATCH'' BAD_REQUEST)))))"

section \<open>Storing\<close>

datatype InternalSendMessageTarget =
    SendGroup i64 "i64 list"
  | SendDm i64 i64 bool

record 'j InternalSendMessageResult =
  sr_mid :: i64
  sr_targets :: "i64 list"
  sr_payload :: "'j ChatMessagePayload"
  sr_merged_id :: "i64 option"

definition store_message ::
    "'db sled_ops \<Rightarrow> InternalSendMessageTarget \<Rightarrow> DateTime \<Rightarrow> bytes \<Rightarrow> 'db msgdb \<Rightarrow>
     (msgdb_error + i64) \<times> 'db msgdb" where
  "store_message K target created_at message mdb =
     (case target of
        SendGroup gid targets \<Rightarrow> send_to_group K mdb gid targets message
      | SendDm from_uid to_uid pending \<Rightarrow>
          if pending
          then send_to_dm_with_pending_marker K mdb from_uid to_uid (timestamp_millis created_at) message
          else send_to_dm K mdb from_uid to_uid message)"

fun target_list :: "InternalSendMessageTarget \<Rightarrow> i64 list" where
  "target_list (SendGroup gid targets) = targets"
| "target_list (SendDm from_uid to_uid pending) = [from_uid, to_uid]"

definition insert_merged ::
    "'db sled_ops \<Rightarrow> 'j codec \<Rightarrow> 'j ChatMessagePayload \<Rightarrow> 'j ChatMessageContent \<Rightarrow> i64 \<Rightarrow> 'db msgdb \<Rightarrow>
     (api_error + i64 option) \<times> 'db msgdb" where
  "insert_merged K C payload content mid mdb =
     (case enc_merged C \<lparr>mp_from_uid = pl_from_uid payload, mp_target = pl_target payload,
             mp_content = content, mp_created_at = pl_created_at payload\<rparr> of
        None \<Rightarrow> (Inl internal_error, mdb)
      | Some data \<Rightarrow>
          (case insert_merged_msg K mdb mid data of
             (Inl e, mdb') \<Rightarrow> (Inl internal_error, mdb')
           | (Inr u, mdb') \<Rightarrow> (Inr (Some mid), mdb')))"

text \<open>The closure an edit applies to the stored merged message.\<close>

definition edit_merged :: "'j codec \<Rightarrow> 'j ChatMessageContent \<Rightarrow> bytes \<Rightarrow> bytes" where
  "edit_merged C content data =
     (case dec_merged C data of
        None \<Rightarrow> data
      | Some m \<Rightarrow> (case enc_merged C (m\<lparr>mp_content := content\<rparr>) of None \<Rightarrow> data | Some d \<Rightarrow> d))"

definition update_merged ::
    "'db sled_ops \<Rightarrow> 'j codec \<Rightarrow> 'j ChatMessagePayload \<Rightarrow> i64 \<Rightarrow> 'db msgdb \<Rightarrow>
     (api_error + i64 option) \<times> 'db msgdb" where
  "update_merged K C payload msg_id mdb =
     (case pl_detail payload of
        Normal normal \<Rightarrow> insert_merged K C payload (nm_content normal) msg_id mdb
      | Reaction reaction \<Rightarrow>
          (case rx_detail reaction of
             ReactionEdit edit \<Rightarrow>
               (case update_merged_msg K mdb (rx_mid reaction) (edit_merged C edit) of
                  (Inl e, mdb') \<Rightarrow> (Inl internal_error, mdb')
                | (Inr u, mdb') \<Rightarrow> (Inr (Some (rx_mid reaction)), mdb'))
           | ReactionLike a \<Rightarrow> (Inr None, mdb)
           | ReactionDelete \<Rightarrow> (Inr None, mdb))
      | Reply reply \<Rightarrow> insert_merged K C payload (rp_content reply) msg_id mdb)"

definition internal_send_message ::
    "'db sled_ops \<Rightarrow> 'j codec \<Rightarrow> InternalSendMessageTarget \<Rightarrow> 'j ChatMessagePayload \<Rightarrow> 'db msgdb \<Rightarrow>
     (api_error + 'j InternalSendMessageResult) \<times> 'db msgdb" where
  "internal_send_message K C target payload mdb =
     (case enc_payload C payload of
        None \<Rightarrow> (Inl internal_error, mdb)
      | Some message \<Rightarrow>
          (case store_message K target (pl_created_at payload) message mdb of
             (Inl e, mdb1) \<Rightarrow> (Inl internal_error, mdb1)
           | (Inr msg_id, mdb1) \<Rightarrow>
               (case update_merged K C payload msg_id mdb1 of
                  (Inl e, mdb2) \<Rightarrow> (Inl e, mdb2)
                | (Inr merged_id, mdb2) \<Rightarrow>
                    (Inr \<lparr>sr_mid = msg_id, sr_targets = target_list target, sr_payload = payload,
                          sr_merged_id = merged_id\<rparr>, mdb2))))"

end
