(* ===== verification/Message_Send.thy ===== *)
theory Message_Send
  imports Message_Api
begin

text \<open>
  Sending, from the checked request to the acknowledgement: \<open>send_message\<close> of
  \<open>src/api/message.rs\<close> and the endpoints that call it -- \<open>send\<close> of \<open>src/api/group.rs\<close> and
  \<open>src/api/user.rs\<close>, and \<open>edit\<close>, \<open>like\<close>, \<open>delete\<close> and \<open>reply\<close> of \<open>src/api/message_api.rs\<close>.
\<close>

type_synonym ('j, 'db, 'a) sender = "('j, 'db) Server \<Rightarrow> (api_error + 'a) \<times> ('j, 'db) Server"

abbreviation sv_cache :: "('j, 'db) Server \<Rightarrow> 'j Cache" where
  "sv_cache srv \<equiv> st_cache (sv_state srv)"

abbreviation sv_msg_db :: "('j, 'db) Server \<Rightarrow> 'db msgdb" where
  "sv_msg_db srv \<equiv> st_msg_db (sv_state srv)"

definition set_msg_db :: "'db msgdb \<Rightarrow> ('j, 'db) Server \<Rightarrow> ('j, 'db) Server" where
  "set_msg_db mdb srv = srv\<lparr>sv_state := (sv_state srv)\<lparr>st_msg_db := mdb\<rparr>\<rparr>"

section \<open>Before storing\<close>

text \<open>A normal message gets the expiry its sender has set for the conversation.\<close>

definition set_expires_in :: "'j Cache \<Rightarrow> 'j ChatMessagePayload \<Rightarrow> api_error + 'j ChatMessagePayload" where
  "set_expires_in cache payload =
     (case pl_detail payload of
        Normal normal \<Rightarrow>
          (case fmlookup (ca_users cache) (pl_from_uid payload) of
             None \<Rightarrow> Inl (from_status UNAUTHORIZED)
           | Some current_user \<Rightarrow>
               Inr (payload\<lparr>pl_detail := Normal (normal\<lparr>nm_expires_in :=
                 (case pl_target payload of
                    TargetUser uid \<Rightarrow> burn_after_reading_to_user_expires_in current_user uid
                  | TargetGroup gid \<Rightarrow> burn_after_reading_to_group_expires_in current_user gid)\<rparr>)\<rparr>))
      | _ \<Rightarrow> Inr payload)"

definition mentions_of :: "'j json_ops \<Rightarrow> 'j ChatMessagePayload \<Rightarrow> i64 set" where
  "mentions_of J payload =
     (let properties = (case pl_detail payload of
            Normal n \<Rightarrow> cc_properties (nm_content n)
          | Reaction r \<Rightarrow> None
          | Reply r \<Rightarrow> cc_properties (rp_content r));
          mentions = Option.bind (Option.bind properties (\<lambda>p. fmlookup p ''mentions'')) (as_array J)
      in case mentions of None \<Rightarrow> {} | Some vs \<Rightarrow> set (List.map_filter (as_i64 J) vs))"

text \<open>The notification of a direct message; the receiver must exist only when there is one.\<close>

definition notify_user ::
    "('j, 'db) Env \<Rightarrow> 'j Cache \<Rightarrow> i64 set \<Rightarrow> 'j ChatMessagePayload \<Rightarrow> i64 \<Rightarrow>
     api_error + notification option" where
  "notify_user E cache mentions payload uid =
     (case fmlookup (ca_users cache) (pl_from_uid payload) of
        None \<Rightarrow> Inr None
      | Some user \<Rightarrow>
          if cu_status user \<noteq> StatusNormal then Inr None
          else (case notify_message (en_J E) cache mentions payload of
              None \<Rightarrow> Inr None
            | Some text' \<Rightarrow>
                (case fmlookup (ca_users cache) uid of
                   None \<Rightarrow> Inl (from_status NOT_FOUND)
                 | Some target_user \<Rightarrow>
                     Inr (Some \<lparr>nt_tokens =
                         (if is_user_muted (en_now E) target_user (pl_from_uid payload) then {}
                          else device_tokens target_user),
                       nt_title = cu_name user, nt_message = text'\<rparr>))))"

definition notify_tokens_of_group ::
    "DateTime \<Rightarrow> 'j Cache \<Rightarrow> i64 set \<Rightarrow> i64 \<Rightarrow> i64 \<Rightarrow> i64 list \<Rightarrow> string set" where
  "notify_tokens_of_group now cache mentions from_uid gid target_users =
     \<Union> (set (map (\<lambda>uid. case fmlookup (ca_users cache) uid of
            None \<Rightarrow> {}
          | Some user \<Rightarrow>
              if uid = from_uid \<or> cu_status user \<noteq> StatusNormal then {}
              else if uid \<in> mentions \<or> \<not> is_group_muted now user gid then device_tokens user
              else {}) target_users))"

definition notify_group ::
    "('j, 'db) Env \<Rightarrow> 'j Cache \<Rightarrow> i64 set \<Rightarrow> 'j ChatMessagePayload \<Rightarrow> i64 \<Rightarrow> 'j CacheGroup \<Rightarrow>
     i64 list \<Rightarrow> notification option" where
  "notify_group E cache mentions payload gid g target_users =
     (case (fmlookup (ca_users cache) (pl_from_uid payload), notify_message (en_J E) cache mentions payload) of
        (Some user, Some text') \<Rightarrow>
          Some \<lparr>nt_tokens = notify_tokens_of_group (en_now E) cache mentions (pl_from_uid payload) gid target_users,
            nt_title = cg_name g, nt_message = cu_name user @ '': '' @ text'\<rparr>
      | _ \<Rightarrow> None)"

text \<open>The receivers of a message to a group, ascending.\<close>

definition group_targets :: "'j Cache \<Rightarrow> 'j CacheGroup \<Rightarrow> i64 list" where
  "group_targets cache g =
     (if \<not> gt_is_public (cg_ty g) then sorted_list_of_set (cg_members g)
      else fm_keys (ca_users cache))"

definition resolve_target ::
    "('j, 'db) Env \<Rightarrow> 'j Cache \<Rightarrow> bool \<Rightarrow> 'j ChatMessagePayload \<Rightarrow>
     api_error + (InternalSendMessageTarget \<times> notification option)" where
  "resolve_target E cache pending payload =
     (let mentions = mentions_of (en_J E) payload in
      case pl_target payload of
        TargetUser uid \<Rightarrow>
          try_res (notify_user E cache mentions payload uid) (\<lambda>notification.
            Inr (SendDm (pl_from_uid payload) uid pending, notification))
      | TargetGroup gid \<Rightarrow>
          (case fmlookup (ca_groups cache) gid of
             None \<Rightarrow> Inl (from_status NOT_FOUND)
           | Some g \<Rightarrow>
               if \<not> gt_is_public (cg_ty g) \<and> pl_from_uid payload \<notin> cg_members g
               then Inl (from_status FORBIDDEN)
               else
                 let target_users = group_targets cache g
                 in Inr (SendGroup gid target_users,
                         notify_group E cache mentions payload gid g target_users)))"

definition prepare_message ::
    "('j, 'db) Env \<Rightarrow> 'j Cache \<Rightarrow> 'j ChatMessagePayload \<Rightarrow>
     api_error + (bool \<times> 'j ChatMessagePayload \<times> InternalSendMessageTarget \<times> notification option)" where
  "prepare_message E cache payload =
     try_res (enforce_e2e_v2_target_protocol (en_J E) payload) (\<lambda>pending_dm_target.
     try_res (enforce_e2e_required E cache payload) (\<lambda>u.
     try_res (set_expires_in cache payload) (\<lambda>payload'.
     try_res (resolve_target E cache (pending_dm_target \<noteq> None) payload') (\<lambda>(target, notification).
       Inr (pending_dm_target \<noteq> None, payload', target, notification)))))"

section \<open>Sending\<close>

definition send_notify :: "notification option \<Rightarrow> ('j, 'db) Server \<Rightarrow> ('j, 'db) Server" where
  "send_notify notification srv =
     (case notification of
        None \<Rightarrow> srv
      | Some n \<Rightarrow>
          if nt_tokens n = {} then srv
          else srv\<lparr>sv_notifications := sv_notifications srv @ [n]\<rparr>)"

definition announce :: "'j InternalSendMessageResult \<Rightarrow> ('j, 'db) Server \<Rightarrow> ('j, 'db) Server" where
  "announce result srv =
     srv\<lparr>sv_state := (sv_state srv)\<lparr>
       st_events := st_events (sv_state srv) @
         [Chat (set (sr_targets result)) \<lparr>cm_mid = sr_mid result, cm_payload = sr_payload result\<rparr>],
       st_msg_updated := st_msg_updated (sv_state srv) @
         (case sr_merged_id result of None \<Rightarrow> [] | Some mid \<Rightarrow> [mid])\<rparr>\<rparr>"

definition project_pending ::
    "('j, 'db) Env \<Rightarrow> bool \<Rightarrow> ('j, 'db) Server \<Rightarrow> (api_error + unit) \<times> ('j, 'db) Server" where
  "project_pending E pending srv =
     (if \<not> pending then (Inr (), srv)
      else
        (case reconcile_pending_dm_markers (en_K E) (en_valid_millis E) (en_pending_db_ok E)
                (fmdom' (tb_user (st_tables (sv_state srv)))) (sv_pending srv) (sv_msg_db srv) of
           (r, pt, mdb) \<Rightarrow>
             ((case r of Inl e \<Rightarrow> Inl internal_error | Inr n \<Rightarrow> Inr ()),
              (set_msg_db mdb srv)\<lparr>sv_pending := pt\<rparr>)))"

definition send_message :: "('j, 'db) Env \<Rightarrow> 'j ChatMessagePayload \<Rightarrow> ('j, 'db, i64) sender" where
  "send_message E payload srv =
     (case prepare_message E (sv_cache srv) payload of
        Inl e \<Rightarrow> (Inl e, srv)
      | Inr (pending, payload', target, notification) \<Rightarrow>
          (case internal_send_message (en_K E) (en_C E) target payload' (sv_msg_db srv) of
             (Inl e, mdb) \<Rightarrow> (Inl e, set_msg_db mdb srv)
           | (Inr result, mdb) \<Rightarrow>
               (case project_pending E pending (set_msg_db mdb srv) of
                  (Inl e, srv') \<Rightarrow> (Inl e, srv')
                | (Inr u, srv') \<Rightarrow>
                    (Inr (sr_mid result), announce result (send_notify notification srv')))))"

section \<open>The endpoints\<close>

text \<open>
  \<open>properties\<close> is the decoded header \<open>X-Properties\<close>. An encrypted body must name the caller's own
  device (\<open>check_sender\<close>).
\<close>

definition is_e2e_v2 :: "SendMessageRequest \<Rightarrow> bool" where
  "is_e2e_v2 req = (case req of ReqE2eV2 cipher \<Rightarrow> True | _ \<Rightarrow> False)"

definition check_sender :: "'j json_ops \<Rightarrow> 'j props option \<Rightarrow> string \<Rightarrow> api_error + RoutingProperties" where
  "check_sender J properties device =
     (case properties of
        None \<Rightarrow> Inl (from_status BAD_REQUEST)
      | Some ps \<Rightarrow>
          (case validate_authenticated_sender J ps device of
             Inl e \<Rightarrow> Inl (from_string (e2e_error_message e) BAD_REQUEST)
           | Inr route \<Rightarrow> Inr route))"

text \<open>\<open>send\<close> of \<open>src/api/group.rs\<close>: an MLS message takes its place in the group's sequence.\<close>

definition reserve_group_message ::
    "('j, 'db) Env \<Rightarrow> i64 \<Rightarrow> i64 \<Rightarrow> 'j ChatMessagePayload \<Rightarrow> ('j, 'db, unit) sender" where
  "reserve_group_message E gid uid payload srv =
     (case pl_detail payload of
        Normal normal \<Rightarrow>
          if cc_content_type (nm_content normal) \<noteq> CONTENT_TYPE then (Inr (), srv)
          else
            (case cc_properties (nm_content normal) of
               None \<Rightarrow> (Inl (from_status BAD_REQUEST), srv)
             | Some ps \<Rightarrow>
                 (case validate_properties (en_J E) ps of
                    Inl e \<Rightarrow> (Inl (from_string (e2e_error_message e) BAD_REQUEST), srv)
                  | Inr route \<Rightarrow>
                      if rt_protocol route \<noteq> Mls then (Inl (from_status BAD_REQUEST), srv)
                      else
                        (case reserve_mls_sequence (en_mls_db_ok E) gid uid route (sv_mls srv) of
                           (Inl Conflict, t) \<Rightarrow>
                             (Inl (from_string ''E2E_MLS_SEQUENCE_CONFLICT'' CONFLICT), srv\<lparr>sv_mls := t\<rparr>)
                         | (Inl Database, t) \<Rightarrow> (Inl internal_error, srv\<lparr>sv_mls := t\<rparr>)
                         | (Inr u, t) \<Rightarrow> (Inr (), srv\<lparr>sv_mls := t\<rparr>))))
      | _ \<Rightarrow> (Inr (), srv))"

definition group_send ::
    "('j, 'db) Env \<Rightarrow> Token \<Rightarrow> i64 \<Rightarrow> 'j props option \<Rightarrow> SendMessageRequest \<Rightarrow> ('j, 'db, i64) sender" where
  "group_send E token gid properties req srv =
     (if tk_is_guest token then (Inl (from_status FORBIDDEN), srv)
      else
        case (if \<not> is_e2e_v2 req then Inr ()
              else try_res (check_sender (en_J E) properties (tk_device token)) (\<lambda>route. Inr ())) of
          Inl e \<Rightarrow> (Inl e, srv)
        | Inr u \<Rightarrow>
            (case into_chat_message_payload E req (tk_uid token) (TargetGroup gid) properties of
               Inl e \<Rightarrow> (Inl e, srv)
             | Inr payload \<Rightarrow>
                 (case reserve_group_message E gid (tk_uid token) payload srv of
                    (Inl e, srv') \<Rightarrow> (Inl e, srv')
                  | (Inr v, srv') \<Rightarrow> send_message E payload srv')))"

text \<open>\<open>send\<close> of \<open>src/api/user.rs\<close>.\<close>

definition user_send ::
    "('j, 'db) Env \<Rightarrow> Token \<Rightarrow> i64 \<Rightarrow> 'j props option \<Rightarrow> SendMessageRequest \<Rightarrow> ('j, 'db, i64) sender" where
  "user_send E token uid properties req srv =
     (if tk_is_guest token then (Inl (from_status FORBIDDEN), srv)
      else
        case (if \<not> is_e2e_v2 req then Inr ()
              else try_res (check_sender (en_J E) properties (tk_device token)) (\<lambda>route.
                if rt_protocol route \<in> {Dr, DrPending} then Inr () else Inl (from_status BAD_REQUEST))) of
          Inl e \<Rightarrow> (Inl e, srv)
        | Inr u \<Rightarrow>
            (case into_chat_message_payload E req (tk_uid token) (TargetUser uid) properties of
               Inl e \<Rightarrow> (Inl e, srv)
             | Inr payload \<Rightarrow> send_message E payload srv))"

text \<open>The reactions of \<open>src/api/message_api.rs\<close>.\<close>

datatype ReactionApiResponse = ReactionOk i64 | MessageDoesNotExist | ReactionForbidden

definition get_target :: "i64 \<Rightarrow> 'j ChatMessagePayload \<Rightarrow> MessageTarget" where
  "get_target current_uid payload =
     (case pl_target payload of
        TargetUser uid \<Rightarrow> TargetUser (if uid = current_uid then pl_from_uid payload else uid)
      | TargetGroup gid \<Rightarrow> TargetGroup gid)"

text \<open>The message a reaction or a reply is about; the inner \<open>None\<close> when there is none.\<close>

definition stored_message ::
    "('j, 'db) Env \<Rightarrow> i64 \<Rightarrow> ('j, 'db) Server \<Rightarrow> api_error + 'j ChatMessagePayload option" where
  "stored_message E mid srv =
     (case messages_get (en_K E) (sv_msg_db srv) mid of
        Inl e \<Rightarrow> Inl internal_error
      | Inr None \<Rightarrow> Inr None
      | Inr (Some data) \<Rightarrow>
          (case dec_payload (en_C E) data of None \<Rightarrow> Inl internal_error | Some p \<Rightarrow> Inr (Some p)))"

definition send_reaction ::
    "('j, 'db) Env \<Rightarrow> 'j ChatMessagePayload \<Rightarrow> ('j, 'db, ReactionApiResponse) sender" where
  "send_reaction E payload srv =
     (case send_message E payload srv of
        (Inl e, srv') \<Rightarrow> (Inl e, srv')
      | (Inr mid, srv') \<Rightarrow> (Inr (ReactionOk mid), srv'))"

definition do_reaction ::
    "('j, 'db) Env \<Rightarrow> Token \<Rightarrow> i64 \<Rightarrow> 'j MessageReactionDetail \<Rightarrow> ('j, 'db, ReactionApiResponse) sender" where
  "do_reaction E token mid detail srv =
     (case stored_message E mid srv of
        Inl e \<Rightarrow> (Inl e, srv)
      | Inr None \<Rightarrow> (Inr MessageDoesNotExist, srv)
      | Inr (Some payload) \<Rightarrow>
          if \<not> can_reaction detail (tk_uid token) (tk_is_admin token) payload
          then (Inr ReactionForbidden, srv)
          else send_reaction E
            \<lparr>pl_from_uid = tk_uid token, pl_created_at = en_now E,
             pl_target = get_target (tk_uid token) payload,
             pl_detail = Reaction \<lparr>rx_mid = mid, rx_detail = detail\<rparr>\<rparr> srv)"

definition message_edit ::
    "('j, 'db) Env \<Rightarrow> Token \<Rightarrow> i64 \<Rightarrow> 'j props option \<Rightarrow> SendMessageRequest \<Rightarrow>
     ('j, 'db, ReactionApiResponse) sender" where
  "message_edit E token mid properties req srv =
     (if tk_is_guest token then (Inl (from_status FORBIDDEN), srv)
      else
        case into_chat_message_content E req properties of
          Inl e \<Rightarrow> (Inl e, srv)
        | Inr content \<Rightarrow> do_reaction E token mid (ReactionEdit content) srv)"

text \<open>\<open>ALLOWED_EMOJI\<close>, in UTF-8.\<close>

definition ALLOWED_EMOJI :: "string list" where
  "ALLOWED_EMOJI = map (map char_of)
     [[0xE2, 0x9D, 0xA4, 0xEF, 0xB8, 0x8F], [0xF0, 0x9F, 0x98, 0x84], [0xF0, 0x9F, 0x91, 0x80],
      [0xF0, 0x9F, 0x91, 0x8D], [0xF0, 0x9F, 0x91, 0x8E], [0xF0, 0x9F, 0x8E, 0x89],
      [0xF0, 0x9F, 0x99, 0x81], [0xF0, 0x9F, 0x9A, 0x80 :: nat]]"

definition message_like ::
    "('j, 'db) Env \<Rightarrow> Token \<Rightarrow> i64 \<Rightarrow> string \<Rightarrow> ('j, 'db, ReactionApiResponse) sender" where
  "message_like E token mid action srv =
     (if tk_is_guest token then (Inl (from_status FORBIDDEN), srv)
      else if action \<notin> set ALLOWED_EMOJI then (Inl (from_status BAD_REQUEST), srv)
      else do_reaction E token mid (ReactionLike action) srv)"

definition message_delete :: "('j, 'db) Env \<Rightarrow> Token \<Rightarrow> i64 \<Rightarrow> ('j, 'db, ReactionApiResponse) sender" where
  "message_delete E token mid srv =
     (if tk_is_guest token then (Inl (from_status FORBIDDEN), srv)
      else do_reaction E token mid ReactionDelete srv)"

text \<open>Who may reply to a message.\<close>

definition may_reply :: "'j Cache \<Rightarrow> i64 \<Rightarrow> 'j ChatMessagePayload \<Rightarrow> bool" where
  "may_reply cache current_uid payload =
     (case pl_detail payload of
        Reaction r \<Rightarrow> False
      | _ \<Rightarrow>
          (case pl_target payload of
             TargetUser uid \<Rightarrow> uid = current_uid \<or> pl_from_uid payload = current_uid
           | TargetGroup gid \<Rightarrow>
               (case fmlookup (ca_groups cache) gid of
                  None \<Rightarrow> False
                | Some g \<Rightarrow> contains_user g current_uid)))"

definition message_reply ::
    "('j, 'db) Env \<Rightarrow> Token \<Rightarrow> i64 \<Rightarrow> 'j props option \<Rightarrow> SendMessageRequest \<Rightarrow>
     ('j, 'db, ReactionApiResponse) sender" where
  "message_reply E token mid properties req srv =
     (if tk_is_guest token then (Inl (from_status FORBIDDEN), srv)
      else
        case into_chat_message_content E req properties of
          Inl e \<Rightarrow> (Inl e, srv)
        | Inr content \<Rightarrow>
            (case stored_message E mid srv of
               Inl e \<Rightarrow> (Inl e, srv)
             | Inr None \<Rightarrow> (Inr MessageDoesNotExist, srv)
             | Inr (Some payload) \<Rightarrow>
                 if \<not> may_reply (sv_cache srv) (tk_uid token) payload
                 then (Inr ReactionForbidden, srv)
                 else send_reaction E
                   \<lparr>pl_from_uid = tk_uid token, pl_created_at = en_now E,
                    pl_target = get_target (tk_uid token) payload,
                    pl_detail = Reply \<lparr>rp_mid = mid, rp_content = content\<rparr>\<rparr> srv))"

end
