(* ===== verification/Send_Delivery.thy ===== *)
theory Send_Delivery
  imports Message_Send
begin

text \<open>
  What sending does to the message database and to the event channel: the outcome of
  \<open>send_message\<close> on every path, over any key-value store that satisfies its contract.
\<close>

section \<open>Accepted messages\<close>

text \<open>Sending changes nothing of a message but the expiry of a normal one.\<close>

definition same_message :: "'j ChatMessagePayload \<Rightarrow> 'j ChatMessagePayload \<Rightarrow> bool" where
  "same_message p q \<longleftrightarrow>
     pl_from_uid q = pl_from_uid p \<and> pl_created_at q = pl_created_at p \<and> pl_target q = pl_target p \<and>
     (pl_detail q = pl_detail p \<or>
      (\<exists>n x. pl_detail p = Normal n \<and> pl_detail q = Normal (n\<lparr>nm_expires_in := x\<rparr>)))"

text \<open>The users a message is for.\<close>

definition receivers :: "'j Cache \<Rightarrow> 'j ChatMessagePayload \<Rightarrow> i64 set" where
  "receivers cache payload =
     (case pl_target payload of
        TargetUser uid \<Rightarrow> {pl_from_uid payload, uid}
      | TargetGroup gid \<Rightarrow>
          (case fmlookup (ca_groups cache) gid of
             None \<Rightarrow> {} | Some g \<Rightarrow> group_audience (ca_users cache) g))"

text \<open>The conversation logs it belongs to.\<close>

fun belongs_to :: "'j Cache \<Rightarrow> 'j ChatMessagePayload \<Rightarrow> conv \<Rightarrow> bool" where
  "belongs_to cache payload (Inbox uid) \<longleftrightarrow> uid \<in> receivers cache payload"
| "belongs_to cache payload (GroupLog gid) \<longleftrightarrow> pl_target payload = TargetGroup gid"
| "belongs_to cache payload (DmLog a b) \<longleftrightarrow>
     (\<exists>uid. pl_target payload = TargetUser uid \<and> {a, b} = {pl_from_uid payload, uid})"

text \<open>All ids are 64-bit numbers, and the members of a group are finitely many.\<close>

definition cache_ids_ok :: "'j Cache \<Rightarrow> bool" where
  "cache_ids_ok cache \<longleftrightarrow>
     (\<forall>uid \<in> fmdom' (ca_users cache). in_i64 uid) \<and>
     (\<forall>gid g. fmlookup (ca_groups cache) gid = Some g \<longrightarrow>
        finite (cg_members g) \<and> (\<forall>uid \<in> cg_members g. in_i64 uid))"

definition payload_ids_ok :: "'j ChatMessagePayload \<Rightarrow> bool" where
  "payload_ids_ok payload \<longleftrightarrow>
     in_i64 (pl_from_uid payload) \<and> in_i64 (timestamp_millis (pl_created_at payload)) \<and>
     (case pl_target payload of TargetUser uid \<Rightarrow> in_i64 uid | TargetGroup gid \<Rightarrow> in_i64 gid)"

fun req_of :: "InternalSendMessageTarget \<Rightarrow> DateTime \<Rightarrow> bytes \<Rightarrow> send_req" where
  "req_of (SendGroup gid targets) at msg = ToGroup gid targets msg"
| "req_of (SendDm from_uid to_uid pending) at msg =
     ToDm from_uid to_uid (if pending then Some (timestamp_millis at) else None) msg"

lemma store_message_post: "store_message K target at msg mdb = post K mdb (req_of target at msg)"
  by (cases target) (simp_all add: store_message_def)

lemma req_msg_of [simp]: "req_msg (req_of target at msg) = msg"
  by (cases target) simp_all

lemma set_expires_in_same: "set_expires_in cache p = Inr q \<Longrightarrow> same_message p q"
  by (auto simp: set_expires_in_def same_message_def split: MessageDetail.splits option.splits)

text \<open>What the checks before storing establish.\<close>

lemma prepare_accepts:
  assumes "prepare_message E cache p = Inr (pending, q, target, notification)"
  obtains po where "enforce_e2e_v2_target_protocol (en_J E) p = Inr po" "pending = (po \<noteq> None)"
    "enforce_e2e_required E cache p = Inr ()" "set_expires_in cache p = Inr q"
    "resolve_target E cache pending q = Inr (target, notification)"
  using assms by (auto simp: prepare_message_def try_res_Inr_iff)

lemma resolve_accepts:
  assumes "resolve_target E cache pending q = Inr (target, notification)"
  shows "(\<exists>uid. pl_target q = TargetUser uid \<and> target = SendDm (pl_from_uid q) uid pending) \<or>
    (\<exists>gid g. pl_target q = TargetGroup gid \<and> fmlookup (ca_groups cache) gid = Some g \<and>
       contains_user g (pl_from_uid q) \<and> target = SendGroup gid (group_targets cache g))"
  using assms
  by (auto simp: resolve_target_def try_res_Inr_iff Let_def contains_user_def
      split: MessageTarget.splits option.splits if_splits)

lemma set_group_targets:
  assumes "finite (cg_members g)"
  shows "set (group_targets cache g) = group_audience (ca_users cache) g"
  using assms by (simp add: group_targets_def group_audience_def)

lemma resolved_ok:
  assumes "resolve_target E cache pending q = Inr (target, notification)"
    and "cache_ids_ok cache" "payload_ids_ok q"
  shows "req_ok (req_of target (pl_created_at q) msg)"
    "set (target_list target) = receivers cache q"
    "conv_ok cv \<Longrightarrow> addressed (req_of target (pl_created_at q) msg) cv = belongs_to cache q cv"
proof -
  from resolve_accepts [OF assms(1)] consider
    (dm) uid where "pl_target q = TargetUser uid" "target = SendDm (pl_from_uid q) uid pending"
    | (grp) gid g where "pl_target q = TargetGroup gid" "fmlookup (ca_groups cache) gid = Some g"
      "target = SendGroup gid (group_targets cache g)" by blast
  then have "req_ok (req_of target (pl_created_at q) msg) \<and> set (target_list target) = receivers cache q \<and>
    (conv_ok cv \<longrightarrow> addressed (req_of target (pl_created_at q) msg) cv = belongs_to cache q cv)"
  proof cases
    case dm
    then show ?thesis using assms(3)
      by (cases cv) (auto simp: payload_ids_ok_def receivers_def addressed_def min_def max_def doubleton_eq_iff)
  next
    case grp
    have fin: "finite (cg_members g)" "\<forall>u \<in> group_audience (ca_users cache) g. in_i64 u"
      using assms(2) grp(2) by (auto simp: cache_ids_ok_def group_audience_def)
    then show ?thesis using grp assms(3)
      by (cases cv) (auto simp: payload_ids_ok_def receivers_def addressed_def set_group_targets image_iff)
  qed
  then show "req_ok (req_of target (pl_created_at q) msg)" "set (target_list target) = receivers cache q"
    "conv_ok cv \<Longrightarrow> addressed (req_of target (pl_created_at q) msg) cv = belongs_to cache q cv" by simp_all
qed

lemma same_message_ids:
  assumes "same_message p q"
  shows "payload_ids_ok q = payload_ids_ok p" "receivers cache q = receivers cache p"
    "belongs_to cache q cv = belongs_to cache p cv"
proof -
  have eqs: "pl_from_uid q = pl_from_uid p" "pl_created_at q = pl_created_at p" "pl_target q = pl_target p"
    using assms by (simp_all add: same_message_def)
  show "payload_ids_ok q = payload_ids_ok p" by (simp add: payload_ids_ok_def eqs)
  show aud: "receivers cache q = receivers cache p"
    by (cases "pl_target p") (simp_all add: receivers_def eqs)
  show "belongs_to cache q cv = belongs_to cache p cv" by (cases cv) (simp_all add: aud eqs)
qed

section \<open>Merged messages leave the conversations alone\<close>

definition merged_only :: "('db \<Rightarrow> bytes \<rightharpoonup> bytes) \<Rightarrow> 'db msgdb \<Rightarrow> 'db msgdb \<Rightarrow> bool" where
  "merged_only contents st st' \<longleftrightarrow> mdb_sequence st' = mdb_sequence st \<and>
     (\<forall>k. (\<forall>m. k \<noteq> key_merged_msg m) \<longrightarrow> contents (mdb_db st') k = contents (mdb_db st) k)"

lemma merged_only_refl [simp]: "merged_only contents st st"
  by (simp add: merged_only_def)

lemma merged_only_keeps:
  assumes "merged_only contents st st'" "store_inv contents n st"
  shows "store_inv contents n st'" "msg_log contents st' cv = msg_log contents st cv"
    "contents (mdb_db st') (key_msg mid) = contents (mdb_db st) (key_msg mid)"
proof -
  have eq: "contents (mdb_db st') k = contents (mdb_db st) k" if "\<And>m. k \<noteq> key_merged_msg m" for k
    using assms(1) that by (simp add: merged_only_def)
  have "wf_entry j k v" if "contents (mdb_db st') k = Some v"
    "store_ok j (contents (mdb_db st))" for j k v
  proof (cases "\<exists>m. k = key_merged_msg m")
    case True
    then show ?thesis by (auto simp: wf_entry_def)
  next
    case False
    then show ?thesis using that eq [of k] by (simp add: store_ok_def)
  qed
  then show "store_inv contents n st'"
    using assms by (auto simp: store_inv_def Let_def merged_only_def store_ok_def lease_stored_def)
  show "msg_log contents st' cv = msg_log contents st cv"
    by (simp add: msg_log_def conv_log_def eq)
  show "contents (mdb_db st') (key_msg mid) = contents (mdb_db st) (key_msg mid)"
    by (simp add: eq)
qed

context sled_contract
begin

lemma insert_merged_only: "insert_merged_msg K st mid data = (r, st') \<Longrightarrow> merged_only contents st st'"
  by (auto simp: insert_merged_msg_def merged_only_def split: prod.splits option.splits dest: insert_ok)

lemma update_merged_msg_only: "update_merged_msg K st mid f = (r, st') \<Longrightarrow> merged_only contents st st'"
  by (auto simp: update_merged_msg_def merged_only_def split: prod.splits option.splits dest: update_ok)

lemma update_merged_only:
  assumes "update_merged K C payload mid st = (r, st')"
  shows "merged_only contents st st'"
  using assms
  by (auto simp: update_merged_def insert_merged_def split: MessageDetail.splits MessageReactionDetail.splits
      option.splits prod.splits sum.splits dest: insert_merged_only update_merged_msg_only)

lemma internal_send_sound:
  assumes "store_inv contents (Suc n) mdb" "internal_send_message K C target q mdb = (r, mdb')"
    and "\<And>msg. req_ok (req_of target (pl_created_at q) msg)"
  shows "store_inv contents n mdb' \<or> mdb' = mdb"
    "r = Inr res \<Longrightarrow> sr_payload res = q \<and> sr_targets res = target_list target \<and> id_ok (sr_mid res) \<and>
      (\<exists>msg. enc_payload C q = Some msg \<and> store_inv contents n mdb' \<and>
        contents (mdb_db mdb') (key_msg (sr_mid res)) = Some msg \<and>
        (\<forall>cv. conv_ok cv \<longrightarrow> msg_log contents mdb' cv = msg_log contents mdb cv @
          (if addressed (req_of target (pl_created_at q) msg) cv then [(sr_mid res, msg)] else [])))"
proof -
  have "(store_inv contents n mdb' \<or> mdb' = mdb) \<and>
    (r = Inr res \<longrightarrow> sr_payload res = q \<and> sr_targets res = target_list target \<and> id_ok (sr_mid res) \<and>
      (\<exists>msg. enc_payload C q = Some msg \<and> store_inv contents n mdb' \<and>
        contents (mdb_db mdb') (key_msg (sr_mid res)) = Some msg \<and>
        (\<forall>cv. conv_ok cv \<longrightarrow> msg_log contents mdb' cv = msg_log contents mdb cv @
          (if addressed (req_of target (pl_created_at q) msg) cv then [(sr_mid res, msg)] else []))))"
  proof (cases "enc_payload C q")
    case None
    then show ?thesis using assms(2) by (auto simp: internal_send_message_def)
  next
    case (Some msg)
    let ?q = "req_of target (pl_created_at q) msg"
    obtain p mdb1 where p: "post K mdb ?q = (p, mdb1)" by fastforce
    have inv1: "store_inv contents n mdb1" using post_inv [OF assms(1,3) p] .
    show ?thesis
    proof (cases p)
      case (Inl e)
      then show ?thesis using assms(2) p Some inv1
        by (auto simp: internal_send_message_def store_message_post)
    next
      case (Inr mid)
      obtain u mdb2 where u: "update_merged K C q mid mdb1 = (u, mdb2)" by fastforce
      note keep = merged_only_keeps [OF update_merged_only [OF u] inv1]
      have fin: "mdb' = mdb2" "r = Inr res \<longrightarrow> sr_payload res = q \<and> sr_targets res = target_list target \<and> sr_mid res = mid"
        using assms(2) p Some Inr u
        by (auto simp: internal_send_message_def store_message_post split: sum.splits)
      show ?thesis
        using fin Some keep post_delivers [OF assms(1,3) p [unfolded Inr]] by (auto split: if_splits)
    qed
  qed
  then show "store_inv contents n mdb' \<or> mdb' = mdb"
    "r = Inr res \<Longrightarrow> sr_payload res = q \<and> sr_targets res = target_list target \<and> id_ok (sr_mid res) \<and>
      (\<exists>msg. enc_payload C q = Some msg \<and> store_inv contents n mdb' \<and>
        contents (mdb_db mdb') (key_msg (sr_mid res)) = Some msg \<and>
        (\<forall>cv. conv_ok cv \<longrightarrow> msg_log contents mdb' cv = msg_log contents mdb cv @
          (if addressed (req_of target (pl_created_at q) msg) cv then [(sr_mid res, msg)] else [])))"
    by simp_all
qed

end

section \<open>The merged copy of a message\<close>

text \<open>The current content of a message, as far as it decodes.\<close>

definition merged_at :: "('db \<Rightarrow> bytes \<rightharpoonup> bytes) \<Rightarrow> 'j codec \<Rightarrow> 'db msgdb \<Rightarrow> i64 \<Rightarrow> 'j MergedMessagePayload option" where
  "merged_at contents C st mid = Option.bind (contents (mdb_db st) (key_merged_msg mid)) (dec_merged C)"

definition merged_of :: "'j ChatMessagePayload \<Rightarrow> 'j ChatMessageContent \<Rightarrow> 'j MergedMessagePayload" where
  "merged_of p c = \<lparr>mp_from_uid = pl_from_uid p, mp_target = pl_target p, mp_content = c, mp_created_at = pl_created_at p\<rparr>"

text \<open>
  What a message does to the current contents: it enters as itself, an edit replaces the content
  of what it is about, likes and deletions do nothing.
\<close>

definition merged_spec ::
    "'j ChatMessagePayload \<Rightarrow> i64 \<Rightarrow> (i64 \<Rightarrow> 'j MergedMessagePayload option) \<Rightarrow> i64 \<Rightarrow> 'j MergedMessagePayload option" where
  "merged_spec p mid M =
     (case pl_detail p of
        Normal n \<Rightarrow> M(mid \<mapsto> merged_of p (nm_content n))
      | Reply r \<Rightarrow> M(mid \<mapsto> merged_of p (rp_content r))
      | Reaction r \<Rightarrow>
          (case rx_detail r of
             ReactionEdit c \<Rightarrow> M(rx_mid r := map_option (\<lambda>m. m\<lparr>mp_content := c\<rparr>) (M (rx_mid r)))
           | _ \<Rightarrow> M))"

definition codec_keeps :: "'j codec \<Rightarrow> 'j MergedMessagePayload \<Rightarrow> bool" where
  "codec_keeps C m \<longleftrightarrow> (\<exists>d. enc_merged C m = Some d \<and> dec_merged C d = Some m)"

text \<open>The encodings the operation relies on give back what was encoded.\<close>

definition codec_fits ::
    "'j codec \<Rightarrow> 'j ChatMessagePayload \<Rightarrow> (i64 \<Rightarrow> 'j MergedMessagePayload option) \<Rightarrow> bool" where
  "codec_fits C p M \<longleftrightarrow>
     (case pl_detail p of
        Normal n \<Rightarrow> codec_keeps C (merged_of p (nm_content n))
      | Reply r \<Rightarrow> codec_keeps C (merged_of p (rp_content r))
      | Reaction r \<Rightarrow>
          (case rx_detail r of
             ReactionEdit c \<Rightarrow> in_i64 (rx_mid r) \<and>
               (case M (rx_mid r) of None \<Rightarrow> True | Some m \<Rightarrow> codec_keeps C (m\<lparr>mp_content := c\<rparr>))
           | _ \<Rightarrow> True))"

definition same_merged :: "('db \<Rightarrow> bytes \<rightharpoonup> bytes) \<Rightarrow> 'db msgdb \<Rightarrow> 'db msgdb \<Rightarrow> bool" where
  "same_merged contents st st' \<longleftrightarrow>
     (\<forall>m. contents (mdb_db st') (key_merged_msg m) = contents (mdb_db st) (key_merged_msg m))"

lemma same_merged_at: "same_merged contents st st' \<Longrightarrow> merged_at contents C st' = merged_at contents C st"
  by (auto simp: same_merged_def merged_at_def)

context sled_contract
begin

lemma post_same_merged:
  assumes "store_inv contents (Suc n) st" "req_ok r" "post K st r = (Inr mid, st')"
  shows "same_merged contents st st'"
proof -
  obtain st1 db' where g: "generate_msg_id K st = (Inr mid, st1)"
    and q: "sled_apply_batch K (mdb_db st1)
        (deliver_batch mid (req_msg r) (req_convs r) (req_extra mid r)) = (None, db')"
    and st': "st' = st1\<lparr>mdb_db := db'\<rparr>"
    using assms(3) by (auto simp: post_unfold split: prod.splits sum.splits option.splits)
  from generate_msg_id_sound [OF assms(1) g]
  have frame: "contents (mdb_db st1) k = contents (mdb_db st) k" if "k \<noteq> key_sequence MSG_SEQUENCE" for k
    using that by blast
  have "contents db' = apply_batch (deliver_batch mid (req_msg r) (req_convs r) (req_extra mid r)) (contents (mdb_db st1))"
    using batch_ok [OF q] by simp
  then have "contents db' (key_merged_msg m) = contents (mdb_db st1) (key_merged_msg m)" for m
    using deliver_batch_frame [OF req_extra_markers [OF assms(2)], of "key_merged_msg m" mid] by simp
  then show ?thesis using frame by (simp add: same_merged_def st')
qed

lemma reconcile_markers_same_merged:
  "reconcile_markers K v ok users ms i pt st = (r, pt', st') \<Longrightarrow> same_merged contents st st'"
proof (induction ms arbitrary: i pt st)
  case (Cons k ms)
  obtain q pt1 where q: "project_pending_dm_marker v (ok (mk_mid k)) users k pt = (q, pt1)" by fastforce
  obtain z st1 where z: "remove_pending_message_marker K st (mk_mid k) = (z, st1)" by fastforce
  have "same_merged contents st st1"
    using z by (auto simp: remove_pending_message_marker_def same_merged_def split: prod.splits option.splits
        dest: remove_ok)
  then show ?case using Cons.prems Cons.IH [of "Suc i" pt1 st1] q z
    by (cases q; cases z) (auto simp: same_merged_def)
qed (simp add: same_merged_def)

lemma update_merged_spec:
  assumes "update_merged K C p mid st = (Inr u, st')" "in_i64 mid" "in_i64 m"
    and "codec_fits C p (merged_at contents C st)"
  shows "merged_at contents C st' m = merged_spec p mid (merged_at contents C st) m"
proof -
  have insert: "merged_at contents C st' m = ((merged_at contents C st)(mid \<mapsto> merged_of p c)) m"
    if "insert_merged K C p c mid st = (Inr u, st')" "codec_keeps C (merged_of p c)" for c
  proof -
    note prem = that
    obtain d where d: "enc_merged C (merged_of p c) = Some d" "dec_merged C d = Some (merged_of p c)"
      using prem(2) by (auto simp: codec_keeps_def)
    then obtain db' where "sled_insert K (mdb_db st) (key_merged_msg mid) d = (None, db')" "st' = st\<lparr>mdb_db := db'\<rparr>"
      using prem(1) by (auto simp: insert_merged_def insert_merged_msg_def merged_of_def split: prod.splits
          sum.splits option.splits)
    then have "contents (mdb_db st') = (contents (mdb_db st))(key_merged_msg mid \<mapsto> d)"
      using insert_ok by fastforce
    then show ?thesis using d assms(2,3) by (simp add: merged_at_def)
  qed
  have edit: "merged_at contents C st' m =
      ((merged_at contents C st)(x := map_option (\<lambda>m. m\<lparr>mp_content := c\<rparr>) (merged_at contents C st x))) m"
    if "update_merged_msg K st x (edit_merged C c) = (Inr w, st')" "in_i64 x"
      "case merged_at contents C st x of None \<Rightarrow> True | Some m \<Rightarrow> codec_keeps C (m\<lparr>mp_content := c\<rparr>)" for x c w
  proof -
    note prem = that
    obtain db' where "sled_update_and_fetch K (mdb_db st) (key_merged_msg x) (map_option (edit_merged C c)) = (None, db')"
      "st' = st\<lparr>mdb_db := db'\<rparr>"
      using prem(1) by (auto simp: update_merged_msg_def split: prod.splits option.splits)
    then have "contents (mdb_db st') = (contents (mdb_db st))(key_merged_msg x :=
        map_option (edit_merged C c) (contents (mdb_db st) (key_merged_msg x)))"
      using update_ok by fastforce
    then show ?thesis using prem(2,3) assms(3)
      by (cases "contents (mdb_db st) (key_merged_msg x)")
        (auto simp: merged_at_def edit_merged_def codec_keeps_def split: option.splits)
  qed
  show ?thesis
    using assms(1,4) insert edit
    by (auto simp: update_merged_def merged_spec_def codec_fits_def split: MessageDetail.splits
        MessageReactionDetail.splits prod.splits sum.splits)
qed

end

end
