(* ===== verification/Send_Properties.thy ===== *)
theory Send_Properties
  imports Send_Delivery Group_Properties
begin

text \<open>
  What a client can rely on when it sends: who receives an accepted message, that a refused one
  leaves no trace, who may send and react, and what the encryption policy lets through.
\<close>

lemma send_message_accepts:
  assumes "send_message E p srv = (Inr mid, srv')"
  obtains pending q target nt res mdb srv1 where
    "prepare_message E (sv_cache srv) p = Inr (pending, q, target, nt)"
    "internal_send_message (en_K E) (en_C E) target q (sv_msg_db srv) = (Inr res, mdb)"
    "project_pending E pending (set_msg_db mdb srv) = (Inr (), srv1)"
    "mid = sr_mid res" "srv' = announce res (send_notify nt srv1)"
  using assms by (auto simp: send_message_def split: sum.splits prod.splits)

lemma send_parts [simp]:
  "sv_msg_db (set_msg_db mdb srv) = mdb" "sv_cache (set_msg_db mdb srv) = sv_cache srv"
  "st_events (sv_state (set_msg_db mdb srv)) = st_events (sv_state srv)"
  "sv_mls (set_msg_db mdb srv) = sv_mls srv" "sv_pending (set_msg_db mdb srv) = sv_pending srv"
  "sv_notifications (set_msg_db mdb srv) = sv_notifications srv"
  "st_tables (sv_state (set_msg_db mdb srv)) = st_tables (sv_state srv)"
  "sv_state (send_notify nt srv) = sv_state srv" "sv_mls (send_notify nt srv) = sv_mls srv"
  "sv_pending (send_notify nt srv) = sv_pending srv"
  "sv_msg_db (announce res srv) = sv_msg_db srv" "sv_cache (announce res srv) = sv_cache srv"
  "sv_mls (announce res srv) = sv_mls srv" "sv_pending (announce res srv) = sv_pending srv"
  "st_tables (sv_state (announce res srv)) = st_tables (sv_state srv)"
  "st_events (sv_state (announce res srv)) = st_events (sv_state srv) @
     [Chat (set (sr_targets res)) \<lparr>cm_mid = sr_mid res, cm_payload = sr_payload res\<rparr>]"
  by (auto simp: set_msg_db_def send_notify_def announce_def split: option.splits)

lemma project_pending_frame:
  assumes "project_pending E pending srv = (r, srv')"
  shows "sv_cache srv' = sv_cache srv \<and> st_events (sv_state srv') = st_events (sv_state srv) \<and>
    sv_mls srv' = sv_mls srv \<and> st_tables (sv_state srv') = st_tables (sv_state srv) \<and>
    sv_notifications srv' = sv_notifications srv \<and> (\<forall>e. r = Inl e \<longrightarrow> e = internal_error)"
  using assms by (auto simp: project_pending_def set_msg_db_def split: if_splits prod.splits sum.splits)

lemma send_accepted_frame:
  assumes "send_message E p srv = (Inr mid, srv')"
  shows "sv_cache srv' = sv_cache srv \<and> sv_mls srv' = sv_mls srv \<and>
    st_tables (sv_state srv') = st_tables (sv_state srv)"
proof -
  obtain pending q target nt res mdb srv1 where
    "prepare_message E (sv_cache srv) p = Inr (pending, q, target, nt)"
    "internal_send_message (en_K E) (en_C E) target q (sv_msg_db srv) = (Inr res, mdb)" and
    proj: "project_pending E pending (set_msg_db mdb srv) = (Inr (), srv1)" and
    "mid = sr_mid res" and fin: "srv' = announce res (send_notify nt srv1)"
    using assms by (rule send_message_accepts)
  show ?thesis using project_pending_frame [OF proj] by (simp add: fin)
qed

lemma project_pending_keeps:
  assumes "sled_contract (en_K E) contents" "project_pending E pending srv = (r, srv')"
    and "store_inv contents n (sv_msg_db srv)"
  shows "store_inv contents n (sv_msg_db srv')" "msg_log contents (sv_msg_db srv') cv = msg_log contents (sv_msg_db srv) cv"
  using assms(2,3) sled_contract.reconcile_sound [OF assms(1)]
  by (fastforce simp: project_pending_def set_msg_db_def split: if_splits prod.splits)+

lemma internal_send_error:
  "internal_send_message K C target q mdb = (Inl e, mdb') \<Longrightarrow> e = internal_error"
  by (auto simp: internal_send_message_def update_merged_def insert_merged_def split: option.splits
      prod.splits sum.splits MessageDetail.splits MessageReactionDetail.splits)

section \<open>Delivery\<close>

lemma accepted_message_delivered:
  assumes "sled_contract (en_K E) contents" "store_inv contents (Suc n) (sv_msg_db srv)"
    and "cache_ids_ok (sv_cache srv)" "payload_ids_ok p" "send_message E p srv = (Inr mid, srv')"
  shows "\<exists>q msg. same_message p q \<and> enc_payload (en_C E) q = Some msg \<and>
    store_inv contents n (sv_msg_db srv') \<and>
    (\<forall>cv. conv_ok cv \<longrightarrow> msg_log contents (sv_msg_db srv') cv = msg_log contents (sv_msg_db srv) cv @
       (if belongs_to (sv_cache srv) p cv then [(mid, msg)] else [])) \<and>
    st_events (sv_state srv') = st_events (sv_state srv) @
      [Chat (receivers (sv_cache srv) p) \<lparr>cm_mid = mid, cm_payload = q\<rparr>]"
proof -
  obtain pending q target nt res mdb srv1 where
    prep: "prepare_message E (sv_cache srv) p = Inr (pending, q, target, nt)" and
    store: "internal_send_message (en_K E) (en_C E) target q (sv_msg_db srv) = (Inr res, mdb)" and
    proj: "project_pending E pending (set_msg_db mdb srv) = (Inr (), srv1)" and
    fin: "mid = sr_mid res" "srv' = announce res (send_notify nt srv1)"
    using assms(5) by (rule send_message_accepts)
  have same: "same_message p q" and res: "resolve_target E (sv_cache srv) pending q = Inr (target, nt)"
    using prep by (auto elim!: prepare_accepts dest: set_expires_in_same)
  note ids = same_message_ids [OF same]
  note ok = resolved_ok [OF res assms(3), unfolded ids, OF assms(4)]
  from sled_contract.internal_send_sound(2) [OF assms(1,2) store ok(1) refl]
  obtain msg where msg: "enc_payload (en_C E) q = Some msg" "store_inv contents n mdb"
    "sr_payload res = q" "sr_targets res = target_list target"
    "\<forall>cv. conv_ok cv \<longrightarrow> msg_log contents mdb cv = msg_log contents (sv_msg_db srv) cv @
       (if addressed (req_of target (pl_created_at q) msg) cv then [(mid, msg)] else [])"
    unfolding fin(1) by blast
  have inv: "store_inv contents n (sv_msg_db (set_msg_db mdb srv))" using msg(2) by simp
  note keep = project_pending_keeps [OF assms(1) proj inv] and frame = project_pending_frame [OF proj]
  show ?thesis
    using same msg keep frame ok(2,3) by (intro exI [of _ q] exI [of _ msg]) (simp add: fin)
qed

text \<open>
  C2 An accepted message reaches exactly its audience. The message that is stored is the one that
  was sent, but for the expiry of a normal message; it is appended, under the id that is returned,
  to the inbox of every user of the audience, to the log of the group or of the pair of users, and
  to no other log; and the one event that is broadcast carries it to the same users. The audience of a
  direct message is its two users, that of a group the members, or everybody when the group is public.
\<close>

theorem sent_message_reaches_its_audience:
  assumes "sled_contract (en_K E) contents" "store_inv contents (Suc n) (sv_msg_db srv)"
    and "cache_ids_ok (sv_cache srv)" "payload_ids_ok p" "send_message E p srv = (Inr mid, srv')"
  shows "\<exists>q msg. same_message p q \<and> enc_payload (en_C E) q = Some msg \<and>
    store_inv contents n (sv_msg_db srv') \<and>
    (\<forall>cv. conv_ok cv \<longrightarrow> msg_log contents (sv_msg_db srv') cv = msg_log contents (sv_msg_db srv) cv @
       (if belongs_to (sv_cache srv) p cv then [(mid, msg)] else [])) \<and>
    st_events (sv_state srv') = st_events (sv_state srv) @
      [Chat (receivers (sv_cache srv) p) \<lparr>cm_mid = mid, cm_payload = q\<rparr>]"
  using accepted_message_delivered [OF assms] .

text \<open>
  A server without the encryption policy: users 1, 2 and 3, the private group 4 of 2 and 3, and a codec
  for texts that user 2 sends to that group.
\<close>

definition text_content :: "string \<Rightarrow> 'j ChatMessageContent" where
  "text_content t = content_of None ''text/plain'' t"

definition demo_text :: "string \<Rightarrow> 'j ChatMessagePayload" where
  "demo_text t = \<lparr>pl_from_uid = 2, pl_created_at = 5000000, pl_target = TargetGroup 4,
     pl_detail = Normal \<lparr>nm_content = text_content t, nm_expires_in = None\<rparr>\<rparr>"

definition demo_merged :: "string \<Rightarrow> 'j MergedMessagePayload" where
  "demo_merged t = \<lparr>mp_from_uid = 2, mp_target = TargetGroup 4, mp_content = text_content t,
     mp_created_at = 5000000\<rparr>"

definition text_codec :: "'j codec" where
  "text_codec =
     \<lparr> enc_payload = (\<lambda>p. map_option cc_content (payload_content p)), dec_payload = (\<lambda>b. Some (demo_text b)),
       enc_merged = (\<lambda>m. Some (cc_content (mp_content m))), dec_merged = (\<lambda>b. Some (demo_merged b)) \<rparr>"

definition demo_env :: "(json, sorted_db) Env" where
  "demo_env =
     \<lparr> en_K = sorted_sled, en_C = text_codec, en_J = json_accessors, en_now = 5000000,
       en_generation_two = False, en_dm_setting = (\<lambda>lo hi. Inr (Some False)),
       en_valid_millis = (\<lambda>t. True), en_pending_db_ok = (\<lambda>m. True), en_mls_db_ok = True,
       en_file_size = (\<lambda>p. None), en_file_meta = (\<lambda>p. None) \<rparr>"

definition demo_team :: "'j CacheGroup" where
  "demo_team =
     \<lparr> cg_ty = Private 2, cg_name = ''team'', cg_description = '''', cg_members = {2, 3}, cg_created_at = 0,
       cg_updated_at = 0, cg_avatar_updated_at = 0, cg_pinned_messages = [], cg_e2e_enabled = False \<rparr>"

definition demo_chat :: "(json, sorted_db) Server" where
  "demo_chat =
     \<lparr> sv_state = \<lparr> st_cache = \<lparr> ca_groups = fmupd 4 demo_team fmempty,
           ca_users = ca_users (st_cache demo_server), ca_codes = \<lparr>codes = fmempty, email_code = fmempty\<rparr> \<rparr>,
         st_tables = st_tables demo_server, st_msg_db = demo_db, st_events = [], st_stream_events = [],
         st_msg_updated = [] \<rparr>,
       sv_pending = \<lparr>pd_message = fmempty, pd_envelope = []\<rparr>,
       sv_mls = \<lparr>mt_commit = [], mt_welcome = [], mt_application = []\<rparr>, sv_notifications = [] \<rparr>"

lemma demo_chat_ids: "cache_ids_ok (sv_cache demo_chat)" "payload_ids_ok (demo_text t)"
  by (auto simp: cache_ids_ok_def demo_chat_def demo_server_def demo_team_def payload_ids_ok_def demo_text_def
      timestamp_millis_def in_i64_def i64_min_def i64_max_def split: if_splits)

lemma demo_codec_text: "en_C demo_env = text_codec"
  by (simp add: demo_env_def)

lemma demo_chat_send: "fst (send_message demo_env (demo_text ''hi'') demo_chat) = Inr 1"
  by code_simp

theorem sent_message_reaches_its_audience_witness:
  "\<exists>srv'. send_message demo_env (demo_text ''hi'') demo_chat = (Inr 1, srv') \<and>
     msg_log map_of (sv_msg_db srv') (Inbox 3) = msg_log map_of demo_db (Inbox 3) @ [(1, ''hi'')] \<and>
     msg_log map_of (sv_msg_db srv') (Inbox 1) = msg_log map_of demo_db (Inbox 1)"
proof -
  obtain srv' where r: "send_message demo_env (demo_text ''hi'') demo_chat = (Inr 1, srv')"
    using demo_chat_send by (metis prod.collapse)
  have K: "sled_contract (en_K demo_env) map_of" by (simp add: demo_env_def sdb.sled_contract_axioms)
  have inv: "store_inv map_of (Suc 0) (sv_msg_db demo_chat)"
    using demo_db_inv [of "Suc 0"] by (simp add: demo_chat_def i64_max_def)
  obtain q :: "json ChatMessagePayload" and msg where q: "same_message (demo_text ''hi'') q" "enc_payload text_codec q = Some msg"
    "\<forall>cv. conv_ok cv \<longrightarrow> msg_log map_of (sv_msg_db srv') cv = msg_log map_of (sv_msg_db demo_chat) cv @
       (if belongs_to (sv_cache demo_chat) (demo_text ''hi'') cv then [(1, msg)] else [])"
    using sent_message_reaches_its_audience [OF K inv demo_chat_ids r] unfolding demo_codec_text by blast
  have "msg = ''hi''"
    using q(1,2) by (auto simp: same_message_def text_codec_def payload_content_def demo_text_def
        text_content_def content_of_def)
  moreover have "receivers (sv_cache demo_chat) (demo_text ''hi'') = {2, 3}"
    by (simp add: receivers_def demo_text_def demo_chat_def demo_team_def group_audience_def)
  moreover have "conv_ok (Inbox 3)" "conv_ok (Inbox 1)"
    by (simp_all add: in_i64_def i64_min_def i64_max_def)
  ultimately show ?thesis using r q(3) by (simp add: demo_chat_def)
qed

section \<open>Refusal\<close>

text \<open>
  C19 A refused message leaves no trace: whatever the error, no event is broadcast, nobody is
  notified and the cache, the tables and the sequences are untouched; when the error is not an internal
  one, the whole server is as it was before.
\<close>

theorem refused_message_leaves_no_trace:
  assumes "send_message E p srv = (Inl e, srv')"
  shows "(err_status e \<noteq> INTERNAL_SERVER_ERROR \<longrightarrow> srv' = srv) \<and>
    st_events (sv_state srv') = st_events (sv_state srv) \<and> sv_notifications srv' = sv_notifications srv \<and>
    sv_cache srv' = sv_cache srv \<and> st_tables (sv_state srv') = st_tables (sv_state srv) \<and>
    sv_mls srv' = sv_mls srv"
proof (cases "prepare_message E (sv_cache srv) p")
  case (Inl e')
  then show ?thesis using assms by (simp add: send_message_def)
next
  case (Inr prep)
  obtain pending q target nt where prep: "prep = (pending, q, target, nt)" by (metis prod.collapse)
  obtain r mdb where store: "internal_send_message (en_K E) (en_C E) target q (sv_msg_db srv) = (r, mdb)"
    by fastforce
  show ?thesis
  proof (cases r)
    case (Inl e')
    then have "e = internal_error" "srv' = set_msg_db mdb srv"
      using assms \<open>prepare_message E (sv_cache srv) p = Inr prep\<close> prep store internal_send_error
      by (auto simp: send_message_def)
    then show ?thesis by simp
  next
    case (Inr res)
    then have "project_pending E pending (set_msg_db mdb srv) = (Inl e, srv')"
      using assms \<open>prepare_message E (sv_cache srv) p = Inr prep\<close> prep store
      by (simp add: send_message_def split: prod.splits sum.splits)
    then show ?thesis using project_pending_frame by fastforce
  qed
qed

theorem refused_message_leaves_no_trace_witness:
  "let p = (demo_text ''hi'')\<lparr>pl_from_uid := 1\<rparr> in
     \<exists>srv'. send_message demo_env p demo_chat = (Inl (from_status FORBIDDEN), srv') \<and> srv' = demo_chat"
proof -
  let ?p = "(demo_text ''hi'')\<lparr>pl_from_uid := 1\<rparr>"
  have "fst (send_message demo_env ?p demo_chat) = Inl (from_status FORBIDDEN)" by code_simp
  then obtain srv' where r: "send_message demo_env ?p demo_chat = (Inl (from_status FORBIDDEN), srv')"
    by (metis prod.collapse)
  then have "srv' = demo_chat" using refused_message_leaves_no_trace [OF r] by simp
  then show ?thesis using r by (simp add: Let_def)
qed

section \<open>Who may send\<close>

text \<open>What the encryption policy asks of a conversation that is not under generation two.\<close>

definition conversation_encrypted :: "('j, 'db) Env \<Rightarrow> 'j Cache \<Rightarrow> 'j ChatMessagePayload \<Rightarrow> bool" where
  "conversation_encrypted E cache p =
     (case pl_target p of
        TargetUser uid \<Rightarrow>
          en_dm_setting E (min (pl_from_uid p) uid) (max (pl_from_uid p) uid) \<in> {Inr None, Inr (Some True)}
      | TargetGroup gid \<Rightarrow>
          (case fmlookup (ca_groups cache) gid of None \<Rightarrow> True | Some g \<Rightarrow> cg_e2e_enabled g))"

text \<open>Content that is encrypted with the protocol of its kind of conversation.\<close>

definition encrypted_for :: "'j json_ops \<Rightarrow> MessageTarget \<Rightarrow> 'j ChatMessageContent \<Rightarrow> bool" where
  "encrypted_for J target c \<longleftrightarrow> cc_content_type c = CONTENT_TYPE \<and>
     (\<exists>ps r. cc_properties c = Some ps \<and> validate_properties J ps = Inr r \<and>
        (case target of TargetUser uid \<Rightarrow> rt_protocol r \<in> {Dr, DrPending} | TargetGroup gid \<Rightarrow> rt_protocol r = Mls))"

lemma target_protocol_ok:
  assumes "enforce_e2e_v2_target_protocol J p = Inr po" "payload_content p = Some c"
    and "cc_content_type c = CONTENT_TYPE"
  shows "encrypted_for J (pl_target p) c"
  using assms by (auto simp: enforce_e2e_v2_target_protocol_def encrypted_for_def
      split: option.splits sum.splits MessageTarget.splits Protocol.splits)

lemma required_ok:
  assumes "enforce_e2e_required E cache p = Inr ()"
  shows "case payload_content p of
      None \<Rightarrow> \<not> en_generation_two E
    | Some c \<Rightarrow> cc_content_type c = CONTENT_TYPE \<or>
        \<not> en_generation_two E \<and> \<not> conversation_encrypted E cache p"
  using assms by (auto simp: enforce_e2e_required_def conversation_encrypted_def try_res_Inr_iff
      split: option.splits if_splits MessageTarget.splits sum.splits)

text \<open>
  C4 No plain text where encryption is required. Content of an accepted message is encrypted with
  the protocol of its conversation -- a ratchet for two users, MLS for a group -- or it is plain, and
  then neither the server nor the conversation requires encryption; and under generation two of the
  protocol nothing without content, a like or a deletion, is ever accepted.
\<close>

theorem plaintext_only_where_allowed:
  assumes "send_message E p srv = (Inr mid, srv')"
  shows "case payload_content p of
      None \<Rightarrow> \<not> en_generation_two E
    | Some c \<Rightarrow> encrypted_for (en_J E) (pl_target p) c \<or>
        cc_content_type c \<noteq> CONTENT_TYPE \<and> \<not> en_generation_two E \<and>
        \<not> conversation_encrypted E (sv_cache srv) p"
proof -
  obtain po where "enforce_e2e_v2_target_protocol (en_J E) p = Inr po"
    "enforce_e2e_required E (sv_cache srv) p = Inr ()"
    using assms by (auto elim!: send_message_accepts prepare_accepts)
  then show ?thesis
    using target_protocol_ok [of "en_J E" p po] required_ok [of E "sv_cache srv" p]
    by (auto split: option.splits)
qed

theorem plaintext_only_where_allowed_witness:
  "\<not> conversation_encrypted demo_env (sv_cache demo_chat) (demo_text ''hi'') \<and>
   fst (send_message (demo_env\<lparr>en_generation_two := True\<rparr>) (demo_text ''hi'') demo_chat) = Inl e2e_required_error"
proof -
  obtain srv' where r: "send_message demo_env (demo_text ''hi'') demo_chat = (Inr 1, srv')"
    using demo_chat_send by (metis prod.collapse)
  have "payload_content (demo_text ''hi'' :: json ChatMessagePayload) = Some (text_content ''hi'')"
    by (simp add: payload_content_def demo_text_def)
  then have "\<not> conversation_encrypted demo_env (sv_cache demo_chat) (demo_text ''hi'')"
    using plaintext_only_where_allowed [OF r]
    by (auto simp: encrypted_for_def text_content_def content_of_def CONTENT_TYPE_def)
  moreover have "fst (send_message (demo_env\<lparr>en_generation_two := True\<rparr>) (demo_text ''hi'') demo_chat) =
      Inl e2e_required_error" by code_simp
  ultimately show ?thesis by blast
qed

end
