(* ===== verification/Send_Access.thy ===== *)
theory Send_Access
  imports Send_Properties
begin

text \<open>
  Who may send to a group, what a refused group message still does to the MLS sequence, who may edit
  and delete, and what the merged copy of a message holds.
\<close>

section \<open>Group messages\<close>

lemma check_sender_ok:
  "check_sender J ps device = Inr r \<Longrightarrow> \<exists>q. ps = Some q \<and> validate_properties J q = Inr r \<and> rt_sender_device_id r = device"
  by (auto simp: check_sender_def validate_authenticated_sender_def try_res_Inr_iff split: option.splits
      sum.splits if_splits)

lemma payload_of_request:
  assumes "into_chat_message_payload E req uid target ps = Inr p"
  shows "pl_from_uid p = uid \<and> pl_target p = target \<and> pl_created_at p = en_now E \<and>
    (\<exists>c. into_chat_message_content E req ps = Inr c \<and> pl_detail p = Normal \<lparr>nm_content = c, nm_expires_in = None\<rparr>)"
  using assms by (auto simp: into_chat_message_payload_def try_res_Inr_iff)

lemma content_of_request:
  assumes "into_chat_message_content E req ps = Inr c"
  shows "cc_content_type c = CONTENT_TYPE \<longleftrightarrow> is_e2e_v2 req"
    "is_e2e_v2 req \<Longrightarrow> cc_properties c = ps"
  using assms by (cases req; auto simp: is_e2e_v2_def content_of_def CONTENT_TYPE_def Let_def
      split: option.splits sum.splits)+

lemma reserve_group_parts:
  assumes "reserve_group_message E gid uid p srv = (r, srv')"
  shows "sv_cache srv' = sv_cache srv \<and> sv_msg_db srv' = sv_msg_db srv \<and>
    st_events (sv_state srv') = st_events (sv_state srv)"
  using assms by (auto simp: reserve_group_message_def split: MessageDetail.splits if_splits option.splits
      sum.splits prod.splits MlsSequenceError.splits)

lemma send_to_group_member:
  assumes "send_message E p srv = (Inr mid, srv')" "pl_target p = TargetGroup gid" "pl_detail p = Normal n"
  shows "pl_from_uid p \<in> fmdom' (ca_users (sv_cache srv)) \<and>
    (\<exists>g. fmlookup (ca_groups (sv_cache srv)) gid = Some g \<and> contains_user g (pl_from_uid p))"
proof -
  obtain pending q target nt where prep: "prepare_message E (sv_cache srv) p = Inr (pending, q, target, nt)"
    using assms(1) by (rule send_message_accepts)
  then have q: "set_expires_in (sv_cache srv) p = Inr q" "resolve_target E (sv_cache srv) pending q = Inr (target, nt)"
    by (auto elim!: prepare_accepts)
  have "pl_from_uid p \<in> fmdom' (ca_users (sv_cache srv))"
    using q(1) assms(3) by (auto simp: set_expires_in_def fmlookup_dom'_iff split: option.splits)
  moreover have "pl_target q = TargetGroup gid" "pl_from_uid q = pl_from_uid p"
    using set_expires_in_same [OF q(1)] assms(2) by (simp_all add: same_message_def)
  ultimately show ?thesis using resolve_accepts [OF q(2)] by auto
qed

text \<open>
  C9 A message is accepted for a group only from a registered, non-guest user who belongs to it; an
  encrypted one must name the device the caller is logged in with and must have taken its place in the
  MLS sequence of the group, any other leaves the sequence alone.
\<close>

theorem group_send_needs_membership:
  assumes "group_send E token gid ps req srv = (Inr mid, srv')"
  shows "\<not> tk_is_guest token \<and> tk_uid token \<in> fmdom' (ca_users (sv_cache srv)) \<and>
    (\<exists>g. fmlookup (ca_groups (sv_cache srv)) gid = Some g \<and> contains_user g (tk_uid token)) \<and>
    (if is_e2e_v2 req
     then \<exists>q r. ps = Some q \<and> validate_properties (en_J E) q = Inr r \<and> rt_sender_device_id r = tk_device token \<and>
        reserve_mls_sequence (en_mls_db_ok E) gid (tk_uid token) r (sv_mls srv) = (Inr (), sv_mls srv')
     else sv_mls srv' = sv_mls srv)"
proof -
  obtain p srv1 where p: "into_chat_message_payload E req (tk_uid token) (TargetGroup gid) ps = Inr p"
    and reserved: "reserve_group_message E gid (tk_uid token) p srv = (Inr (), srv1)"
    and sent: "send_message E p srv1 = (Inr mid, srv')" and guest: "\<not> tk_is_guest token"
    and sender: "is_e2e_v2 req \<Longrightarrow> \<exists>r. check_sender (en_J E) ps (tk_device token) = Inr r"
    using assms by (auto simp: group_send_def try_res_Inr_iff split: if_splits sum.splits prod.splits)
  note pp = payload_of_request [OF p]
  obtain c where c: "into_chat_message_content E req ps = Inr c"
    "pl_detail p = Normal \<lparr>nm_content = c, nm_expires_in = None\<rparr>" using pp by blast
  have mls: "sv_mls srv' = sv_mls srv1"
    using send_accepted_frame [OF sent] by simp
  have "if is_e2e_v2 req
     then \<exists>q r. ps = Some q \<and> validate_properties (en_J E) q = Inr r \<and> rt_sender_device_id r = tk_device token \<and>
        reserve_mls_sequence (en_mls_db_ok E) gid (tk_uid token) r (sv_mls srv) = (Inr (), sv_mls srv')
     else sv_mls srv' = sv_mls srv"
  proof (cases "is_e2e_v2 req")
    case True
    obtain q r where q: "ps = Some q" "validate_properties (en_J E) q = Inr r" "rt_sender_device_id r = tk_device token"
      using sender [OF True] check_sender_ok by blast
    then show ?thesis
      using reserved c content_of_request [OF c(1)] True mls
      by (auto simp: reserve_group_message_def split: if_splits sum.splits prod.splits MlsSequenceError.splits)
  next
    case False
    then show ?thesis
      using reserved c content_of_request [OF c(1)] mls by (simp add: reserve_group_message_def)
  qed
  moreover have "tk_uid token \<in> fmdom' (ca_users (sv_cache srv)) \<and>
      (\<exists>g. fmlookup (ca_groups (sv_cache srv)) gid = Some g \<and> contains_user g (tk_uid token))"
    using send_to_group_member [OF sent _ c(2)] pp reserve_group_parts [OF reserved] by simp
  ultimately show ?thesis using guest by blast
qed

text \<open>User 2 commits to the group over MLS.\<close>

abbreviation demo_commit :: "json props" where
  "demo_commit \<equiv> render_properties json_accessors demo_route"

lemma demo_commit_valid: "validate_properties json_accessors demo_commit = Inr demo_route"
  using json.render_validates [of demo_route] by (simp add: demo_route_def routing_ok_def)

lemma demo_commit_sender:
  "rt_sender_device_id demo_route = ''web''" "rt_protocol demo_route = Mls"
  by (simp_all add: demo_route_def)

lemma demo_commit_reserved:
  "reserve_mls_sequence True 4 uid demo_route (sv_mls demo_chat) =
     (Inr (), \<lparr>mt_commit = [\<lparr>mc_gid = 4, mc_epoch = 1, mc_commit_id = ''c1'', mc_sender_uid = uid,
        mc_sender_device_id = ''web''\<rparr>], mt_welcome = [], mt_application = []\<rparr>)"
  by (simp add: reserve_mls_sequence_def demo_route_def demo_chat_def current_epoch_def commit_epochs_def
      sql_insert_commit_def commit_or_conflict_def i64_max_def in_i64_def i64_min_def)

theorem group_send_needs_membership_witness:
  "\<exists>srv'. group_send demo_env (demo_token 2 False) 4 None (ReqText ''hi'') demo_chat = (Inr 1, srv') \<and>
     sv_mls srv' = sv_mls demo_chat \<and> contains_user (demo_team :: json CacheGroup) 2"
proof -
  have "fst (group_send demo_env (demo_token 2 False) 4 None (ReqText ''hi'') demo_chat) = Inr 1" by code_simp
  then obtain srv' where r: "group_send demo_env (demo_token 2 False) 4 None (ReqText ''hi'') demo_chat = (Inr 1, srv')"
    by (metis prod.collapse)
  from group_send_needs_membership [OF r] r show ?thesis
    by (auto simp: is_e2e_v2_def demo_token_def demo_chat_def)
qed

text \<open>
  A stranger can take the epochs of a group. The sequence number is reserved before anybody looks
  at the membership: when a registered user who is not in a private group sends it a valid commit for the
  next epoch, the answer is "forbidden" and nothing is stored, but the epoch is gone, and whoever commits
  for that epoch afterwards, from whatever device, is told that there is a conflict.
\<close>

theorem stranger_takes_mls_epoch:
  assumes "\<not> tk_is_guest token" "fmlookup (ca_users (sv_cache srv)) (tk_uid token) \<noteq> None"
    and "fmlookup (ca_groups (sv_cache srv)) gid = Some g" "\<not> contains_user g (tk_uid token)"
    and "validate_properties (en_J E) ps = Inr r" "rt_sender_device_id r = tk_device token"
    and "rt_wire_class r = MlsHandshake" "rt_mls_handshake_kind r = Some Commit"
    and "linear_history (sv_mls srv)"
    and "reserve_mls_sequence (en_mls_db_ok E) gid (tk_uid token) r (sv_mls srv) = (Inr (), t)"
  shows "group_send E token gid (Some ps) (ReqE2eV2 cipher) srv = (Inl (from_status FORBIDDEN), srv\<lparr>sv_mls := t\<rparr>) \<and>
    (\<forall>uid r'. rt_wire_class r' = MlsHandshake \<longrightarrow> rt_mls_handshake_kind r' = Some Commit \<longrightarrow>
       rt_mls_epoch r' = rt_mls_epoch r \<longrightarrow> reserve_mls_sequence True gid uid r' t = (Inl Conflict, t))"
proof
  have mls: "rt_protocol r = Mls"
    using assms(10) by (cases "rt_protocol r = Mls") (simp_all add: reserve_mls_sequence_def)
  let ?p = "\<lparr>pl_from_uid = tk_uid token, pl_created_at = en_now E, pl_target = TargetGroup gid,
    pl_detail = Normal \<lparr>nm_content = content_of (Some ps) CONTENT_TYPE cipher, nm_expires_in = None\<rparr>\<rparr>"
  obtain u where u: "fmlookup (ca_users (sv_cache srv)) (tk_uid token) = Some u" using assms(2) by blast
  have g: "\<not> gt_is_public (cg_ty g)" "tk_uid token \<notin> cg_members g"
    using assms(4) by (simp_all add: contains_user_def)
  have "enforce_e2e_v2_target_protocol (en_J E) ?p = Inr None" "enforce_e2e_required E (sv_cache srv) ?p = Inr ()"
    by (simp_all add: enforce_e2e_v2_target_protocol_def enforce_e2e_required_def payload_content_def
        content_of_def assms(5) mls)
  then have "send_message E ?p (srv\<lparr>sv_mls := t\<rparr>) = (Inl (from_status FORBIDDEN), srv\<lparr>sv_mls := t\<rparr>)"
    using g by (simp add: send_message_def prepare_message_def set_expires_in_def u resolve_target_def assms(3) Let_def)
  then show "group_send E token gid (Some ps) (ReqE2eV2 cipher) srv = (Inl (from_status FORBIDDEN), srv\<lparr>sv_mls := t\<rparr>)"
    by (simp add: group_send_def assms(1,5,6,10) is_e2e_v2_def check_sender_def validate_authenticated_sender_def
        into_chat_message_payload_def reserve_group_message_def content_of_def mls)
  have lin: "linear_history t" using reserve_linear [OF assms(9,10)] .
  from assms(10) obtain e where e: "rt_mls_epoch r = Some e" "int e = wrap_i64 (current_epoch gid (sv_mls srv) + 1)"
    "int e \<le> i64_max" "commit_epochs gid t = commit_epochs gid (sv_mls srv) @ [int e]"
    by (cases rule: reserve_cases) (auto simp: assms(7,8) sql_insert_commit_def split: if_splits)
  have "current_epoch gid t = int e"
    using commit_epoch_next [OF assms(9) e(2)] e(4) by (simp add: current_epoch_length [OF lin])
  moreover have "wrap_i64 (int e + 1) \<noteq> int e" by (rule wrap_succ_differs) (use e(3) in \<open>simp add: in_i64_def i64_min_def\<close>)
  ultimately show "\<forall>uid r'. rt_wire_class r' = MlsHandshake \<longrightarrow> rt_mls_handshake_kind r' = Some Commit \<longrightarrow>
       rt_mls_epoch r' = rt_mls_epoch r \<longrightarrow> reserve_mls_sequence True gid uid r' t = (Inl Conflict, t)"
    using e(1,3) by (auto simp: reserve_mls_sequence_def Let_def split: option.splits)
qed

theorem stranger_takes_mls_epoch_witness:
  "\<exists>t. fst (group_send demo_env (demo_token 1 False) 4 (Some demo_commit) (ReqE2eV2 ''x'') demo_chat) =
       Inl (from_status FORBIDDEN) \<and>
     snd (group_send demo_env (demo_token 1 False) 4 (Some demo_commit) (ReqE2eV2 ''x'') demo_chat) =
       demo_chat\<lparr>sv_mls := t\<rparr> \<and>
     reserve_mls_sequence True 4 2 demo_route t = (Inl Conflict, t)"
proof -
  let ?t = "\<lparr>mt_commit = [\<lparr>mc_gid = 4, mc_epoch = 1, mc_commit_id = ''c1'', mc_sender_uid = 1,
        mc_sender_device_id = ''web''\<rparr>], mt_welcome = [], mt_application = []\<rparr>"
  have lin: "linear_history (sv_mls demo_chat)"
    by (simp add: linear_history_def commit_epochs_def generations_def counts_from_def demo_chat_def)
  have g: "fmlookup (ca_groups (sv_cache demo_chat)) 4 = Some demo_team" "\<not> contains_user demo_team 1"
    by (simp_all add: demo_chat_def demo_team_def contains_user_def)
  have "\<not> tk_is_guest (demo_token 1 False)" "fmlookup (ca_users (sv_cache demo_chat)) (tk_uid (demo_token 1 False)) \<noteq> None"
    "\<not> contains_user demo_team (tk_uid (demo_token 1 False))"
    "validate_properties (en_J demo_env) demo_commit = Inr demo_route"
    "rt_sender_device_id demo_route = tk_device (demo_token 1 False)"
    "rt_wire_class demo_route = MlsHandshake" "rt_mls_handshake_kind demo_route = Some Commit"
    "reserve_mls_sequence (en_mls_db_ok demo_env) 4 (tk_uid (demo_token 1 False)) demo_route (sv_mls demo_chat) = (Inr (), ?t)"
    using g(2) demo_commit_valid demo_commit_reserved [of 1]
    by (simp_all add: demo_token_def demo_chat_def demo_server_def demo_env_def demo_route_def)
  note r = stranger_takes_mls_epoch [OF this(1,2) g(1) this(3-7) lin this(8), of "''x''"]
  have "reserve_mls_sequence True 4 2 demo_route ?t = (Inl Conflict, ?t)"
    using r by (simp add: demo_route_def)
  then show ?thesis using r by (intro exI [of _ ?t]) simp
qed

section \<open>Reactions\<close>


text \<open>User 2 has sent a text to the group.\<close>

definition demo_chatted :: "(json, sorted_db) Server" where
  "demo_chatted = snd (send_message demo_env (demo_text ''hi'') demo_chat)"

lemma demo_chatted_sent: "send_message demo_env (demo_text ''hi'') demo_chat = (Inr 1, demo_chatted)"
  using demo_chat_send unfolding demo_chatted_def by (metis prod.collapse)

lemma demo_chatted_cache: "sv_cache demo_chatted = sv_cache demo_chat"
  using send_accepted_frame [OF demo_chatted_sent] by simp


section \<open>Current contents\<close>

lemma codec_fits_same:
  assumes "same_message p q"
  shows "codec_fits C q M = codec_fits C p M" "merged_spec q mid M = merged_spec p mid M"
proof -
  have eqs: "merged_of q = merged_of p" using assms by (auto simp: same_message_def merged_of_def)
  show "codec_fits C q M = codec_fits C p M" "merged_spec q mid M = merged_spec p mid M"
    using assms unfolding same_message_def codec_fits_def merged_spec_def eqs by auto
qed

text \<open>
  C8 The merged messages are the current contents. For every accepted message, the map from ids to
  current contents changes as the abstract specification says: a message or a reply enters under its
  new id, an edit replaces the content (and nothing else) of exactly the message it is about, likes and
  deletions change nothing.
\<close>

theorem merged_messages_follow_edits:
  assumes "sled_contract (en_K E) contents" "store_inv contents (Suc n) (sv_msg_db srv)"
    and "cache_ids_ok (sv_cache srv)" "payload_ids_ok p" "send_message E p srv = (Inr mid, srv')"
    and "codec_fits (en_C E) p (merged_at contents (en_C E) (sv_msg_db srv))" "in_i64 m"
  shows "merged_at contents (en_C E) (sv_msg_db srv') m =
    merged_spec p mid (merged_at contents (en_C E) (sv_msg_db srv)) m"
proof -
  let ?C = "en_C E" and ?K = "en_K E"
  obtain pending q target nt res mdb srv1 where
    prep: "prepare_message E (sv_cache srv) p = Inr (pending, q, target, nt)" and
    store: "internal_send_message ?K ?C target q (sv_msg_db srv) = (Inr res, mdb)" and
    proj: "project_pending E pending (set_msg_db mdb srv) = (Inr (), srv1)" and
    fin: "mid = sr_mid res" "srv' = announce res (send_notify nt srv1)"
    using assms(5) by (rule send_message_accepts)
  have same: "same_message p q" and res: "resolve_target E (sv_cache srv) pending q = Inr (target, nt)"
    using prep by (auto elim!: prepare_accepts dest: set_expires_in_same)
  note ok = resolved_ok(1) [OF res assms(3), unfolded same_message_ids [OF same], OF assms(4)]
  obtain msg mdb1 u where st: "post ?K (sv_msg_db srv) (req_of target (pl_created_at q) msg) = (Inr mid, mdb1)"
    "update_merged ?K ?C q mid mdb1 = (Inr u, mdb)"
    using store fin(1) by (auto simp: internal_send_message_def store_message_post split: option.splits
        prod.splits sum.splits)
  have same1: "merged_at contents ?C mdb1 = merged_at contents ?C (sv_msg_db srv)"
    by (rule same_merged_at [OF sled_contract.post_same_merged [OF assms(1,2) ok st(1)]])
  have mid: "in_i64 mid"
    using sled_contract.post_delivers [OF assms(1,2) ok st(1)] by simp
  have "merged_at contents ?C mdb m = merged_spec q mid (merged_at contents ?C mdb1) m"
    by (rule sled_contract.update_merged_spec [OF assms(1) st(2) mid assms(7)])
      (simp add: same1 codec_fits_same [OF same] assms(6))
  moreover have "same_merged contents mdb (sv_msg_db srv1)"
    using proj sled_contract.reconcile_markers_same_merged [OF assms(1)]
    by (auto simp: project_pending_def reconcile_pending_dm_markers_def same_merged_def set_msg_db_def
        split: if_splits prod.splits sum.splits)
  then have "merged_at contents ?C (sv_msg_db srv') = merged_at contents ?C mdb"
    by (simp add: fin same_merged_at)
  ultimately show ?thesis by (simp add: same1 codec_fits_same [OF same])
qed

definition demo_edit :: "'j ChatMessagePayload" where
  "demo_edit = (demo_text '''')\<lparr>pl_detail := Reaction \<lparr>rx_mid = 1, rx_detail = ReactionEdit (text_content ''ho'')\<rparr>\<rparr>"

theorem merged_messages_follow_edits_witness:
  "\<exists>srv'. send_message demo_env demo_edit demo_chatted = (Inr 2, srv') \<and>
     merged_at map_of text_codec (sv_msg_db demo_chatted) 1 = Some (demo_merged ''hi'' :: json MergedMessagePayload) \<and>
     merged_at map_of text_codec (sv_msg_db srv') 1 = Some (demo_merged ''ho'' :: json MergedMessagePayload)"
proof -
  have "fst (send_message demo_env demo_edit demo_chatted) = Inr 2" by code_simp
  then obtain srv' where r: "send_message demo_env demo_edit demo_chatted = (Inr 2, srv')"
    by (metis prod.collapse)
  have K: "sled_contract (en_K demo_env) map_of" by (simp add: demo_env_def sdb.sled_contract_axioms)
  have inv2: "store_inv map_of (Suc (Suc 0)) (sv_msg_db demo_chat)"
    using demo_db_inv [of 2] by (simp add: demo_chat_def i64_max_def numeral_2_eq_2)
  have inv: "store_inv map_of (Suc 0) (sv_msg_db demo_chatted)"
    using accepted_message_delivered [OF K inv2 demo_chat_ids demo_chatted_sent] by blast
  have enc: "merged_of (demo_text t) (text_content t) = (demo_merged t :: json MergedMessagePayload)"
    "codec_keeps text_codec (demo_merged t :: json MergedMessagePayload)" for t
    by (simp_all add: merged_of_def demo_text_def demo_merged_def codec_keeps_def text_codec_def
        text_content_def content_of_def)
  have i: "in_i64 1" by (simp add: in_i64_def i64_min_def i64_max_def)
  have fits: "codec_fits (en_C demo_env) (demo_text ''hi'') (merged_at map_of (en_C demo_env) (sv_msg_db demo_chat))"
    using enc by (simp add: codec_fits_def demo_text_def demo_codec_text)
  have one: "merged_at map_of text_codec (sv_msg_db demo_chatted) 1 = Some (demo_merged ''hi'' :: json MergedMessagePayload)"
    using merged_messages_follow_edits [OF K inv2 demo_chat_ids demo_chatted_sent fits i] enc(1) [of "''hi''"]
    by (simp add: merged_spec_def demo_text_def demo_codec_text)
  have "(demo_merged ''hi'')\<lparr>mp_content := text_content ''ho''\<rparr> = (demo_merged ''ho'' :: json MergedMessagePayload)"
    by (simp add: demo_merged_def)
  then have fits2: "codec_fits (en_C demo_env) demo_edit (merged_at map_of (en_C demo_env) (sv_msg_db demo_chatted))"
    and spec: "merged_spec demo_edit 2 (merged_at map_of text_codec (sv_msg_db demo_chatted)) 1 =
      Some (demo_merged ''ho'' :: json MergedMessagePayload)"
    using one enc(2) [of "''ho''"] i by (simp_all add: codec_fits_def demo_edit_def merged_spec_def demo_codec_text)
  have ids: "cache_ids_ok (sv_cache demo_chatted)" "payload_ids_ok (demo_edit :: json ChatMessagePayload)"
    using demo_chat_ids by (simp_all add: demo_chatted_cache demo_edit_def payload_ids_ok_def)
  show ?thesis
    using merged_messages_follow_edits [OF K inv ids r fits2 i] one spec r
    by (intro exI [of _ srv']) (simp add: demo_codec_text)
qed

end
