(* ===== verification/Message_History.thy ===== *)
theory Message_History
  imports Send_Access
begin

text \<open>
  Reading history (\<open>src/api/message.rs\<close>: \<open>decode_messages\<close>, \<open>message_matches_query\<close>,
  \<open>fetch_history_by_time\<close>; the endpoints of \<open>src/api/group.rs\<close> and \<open>src/api/user.rs\<close>). The walk
  over the pages is bounded by 50 pages of at least 200 messages; within that bound it finds
  exactly the newest messages of the time window.
\<close>

section \<open>The code\<close>

definition decode_messages :: "'j codec \<Rightarrow> (i64 \<times> bytes) list \<Rightarrow> 'j ChatMessage list" where
  "decode_messages C rows =
     List.map_filter (\<lambda>(mid, data).
       map_option (\<lambda>payload. \<lparr>cm_mid = mid, cm_payload = payload\<rparr>) (dec_payload C data)) rows"

text \<open>\<open>str::contains\<close>.\<close>

fun str_contains :: "string \<Rightarrow> string \<Rightarrow> bool" where
  "str_contains [] q \<longleftrightarrow> q = []"
| "str_contains (c # cs) q \<longleftrightarrow> take (length q) (c # cs) = q \<or> str_contains cs q"

text \<open>\<open>lower\<close> is \<open>str::to_lowercase\<close>.\<close>

definition message_matches_query :: "(string \<Rightarrow> string) \<Rightarrow> 'j ChatMessage \<Rightarrow> string \<Rightarrow> bool" where
  "message_matches_query lower msg query =
     (case (case pl_detail (cm_payload msg) of
              Normal n \<Rightarrow> Some (nm_content n)
            | Reply r \<Rightarrow> Some (rp_content r)
            | Reaction r \<Rightarrow> None) of
        None \<Rightarrow> False
      | Some c \<Rightarrow>
          (cc_content_type c = ''text/plain'' \<or> cc_content_type c = ''text/markdown'') \<and>
          str_contains (lower (cc_content c)) query)"

definition too_new :: "i64 option \<Rightarrow> 'j ChatMessage \<Rightarrow> bool" where
  "too_new before_ts msg =
     (case before_ts of None \<Rightarrow> False | Some b \<Rightarrow> timestamp_millis (pl_created_at (cm_payload msg)) > b)"

definition too_old :: "i64 option \<Rightarrow> 'j ChatMessage \<Rightarrow> bool" where
  "too_old after_ts msg =
     (case after_ts of None \<Rightarrow> False | Some a \<Rightarrow> timestamp_millis (pl_created_at (cm_payload msg)) < a)"

text \<open>The inner loop over a page, newest first; the flag is \<open>hit_too_old\<close>.\<close>

fun scan_batch ::
    "i64 option \<Rightarrow> i64 option \<Rightarrow> usize \<Rightarrow> 'j ChatMessage list \<Rightarrow> 'j ChatMessage list \<Rightarrow>
     'j ChatMessage list \<times> bool" where
  "scan_batch after_ts before_ts limit [] matched = (matched, False)"
| "scan_batch after_ts before_ts limit (msg # msgs) matched =
     (if too_new before_ts msg then scan_batch after_ts before_ts limit msgs matched
      else if too_old after_ts msg then (matched, True)
      else if limit \<le> length (matched @ [msg]) then (matched @ [msg], False)
      else scan_batch after_ts before_ts limit msgs (matched @ [msg]))"

text \<open>The outer loop: at most \<open>n\<close> pages.\<close>

fun walk_pages ::
    "(i64 option \<Rightarrow> usize \<Rightarrow> api_error + (i64 \<times> bytes) list) \<Rightarrow> 'j codec \<Rightarrow> i64 option \<Rightarrow> i64 option \<Rightarrow>
     usize \<Rightarrow> usize \<Rightarrow> nat \<Rightarrow> i64 option \<Rightarrow> 'j ChatMessage list \<Rightarrow> api_error + 'j ChatMessage list" where
  "walk_pages fetch_page C after_ts before_ts limit page_size 0 cursor matched = Inr matched"
| "walk_pages fetch_page C after_ts before_ts limit page_size (Suc n) cursor matched =
     (case fetch_page cursor page_size of
        Inl e \<Rightarrow> Inl e
      | Inr rows \<Rightarrow>
          if rows = [] then Inr matched
          else
            (case decode_messages C rows of
               [] \<Rightarrow> Inr matched
             | first # rest \<Rightarrow>
                 (case scan_batch after_ts before_ts limit (rev (first # rest)) matched of
                    (matched', hit_too_old) \<Rightarrow>
                      if limit \<le> length matched' \<or> hit_too_old then Inr matched'
                      else if Some (cm_mid first) \<noteq> cursor
                      then walk_pages fetch_page C after_ts before_ts limit page_size n
                        (Some (cm_mid first)) matched'
                      else Inr matched')))"

definition fetch_history_by_time ::
    "(i64 option \<Rightarrow> usize \<Rightarrow> api_error + (i64 \<times> bytes) list) \<Rightarrow> 'j codec \<Rightarrow> i64 option \<Rightarrow> i64 option \<Rightarrow>
     i64 option \<Rightarrow> usize \<Rightarrow> api_error + 'j ChatMessage list" where
  "fetch_history_by_time fetch_page C before_mid after_ts before_ts limit =
     (if after_ts = None \<and> before_ts = None
      then try_res (fetch_page before_mid limit) (\<lambda>rows. Inr (decode_messages C rows))
      else try_res (walk_pages fetch_page C after_ts before_ts limit (max 200 limit) 50 before_mid [])
        (\<lambda>matched. Inr (rev matched)))"

definition or_internal :: "msgdb_error + 'a \<Rightarrow> api_error + 'a" where
  "or_internal r = (case r of Inl e \<Rightarrow> Inl internal_error | Inr x \<Rightarrow> Inr x)"

definition group_get_history_messages ::
    "('j, 'db) Env \<Rightarrow> Token \<Rightarrow> i64 \<Rightarrow> i64 option \<Rightarrow> i64 option \<Rightarrow> i64 option \<Rightarrow> usize \<Rightarrow> ('j, 'db) Server \<Rightarrow>
     api_error + 'j ChatMessage list" where
  "group_get_history_messages E token gid before after_ts before_ts limit srv =
     (case fmlookup (ca_groups (sv_cache srv)) gid of
        None \<Rightarrow> Inl (from_status NOT_FOUND)
      | Some g \<Rightarrow>
          if \<not> contains_user g (tk_uid token) then Inl (from_status FORBIDDEN)
          else fetch_history_by_time
            (\<lambda>cursor lim. or_internal (fetch_group_messages_before (en_K E) (sv_msg_db srv) gid cursor lim))
            (en_C E) before after_ts before_ts (min limit 500))"

definition user_get_history_messages ::
    "('j, 'db) Env \<Rightarrow> Token \<Rightarrow> i64 \<Rightarrow> i64 option \<Rightarrow> i64 option \<Rightarrow> i64 option \<Rightarrow> usize \<Rightarrow> ('j, 'db) Server \<Rightarrow>
     api_error + 'j ChatMessage list" where
  "user_get_history_messages E token uid before after_ts before_ts limit srv =
     fetch_history_by_time
       (\<lambda>cursor lim. or_internal (fetch_dm_messages_before (en_K E) (sv_msg_db srv) (tk_uid token) uid cursor lim))
       (en_C E) before after_ts before_ts (min limit 500)"

definition search_messages_by_time ::
    "('j, 'db) Env \<Rightarrow> (string \<Rightarrow> string) \<Rightarrow> (string \<Rightarrow> string) \<Rightarrow> Token \<Rightarrow> i64 option \<Rightarrow> i64 option \<Rightarrow>
     string option \<Rightarrow> usize \<Rightarrow> ('j, 'db) Server \<Rightarrow> api_error + 'j ChatMessage list" where
  "search_messages_by_time E lower trim token after_ts before_ts q limit srv =
     try_res (fetch_history_by_time
         (\<lambda>cursor lim. or_internal (fetch_user_messages_before (en_K E) (sv_msg_db srv) (tk_uid token) cursor lim))
         (en_C E) None after_ts
         (case before_ts of Some b \<Rightarrow> Some b | None \<Rightarrow> Some (timestamp_millis (en_now E)))
         (max (min limit 500) 1))
       (\<lambda>msgs.
         let query = (case map_option (\<lambda>s. lower (trim s)) q of
               Some s \<Rightarrow> if s \<noteq> '''' then Some s else None
             | None \<Rightarrow> None)
         in Inr (case query of
               None \<Rightarrow> msgs
             | Some s \<Rightarrow> filter (\<lambda>m. message_matches_query lower m s) msgs))"

section \<open>What a walk finds\<close>

definition in_window :: "i64 option \<Rightarrow> i64 option \<Rightarrow> 'j ChatMessage \<Rightarrow> bool" where
  "in_window after_ts before_ts msg \<longleftrightarrow> \<not> too_new before_ts msg \<and> \<not> too_old after_ts msg"

lemma scan_append:
  assumes "length m < limit"
  shows "scan_batch a b limit (xs @ ys) m =
    (case scan_batch a b limit xs m of (m', stop) \<Rightarrow>
       if limit \<le> length m' \<or> stop then (m', stop) else scan_batch a b limit ys m')"
  using assms by (induction xs arbitrary: m) auto

lemma scan_window:
  assumes "length m < limit" "sorted_wrt (\<lambda>x y. too_old a x \<longrightarrow> too_old a y) xs"
  shows "fst (scan_batch a b limit xs m) = take limit (m @ filter (in_window a b) xs)"
  using assms
proof (induction xs arbitrary: m)
  case (Cons x xs)
  consider (new) "too_new b x" | (old) "\<not> too_new b x" "too_old a x"
    | (full) "in_window a b x" "limit = Suc (length m)" | (more) "in_window a b x" "Suc (length m) < limit"
    using Cons.prems(1) unfolding in_window_def by (metis Suc_leI le_neq_implies_less)
  then show ?case
  proof cases
    case new
    then show ?thesis using Cons by (simp add: in_window_def)
  next
    case old
    then have "filter (in_window a b) (x # xs) = []"
      using Cons.prems(2) by (auto simp: in_window_def filter_empty_conv)
    then show ?thesis using old Cons.prems(1) by simp
  next
    case full
    then show ?thesis by (simp add: in_window_def)
  next
    case more
    then show ?thesis using Cons.IH [of "m @ [x]"] Cons.prems by (simp add: in_window_def)
  qed
qed simp

lemma scan_stop_length:
  "length m < limit \<Longrightarrow> length (fst (scan_batch a b limit xs m)) \<le> limit"
  by (induction xs arbitrary: m) auto

text \<open>The rows below a cursor, and a reader of pages of them.\<close>

definition rows_below :: "i64 option \<Rightarrow> (i64 \<times> bytes) list \<Rightarrow> (i64 \<times> bytes) list" where
  "rows_below cursor L = filter (\<lambda>(m, v). 0 \<le> m \<and> m < before_id cursor) L"

definition reads_log ::
    "(i64 option \<Rightarrow> usize \<Rightarrow> api_error + (i64 \<times> bytes) list) \<Rightarrow> (i64 \<times> bytes) list \<Rightarrow> bool" where
  "reads_log fetch_page L \<longleftrightarrow> (\<forall>cursor lim page. 0 \<le> before_id cursor \<longrightarrow> before_id cursor \<le> i64_max \<longrightarrow>
     fetch_page cursor lim = Inr page \<longrightarrow>
     page = drop (length (rows_below cursor L) - lim) (rows_below cursor L))"

text \<open>A log whose rows decode, in the order of their ids and of their times.\<close>

definition timed_log :: "'j codec \<Rightarrow> (i64 \<times> bytes) list \<Rightarrow> bool" where
  "timed_log C L \<longleftrightarrow> sorted_wrt (<) (map fst L) \<and> (\<forall>m \<in> fst ` set L. id_ok m) \<and>
     (\<forall>(m, v) \<in> set L. dec_payload C v \<noteq> None) \<and>
     sorted_wrt (\<lambda>x y. pl_created_at (cm_payload x) \<le> pl_created_at (cm_payload y)) (decode_messages C L)"

lemma decode_simps [simp]:
  "decode_messages C [] = []"
  "decode_messages C ((m, v) # L) =
     (case dec_payload C v of None \<Rightarrow> decode_messages C L
      | Some p \<Rightarrow> \<lparr>cm_mid = m, cm_payload = p\<rparr> # decode_messages C L)"
  by (simp_all add: decode_messages_def List.map_filter_simps split: option.split)

lemma decode_append: "decode_messages C (xs @ ys) = decode_messages C xs @ decode_messages C ys"
  by (induction xs) (auto split: option.split)

lemma decode_set:
  "x \<in> set (decode_messages C L) \<Longrightarrow> \<exists>v. (cm_mid x, v) \<in> set L \<and> dec_payload C v = Some (cm_payload x)"
proof (induction L)
  case (Cons r L)
  then show ?case by (cases r) (fastforce split: option.splits)
qed simp

lemma decode_filter_subset: "set (decode_messages C (filter Q L)) \<subseteq> set (decode_messages C L)"
  by (induction L) (auto split: option.splits)

lemma sorted_wrt_filter_rows: "sorted_wrt P (map f L) \<Longrightarrow> sorted_wrt P (map f (filter Q L))"
  by (induction L) auto

lemma decode_filter_sub:
  assumes "sorted_wrt P (decode_messages C L)"
  shows "sorted_wrt P (decode_messages C (filter Q L))"
  using assms
proof (induction L)
  case (Cons r L)
  then show ?case
    using decode_filter_subset [of C Q L] by (cases r) (auto split: option.splits)
qed simp

lemma timed_log_below:
  assumes "timed_log C L"
  shows "timed_log C (rows_below cursor L)"
  using assms unfolding timed_log_def rows_below_def
  by (auto simp: sorted_wrt_filter_rows decode_filter_sub)

text \<open>The rows below the first row of a page are the rows before the page.\<close>

lemma rows_below_first:
  assumes "sorted_wrt (<) (map fst L)" "\<forall>m \<in> fst ` set L. id_ok m"
    and "rows_below cursor L = xs @ (m, v) # ys"
  shows "rows_below (Some m) L = xs" "id_ok m" "m < before_id cursor"
proof -
  have mem: "(m, v) \<in> set (rows_below cursor L)" by (simp add: assms(3))
  then show "id_ok m" "m < before_id cursor" using assms(2) by (force simp: rows_below_def)+
  have srt: "sorted_wrt (<) (map fst (xs @ (m, v) # ys))"
    using sorted_wrt_filter_rows [OF assms(1)] unfolding assms(3) [symmetric] rows_below_def .
  have "rows_below (Some m) L = filter (\<lambda>(k, v). k < m) (rows_below cursor L)"
    using \<open>m < before_id cursor\<close> unfolding rows_below_def by (auto simp: before_id_def intro!: filter_cong)
  also have "\<dots> = xs"
  proof -
    have "filter (\<lambda>(k, v). k < m) xs = xs" "filter (\<lambda>(k, v). k < m) ys = []"
      using srt by (auto simp: sorted_wrt_append filter_empty_conv filter_id_conv)
    then show ?thesis by (simp add: assms(3))
  qed
  finally show "rows_below (Some m) L = xs" .
qed

lemma decode_first:
  assumes "rows \<noteq> []" "\<forall>(m, v) \<in> set rows. dec_payload C v \<noteq> None"
  obtains first rest where "decode_messages C rows = first # rest" "cm_mid first = fst (hd rows)"
  using assms by (cases rows) (auto split: option.splits)

lemma too_old_earlier:
  assumes "too_old a y" "pl_created_at (cm_payload x) \<le> pl_created_at (cm_payload y)"
  shows "too_old a x"
  using assms(1) timestamp_millis_mono [OF assms(2)] by (auto simp: too_old_def split: option.splits)

lemma timed_too_old:
  assumes "timed_log C L"
  shows "sorted_wrt (\<lambda>x y. too_old a x \<longrightarrow> too_old a y) (rev (decode_messages C L))"
proof -
  have "sorted_wrt (\<lambda>x y. pl_created_at (cm_payload x) \<le> pl_created_at (cm_payload y)) (decode_messages C L)"
    using assms by (simp add: timed_log_def)
  then have "sorted_wrt (\<lambda>x y. too_old a y \<longrightarrow> too_old a x) (decode_messages C L)"
    by (rule sorted_wrt_mono_rel [rotated]) (use too_old_earlier in blast)
  then show ?thesis by (simp add: sorted_wrt_rev)
qed

text \<open>The walk finds what one scan of all the rows below its cursor finds.\<close>

lemma walk_pages_scan:
  assumes "reads_log fetch_page L" "timed_log C L" "0 < page_size"
    and "0 \<le> before_id cursor" "before_id cursor \<le> i64_max"
    and "length (rows_below cursor L) \<le> n * page_size" "length m < limit"
    and "walk_pages fetch_page C a b limit page_size n cursor m = Inr found"
  shows "found = fst (scan_batch a b limit (rev (decode_messages C (rows_below cursor L))) m)"
  using assms(4-8)
proof (induction n arbitrary: cursor m)
  case (Suc n)
  let ?B = "rows_below cursor L"
  obtain rows where rows: "fetch_page cursor page_size = Inr rows"
    using Suc.prems(5) by (auto split: sum.splits)
  define xs where "xs = take (length ?B - page_size) ?B"
  have page: "rows = drop (length ?B - page_size) ?B"
    using assms(1) rows Suc.prems(1,2) unfolding reads_log_def by blast
  then have split: "?B = xs @ rows" by (simp only: xs_def append_take_drop_id)
  show ?case
  proof (cases "rows = []")
    case True
    then have "?B = []" using page assms(3) by (cases ?B) auto
    then show ?thesis using True rows Suc.prems(5) by simp
  next
    case False
    have dec: "\<forall>(k, v) \<in> set rows. dec_payload C v \<noteq> None"
      using timed_log_below [OF assms(2), of cursor] split by (auto simp: timed_log_def)
    obtain first rest where first: "decode_messages C rows = first # rest" "cm_mid first = fst (hd rows)"
      using decode_first [OF False dec] by blast
    obtain v ys where hd: "rows = (cm_mid first, v) # ys" using False first(2) by (cases rows) auto
    have below: "rows_below (Some (cm_mid first)) L = xs" "id_ok (cm_mid first)" "cm_mid first < before_id cursor"
      using rows_below_first [of L cursor xs "cm_mid first" v ys] assms(2) split hd
      by (simp_all add: timed_log_def)
    obtain m' stop where s: "scan_batch a b limit (rev (decode_messages C rows)) m = (m', stop)" by fastforce
    have all: "scan_batch a b limit (rev (decode_messages C ?B)) m =
        (if limit \<le> length m' \<or> stop then (m', stop) else scan_batch a b limit (rev (decode_messages C xs)) m')"
      by (simp add: split decode_append scan_append [OF Suc.prems(4)] s del: scan_batch.simps)
    show ?thesis
    proof (cases "limit \<le> length m' \<or> stop")
      case True
      then show ?thesis using Suc.prems(5) rows False first(1) s all by simp
    next
      case more: False
      have "Some (cm_mid first) \<noteq> cursor" using below(3) by (auto simp: before_id_def)
      then have walk: "walk_pages fetch_page C a b limit page_size n (Some (cm_mid first)) m' = Inr found"
        using Suc.prems(5) rows False first(1) s more by simp
      have "length xs \<le> n * page_size"
        using Suc.prems(3) by (simp add: xs_def)
      then show ?thesis
        using Suc.IH [OF _ _ _ _ walk] below more all by (simp add: before_id_def id_ok_def)
    qed
  qed
qed simp

lemma history_by_time:
  assumes "reads_log fetch_page L" "timed_log C L" "0 < limit"
    and "0 \<le> before_id cursor" "before_id cursor \<le> i64_max"
    and "length (rows_below cursor L) \<le> 50 * max 200 limit" "a \<noteq> None \<or> b \<noteq> None"
    and "fetch_history_by_time fetch_page C cursor a b limit = Inr found"
  shows "let W = filter (in_window a b) (decode_messages C (rows_below cursor L))
    in found = drop (length W - limit) W"
proof -
  let ?D = "decode_messages C (rows_below cursor L)"
  obtain m where m: "walk_pages fetch_page C a b limit (max 200 limit) 50 cursor [] = Inr m" "found = rev m"
    using assms(7,8) by (auto simp: fetch_history_by_time_def try_res_Inr_iff split: if_splits)
  have "m = fst (scan_batch a b limit (rev ?D) [])"
    by (rule walk_pages_scan [OF assms(1,2) _ assms(4-6) _ m(1)]) (use assms(3) in simp_all)
  also have "\<dots> = take limit (filter (in_window a b) (rev ?D))"
    using scan_window [OF _ timed_too_old [OF timed_log_below [OF assms(2)]], of "[]"] assms(3) by simp
  finally show ?thesis by (simp add: m(2) rev_filter take_rev_rev Let_def flip: rev_filter)
qed

lemma scan_sound:
  assumes "scan_batch a b limit xs m = (m', stop)" "length m < limit" "\<forall>x \<in> set m. in_window a b x"
  shows "length m' \<le> limit \<and> (\<forall>x \<in> set m'. in_window a b x)"
  using assms
proof (induction xs arbitrary: m)
  case (Cons x xs)
  consider (new) "too_new b x" | (old) "\<not> too_new b x" "too_old a x"
    | (full) "in_window a b x" "limit = Suc (length m)" | (more) "in_window a b x" "Suc (length m) < limit"
    using Cons.prems(2) unfolding in_window_def by (metis Suc_leI le_neq_implies_less)
  then show ?case
  proof cases
    case more
    then have "scan_batch a b limit xs (m @ [x]) = (m', stop)"
      using Cons.prems(1) by (auto simp: in_window_def)
    then show ?thesis by (rule Cons.IH) (use more Cons.prems(3) in auto)
  next
    case new
    then have "scan_batch a b limit xs m = (m', stop)" using Cons.prems(1) by simp
    then show ?thesis by (rule Cons.IH) (use Cons.prems in auto)
  next
    case old
    then show ?thesis using Cons.prems by auto
  next
    case full
    then have "m' = m @ [x]" using Cons.prems(1) by (auto simp: in_window_def)
    then show ?thesis using full Cons.prems by auto
  qed
qed simp

lemma walk_sound:
  assumes "walk_pages fetch_page C a b limit page_size n cursor m = Inr found"
    and "length m < limit" "\<forall>x \<in> set m. in_window a b x"
  shows "length found \<le> limit \<and> (\<forall>x \<in> set found. in_window a b x)"
  using assms
proof (induction n arbitrary: cursor m)
  case (Suc n)
  obtain rows where rows: "fetch_page cursor page_size = Inr rows" using Suc.prems(1) by (auto split: sum.splits)
  show ?case
  proof (cases "rows = [] \<or> decode_messages C rows = []")
    case True
    then show ?thesis using Suc.prems rows by (auto split: list.splits)
  next
    case False
    then obtain first rest where d: "decode_messages C rows = first # rest" by (cases "decode_messages C rows") auto
    obtain m' stop where s: "scan_batch a b limit (rev (first # rest)) m = (m', stop)" by fastforce
    note sound = scan_sound [OF s Suc.prems(2,3)]
    show ?thesis
      using Suc.prems(1) False rows d s sound Suc.IH [of "Some (cm_mid first)" m']
      by (auto simp del: scan_batch.simps rev.simps split: if_splits)
  qed
qed auto

text \<open>
  C40 Whatever the pages hold, a search by time answers with at most as many messages as were asked
  for, each of them inside the time window; it reads at most 50 pages.
\<close>

theorem time_search_is_bounded:
  assumes "fetch_history_by_time fetch_page C cursor a b limit = Inr found" "0 < limit" "a \<noteq> None \<or> b \<noteq> None"
  shows "length found \<le> limit \<and> (\<forall>x \<in> set found. in_window a b x)"
proof -
  obtain m where m: "walk_pages fetch_page C a b limit (max 200 limit) 50 cursor [] = Inr m" "found = rev m"
    using assms(1,3) by (auto simp: fetch_history_by_time_def try_res_Inr_iff split: if_splits)
  then show ?thesis using walk_sound [OF m(1)] assms(2) by simp
qed

text \<open>A codec of texts whose time in milliseconds is their length.\<close>

definition length_codec :: "unit codec" where
  "length_codec = text_codec\<lparr>dec_payload := \<lambda>b. Some ((demo_text b)\<lparr>pl_created_at := int (length b) * 1000000\<rparr>)\<rparr>"

definition demo_pages :: "i64 option \<Rightarrow> usize \<Rightarrow> api_error + (i64 \<times> bytes) list" where
  "demo_pages cursor lim =
     (let B = rows_below cursor [(1, ''a''), (2, ''bb''), (3, ''ccc''), (4, ''dddd'')]
      in Inr (drop (length B - lim) B))"

theorem time_search_is_bounded_witness:
  "\<exists>found. fetch_history_by_time demo_pages length_codec None (Some 2) (Some 3) 5 = Inr found \<and>
     map cm_mid found = [2, 3] \<and> (\<forall>x \<in> set found. in_window (Some 2) (Some 3) x)"
proof -
  have "map_sum id (map cm_mid) (fetch_history_by_time demo_pages length_codec None (Some 2) (Some 3) 5) = Inr [2, 3]"
    by code_simp
  then obtain found where f: "fetch_history_by_time demo_pages length_codec None (Some 2) (Some 3) 5 = Inr found"
    "map cm_mid found = [2, 3]"
    by (cases "fetch_history_by_time demo_pages length_codec None (Some 2) (Some 3) 5") auto
  then show ?thesis using time_search_is_bounded [OF f(1)] by auto
qed

section \<open>The history of a group\<close>

lemma group_reads_log:
  assumes "sled_contract K contents" "store_inv contents n st" "in_i64 gid"
  shows "reads_log (\<lambda>cursor lim. or_internal (fetch_group_messages_before K st gid cursor lim))
    (msg_log contents st (GroupLog gid))"
  unfolding reads_log_def
proof (intro allI impI)
  fix cursor lim page
  assume b: "0 \<le> before_id cursor" "before_id cursor \<le> i64_max"
    and "or_internal (fetch_group_messages_before K st gid cursor lim) = Inr page"
  then have r: "read_conv K st (GroupLog gid) 0 (before_id cursor) lim = Inr page"
    by (simp add: or_internal_def fetch_group_messages_before_def before_id_def Let_def split: sum.splits)
  have "page = log_page 0 (before_id cursor) lim (msg_log contents st (GroupLog gid))"
    using sled_contract.mail_read [OF assms(1,2) _ _ _ b r] assms(3) by (simp add: i64_max_def)
  then show "page = drop (length (rows_below cursor (msg_log contents st (GroupLog gid))) - lim)
      (rows_below cursor (msg_log contents st (GroupLog gid)))"
    by (simp add: log_page_def rows_below_def Let_def)
qed

text \<open>
  C12 Reading a group by time is exact. When the rows of a group decode and their times follow their
  ids, and no more than 10,000 messages lie below the cursor, the answer to a user of the group
  is exactly the newest messages below the cursor that lie in the window, at most 500 of them and at most
  the number asked for, oldest first: none is missed at a page boundary and none comes twice.
\<close>

theorem group_history_by_time_is_exact:
  assumes "sled_contract (en_K E) contents" "store_inv contents n (sv_msg_db srv)" "in_i64 gid"
    and "timed_log (en_C E) (msg_log contents (sv_msg_db srv) (GroupLog gid))"
    and "length (rows_below before (msg_log contents (sv_msg_db srv) (GroupLog gid))) \<le> 10000"
    and "0 \<le> before_id before" "before_id before \<le> i64_max" "0 < limit" "a \<noteq> None \<or> b \<noteq> None"
    and "group_get_history_messages E token gid before a b limit srv = Inr msgs"
  shows "(\<exists>g. fmlookup (ca_groups (sv_cache srv)) gid = Some g \<and> contains_user g (tk_uid token)) \<and>
    (let W = filter (in_window a b)
           (decode_messages (en_C E) (rows_below before (msg_log contents (sv_msg_db srv) (GroupLog gid))))
     in msgs = drop (length W - min limit 500) W)"
proof -
  obtain g where g: "fmlookup (ca_groups (sv_cache srv)) gid = Some g" "contains_user g (tk_uid token)"
    and run: "fetch_history_by_time
      (\<lambda>cursor lim. or_internal (fetch_group_messages_before (en_K E) (sv_msg_db srv) gid cursor lim))
      (en_C E) before a b (min limit 500) = Inr msgs"
    using assms(10) by (auto simp: group_get_history_messages_def split: option.splits if_splits)
  have "length (rows_below before (msg_log contents (sv_msg_db srv) (GroupLog gid))) \<le> 50 * max 200 (min limit 500)"
    using assms(5) by simp
  from history_by_time [OF group_reads_log [OF assms(1-3)] assms(4) _ assms(6,7) this assms(9) run] g assms(8)
  show ?thesis by auto
qed

lemma demo_chatted_log:
  "store_inv map_of 0 (sv_msg_db demo_chatted)"
  "msg_log map_of (sv_msg_db demo_chatted) (GroupLog 4) = [(1, ''hi'')]"
proof -
  have K: "sled_contract (en_K demo_env) map_of" by (simp add: demo_env_def sdb.sled_contract_axioms)
  have inv: "store_inv map_of (Suc 0) (sv_msg_db demo_chat)"
    using demo_db_inv [of "Suc 0"] by (simp add: demo_chat_def i64_max_def)
  have gid: "conv_ok (GroupLog 4)" by (simp add: in_i64_def i64_min_def i64_max_def)
  obtain q :: "json ChatMessagePayload" and msg where q: "same_message (demo_text ''hi'') q"
    "enc_payload text_codec q = Some msg" "store_inv map_of 0 (sv_msg_db demo_chatted)"
    "msg_log map_of (sv_msg_db demo_chatted) (GroupLog 4) = msg_log map_of demo_db (GroupLog 4) @ [(1, msg)]"
    using accepted_message_delivered [OF K inv demo_chat_ids demo_chatted_sent] gid
    unfolding demo_codec_text by (auto simp: demo_chat_def demo_text_def)
  have "msg = ''hi''"
    using q(1,2) by (auto simp: same_message_def text_codec_def payload_content_def demo_text_def
        text_content_def content_of_def)
  moreover have "map_of (mdb_db demo_db) (conv_key (GroupLog 4) m) = None" for m
    by (simp add: demo_db_def)
  then have "msg_log map_of demo_db (GroupLog 4) = []" by (simp add: msg_log_def conv_log_def)
  ultimately show "store_inv map_of 0 (sv_msg_db demo_chatted)"
    "msg_log map_of (sv_msg_db demo_chatted) (GroupLog 4) = [(1, ''hi'')]" using q by simp_all
qed

theorem group_history_by_time_is_exact_witness:
  "\<exists>msgs. group_get_history_messages demo_env (demo_token 3 False) 4 None (Some 1) (Some 9) 20 demo_chatted = Inr msgs \<and>
     msgs = [\<lparr>cm_mid = 1, cm_payload = demo_text ''hi''\<rparr>]"
proof -
  have "isl (group_get_history_messages demo_env (demo_token 3 False) 4 None (Some 1) (Some 9) 20 demo_chatted) = False"
    by code_simp
  then obtain msgs where r:
    "group_get_history_messages demo_env (demo_token 3 False) 4 None (Some 1) (Some 9) 20 demo_chatted = Inr msgs"
    by (metis sum.collapse(2))
  have K: "sled_contract (en_K demo_env) map_of" by (simp add: demo_env_def sdb.sled_contract_axioms)
  have "in_i64 4" by (simp add: in_i64_def i64_min_def i64_max_def)
  moreover have "timed_log (en_C demo_env) (msg_log map_of (sv_msg_db demo_chatted) (GroupLog 4))"
    "length (rows_below None (msg_log map_of (sv_msg_db demo_chatted) (GroupLog 4))) \<le> 10000"
    by (simp_all add: demo_chatted_log timed_log_def demo_codec_text text_codec_def id_ok_def i64_max_def rows_below_def)
  moreover have "0 \<le> before_id None" "before_id None \<le> i64_max" by (simp_all add: before_id_def i64_max_def)
  ultimately have "(let W = filter (in_window (Some 1) (Some 9))
           (decode_messages text_codec (rows_below None [(1, ''hi'')])) in msgs = drop (length W - min 20 500) W)"
    using group_history_by_time_is_exact [OF K demo_chatted_log(1) _ _ _ _ _ _ _ r]
    by (simp add: demo_chatted_log demo_codec_text)
  then show ?thesis using r
    by (simp add: rows_below_def before_id_def i64_max_def text_codec_def in_window_def too_new_def too_old_def
        demo_text_def timestamp_millis_def)
qed

end
