(* ===== verification/Mls_Delivery.thy ===== *)
theory Mls_Delivery
  imports Db_Tables Chat_State E2ee_Routing
begin

text \<open>
  Delivery of opaque MLS artifacts (\<open>src/mls_delivery.rs\<close>, \<open>src/api/mls.rs\<close>): credentials of
  devices, one-time key packages, and the routes of groups with the lease under which one device
  initializes the MLS group. Times are those of SQLite's \<open>current_timestamp\<close>, in seconds; the tables
  are those of \<open>migrations/20260717000100_mls_delivery.sql\<close>. \<open>db_ok\<close> says whether the database
  works; when it does not, nothing is changed.
\<close>

record key_package =
  kp_id :: i64
  kp_uid :: i64
  kp_device_id :: string
  kp_package :: bytes
  kp_consumed_at :: "int option"

record mls_route =
  ro_token :: string
  ro_gid :: i64
  ro_initializer :: "(i64 \<times> string) option"
  ro_initializer_lease :: "int option"
  ro_initialized :: bool

record delivery_tables =
  dl_device :: "(i64 \<times> string, bytes) fmap"
  dl_key_package :: "key_package list"
  dl_key_package_seq :: i64
  dl_route :: "mls_route list"

type_synonym 'a delivery = "delivery_tables \<Rightarrow> (api_error + 'a) \<times> delivery_tables"

definition MAX_CREDENTIAL :: nat where
  "MAX_CREDENTIAL = 64 * 1024"

definition MAX_KEY_PACKAGE :: nat where
  "MAX_KEY_PACKAGE = 64 * 1024"

definition is_ascii_alphanumeric :: "char \<Rightarrow> bool" where
  "is_ascii_alphanumeric c =
     (let n = of_char c :: nat in 48 \<le> n \<and> n \<le> 57 \<or> 65 \<le> n \<and> n \<le> 90 \<or> 97 \<le> n \<and> n \<le> 122)"

definition validate_device_id :: "string \<Rightarrow> api_error + unit" where
  "validate_device_id device_id =
     (if device_id = '''' \<or> length device_id > 128 \<or>
         \<not> list_all (\<lambda>b. is_ascii_alphanumeric b \<or> b \<in> {CHR ''-'', CHR ''_'', CHR '':''}) device_id
      then Inl (from_status BAD_REQUEST) else Inr ())"

definition validate_blob :: "bytes \<Rightarrow> nat \<Rightarrow> api_error + unit" where
  "validate_blob blob maximum =
     (if blob = '''' \<or> length blob > maximum then Inl (from_status PAYLOAD_TOO_LARGE) else Inr ())"

section \<open>Credentials and key packages\<close>

definition put_credential :: "bool \<Rightarrow> i64 set \<Rightarrow> i64 \<Rightarrow> string \<Rightarrow> bytes \<Rightarrow> unit delivery" where
  "put_credential db_ok users uid device_id credential t =
     (case try_res (validate_device_id device_id) (\<lambda>u. validate_blob credential MAX_CREDENTIAL) of
        Inl e \<Rightarrow> (Inl e, t)
      | Inr u \<Rightarrow>
          if \<not> db_ok \<or> uid \<notin> users then (Inl internal_error, t)
          else (Inr (), t\<lparr>dl_device := fmupd (uid, device_id) credential (dl_device t)\<rparr>))"

text \<open>A package needs the credential of its device (a foreign key).\<close>

definition publish_key_package :: "bool \<Rightarrow> i64 \<Rightarrow> string \<Rightarrow> bytes \<Rightarrow> unit delivery" where
  "publish_key_package db_ok uid device_id package t =
     (case try_res (validate_device_id device_id) (\<lambda>u. validate_blob package MAX_KEY_PACKAGE) of
        Inl e \<Rightarrow> (Inl e, t)
      | Inr u \<Rightarrow>
          if \<not> db_ok then (Inl internal_error, t)
          else if fmlookup (dl_device t) (uid, device_id) = None then (Inl (from_status CONFLICT), t)
          else
            let i = dl_key_package_seq t + 1 in
            (Inr (), t\<lparr>dl_key_package := dl_key_package t @ [\<lparr>kp_id = i, kp_uid = uid, kp_device_id = device_id,
                 kp_package = package, kp_consumed_at = None\<rparr>],
               dl_key_package_seq := i\<rparr>))"

definition available :: "i64 \<Rightarrow> string \<Rightarrow> key_package \<Rightarrow> bool" where
  "available uid device_id p \<longleftrightarrow> kp_uid p = uid \<and> kp_device_id p = device_id \<and> kp_consumed_at p = None"

text \<open>\<open>order by id limit 1\<close>: the rows of the table are in the order of their ids.\<close>

definition consume_key_package :: "bool \<Rightarrow> int \<Rightarrow> i64 \<Rightarrow> string \<Rightarrow> bytes delivery" where
  "consume_key_package db_ok now uid device_id t =
     (case validate_device_id device_id of
        Inl e \<Rightarrow> (Inl e, t)
      | Inr u \<Rightarrow>
          if \<not> db_ok then (Inl internal_error, t)
          else (case filter (available uid device_id) (dl_key_package t) of
              [] \<Rightarrow> (Inl (from_status NOT_FOUND), t)
            | row # rows \<Rightarrow>
                (Inr (kp_package row),
                 t\<lparr>dl_key_package := map (\<lambda>p. if kp_id p = kp_id row then p\<lparr>kp_consumed_at := Some now\<rparr> else p)
                     (dl_key_package t)\<rparr>)))"

definition get_credential :: "delivery_tables \<Rightarrow> i64 \<Rightarrow> string \<Rightarrow> api_error + bytes" where
  "get_credential t uid device_id =
     try_res (validate_device_id device_id) (\<lambda>u.
       ok_or (from_status NOT_FOUND) (fmlookup (dl_device t) (uid, device_id)))"

definition list_devices :: "delivery_tables \<Rightarrow> i64 \<Rightarrow> string list" where
  "list_devices t uid = sorted_list_of_set (snd ` Set.filter (\<lambda>k. fst k = uid) (fmdom' (dl_device t)))"

section \<open>Routes\<close>

definition authorize_group :: "tables \<Rightarrow> i64 \<Rightarrow> i64 \<Rightarrow> api_error + unit" where
  "authorize_group db uid gid =
     (case fmlookup (tb_group db) gid of
        None \<Rightarrow> Inl (from_status FORBIDDEN)
      | Some g \<Rightarrow>
          if gr_is_public g \<or> gr_owner g = Some uid \<or> (gid, uid) \<in> tb_group_user db then Inr ()
          else Inl (from_status FORBIDDEN))"

definition find_route :: "delivery_tables \<Rightarrow> string \<Rightarrow> mls_route option" where
  "find_route t token = List.find (\<lambda>r. ro_token r = token) (dl_route t)"

text \<open>\<open>fresh\<close> is the new UUID; a token in use would violate the primary key.\<close>

definition route_for_group :: "bool \<Rightarrow> tables \<Rightarrow> string \<Rightarrow> i64 \<Rightarrow> i64 \<Rightarrow> string delivery" where
  "route_for_group db_ok db fresh uid gid t =
     (if \<not> db_ok then (Inl internal_error, t)
      else case authorize_group db uid gid of
        Inl e \<Rightarrow> (Inl e, t)
      | Inr u \<Rightarrow>
          (case List.find (\<lambda>r. ro_gid r = gid) (dl_route t) of
             Some r \<Rightarrow> (Inr (ro_token r), t)
           | None \<Rightarrow>
               if find_route t fresh \<noteq> None then (Inl internal_error, t)
               else (Inr fresh, t\<lparr>dl_route := dl_route t @ [\<lparr>ro_token = fresh, ro_gid = gid,
                   ro_initializer = None, ro_initializer_lease = None, ro_initialized = False\<rparr>]\<rparr>)))"

definition authorize_route :: "tables \<Rightarrow> i64 \<Rightarrow> string \<Rightarrow> delivery_tables \<Rightarrow> api_error + unit" where
  "authorize_route db uid token t =
     (case find_route t token of
        None \<Rightarrow> Inl (from_status NOT_FOUND)
      | Some r \<Rightarrow> authorize_group db uid (ro_gid r))"

definition update_route :: "string \<Rightarrow> (mls_route \<Rightarrow> bool) \<Rightarrow> (mls_route \<Rightarrow> mls_route) \<Rightarrow> delivery_tables \<Rightarrow> delivery_tables" where
  "update_route token cond f t =
     t\<lparr>dl_route := map (\<lambda>r. if ro_token r = token \<and> cond r then f r else r) (dl_route t)\<rparr>"

definition may_claim :: "int \<Rightarrow> i64 \<Rightarrow> string \<Rightarrow> mls_route \<Rightarrow> bool" where
  "may_claim now uid device_id r \<longleftrightarrow> \<not> ro_initialized r \<and>
     (ro_initializer r = None \<or>
      (case ro_initializer_lease r of Some lease \<Rightarrow> lease < now | None \<Rightarrow> False) \<or>
      ro_initializer r = Some (uid, device_id))"

text \<open>1: the caller holds the lease; 2: the group is initialized; 0: another device holds it.\<close>

definition claim_initialization :: "bool \<Rightarrow> tables \<Rightarrow> int \<Rightarrow> i64 \<Rightarrow> string \<Rightarrow> string \<Rightarrow> nat delivery" where
  "claim_initialization db_ok db now uid device_id token t =
     (case validate_device_id device_id of
        Inl e \<Rightarrow> (Inl e, t)
      | Inr u \<Rightarrow>
          if \<not> db_ok then (Inl internal_error, t)
          else (case authorize_route db uid token t of
              Inl e \<Rightarrow> (Inl e, t)
            | Inr u \<Rightarrow>
                let t' = update_route token (may_claim now uid device_id)
                      (\<lambda>r. r\<lparr>ro_initializer := Some (uid, device_id), ro_initializer_lease := Some (now + 30)\<rparr>) t
                in (case find_route t' token of
                      None \<Rightarrow> (Inl internal_error, t)
                    | Some row \<Rightarrow>
                        (Inr (if ro_initialized row then 2
                           else if ro_initializer row = Some (uid, device_id) then 1 else 0), t'))))"

definition mark_initialized :: "bool \<Rightarrow> tables \<Rightarrow> i64 \<Rightarrow> string \<Rightarrow> string \<Rightarrow> unit delivery" where
  "mark_initialized db_ok db uid device_id token t =
     (case validate_device_id device_id of
        Inl e \<Rightarrow> (Inl e, t)
      | Inr u \<Rightarrow>
          if \<not> db_ok then (Inl internal_error, t)
          else (case authorize_route db uid token t of
              Inl e \<Rightarrow> (Inl e, t)
            | Inr u \<Rightarrow>
                let cond = (\<lambda>r. ro_initializer r = Some (uid, device_id) \<and> \<not> ro_initialized r) in
                if list_ex (\<lambda>r. ro_token r = token \<and> cond r) (dl_route t)
                then (Inr (), update_route token cond
                        (\<lambda>r. r\<lparr>ro_initialized := True, ro_initializer_lease := None\<rparr>) t)
                else (Inl (from_status CONFLICT), t)))"

section \<open>The endpoints\<close>

definition require_authenticated_device :: "Token \<Rightarrow> string \<Rightarrow> api_error + unit" where
  "require_authenticated_device token device_id =
     (case validate_authenticated_device device_id (tk_device token) of
        Inl e \<Rightarrow> Inl (from_string (e2e_error_message e) BAD_REQUEST)
      | Inr u \<Rightarrow> Inr ())"

definition is_ascii_hexdigit :: "char \<Rightarrow> bool" where
  "is_ascii_hexdigit c =
     (let n = of_char c :: nat in 48 \<le> n \<and> n \<le> 57 \<or> 65 \<le> n \<and> n \<le> 70 \<or> 97 \<le> n \<and> n \<le> 102)"

definition validate_route :: "string \<Rightarrow> api_error + unit" where
  "validate_route route =
     (if length route \<noteq> 32 \<or> \<not> list_all is_ascii_hexdigit route then Inl (from_status BAD_REQUEST) else Inr ())"

datatype mls_req =
    PutCredential string bytes
  | PublishKeyPackage string bytes
  | ConsumeKeyPackage i64 string
  | GroupRoute i64 string
  | ClaimInitialization string string
  | MarkInitialized string string

datatype mls_reply = Done | Package bytes | Route string | Claimed nat

record mls_dcall =
  md_token :: Token
  md_now :: int
  md_db_ok :: bool
  md_db :: tables
  md_req :: mls_req

definition reply :: "('a \<Rightarrow> mls_reply) \<Rightarrow> (api_error + 'a) \<times> delivery_tables \<Rightarrow> (api_error + mls_reply) \<times> delivery_tables" where
  "reply f r = (map_sum id f (fst r), snd r)"

definition mls_dexec :: "mls_dcall \<Rightarrow> mls_reply delivery" where
  "mls_dexec c t =
     (let token = md_token c; uid = tk_uid token; ok = md_db_ok c; users = fmdom' (tb_user (md_db c)) in
      case md_req c of
        PutCredential device_id body \<Rightarrow>
          (case require_authenticated_device token device_id of
             Inl e \<Rightarrow> (Inl e, t)
           | Inr u \<Rightarrow> reply (\<lambda>u. Done) (put_credential ok users uid device_id body t))
      | PublishKeyPackage device_id body \<Rightarrow>
          (case require_authenticated_device token device_id of
             Inl e \<Rightarrow> (Inl e, t)
           | Inr u \<Rightarrow> reply (\<lambda>u. Done) (publish_key_package ok uid device_id body t))
      | ConsumeKeyPackage target device_id \<Rightarrow>
          reply Package (consume_key_package ok (md_now c) target device_id t)
      | GroupRoute gid fresh \<Rightarrow> reply Route (route_for_group ok (md_db c) fresh uid gid t)
      | ClaimInitialization route device_id \<Rightarrow>
          (case try_res (require_authenticated_device token device_id) (\<lambda>u. validate_route route) of
             Inl e \<Rightarrow> (Inl e, t)
           | Inr u \<Rightarrow> reply Claimed (claim_initialization ok (md_db c) (md_now c) uid device_id route t))
      | MarkInitialized route device_id \<Rightarrow>
          (case try_res (require_authenticated_device token device_id) (\<lambda>u. validate_route route) of
             Inl e \<Rightarrow> (Inl e, t)
           | Inr u \<Rightarrow> reply (\<lambda>u. Done) (mark_initialized ok (md_db c) uid device_id route t)))"

end
