(* ===== verification/Mls_Delivery_Properties.thy ===== *)
theory Mls_Delivery_Properties
  imports Mls_Delivery Service
begin

text \<open>
  The two guarantees clients need of the delivery tables: a key package is handed out once, in the order of
  publication, and one device at a time initializes a group.
\<close>

definition delivery_inv :: "delivery_tables \<Rightarrow> bool" where
  "delivery_inv t \<longleftrightarrow>
     distinct (map kp_id (dl_key_package t)) \<and> (\<forall>p \<in> set (dl_key_package t). kp_id p \<le> dl_key_package_seq t) \<and>
     distinct (map ro_token (dl_route t))"

lemma update_route_parts [simp]:
  "dl_key_package (update_route token cond f t) = dl_key_package t"
  "dl_key_package_seq (update_route token cond f t) = dl_key_package_seq t"
  "dl_device (update_route token cond f t) = dl_device t"
  by (simp_all add: update_route_def)

lemma update_route_tokens:
  assumes "\<And>r. ro_token (f r) = ro_token r"
  shows "map ro_token (dl_route (update_route token cond f t)) = map ro_token (dl_route t)"
  by (simp add: update_route_def assms)

lemma find_None_tokens: "find_route t token = None \<longleftrightarrow> token \<notin> ro_token ` set (dl_route t)"
  by (auto simp: find_route_def find_None_iff)

lemma map_kp_consumed:
  "map kp_id (map (\<lambda>p. if kp_id p = i then p\<lparr>kp_consumed_at := c\<rparr> else p) ps) = map kp_id ps"
  by (induction ps) auto

lemma reply_Inl: "reply f r = (Inl e, t') \<longleftrightarrow> r = (Inl e, t')"
  by (cases r; cases "fst r") (auto simp: reply_def)

lemma reply_Inr: "reply f r = (Inr y, t') \<longleftrightarrow> (\<exists>x. r = (Inr x, t') \<and> y = f x)"
  by (cases r; cases "fst r") (auto simp: reply_def)

lemma put_credential_cases:
  assumes "put_credential ok users uid d c t = (r, t')"
  shows "(\<exists>e. r = Inl e \<and> t' = t) \<or> r = Inr () \<and> t' = t\<lparr>dl_device := fmupd (uid, d) c (dl_device t)\<rparr>"
  using assms unfolding put_credential_def
  by (auto simp: Let_def dest!: try_state_cases split: if_splits option.splits list.splits)

lemma publish_cases:
  assumes "publish_key_package ok uid d p t = (r, t')"
  shows "(\<exists>e. r = Inl e \<and> t' = t) \<or>
     r = Inr () \<and> t' = t\<lparr>dl_key_package := dl_key_package t @ [\<lparr>kp_id = dl_key_package_seq t + 1, kp_uid = uid,
        kp_device_id = d, kp_package = p, kp_consumed_at = None\<rparr>], dl_key_package_seq := dl_key_package_seq t + 1\<rparr>"
  using assms unfolding publish_key_package_def
  by (auto simp: Let_def dest!: try_state_cases split: if_splits option.splits list.splits)

lemma consume_cases:
  assumes "consume_key_package ok now uid d t = (r, t')"
  shows "(\<exists>e. r = Inl e \<and> t' = t) \<or>
     (\<exists>row rows. filter (available uid d) (dl_key_package t) = row # rows \<and> r = Inr (kp_package row) \<and>
        t' = t\<lparr>dl_key_package := map (\<lambda>p. if kp_id p = kp_id row then p\<lparr>kp_consumed_at := Some now\<rparr> else p)
          (dl_key_package t)\<rparr>)"
  using assms unfolding consume_key_package_def
  by (auto simp: Let_def dest!: try_state_cases split: if_splits option.splits list.splits)

lemma route_cases:
  assumes "route_for_group ok db fresh uid gid t = (r, t')"
  shows "t' = t \<or> (\<exists>x. r = Inr x) \<and> find_route t fresh = None \<and>
     t' = t\<lparr>dl_route := dl_route t @ [\<lparr>ro_token = fresh, ro_gid = gid, ro_initializer = None,
       ro_initializer_lease = None, ro_initialized = False\<rparr>]\<rparr>"
  using assms unfolding route_for_group_def
  by (auto simp: Let_def dest!: try_state_cases split: if_splits option.splits list.splits)

lemma claim_cases:
  assumes "claim_initialization ok db now uid d token t = (r, t')"
  shows "(\<exists>e. r = Inl e \<and> t' = t) \<or>
     (\<exists>row. t' = update_route token (may_claim now uid d)
        (\<lambda>r. r\<lparr>ro_initializer := Some (uid, d), ro_initializer_lease := Some (now + 30)\<rparr>) t \<and>
      find_route t' token = Some row \<and>
      r = Inr (if ro_initialized row then 2 else if ro_initializer row = Some (uid, d) then 1 else 0))"
  using assms unfolding claim_initialization_def
  by (auto simp: Let_def dest!: try_state_cases split: if_splits option.splits list.splits)

lemma mark_cases:
  assumes "mark_initialized ok db uid d token t = (r, t')"
  shows "(\<exists>e. r = Inl e \<and> t' = t) \<or>
     r = Inr () \<and> t' = update_route token (\<lambda>r. ro_initializer r = Some (uid, d) \<and> \<not> ro_initialized r)
        (\<lambda>r. r\<lparr>ro_initialized := True, ro_initializer_lease := None\<rparr>) t"
  using assms unfolding mark_initialized_def
  by (auto simp: Let_def dest!: try_state_cases split: if_splits option.splits list.splits)

lemma reply_runs: "reply f X = (r, t') \<Longrightarrow> \<exists>x. X = (x, t') \<and> r = map_sum id f x"
  by (cases X) (simp add: reply_def)

lemma guarded_runs:
  assumes "(case g of Inl e \<Rightarrow> (Inl e, t) | Inr u \<Rightarrow> reply f X) = (r, t')"
  shows "(\<exists>e. r = Inl e \<and> t' = t) \<or> (\<exists>x. X = (x, t') \<and> r = map_sum id f x)"
  using assms by (auto dest!: try_state_cases reply_runs)

text \<open>The operation a request runs, when it passes the checks of its endpoint.\<close>

lemma mls_dexec_runs:
  assumes "mls_dexec c t = (r, t')"
  shows "(\<exists>e. r = Inl e \<and> t' = t) \<or>
    (case md_req c of
       PutCredential d b \<Rightarrow> \<exists>x. put_credential (md_db_ok c) (fmdom' (tb_user (md_db c))) (tk_uid (md_token c)) d b t =
         (x, t') \<and> r = map_sum id (\<lambda>u. Done) x
     | PublishKeyPackage d b \<Rightarrow> \<exists>x. publish_key_package (md_db_ok c) (tk_uid (md_token c)) d b t =
         (x, t') \<and> r = map_sum id (\<lambda>u. Done) x
     | ConsumeKeyPackage u d \<Rightarrow> \<exists>x. consume_key_package (md_db_ok c) (md_now c) u d t = (x, t') \<and> r = map_sum id Package x
     | GroupRoute g f \<Rightarrow> \<exists>x. route_for_group (md_db_ok c) (md_db c) f (tk_uid (md_token c)) g t =
         (x, t') \<and> r = map_sum id Route x
     | ClaimInitialization k d \<Rightarrow> \<exists>x. claim_initialization (md_db_ok c) (md_db c) (md_now c) (tk_uid (md_token c)) d k t =
         (x, t') \<and> r = map_sum id Claimed x
     | MarkInitialized k d \<Rightarrow> \<exists>x. mark_initialized (md_db_ok c) (md_db c) (tk_uid (md_token c)) d k t =
         (x, t') \<and> r = map_sum id (\<lambda>u. Done) x)"
  using assms
  by (cases "md_req c")
    (auto simp only: mls_dexec_def Let_def mls_req.case dest!: guarded_runs reply_runs)

section \<open>Key packages\<close>

definition pool :: "i64 \<Rightarrow> string \<Rightarrow> delivery_tables \<Rightarrow> bytes list" where
  "pool uid device_id t = map kp_package (filter (available uid device_id) (dl_key_package t))"

definition published :: "i64 \<Rightarrow> string \<Rightarrow> mls_dcall \<Rightarrow> bytes list" where
  "published uid device_id c =
     (case md_req c of
        PublishKeyPackage d body \<Rightarrow> if (tk_uid (md_token c), d) = (uid, device_id) then [body] else []
      | _ \<Rightarrow> [])"

definition handed_out :: "i64 \<Rightarrow> string \<Rightarrow> mls_dcall \<Rightarrow> mls_reply \<Rightarrow> bytes list" where
  "handed_out uid device_id c a =
     (case (md_req c, a) of
        (ConsumeKeyPackage u d, Package p) \<Rightarrow> if (u, d) = (uid, device_id) then [p] else []
      | _ \<Rightarrow> [])"

lemma filter_split_first:
  assumes "filter P ps = q # qs"
  shows "\<exists>xs ys. ps = xs @ q # ys \<and> filter P xs = [] \<and> filter P ys = qs \<and> P q"
  using assms filter_eq_ConsD [OF assms] by (auto simp: filter_empty_conv)

lemma consume_pool:
  assumes "distinct (map kp_id ps)" "filter (available u d) ps = row # rows"
  shows "filter (available uid dev) (map (\<lambda>p. if kp_id p = kp_id row then p\<lparr>kp_consumed_at := Some now\<rparr> else p) ps) =
    (if (uid, dev) = (u, d) then rows else filter (available uid dev) ps)"
proof -
  obtain xs ys where s: "ps = xs @ row # ys" "filter (available u d) xs = []" "filter (available u d) ys = rows"
    "available u d row" using filter_split_first [OF assms(2)] by blast
  let ?f = "\<lambda>p. if kp_id p = kp_id row then p\<lparr>kp_consumed_at := Some now\<rparr> else p"
  have "map ?f xs = xs" "map ?f ys = ys"
    using assms(1) s(1) by (auto simp: image_iff intro!: map_idI)
  then have "map ?f ps = xs @ row\<lparr>kp_consumed_at := Some now\<rparr> # ys" by (simp add: s(1))
  then show ?thesis using s by (auto simp: available_def)
qed

lemma mls_dexec_inv:
  assumes "delivery_inv t" "mls_dexec c t = (r, t')"
  shows "delivery_inv t'"
proof -
  have "t' = t \<or> delivery_inv t'"
    using mls_dexec_runs [OF assms(2)] assms(1)
  proof (cases "md_req c")
    case (PutCredential d b)
    then show ?thesis using mls_dexec_runs [OF assms(2)] assms(1)
      by (auto simp: delivery_inv_def dest!: put_credential_cases)
  next
    case (PublishKeyPackage d b)
    then show ?thesis using mls_dexec_runs [OF assms(2)] assms(1)
      by (fastforce simp: delivery_inv_def dest!: publish_cases)
  next
    case (ConsumeKeyPackage u d)
    then show ?thesis using mls_dexec_runs [OF assms(2)] assms(1)
      by (auto simp: delivery_inv_def map_kp_consumed simp del: map_map dest!: consume_cases) metis
  next
    case (GroupRoute g f)
    then show ?thesis using mls_dexec_runs [OF assms(2)] assms(1)
      by (auto simp: delivery_inv_def find_None_tokens dest!: route_cases)
  next
    case (ClaimInitialization k d)
    then show ?thesis using mls_dexec_runs [OF assms(2)] assms(1)
      by (auto simp: delivery_inv_def update_route_tokens dest!: claim_cases)
  next
    case (MarkInitialized k d)
    then show ?thesis using mls_dexec_runs [OF assms(2)] assms(1)
      by (auto simp: delivery_inv_def update_route_tokens dest!: mark_cases)
  qed
  then show ?thesis using assms(1) by blast
qed

lemma mls_dexec_error:
  assumes "mls_dexec c t = (Inl e, t')"
  shows "t' = t"
  using mls_dexec_runs [OF assms]
  by (cases "md_req c")
    (auto dest!: put_credential_cases publish_cases consume_cases route_cases claim_cases mark_cases)

lemma mls_dexec_pool:
  assumes "delivery_inv t" "mls_dexec c t = (Inr a, t')"
  shows "handed_out uid dev c a @ pool uid dev t' = pool uid dev t @ published uid dev c"
proof (cases "md_req c")
  case (ConsumeKeyPackage u d)
  obtain row rows where r: "filter (available u d) (dl_key_package t) = row # rows" "a = Package (kp_package row)"
    "t' = t\<lparr>dl_key_package := map (\<lambda>p. if kp_id p = kp_id row then p\<lparr>kp_consumed_at := Some (md_now c)\<rparr> else p)
          (dl_key_package t)\<rparr>"
    using mls_dexec_runs [OF assms(2)] ConsumeKeyPackage by (auto dest!: consume_cases)
  have "filter (available uid dev) (dl_key_package t') =
      (if (uid, dev) = (u, d) then rows else filter (available uid dev) (dl_key_package t))"
    using consume_pool [OF _ r(1)] assms(1) by (simp add: delivery_inv_def r(3))
  then show ?thesis using r ConsumeKeyPackage by (auto simp: pool_def published_def handed_out_def)
next
  case (PublishKeyPackage d b)
  then show ?thesis using mls_dexec_runs [OF assms(2)]
    by (auto simp: pool_def published_def handed_out_def available_def dest!: publish_cases)
qed (use mls_dexec_runs [OF assms(2)] in \<open>auto simp: pool_def published_def handed_out_def
    dest!: put_credential_cases route_cases claim_cases mark_cases\<close>)

interpretation delivery: service mls_dexec delivery_inv
  by unfold_locales (auto dest: mls_dexec_inv mls_dexec_error)

interpretation packages: fifo_service mls_dexec delivery_inv "pool uid dev" "published uid dev" "handed_out uid dev"
  for uid dev
  by unfold_locales (rule mls_dexec_pool)

text \<open>
  C25 A key package is handed out once, in the order of publication. Over any run of requests of all kinds,
  in any order and with any failures, what was handed out for a device followed by what is still
  in store is what was in store before followed by what was published for it: no package is given to two
  callers, none is lost, none overtakes another.
\<close>

theorem key_packages_handed_out_once:
  assumes "delivery_inv t"
  shows "concat (map (\<lambda>(c, a). handed_out uid dev c a) (run_trace mls_dexec cs t)) @
      pool uid dev (run_requests mls_dexec cs t) =
    pool uid dev t @ concat (map (\<lambda>(c, a). published uid dev c) (run_trace mls_dexec cs t))"
  by (rule packages.run_fifo [OF assms])

definition no_delivery :: delivery_tables where
  "no_delivery = \<lparr>dl_device = fmempty, dl_key_package = [], dl_key_package_seq = 0, dl_route = []\<rparr>"

definition delivery_db :: tables where
  "delivery_db = \<lparr> tb_user = fmempty, tb_user_seq = 3, tb_user_log_seq = 3, tb_device = [], tb_mute = [],
     tb_burn_after_reading = [], tb_read_index = [], tb_bot_key = [],
     tb_group = fmupd 4 \<lparr>gr_name = ''team'', gr_description = '''', gr_owner = Some 2, gr_is_public = False,
       gr_created_at = 0, gr_updated_at = 0, gr_avatar_updated_at = 0, gr_e2e_enabled = True\<rparr> fmempty,
     tb_group_seq = 4, tb_group_user = {(4, 2), (4, 3)}, tb_pinned_message = [] \<rparr>"

definition delivery_call :: "i64 \<Rightarrow> int \<Rightarrow> mls_req \<Rightarrow> mls_dcall" where
  "delivery_call uid now req = \<lparr>md_token = \<lparr>tk_uid = uid, tk_device = ''web'', tk_is_admin = False, tk_is_guest = False\<rparr>,
     md_now = now, md_db_ok = True, md_db = delivery_db, md_req = req\<rparr>"

definition with_device :: delivery_tables where
  "with_device = no_delivery\<lparr>dl_device := fmupd (2, ''web'') ''cred'' fmempty\<rparr>"

definition demo_packages :: "mls_dcall list" where
  "demo_packages =
     [delivery_call 2 1 (PublishKeyPackage ''web'' ''p1''), delivery_call 2 2 (PublishKeyPackage ''web'' ''p2''),
      delivery_call 3 3 (ConsumeKeyPackage 2 ''web'')]"

theorem key_packages_handed_out_once_witness:
  "concat (map (\<lambda>(c, a). handed_out 2 ''web'' c a) (run_trace mls_dexec demo_packages with_device)) = [''p1''] \<and>
   pool 2 ''web'' (run_requests mls_dexec demo_packages with_device) = [''p2'']"
proof -
  have inv: "delivery_inv with_device" by (simp add: delivery_inv_def with_device_def no_delivery_def)
  have out: "concat (map (\<lambda>(c, a). handed_out 2 ''web'' c a) (run_trace mls_dexec demo_packages with_device)) = [''p1'']"
    "concat (map (\<lambda>(c, a). published 2 ''web'' c) (run_trace mls_dexec demo_packages with_device)) = [''p1'', ''p2'']"
    by (simp_all add: demo_packages_def delivery_call_def mls_dexec_def require_authenticated_device_def
        validate_authenticated_device_def publish_key_package_def consume_key_package_def validate_device_id_def
        validate_blob_def is_ascii_alphanumeric_def MAX_KEY_PACKAGE_def reply_def with_device_def no_delivery_def
        available_def handed_out_def published_def)
  moreover have "pool 2 ''web'' with_device = []" by (simp add: pool_def with_device_def no_delivery_def)
  ultimately show ?thesis using key_packages_handed_out_once [OF inv, of 2 "''web''" demo_packages] by simp
qed

section \<open>The initialization lease\<close>

text \<open>The device that owns a route, at least until \<open>deadline\<close>.\<close>

definition owns_route :: "string \<Rightarrow> i64 \<times> string \<Rightarrow> int \<Rightarrow> delivery_tables \<Rightarrow> bool" where
  "owns_route k who deadline t \<longleftrightarrow>
     (\<exists>r. find_route t k = Some r \<and> ro_initializer r = Some who \<and>
        (ro_initialized r \<or> (\<exists>l. ro_initializer_lease r = Some l \<and> deadline \<le> l)))"

lemma find_update_route:
  assumes "\<And>r. ro_token (f r) = ro_token r"
  shows "find_route (update_route token cond f t) k =
    map_option (\<lambda>r. if ro_token r = token \<and> cond r then f r else r) (find_route t k)"
proof -
  have "List.find (\<lambda>r. ro_token r = k) (map (\<lambda>r. if ro_token r = token \<and> cond r then f r else r) rs) =
      map_option (\<lambda>r. if ro_token r = token \<and> cond r then f r else r) (List.find (\<lambda>r. ro_token r = k) rs)" for rs
    by (induction rs) (auto simp: assms)
  then show ?thesis by (simp add: find_route_def update_route_def)
qed

lemma find_route_token: "find_route t k = Some r \<Longrightarrow> ro_token r = k"
  by (auto simp: find_route_def find_Some_iff)

lemma find_route_append:
  "find_route t k = Some r \<Longrightarrow> find_route (t\<lparr>dl_route := dl_route t @ rs\<rparr>) k = Some r"
proof -
  have "List.find P xs = Some r \<Longrightarrow> List.find P (xs @ rs) = Some r" for P xs
    by (induction xs) (auto split: if_splits)
  then show "find_route t k = Some r \<Longrightarrow> find_route (t\<lparr>dl_route := dl_route t @ rs\<rparr>) k = Some r"
    by (simp add: find_route_def)
qed

lemma mls_dexec_owns:
  assumes "owns_route k who deadline t" "mls_dexec c t = (r, t')"
    and "deadline - 30 \<le> md_now c" "md_now c \<le> deadline"
  shows "owns_route k who deadline t'"
proof -
  obtain row where row: "find_route t k = Some row" "ro_initializer row = Some who"
    "ro_initialized row \<or> (\<exists>l. ro_initializer_lease row = Some l \<and> deadline \<le> l)"
    using assms(1) by (auto simp: owns_route_def)
  note runs = mls_dexec_runs [OF assms(2)]
  show ?thesis
  proof (cases "md_req c")
    case (GroupRoute g f)
    then show ?thesis using runs assms(1) row find_route_append [OF row(1)]
      by (auto simp: owns_route_def dest!: route_cases)
  next
    case (ClaimInitialization k' d)
    let ?w = "(tk_uid (md_token c), d)"
    have "t' = t \<or> t' = update_route k' (may_claim (md_now c) (tk_uid (md_token c)) d)
        (\<lambda>r. r\<lparr>ro_initializer := Some ?w, ro_initializer_lease := Some (md_now c + 30)\<rparr>) t"
      using runs ClaimInitialization by (auto dest!: claim_cases)
    moreover have "may_claim (md_now c) (tk_uid (md_token c)) d row \<Longrightarrow> ?w = who \<and> \<not> ro_initialized row"
      using row assms(4) by (auto simp: may_claim_def)
    ultimately show ?thesis using assms(1,3) row by (auto simp: owns_route_def find_update_route)
  next
    case (MarkInitialized k' d)
    then have "t' = t \<or> t' = update_route k' (\<lambda>r. ro_initializer r = Some (tk_uid (md_token c), d) \<and> \<not> ro_initialized r)
        (\<lambda>r. r\<lparr>ro_initialized := True, ro_initializer_lease := None\<rparr>) t"
      using runs by (auto dest!: mark_cases)
    then show ?thesis using assms(1) row by (auto simp: owns_route_def find_update_route)
  qed (use runs assms(1) in \<open>auto simp: owns_route_def find_route_def dest!: put_credential_cases publish_cases consume_cases\<close>)
qed

lemma run_owns:
  "owns_route k who deadline t \<Longrightarrow> \<forall>c \<in> set cs. deadline - 30 \<le> md_now c \<and> md_now c \<le> deadline \<Longrightarrow>
   owns_route k who deadline (run_requests mls_dexec cs t)"
proof (induction cs arbitrary: t)
  case (Cons c cs)
  then show ?case using mls_dexec_owns [of k who deadline t c] by (cases "mls_dexec c t") simp
qed simp

text \<open>
  C27 One device at a time initializes a group. When a device has been told that it holds the lease of a
  route, then for the next 30 seconds, whatever requests come in between, no other device is told so.
\<close>

theorem one_initializer_at_a_time:
  assumes "claim_initialization ok db t1 uid d k t = (Inr 1, t')"
    and "\<forall>c \<in> set cs. t1 \<le> md_now c \<and> md_now c \<le> t1 + 30"
    and "claim_initialization ok' db' t2 uid' d' k (run_requests mls_dexec cs t') = (Inr n, t'')"
    and "t2 \<le> t1 + 30" "(uid', d') \<noteq> (uid, d)"
  shows "n \<noteq> 1"
proof -
  let ?f = "\<lambda>r. r\<lparr>ro_initializer := Some (uid, d), ro_initializer_lease := Some (t1 + 30)\<rparr>"
  obtain row where row: "t' = update_route k (may_claim t1 uid d) ?f t" "find_route t' k = Some row"
    "\<not> ro_initialized row" "ro_initializer row = Some (uid, d)"
    using claim_cases [OF assms(1)] by (auto split: if_splits)
  obtain r where r: "find_route t k = Some r" "row = (if may_claim t1 uid d r then ?f r else r)"
    using row(1,2) find_route_token by (auto simp: find_update_route)
  have "may_claim t1 uid d r"
    using r(2) row(3,4) by (cases "may_claim t1 uid d r") (auto simp: may_claim_def)
  then have "ro_initializer_lease row = Some (t1 + 30)" using r(2) by simp
  then have "owns_route k (uid, d) (t1 + 30) t'" using row by (auto simp: owns_route_def)
  then have owns: "owns_route k (uid, d) (t1 + 30) (run_requests mls_dexec cs t')"
    using run_owns assms(2) by fastforce
  obtain row' where row': "find_route (run_requests mls_dexec cs t') k = Some row'"
    "ro_initializer row' = Some (uid, d)"
    "ro_initialized row' \<or> (\<exists>l. ro_initializer_lease row' = Some l \<and> t1 + 30 \<le> l)"
    using owns by (auto simp: owns_route_def)
  have "\<not> may_claim t2 uid' d' row'" using row' assms(4,5) by (auto simp: may_claim_def)
  then show ?thesis using claim_cases [OF assms(3)] row' assms(5)
    by (auto simp: find_update_route split: if_splits)
qed

definition with_route :: delivery_tables where
  "with_route = no_delivery\<lparr>dl_route := [\<lparr>ro_token = ''k'', ro_gid = 4, ro_initializer = None,
     ro_initializer_lease = None, ro_initialized = False\<rparr>]\<rparr>"

theorem one_initializer_at_a_time_witness:
  "\<exists>t' n t''. claim_initialization True delivery_db 100 2 ''web'' ''k'' with_route = (Inr 1, t') \<and>
     claim_initialization True delivery_db 130 3 ''web'' ''k'' t' = (Inr n, t'') \<and> n \<noteq> 1 \<and>
     fst (claim_initialization True delivery_db 131 3 ''web'' ''k'' t') = Inr 1"
proof -
  let ?t = "no_delivery\<lparr>dl_route := [\<lparr>ro_token = ''k'', ro_gid = 4, ro_initializer = Some (2, ''web''),
     ro_initializer_lease = Some 130, ro_initialized = False\<rparr>]\<rparr>"
  have run: "claim_initialization True delivery_db 100 2 ''web'' ''k'' with_route = (Inr 1, ?t)"
    "claim_initialization True delivery_db 130 3 ''web'' ''k'' ?t = (Inr 0, ?t)"
    "fst (claim_initialization True delivery_db 131 3 ''web'' ''k'' ?t) = Inr 1"
    by (simp_all add: claim_initialization_def validate_device_id_def is_ascii_alphanumeric_def authorize_route_def
        find_route_def authorize_group_def delivery_db_def with_route_def no_delivery_def update_route_def may_claim_def Let_def)
  then have "(0::nat) \<noteq> 1"
    using one_initializer_at_a_time [of True delivery_db 100 2 "''web''" "''k''" with_route ?t "[]" True delivery_db 130 3 "''web''" 0 ?t]
    by simp
  then show ?thesis using run by blast
qed

end
