(* ===== verification/E2ee_Crypto.thy ===== *)
theory E2ee_Crypto
  imports Prelude
begin

text \<open>
  The cryptographic ground of \<open>crates/voce-e2ee-core\<close>: the primitives of the external crates
  (X25519, Ed25519, HKDF-SHA256, AES-256-GCM, SHA-256, Base64) as a parameter, the record \<open>crypto\<close>,
  with the contract \<open>crypto_contract\<close>; the error type; the key derivations of \<open>kdf.rs\<close>; and the identities,
  signed prekeys and safety numbers of \<open>identity.rs\<close>.

  \<open>[u8; 32]\<close> is a byte string of length 32. Where the code draws a secret from \<open>OsRng\<close>, the definitions
  take the secret drawn as an argument.
\<close>

record crypto =
  x_public :: "bytes \<Rightarrow> bytes"
  x_dh :: "bytes \<Rightarrow> bytes \<Rightarrow> bytes"
  ed_public :: "bytes \<Rightarrow> bytes"
  ed_sign :: "bytes \<Rightarrow> bytes \<Rightarrow> bytes"
  ed_verifying_key :: "bytes \<Rightarrow> string + bytes"
  ed_signature :: "bytes \<Rightarrow> string + bytes"
  ed_verify :: "bytes \<Rightarrow> bytes \<Rightarrow> bytes \<Rightarrow> bool"
  hkdf_expand :: "bytes \<Rightarrow> bytes \<Rightarrow> bytes \<Rightarrow> nat \<Rightarrow> bytes option"
  aes_encrypt :: "bytes \<Rightarrow> bytes \<Rightarrow> bytes \<Rightarrow> bytes \<Rightarrow> bytes option"
  aes_decrypt :: "bytes \<Rightarrow> bytes \<Rightarrow> bytes \<Rightarrow> bytes \<Rightarrow> bytes option"
  sha256 :: "bytes \<Rightarrow> bytes"
  b64_encode :: "bytes \<Rightarrow> string"
  b64_decode :: "string \<Rightarrow> string + bytes"

datatype E2eError =
    UnsupportedVersion nat
  | InvalidEnvelope string
  | InvalidKey string
  | DecryptFailed
  | EncryptFailed
  | Replay u32
  | X3dh string
  | Ratchet string
  | Json string
  | NotImplemented string

text \<open>
  What the code relies on: Diffie-Hellman agreement, opening what was sealed, verification of
  genuine signatures, decoding of what was encoded, and the lengths of the results. HKDF fails only beyond 255
  blocks of 32 bytes.
\<close>

locale crypto_contract =
  fixes C :: crypto
  assumes x_public_length: "length s = 32 \<Longrightarrow> length (x_public C s) = 32"
    and x_dh_length: "length s = 32 \<Longrightarrow> length p = 32 \<Longrightarrow> length (x_dh C s p) = 32"
    and x_dh_agree: "length a = 32 \<Longrightarrow> length b = 32 \<Longrightarrow> x_dh C a (x_public C b) = x_dh C b (x_public C a)"
    and ed_public_length: "length s = 32 \<Longrightarrow> length (ed_public C s) = 32"
    and ed_verifying_key_public: "length s = 32 \<Longrightarrow> ed_verifying_key C (ed_public C s) = Inr (ed_public C s)"
    and ed_signature_sign: "length s = 32 \<Longrightarrow> ed_signature C (ed_sign C s m) = Inr (ed_sign C s m)"
    and ed_verify_sign: "length s = 32 \<Longrightarrow> ed_verify C (ed_public C s) m (ed_sign C s m)"
    and hkdf_expand_ok: "n \<le> 8160 \<Longrightarrow> \<exists>okm. hkdf_expand C ikm salt info n = Some okm \<and> length okm = n"
    and aes_open_seal: "length k = 32 \<Longrightarrow> length nonce = 12 \<Longrightarrow> aes_encrypt C k nonce m aad = Some c \<Longrightarrow>
      aes_decrypt C k nonce c aad = Some m"
    and sha256_length: "length (sha256 C m) = 32"
    and b64_decode_encode: "b64_decode C (b64_encode C m) = Inr m"

section \<open>Arrays and Base64\<close>

definition try_into32 :: "string \<Rightarrow> bytes \<Rightarrow> E2eError + bytes" where
  "try_into32 what bs = (if length bs = 32 then Inr bs else Inl (InvalidKey what))"

definition b64_bytes :: "crypto \<Rightarrow> string \<Rightarrow> E2eError + bytes" where
  "b64_bytes C s = map_sum InvalidKey id (b64_decode C s)"

definition decode_x25519_pub :: "crypto \<Rightarrow> string \<Rightarrow> E2eError + bytes" where
  "decode_x25519_pub C b64 = try_res (b64_bytes C b64) (try_into32 ''x25519 pub len'')"

definition decode_x25519_secret :: "bytes \<Rightarrow> E2eError + bytes" where
  "decode_x25519_secret bs = try_into32 ''x25519 secret len'' bs"

section \<open>Key derivation\<close>

definition hkdf_sha256 :: "crypto \<Rightarrow> bytes \<Rightarrow> bytes \<Rightarrow> bytes \<Rightarrow> nat \<Rightarrow> E2eError + bytes" where
  "hkdf_sha256 C ikm salt info out_len = ok_or (InvalidKey ''hkdf expand'') (hkdf_expand C ikm salt info out_len)"

definition kdf_x3dh :: "crypto \<Rightarrow> bytes \<Rightarrow> E2eError + bytes" where
  "kdf_x3dh C dh_concat = hkdf_sha256 C (replicate 32 (char_of (255::nat)) @ dh_concat) [] ''VoceChat_X3DH_v2'' 32"

definition kdf_rk :: "crypto \<Rightarrow> bytes \<Rightarrow> bytes \<Rightarrow> E2eError + bytes \<times> bytes" where
  "kdf_rk C rk dh_out =
     try_res (hkdf_sha256 C dh_out rk ''VoceChat_DR_Root_v2'' 64) (\<lambda>okm. Inr (take 32 okm, drop 32 okm))"

definition kdf_ck :: "crypto \<Rightarrow> bytes \<Rightarrow> E2eError + bytes \<times> bytes" where
  "kdf_ck C ck =
     try_res (hkdf_sha256 C ck [] ''VoceChat_DR_Chain_v2'' 64) (\<lambda>okm. Inr (take 32 okm, drop 32 okm))"

section \<open>Identities\<close>

record IdentitySecret =
  id_x25519 :: bytes
  id_ed25519 :: bytes

record IdentityPublic =
  identity_dh_pub_b64 :: string
  identity_sig_pub_b64 :: string

record SignedPreKeyPublic =
  sp_key_id :: u32
  sp_dh_pub_b64 :: string
  sp_signature_b64 :: string

record SignedPreKeySecret =
  ss_key_id :: u32
  ss_secret :: bytes

definition identity_public :: "crypto \<Rightarrow> IdentitySecret \<Rightarrow> IdentityPublic" where
  "identity_public C s = \<lparr> identity_dh_pub_b64 = b64_encode C (x_public C (id_x25519 s)),
     identity_sig_pub_b64 = b64_encode C (ed_public C (id_ed25519 s)) \<rparr>"

text \<open>\<open>x\<close> and \<open>ed\<close> are the secrets drawn.\<close>

definition identity_generate :: "crypto \<Rightarrow> bytes \<Rightarrow> bytes \<Rightarrow> IdentitySecret \<times> IdentityPublic" where
  "identity_generate C x ed =
     (\<lparr> id_x25519 = x, id_ed25519 = ed \<rparr>,
      \<lparr> identity_dh_pub_b64 = b64_encode C (x_public C x), identity_sig_pub_b64 = b64_encode C (ed_public C ed) \<rparr>)"

definition generate_signed_prekey ::
    "crypto \<Rightarrow> bytes \<Rightarrow> IdentitySecret \<Rightarrow> u32 \<Rightarrow> SignedPreKeySecret \<times> SignedPreKeyPublic" where
  "generate_signed_prekey C secret s key_id =
     (let public = x_public C secret in
      (\<lparr> ss_key_id = key_id, ss_secret = secret \<rparr>,
       \<lparr> sp_key_id = key_id, sp_dh_pub_b64 = b64_encode C public,
         sp_signature_b64 = b64_encode C (ed_sign C (id_ed25519 s) public) \<rparr>))"

definition verify_signed_prekey :: "crypto \<Rightarrow> IdentityPublic \<Rightarrow> SignedPreKeyPublic \<Rightarrow> E2eError + unit" where
  "verify_signed_prekey C identity spk =
     try_res (b64_bytes C (identity_sig_pub_b64 identity)) (\<lambda>vk_bytes.
     try_res (try_into32 ''sig pub len'' vk_bytes) (\<lambda>vk_array.
     try_res (map_sum InvalidKey id (ed_verifying_key C vk_array)) (\<lambda>vk.
     try_res (b64_bytes C (sp_dh_pub_b64 spk)) (\<lambda>dh.
     try_res (b64_bytes C (sp_signature_b64 spk)) (\<lambda>sig_bytes.
     try_res (map_sum InvalidKey id (ed_signature C sig_bytes)) (\<lambda>sig.
       if ed_verify C vk dh sig then Inr () else Inl (InvalidKey ''signed prekey signature'')))))))"

section \<open>Facts from the contract\<close>

definition message_key :: "crypto \<Rightarrow> bytes \<Rightarrow> bytes" where
  "message_key C ck = fst (projr (kdf_ck C ck))"

definition next_chain :: "crypto \<Rightarrow> bytes \<Rightarrow> bytes" where
  "next_chain C ck = snd (projr (kdf_ck C ck))"

definition next_root :: "crypto \<Rightarrow> bytes \<Rightarrow> bytes \<Rightarrow> bytes \<times> bytes" where
  "next_root C rk dh_out = projr (kdf_rk C rk dh_out)"

context crypto_contract
begin

lemma hkdf_sha256_ok: "n \<le> 8160 \<Longrightarrow> \<exists>okm. hkdf_sha256 C ikm salt info n = Inr okm \<and> length okm = n"
  using hkdf_expand_ok [of n ikm salt info] by (auto simp: hkdf_sha256_def)

lemma split_okm:
  assumes "length okm = 64"
  shows "length (take 32 okm) = 32" "length (drop 32 okm) = 32"
  using assms by simp_all

lemma kdf_ck_ok: "kdf_ck C ck = Inr (message_key C ck, next_chain C ck)"
  and message_key_length: "length (message_key C ck) = 32"
  and next_chain_length: "length (next_chain C ck) = 32"
proof -
  obtain okm where okm: "hkdf_sha256 C ck [] ''VoceChat_DR_Chain_v2'' 64 = Inr okm" "length okm = 64"
    using hkdf_sha256_ok [of 64 ck "[]" "''VoceChat_DR_Chain_v2''"] by force
  have run: "kdf_ck C ck = Inr (take 32 okm, drop 32 okm)"
    by (simp only: kdf_ck_def okm(1) try_res_simps)
  then have parts: "message_key C ck = take 32 okm" "next_chain C ck = drop 32 okm"
    by (simp_all only: message_key_def next_chain_def sum.sel fst_conv snd_conv)
  show "kdf_ck C ck = Inr (message_key C ck, next_chain C ck)" unfolding parts by (rule run)
  show "length (message_key C ck) = 32" "length (next_chain C ck) = 32"
    unfolding parts by (rule split_okm [OF okm(2)])+
qed

lemma kdf_rk_ok: "kdf_rk C rk d = Inr (next_root C rk d)"
  and next_root_length: "length (fst (next_root C rk d)) = 32" "length (snd (next_root C rk d)) = 32"
proof -
  obtain okm where okm: "hkdf_sha256 C d rk ''VoceChat_DR_Root_v2'' 64 = Inr okm" "length okm = 64"
    using hkdf_sha256_ok [of 64 d rk "''VoceChat_DR_Root_v2''"] by force
  have run: "kdf_rk C rk d = Inr (take 32 okm, drop 32 okm)"
    by (simp only: kdf_rk_def okm(1) try_res_simps)
  then have parts: "next_root C rk d = (take 32 okm, drop 32 okm)"
    by (simp only: next_root_def sum.sel)
  show "kdf_rk C rk d = Inr (next_root C rk d)" unfolding parts by (rule run)
  show "length (fst (next_root C rk d)) = 32" "length (snd (next_root C rk d)) = 32"
    unfolding parts fst_conv snd_conv by (rule split_okm [OF okm(2)])+
qed

lemma kdf_x3dh_ok: "\<exists>sk. kdf_x3dh C d = Inr sk \<and> length sk = 32"
  unfolding kdf_x3dh_def by (rule hkdf_sha256_ok) simp

lemma b64_bytes_encode: "b64_bytes C (b64_encode C m) = Inr m"
  by (simp add: b64_bytes_def b64_decode_encode)

lemma decode_encode_pub: "length m = 32 \<Longrightarrow> decode_x25519_pub C (b64_encode C m) = Inr m"
  by (simp add: decode_x25519_pub_def b64_bytes_encode try_into32_def)

lemma b64_encode_inject: "b64_encode C m = b64_encode C m' \<longleftrightarrow> m = m'"
  by (metis b64_bytes_encode sum.inject(2))

lemma generated_prekey_verifies:
  assumes "length (id_ed25519 s) = 32"
  shows "verify_signed_prekey C (identity_public C s) (snd (generate_signed_prekey C secret s i)) = Inr ()"
  using assms
  by (simp add: verify_signed_prekey_def identity_public_def generate_signed_prekey_def Let_def b64_bytes_encode
      try_into32_def ed_public_length ed_verifying_key_public ed_signature_sign ed_verify_sign)

end

section \<open>Concrete primitives\<close>

text \<open>
  Primitives simple enough to compute with that satisfy the contract; they hide nothing and serve only to run
  examples. Sealing prefixes the text with key, nonce and associated data, so a changed ciphertext does not open.
\<close>

definition bump :: "bytes \<Rightarrow> bytes" where
  "bump bs = map (\<lambda>c. char_of (of_char c + 1 :: nat)) bs"

definition demo_crypto :: crypto where
  "demo_crypto =
     \<lparr> x_public = (\<lambda>s. s),
       x_dh = (\<lambda>a b. map2 (\<lambda>c d. char_of (of_char c + of_char d :: nat)) a b),
       ed_public = (\<lambda>s. s),
       ed_sign = (\<lambda>s m. s @ m),
       ed_verifying_key = Inr,
       ed_signature = Inr,
       ed_verify = (\<lambda>k m sig. sig = k @ m),
       hkdf_expand = (\<lambda>ikm salt info n.
         if n \<le> 8160 then Some (take n (rev ikm @ bump (rev ikm) @ salt @ info @ replicate n (char_of (0::nat)))) else None),
       aes_encrypt = (\<lambda>k nonce m aad. Some (k @ nonce @ aad @ m)),
       aes_decrypt = (\<lambda>k nonce c aad. let p = k @ nonce @ aad in
         if take (length p) c = p then Some (drop (length p) c) else None),
       sha256 = (\<lambda>m. take 32 (m @ replicate 32 (char_of (0::nat)))),
       b64_encode = (\<lambda>m. m),
       b64_decode = Inr \<rparr>"

lemma demo_dh_comm: "x_dh demo_crypto a b = x_dh demo_crypto b a"
  by (rule nth_equalityI) (simp_all add: demo_crypto_def add.commute)

interpretation demo: crypto_contract demo_crypto
proof unfold_locales
  show "x_dh demo_crypto a (x_public demo_crypto b) = x_dh demo_crypto b (x_public demo_crypto a)" for a b
    using demo_dh_comm [of a b] by (simp add: demo_crypto_def)
qed (auto simp: demo_crypto_def Let_def)

end
