(* ===== verification/Ratchet.thy ===== *)
theory Ratchet
  imports E2ee_Crypto
begin

text \<open>
  The Double Ratchet session of \<open>crates/voce-e2ee-core/src/ratchet.rs\<close>: its state, the start of a session on
  either side, encryption, and decryption with skipped message keys. \<open>&mut self\<close> is a state passed and
  returned; \<open>fresh\<close> is the secret that \<open>StaticSecret::random_from_rng\<close> draws. Counters are \<open>u32\<close>.
\<close>

definition MAX_SKIP :: u32 where
  "MAX_SKIP = 100"

record RatchetHeader =
  rh_dh_pub_b64 :: string
  rh_pn :: u32
  rh_n :: u32

record RatchetState =
  rs_dhs :: bytes
  rs_dhr :: "bytes option"
  rs_rk :: bytes
  rs_cks :: "bytes option"
  rs_ckr :: "bytes option"
  rs_ns :: u32
  rs_nr :: u32
  rs_pn :: u32
  rs_mkskipped :: "(string \<times> u32, bytes) fmap"

definition u32_wrapping_succ :: "u32 \<Rightarrow> u32" where
  "u32_wrapping_succ n = (n + 1) mod 4294967296"

definition u32_saturating_add :: "u32 \<Rightarrow> u32 \<Rightarrow> u32" where
  "u32_saturating_add m n = min (m + n) 4294967295"

section \<open>Start of a session\<close>

definition init_alice :: "crypto \<Rightarrow> bytes \<Rightarrow> bytes \<Rightarrow> bytes \<Rightarrow> E2eError + RatchetState" where
  "init_alice C fresh sk bob_dh_pub =
     (let dhs = fresh; dh_out = x_dh C dhs bob_dh_pub in
      try_res (kdf_rk C sk dh_out) (\<lambda>(rk, cks).
        Inr \<lparr> rs_dhs = dhs, rs_dhr = Some bob_dh_pub, rs_rk = rk, rs_cks = Some cks, rs_ckr = None,
              rs_ns = 0, rs_nr = 0, rs_pn = 0, rs_mkskipped = fmempty \<rparr>))"

definition init_bob :: "bytes \<Rightarrow> bytes \<Rightarrow> RatchetState" where
  "init_bob sk bob_spk_secret =
     \<lparr> rs_dhs = bob_spk_secret, rs_dhr = None, rs_rk = sk, rs_cks = None, rs_ckr = None,
       rs_ns = 0, rs_nr = 0, rs_pn = 0, rs_mkskipped = fmempty \<rparr>"

section \<open>Sealing\<close>

definition associated_data :: "RatchetHeader \<Rightarrow> bytes" where
  "associated_data header =
     ''v2|'' @ rh_dh_pub_b64 header @ ''|'' @ decimal (rh_pn header) @ ''|'' @ decimal (rh_n header)"

text \<open>\<open>Aes256Gcm::new_from_slice\<close> fails on a key that is not 32 bytes.\<close>

definition seal_aes_gcm :: "crypto \<Rightarrow> bytes \<Rightarrow> bytes \<Rightarrow> RatchetHeader \<Rightarrow> E2eError + bytes" where
  "seal_aes_gcm C mk plaintext header =
     (if length mk \<noteq> 32 then Inl (InvalidKey ''aes'')
      else try_res (hkdf_sha256 C mk [] ''VoceChat_DR_Nonce_v2'' 12) (\<lambda>nonce.
        ok_or DecryptFailed (aes_encrypt C mk nonce plaintext (associated_data header))))"

definition open_aes_gcm :: "crypto \<Rightarrow> bytes \<Rightarrow> bytes \<Rightarrow> RatchetHeader \<Rightarrow> E2eError + bytes" where
  "open_aes_gcm C mk ciphertext header =
     (if length mk \<noteq> 32 then Inl (InvalidKey ''aes'')
      else try_res (hkdf_sha256 C mk [] ''VoceChat_DR_Nonce_v2'' 12) (\<lambda>nonce.
        ok_or DecryptFailed (aes_decrypt C mk nonce ciphertext (associated_data header))))"

section \<open>Encryption\<close>

definition ratchet_encrypt ::
    "crypto \<Rightarrow> bytes \<Rightarrow> RatchetState \<Rightarrow> (E2eError + RatchetHeader \<times> bytes) \<times> RatchetState" where
  "ratchet_encrypt C plaintext st =
     (case rs_cks st of
        None \<Rightarrow> (Inl (Ratchet ''sending chain missing''), st)
      | Some cks \<Rightarrow>
          (case kdf_ck C cks of
             Inl e \<Rightarrow> (Inl e, st)
           | Inr (mk, nxt) \<Rightarrow>
               let header = \<lparr> rh_dh_pub_b64 = b64_encode C (x_public C (rs_dhs st)), rh_pn = rs_pn st, rh_n = rs_ns st \<rparr>;
                   st' = st\<lparr>rs_cks := Some nxt, rs_ns := u32_wrapping_succ (rs_ns st)\<rparr>
               in (try_res (seal_aes_gcm C mk plaintext header) (\<lambda>ct. Inr (header, ct)), st')))"

section \<open>Decryption\<close>

definition try_skipped ::
    "crypto \<Rightarrow> RatchetHeader \<Rightarrow> bytes \<Rightarrow> RatchetState \<Rightarrow> (E2eError + bytes option) \<times> RatchetState" where
  "try_skipped C header ciphertext st =
     (let key = (rh_dh_pub_b64 header, rh_n header) in
      case fmlookup (rs_mkskipped st) key of
        Some mk \<Rightarrow>
          (map_sum id Some (open_aes_gcm C mk ciphertext header),
           st\<lparr>rs_mkskipped := fmdrop key (rs_mkskipped st)\<rparr>)
      | None \<Rightarrow> (Inr None, st))"

text \<open>The loop of \<open>skip_message_keys\<close>; \<open>ckr\<close> is the unwrapped receiving chain.\<close>

function skip_loop :: "crypto \<Rightarrow> u32 \<Rightarrow> bytes \<Rightarrow> RatchetState \<Rightarrow> (E2eError + unit) \<times> RatchetState" where
  "skip_loop C until ckr st =
     (if rs_nr st < until then
        (case kdf_ck C ckr of
           Inl e \<Rightarrow> (Inl e, st)
         | Inr (mk, nxt) \<Rightarrow>
             (case rs_dhr st of
                None \<Rightarrow> (Inl (Ratchet ''dhr missing while skipping''), st\<lparr>rs_ckr := Some nxt\<rparr>)
              | Some dhr \<Rightarrow>
                  skip_loop C until nxt
                    (st\<lparr>rs_ckr := Some nxt,
                        rs_mkskipped := fmupd (b64_encode C dhr, rs_nr st) mk (rs_mkskipped st),
                        rs_nr := rs_nr st + 1\<rparr>)))
      else (Inr (), st))"
  by pat_completeness auto
termination by (relation "measure (\<lambda>(C, until, ckr, st). until - rs_nr st)") auto

declare skip_loop.simps [simp del]

definition skip_message_keys :: "crypto \<Rightarrow> u32 \<Rightarrow> RatchetState \<Rightarrow> (E2eError + unit) \<times> RatchetState" where
  "skip_message_keys C until st =
     (if u32_saturating_add (rs_nr st) MAX_SKIP < until then (Inl (Ratchet ''too many skipped keys''), st)
      else (case rs_ckr st of None \<Rightarrow> (Inr (), st) | Some ckr \<Rightarrow> skip_loop C until ckr st))"

definition dh_ratchet :: "crypto \<Rightarrow> bytes \<Rightarrow> bytes \<Rightarrow> RatchetState \<Rightarrow> (E2eError + unit) \<times> RatchetState" where
  "dh_ratchet C fresh remote st =
     (let st1 = st\<lparr>rs_pn := rs_ns st, rs_ns := 0, rs_nr := 0, rs_dhr := Some remote\<rparr> in
      case kdf_rk C (rs_rk st1) (x_dh C (rs_dhs st1) remote) of
        Inl e \<Rightarrow> (Inl e, st1)
      | Inr (rk, ckr) \<Rightarrow>
          let st2 = st1\<lparr>rs_rk := rk, rs_ckr := Some ckr, rs_dhs := fresh\<rparr> in
          (case kdf_rk C rk (x_dh C fresh remote) of
             Inl e \<Rightarrow> (Inl e, st2)
           | Inr (rk2, cks) \<Rightarrow> (Inr (), st2\<lparr>rs_rk := rk2, rs_cks := Some cks\<rparr>)))"

definition receive_next ::
    "crypto \<Rightarrow> RatchetHeader \<Rightarrow> bytes \<Rightarrow> RatchetState \<Rightarrow> (E2eError + bytes) \<times> RatchetState" where
  "receive_next C header ciphertext st =
     (case rs_ckr st of
        None \<Rightarrow> (Inl (Ratchet ''recv chain missing''), st)
      | Some ckr \<Rightarrow>
          (case kdf_ck C ckr of
             Inl e \<Rightarrow> (Inl e, st)
           | Inr (mk, nxt) \<Rightarrow>
               (open_aes_gcm C mk ciphertext header,
                st\<lparr>rs_ckr := Some nxt, rs_nr := u32_wrapping_succ (rs_nr st)\<rparr>)))"

definition decrypt_staged ::
    "crypto \<Rightarrow> bytes \<Rightarrow> RatchetHeader \<Rightarrow> bytes \<Rightarrow> RatchetState \<Rightarrow> (E2eError + bytes) \<times> RatchetState" where
  "decrypt_staged C fresh header ciphertext st =
     and_then (try_skipped C header ciphertext st) (\<lambda>found st.
       case found of
         Some pt \<Rightarrow> (Inr pt, st)
       | None \<Rightarrow>
           (case decode_x25519_pub C (rh_dh_pub_b64 header) of
              Inl e \<Rightarrow> (Inl e, st)
            | Inr dhr \<Rightarrow>
                and_then
                  (if rs_dhr st \<noteq> Some dhr
                   then and_then (skip_message_keys C (rh_pn header) st) (\<lambda>u. dh_ratchet C fresh dhr)
                   else (Inr (), st)) (\<lambda>u st.
                and_then (skip_message_keys C (rh_n header) st) (\<lambda>u.
                receive_next C header ciphertext))))"

text \<open>The staged copy replaces the session only when the message was opened.\<close>

definition ratchet_decrypt ::
    "crypto \<Rightarrow> bytes \<Rightarrow> RatchetHeader \<Rightarrow> bytes \<Rightarrow> RatchetState \<Rightarrow> (E2eError + bytes) \<times> RatchetState" where
  "ratchet_decrypt C fresh header ciphertext st =
     (case decrypt_staged C fresh header ciphertext st of
        (Inl e, staged) \<Rightarrow> (Inl e, st)
      | (Inr plaintext, staged) \<Rightarrow> (Inr plaintext, staged))"

end
