(* ===== verification/Ratchet_Epochs.thy ===== *)
theory Ratchet_Epochs
  imports Ratchet
begin

text \<open>
  A conversation seen from outside: its epochs. Epoch 0 is the signed prekey of the responder, the initiator sends in the odd
  epochs and the responder in the other even ones; \<open>K e\<close> is the secret of epoch \<open>e\<close>. \<open>session_at\<close> says that a
  session is the one of the party whose current sending epoch is \<open>s\<close>; the operations of a session keep it, and
  a message that is \<open>available\<close> within the skip window is decrypted.
\<close>

fun root_chain :: "crypto \<Rightarrow> bytes \<Rightarrow> (nat \<Rightarrow> bytes) \<Rightarrow> nat \<Rightarrow> bytes \<times> bytes" where
  "root_chain C sk K 0 = (sk, [])"
| "root_chain C sk K (Suc e) =
     next_root C (fst (root_chain C sk K e)) (x_dh C (K (Suc e)) (x_public C (K e)))"

definition chain_key :: "crypto \<Rightarrow> bytes \<Rightarrow> (nat \<Rightarrow> bytes) \<Rightarrow> nat \<Rightarrow> nat \<Rightarrow> bytes" where
  "chain_key C sk K e n = (next_chain C ^^ n) (snd (root_chain C sk K e))"

definition epoch_key :: "crypto \<Rightarrow> bytes \<Rightarrow> (nat \<Rightarrow> bytes) \<Rightarrow> nat \<Rightarrow> nat \<Rightarrow> bytes" where
  "epoch_key C sk K e n = message_key C (chain_key C sk K e n)"

lemma root_chain_cong: "(\<And>i. i \<le> e \<Longrightarrow> K i = K' i) \<Longrightarrow> root_chain C sk K e = root_chain C sk K' e"
  by (induction e) simp_all

lemma epoch_cong:
  assumes "\<And>i. i \<le> e \<Longrightarrow> K i = K' i"
  shows "chain_key C sk K e n = chain_key C sk K' e n" "epoch_key C sk K e n = epoch_key C sk K' e n"
  using root_chain_cong [OF assms, of e] by (simp_all add: chain_key_def epoch_key_def)

lemma chain_key_Suc: "next_chain C (chain_key C sk K e n) = chain_key C sk K e (Suc n)"
  by (simp add: chain_key_def)

lemma chain_key_add: "(next_chain C ^^ k) (chain_key C sk K e n) = chain_key C sk K e (n + k)"
  by (simp add: chain_key_def funpow_add add.commute [of n])

abbreviation epoch_pub :: "crypto \<Rightarrow> (nat \<Rightarrow> bytes) \<Rightarrow> nat \<Rightarrow> string" where
  "epoch_pub C K e \<equiv> b64_encode C (x_public C (K e))"

definition skipped_keys ::
    "crypto \<Rightarrow> bytes \<Rightarrow> (nat \<Rightarrow> bytes) \<Rightarrow> nat \<Rightarrow> (string \<times> u32, bytes) fmap \<Rightarrow> bool" where
  "skipped_keys C sk K s m \<longleftrightarrow>
     (\<forall>dh n mk. fmlookup m (dh, n) = Some mk \<longrightarrow>
        (\<exists>e. 1 \<le> e \<and> e < s \<and> dh = epoch_pub C K e \<and> mk = epoch_key C sk K e n))"

lemma skipped_keys_mono: "skipped_keys C sk K s m \<Longrightarrow> s \<le> s' \<Longrightarrow> skipped_keys C sk K s' m"
  unfolding skipped_keys_def by (meson order_less_le_trans)

definition session_at ::
    "crypto \<Rightarrow> bytes \<Rightarrow> (nat \<Rightarrow> bytes) \<Rightarrow> (nat \<Rightarrow> nat) \<Rightarrow> nat \<Rightarrow> RatchetState \<Rightarrow> bool" where
  "session_at C sk K sent s st \<longleftrightarrow>
     rs_dhs st = K s \<and>
     rs_dhr st = (if s = 0 then None else Some (x_public C (K (s - 1)))) \<and>
     rs_rk st = fst (root_chain C sk K s) \<and>
     rs_cks st = (if s = 0 then None else Some (chain_key C sk K s (rs_ns st))) \<and>
     rs_ckr st = (if s \<le> 1 then None else Some (chain_key C sk K (s - 1) (rs_nr st))) \<and>
     (s \<le> 1 \<longrightarrow> rs_nr st = 0) \<and>
     rs_ns st = sent s \<and> rs_pn st = (if s < 2 then 0 else sent (s - 2)) \<and>
     skipped_keys C sk K s (rs_mkskipped st)"

definition available ::
    "crypto \<Rightarrow> (nat \<Rightarrow> bytes) \<Rightarrow> nat \<Rightarrow> RatchetState \<Rightarrow> nat \<Rightarrow> nat \<Rightarrow> bool" where
  "available C K s st e n \<longleftrightarrow>
     fmlookup (rs_mkskipped st) (epoch_pub C K e, n) \<noteq> None \<or>
     2 \<le> s \<and> e = s - 1 \<and> rs_nr st \<le> n \<or> e = s + 1"

lemma session_at_cong:
  assumes "session_at C sk K sent s st" "\<And>i. i \<le> s \<Longrightarrow> K i = K' i" "\<And>i. i \<le> s \<Longrightarrow> sent i = sent' i"
  shows "session_at C sk K' sent' s st"
proof -
  have root: "root_chain C sk K e = root_chain C sk K' e" if "e \<le> s" for e
    using assms(2) that by (intro root_chain_cong) simp
  have "skipped_keys C sk K' s (rs_mkskipped st)"
    unfolding skipped_keys_def
  proof (intro allI impI)
    fix dh n mk
    assume "fmlookup (rs_mkskipped st) (dh, n) = Some mk"
    then obtain e where "1 \<le> e" "e < s" "dh = epoch_pub C K e" "mk = epoch_key C sk K e n"
      using assms(1) unfolding session_at_def skipped_keys_def by blast
    then show "\<exists>e. 1 \<le> e \<and> e < s \<and> dh = epoch_pub C K' e \<and> mk = epoch_key C sk K' e n"
      using assms(2) [of e] root [of e] by (auto simp: epoch_key_def chain_key_def)
  qed
  moreover have "root_chain C sk K s = root_chain C sk K' s" "root_chain C sk K (s - 1) = root_chain C sk K' (s - 1)"
    by (rule root; simp)+
  ultimately show ?thesis using assms unfolding session_at_def by (auto simp: chain_key_def)
qed

definition in_window :: "crypto \<Rightarrow> RatchetHeader \<Rightarrow> RatchetState \<Rightarrow> bool" where
  "in_window C header st \<longleftrightarrow>
     fmlookup (rs_mkskipped st) (rh_dh_pub_b64 header, rh_n header) \<noteq> None \<or>
     (if map_option (b64_encode C) (rs_dhr st) = Some (rh_dh_pub_b64 header) then rh_n header \<le> rs_nr st + MAX_SKIP
      else rh_pn header \<le> rs_nr st + MAX_SKIP \<and> rh_n header \<le> MAX_SKIP)"

definition epoch_header :: "crypto \<Rightarrow> (nat \<Rightarrow> bytes) \<Rightarrow> (nat \<Rightarrow> nat) \<Rightarrow> nat \<Rightarrow> nat \<Rightarrow> RatchetHeader" where
  "epoch_header C K sent e n =
     \<lparr> rh_dh_pub_b64 = epoch_pub C K e, rh_pn = (if e < 2 then 0 else sent (e - 2)), rh_n = n \<rparr>"

lemma epoch_header_sel [simp]:
  "rh_dh_pub_b64 (epoch_header C K sent e n) = epoch_pub C K e"
  "rh_n (epoch_header C K sent e n) = n"
  by (simp_all add: epoch_header_def)

context crypto_contract
begin

lemma seal_open:
  assumes "seal_aes_gcm C mk text header = Inr ct"
  shows "open_aes_gcm C mk ct header = Inr text"
proof -
  obtain nonce where nonce: "hkdf_sha256 C mk [] ''VoceChat_DR_Nonce_v2'' 12 = Inr nonce" "length nonce = 12"
    using hkdf_sha256_ok [of 12 mk "[]" "''VoceChat_DR_Nonce_v2''"] by force
  have mk: "length mk = 32" using assms by (simp add: seal_aes_gcm_def split: if_splits)
  then have "aes_encrypt C mk nonce text (associated_data header) = Some ct"
    using assms nonce by (simp add: seal_aes_gcm_def)
  then show ?thesis using aes_open_seal [OF mk nonce(2)] mk nonce(1) by (simp add: open_aes_gcm_def)
qed

lemma encrypt_at:
  assumes at: "session_at C sk K sent s st" and "sent s + 1 < 2 ^ 32"
    and run: "ratchet_encrypt C text st = (Inr (header, ct), st')"
  shows "1 \<le> s" "header = \<lparr> rh_dh_pub_b64 = epoch_pub C K s, rh_pn = (if s < 2 then 0 else sent (s - 2)), rh_n = sent s \<rparr>"
    "seal_aes_gcm C (epoch_key C sk K s (sent s)) text header = Inr ct"
    "session_at C sk K (sent(s := sent s + 1)) s st'"
    "rs_nr st' = rs_nr st" "rs_mkskipped st' = rs_mkskipped st"
proof -
  show s: "1 \<le> s" using at run by (cases s) (simp_all add: session_at_def ratchet_encrypt_def)
  then have cks: "rs_cks st = Some (chain_key C sk K s (sent s))" "rs_dhs st = K s" "rs_ns st = sent s"
    "rs_pn st = (if s < 2 then 0 else sent (s - 2))"
    using at by (simp_all add: session_at_def)
  have parts: "header = \<lparr> rh_dh_pub_b64 = epoch_pub C K s, rh_pn = (if s < 2 then 0 else sent (s - 2)), rh_n = sent s \<rparr> \<and>
      seal_aes_gcm C (epoch_key C sk K s (sent s)) text header = Inr ct \<and>
      st' = st\<lparr>rs_cks := Some (chain_key C sk K s (sent s + 1)), rs_ns := sent s + 1\<rparr>"
    using run cks kdf_ck_ok [of "chain_key C sk K s (sent s)"] assms(2)
    by (auto simp: ratchet_encrypt_def Let_def try_res_Inr_iff u32_wrapping_succ_def epoch_key_def chain_key_Suc)
  then show "header = \<lparr> rh_dh_pub_b64 = epoch_pub C K s, rh_pn = (if s < 2 then 0 else sent (s - 2)), rh_n = sent s \<rparr>"
    "seal_aes_gcm C (epoch_key C sk K s (sent s)) text header = Inr ct"
    "rs_nr st' = rs_nr st" "rs_mkskipped st' = rs_mkskipped st"
    by auto
  show "session_at C sk K (sent(s := sent s + 1)) s st'"
    using at s conjunct2 [OF conjunct2 [OF parts]] unfolding session_at_def by auto
qed

text \<open>Skipping stores the keys of the skipped messages.\<close>

lemma skip_loop_stores:
  assumes "rs_dhr st = Some p" "rs_ckr st = Some ckr"
  shows "\<exists>skipped. skip_loop C until ckr st =
      (Inr (), st\<lparr>rs_ckr := Some ((next_chain C ^^ (until - rs_nr st)) ckr), rs_nr := max (rs_nr st) until,
                 rs_mkskipped := skipped\<rparr>) \<and>
    (\<forall>dh n. fmlookup skipped (dh, n) =
       (if dh = b64_encode C p \<and> rs_nr st \<le> n \<and> n < until
        then Some (message_key C ((next_chain C ^^ (n - rs_nr st)) ckr)) else fmlookup (rs_mkskipped st) (dh, n)))"
  using assms
proof (induction "until - rs_nr st" arbitrary: st ckr)
  case 0
  then have "\<not> rs_nr st < until" by simp
  then show ?case using 0 by (intro exI [of _ "rs_mkskipped st"]) (auto simp: skip_loop.simps [of _ _ _ st] max_def)
next
  case (Suc k)
  then have less: "rs_nr st < until" by simp
  let ?mk = "message_key C ckr" and ?nxt = "next_chain C ckr"
  let ?st = "st\<lparr>rs_ckr := Some ?nxt, rs_mkskipped := fmupd (b64_encode C p, rs_nr st) ?mk (rs_mkskipped st),
    rs_nr := rs_nr st + 1\<rparr>"
  have step: "skip_loop C until ckr st = skip_loop C until ?nxt ?st"
    by (subst skip_loop.simps) (simp add: less kdf_ck_ok Suc.prems)
  have "k = until - rs_nr ?st" "rs_dhr ?st = Some p" "rs_ckr ?st = Some ?nxt" using Suc by simp_all
  from Suc.hyps(1) [OF this] obtain skipped where IH:
    "skip_loop C until ?nxt ?st = (Inr (), ?st\<lparr>rs_ckr := Some ((next_chain C ^^ (until - rs_nr ?st)) ?nxt),
       rs_nr := max (rs_nr ?st) until, rs_mkskipped := skipped\<rparr>)"
    "\<And>dh n. fmlookup skipped (dh, n) =
       (if dh = b64_encode C p \<and> rs_nr ?st \<le> n \<and> n < until
        then Some (message_key C ((next_chain C ^^ (n - rs_nr ?st)) ?nxt)) else fmlookup (rs_mkskipped ?st) (dh, n))"
    by blast
  have pow: "(next_chain C ^^ (m - Suc (rs_nr st))) ?nxt = (next_chain C ^^ (m - rs_nr st)) ckr"
    if "rs_nr st < m" for m
  proof -
    note prem = that
    obtain d where "m = Suc (rs_nr st) + d" using le_Suc_ex [OF Suc_leI [OF prem]] by blast
    then have "m - Suc (rs_nr st) = d" "m - rs_nr st = Suc d" by simp_all
    then show ?thesis by (simp only: funpow_Suc_right comp_apply)
  qed
  show ?case
  proof (intro exI [of _ skipped] conjI allI)
    show "skip_loop C until ckr st = (Inr (), st\<lparr>rs_ckr := Some ((next_chain C ^^ (until - rs_nr st)) ckr),
        rs_nr := max (rs_nr st) until, rs_mkskipped := skipped\<rparr>)"
      unfolding step IH(1) using less pow [OF less] by simp
    fix dh n
    show "fmlookup skipped (dh, n) = (if dh = b64_encode C p \<and> rs_nr st \<le> n \<and> n < until
        then Some (message_key C ((next_chain C ^^ (n - rs_nr st)) ckr)) else fmlookup (rs_mkskipped st) (dh, n))"
    proof (cases "n = rs_nr st")
      case True
      then show ?thesis using less by (simp add: IH(2))
    next
      case False
      then have "rs_nr st + 1 \<le> n \<longleftrightarrow> rs_nr st \<le> n" "rs_nr st \<le> n \<Longrightarrow> rs_nr st < n" by auto
      then show ?thesis using False by (simp add: IH(2) pow)
    qed
  qed
qed

lemma skip_at:
  assumes at: "session_at C sk K sent s st" and window: "until \<le> rs_nr st + 100" "until < 2 ^ 32"
  obtains st' where "skip_message_keys C until st = (Inr (), st')" "session_at C sk K sent s st'"
    "rs_nr st' = (if s \<le> 1 then 0 else max (rs_nr st) until)"
    "\<And>key. fmlookup (rs_mkskipped st) key \<noteq> None \<Longrightarrow> fmlookup (rs_mkskipped st') key \<noteq> None"
    "\<And>n. 2 \<le> s \<Longrightarrow> rs_nr st \<le> n \<Longrightarrow> n < until \<Longrightarrow> fmlookup (rs_mkskipped st') (epoch_pub C K (s - 1), n) \<noteq> None"
proof -
  have ok: "\<not> u32_saturating_add (rs_nr st) MAX_SKIP < until"
    using window by (simp add: u32_saturating_add_def MAX_SKIP_def)
  show thesis
  proof (cases "s \<le> 1")
    case True
    then have "rs_ckr st = None" "rs_nr st = 0" using at by (simp_all add: session_at_def)
    then show thesis using True at ok by (intro that [of st]) (simp_all add: skip_message_keys_def)
  next
    case False
    let ?ckr = "chain_key C sk K (s - 1) (rs_nr st)"
    have st: "rs_dhr st = Some (x_public C (K (s - 1)))" "rs_ckr st = Some ?ckr"
      using at False by (simp_all add: session_at_def)
    from skip_loop_stores [OF this, of until] obtain skipped where loop:
      "skip_loop C until ?ckr st = (Inr (), st\<lparr>rs_ckr := Some ((next_chain C ^^ (until - rs_nr st)) ?ckr),
         rs_nr := max (rs_nr st) until, rs_mkskipped := skipped\<rparr>)"
      "\<And>dh n. fmlookup skipped (dh, n) =
         (if dh = epoch_pub C K (s - 1) \<and> rs_nr st \<le> n \<and> n < until
          then Some (message_key C ((next_chain C ^^ (n - rs_nr st)) ?ckr)) else fmlookup (rs_mkskipped st) (dh, n))"
      by blast
    let ?st = "st\<lparr>rs_ckr := Some ((next_chain C ^^ (until - rs_nr st)) ?ckr), rs_nr := max (rs_nr st) until,
      rs_mkskipped := skipped\<rparr>"
    have stored: "\<exists>e. 1 \<le> e \<and> e < s \<and> dh = epoch_pub C K e \<and> mk = epoch_key C sk K e n"
      if "fmlookup skipped (dh, n) = Some mk" for dh n mk
    proof (cases "dh = epoch_pub C K (s - 1) \<and> rs_nr st \<le> n \<and> n < until")
      case True
      then have "mk = epoch_key C sk K (s - 1) n"
        using that by (simp add: loop(2) epoch_key_def chain_key_add)
      then show ?thesis using True False by (intro exI [of _ "s - 1"]) auto
    next
      case old: False
      then have "fmlookup (rs_mkskipped st) (dh, n) = Some mk" using that unfolding loop(2) by (simp split: if_splits)
      then show ?thesis using at unfolding session_at_def skipped_keys_def by blast
    qed
    have skipped: "skipped_keys C sk K s skipped" unfolding skipped_keys_def using stored by blast
    have next_key: "(next_chain C ^^ (until - rs_nr st)) ?ckr = chain_key C sk K (s - 1) (max (rs_nr st) until)"
      by (simp add: chain_key_add max_def)
    have "session_at C sk K sent s ?st"
      using at False skipped unfolding session_at_def by (simp add: next_key [unfolded One_nat_def])
    moreover have "fmlookup skipped key \<noteq> None" if "fmlookup (rs_mkskipped st) key \<noteq> None" for key
      using that by (cases key) (simp add: loop(2))
    ultimately show thesis using False ok st loop by (intro that [of ?st]) (simp_all add: skip_message_keys_def)
  qed
qed

lemma skip_new:
  assumes at: "session_at C sk K sent (s + 2) st" and "rs_nr st = 0" "n \<le> 100"
  obtains st' where "skip_message_keys C n st = (Inr (), st')" "session_at C sk K sent (s + 2) st'" "rs_nr st' = n"
    "\<And>key. fmlookup (rs_mkskipped st) key \<noteq> None \<Longrightarrow> fmlookup (rs_mkskipped st') key \<noteq> None"
    "\<And>i. i < n \<Longrightarrow> fmlookup (rs_mkskipped st') (epoch_pub C K (s + 1), i) \<noteq> None"
proof (rule skip_at [OF at, of n])
  show "n \<le> rs_nr st + 100" "n < 2 ^ 32" using assms by simp_all
  fix st'
  assume run: "skip_message_keys C n st = (Inr (), st')" "session_at C sk K sent (s + 2) st'"
    and nr: "rs_nr st' = (if s + 2 \<le> 1 then 0 else max (rs_nr st) n)"
    and keep: "\<And>key. fmlookup (rs_mkskipped st) key \<noteq> None \<Longrightarrow> fmlookup (rs_mkskipped st') key \<noteq> None"
    and store: "\<And>i. 2 \<le> s + 2 \<Longrightarrow> rs_nr st \<le> i \<Longrightarrow> i < n \<Longrightarrow>
      fmlookup (rs_mkskipped st') (epoch_pub C K (s + 2 - 1), i) \<noteq> None"
  have "rs_nr st' = n" using nr assms(2) by simp
  moreover have "fmlookup (rs_mkskipped st') (epoch_pub C K (s + 1), i) \<noteq> None" if "i < n" for i
    using store [of i] assms(2) that by simp
  ultimately show thesis using run keep that by blast
qed

lemma ratchet_at:
  assumes at: "session_at C sk K sent s st" and "length (K s) = 32" "length (K (s + 1)) = 32" "sent (s + 2) = 0"
  obtains st' where "dh_ratchet C (K (s + 2)) (x_public C (K (s + 1))) st = (Inr (), st')"
    "session_at C sk K sent (s + 2) st'" "rs_nr st' = 0" "rs_mkskipped st' = rs_mkskipped st"
proof -
  let ?st = "st\<lparr>rs_pn := rs_ns st, rs_ns := 0, rs_nr := 0, rs_dhr := Some (x_public C (K (s + 1))),
      rs_rk := fst (root_chain C sk K (s + 2)), rs_ckr := Some (snd (root_chain C sk K (s + 1))),
      rs_dhs := K (s + 2), rs_cks := Some (snd (root_chain C sk K (s + 2)))\<rparr>"
  have first: "kdf_rk C (rs_rk st) (x_dh C (rs_dhs st) (x_public C (K (s + 1)))) = Inr (root_chain C sk K (s + 1))"
    using at x_dh_agree [OF assms(2,3)] by (simp add: session_at_def kdf_rk_ok)
  have second: "kdf_rk C (fst (root_chain C sk K (s + 1))) (x_dh C (K (s + 2)) (x_public C (K (s + 1)))) =
      Inr (root_chain C sk K (s + 2))"
    by (simp add: kdf_rk_ok)
  have "dh_ratchet C (K (s + 2)) (x_public C (K (s + 1))) st = (Inr (), ?st)"
    using first second by (simp add: dh_ratchet_def Let_def case_prod_beta del: root_chain.simps)
  moreover have "session_at C sk K sent (s + 2) ?st"
    using at assms(4) skipped_keys_mono [of C sk K s "rs_mkskipped st" "s + 2"] unfolding session_at_def
    by (simp add: chain_key_def del: root_chain.simps)
  ultimately show thesis by (intro that [of ?st]) simp_all
qed

lemma receive_at:
  assumes at: "session_at C sk K sent s st" and "2 \<le> s" and "rs_nr st + 1 < 2 ^ 32"
    and sealed: "seal_aes_gcm C (epoch_key C sk K (s - 1) (rs_nr st)) text header = Inr ct"
  obtains st' where "receive_next C header ct st = (Inr text, st')" "session_at C sk K sent s st'"
    "rs_nr st' = rs_nr st + 1" "rs_mkskipped st' = rs_mkskipped st"
proof -
  let ?st = "st\<lparr>rs_ckr := Some (chain_key C sk K (s - 1) (rs_nr st + 1)), rs_nr := rs_nr st + 1\<rparr>"
  have "rs_ckr st = Some (chain_key C sk K (s - 1) (rs_nr st))" using at assms(2) by (simp add: session_at_def)
  then have "receive_next C header ct st = (Inr text, ?st)"
    using assms(3) seal_open [OF sealed]
    by (simp add: receive_next_def kdf_ck_ok chain_key_Suc epoch_key_def u32_wrapping_succ_def)
  moreover have "session_at C sk K sent s ?st" using at assms(2) unfolding session_at_def by auto
  ultimately show thesis by (intro that [of ?st]) simp_all
qed

text \<open>
  The heart of the matter: an available message inside the window is opened, and what is available stays so.
  \<open>M\<close> is the newest epoch.
\<close>

lemma decrypt_skipped:
  assumes at: "session_at C sk K sent s st" and inj: "inj_on (\<lambda>e. x_public C (K e)) {..M}" and "s \<le> M" "e \<le> M"
    and sealed: "seal_aes_gcm C (epoch_key C sk K e n) text (epoch_header C K sent e n) = Inr ct"
    and found: "fmlookup (rs_mkskipped st) (epoch_pub C K e, n) \<noteq> None"
  obtains st' where "ratchet_decrypt C fresh (epoch_header C K sent e n) ct st = (Inr text, st')"
    "session_at C sk K sent s st'" "rs_nr st' = rs_nr st"
    "rs_mkskipped st' = fmdrop (epoch_pub C K e, n) (rs_mkskipped st)"
proof -
  obtain mk where mk: "fmlookup (rs_mkskipped st) (epoch_pub C K e, n) = Some mk" using found by blast
  then obtain e' where e': "e' < s" "epoch_pub C K e = epoch_pub C K e'" "mk = epoch_key C sk K e' n"
    using at unfolding session_at_def skipped_keys_def by blast
  then have "e' = e" using inj_onD [OF inj, of e' e] assms(3,4) by (simp add: b64_encode_inject)
  then have "open_aes_gcm C mk ct (epoch_header C K sent e n) = Inr text" using seal_open [OF sealed] e'(3) by simp
  then have "ratchet_decrypt C fresh (epoch_header C K sent e n) ct st =
      (Inr text, st\<lparr>rs_mkskipped := fmdrop (epoch_pub C K e, n) (rs_mkskipped st)\<rparr>)"
    using mk by (simp add: ratchet_decrypt_def decrypt_staged_def try_skipped_def)
  moreover have "session_at C sk K sent s (st\<lparr>rs_mkskipped := fmdrop (epoch_pub C K e, n) (rs_mkskipped st)\<rparr>)"
    using at unfolding session_at_def skipped_keys_def by auto
  ultimately show thesis by (rule that) simp_all
qed

lemma decrypt_chain:
  assumes at: "session_at C sk K sent s st" and "2 \<le> s" "length (K (s - 1)) = 32"
    and sealed: "seal_aes_gcm C (epoch_key C sk K (s - 1) n) text (epoch_header C K sent (s - 1) n) = Inr ct"
    and fresh_key: "fmlookup (rs_mkskipped st) (epoch_pub C K (s - 1), n) = None"
    and "rs_nr st \<le> n" "n \<le> rs_nr st + 100" "n + 1 < 2 ^ 32"
  obtains st' where "ratchet_decrypt C fresh (epoch_header C K sent (s - 1) n) ct st = (Inr text, st')"
    "session_at C sk K sent s st'" "rs_nr st' = n + 1"
    "\<And>key. fmlookup (rs_mkskipped st) key \<noteq> None \<Longrightarrow> fmlookup (rs_mkskipped st') key \<noteq> None"
    "\<And>i. rs_nr st \<le> i \<Longrightarrow> i < n \<Longrightarrow> fmlookup (rs_mkskipped st') (epoch_pub C K (s - 1), i) \<noteq> None"
proof -
  have "n < 2 ^ 32" using assms(8) by simp
  then obtain st1 where st1: "skip_message_keys C n st = (Inr (), st1)"
    "session_at C sk K sent s st1" "rs_nr st1 = (if s \<le> 1 then 0 else max (rs_nr st) n)"
    "\<And>key. fmlookup (rs_mkskipped st) key \<noteq> None \<Longrightarrow> fmlookup (rs_mkskipped st1) key \<noteq> None"
    "\<And>i. 2 \<le> s \<Longrightarrow> rs_nr st \<le> i \<Longrightarrow> i < n \<Longrightarrow> fmlookup (rs_mkskipped st1) (epoch_pub C K (s - 1), i) \<noteq> None"
    using skip_at [OF at assms(7)] by metis
  have nr: "rs_nr st1 = n" using st1(3) assms(2,6) by simp
  have "rs_nr st1 + 1 < 2 ^ 32" "seal_aes_gcm C (epoch_key C sk K (s - 1) (rs_nr st1)) text (epoch_header C K sent (s - 1) n) = Inr ct"
    using nr assms(8) sealed by simp_all
  from receive_at [OF st1(2) assms(2) this] obtain st2 where st2:
    "receive_next C (epoch_header C K sent (s - 1) n) ct st1 = (Inr text, st2)" "session_at C sk K sent s st2"
    "rs_nr st2 = rs_nr st1 + 1" "rs_mkskipped st2 = rs_mkskipped st1"
    by blast
  have "rs_dhr st = Some (x_public C (K (s - 1)))" using at assms(2) by (simp add: session_at_def)
  then have "ratchet_decrypt C fresh (epoch_header C K sent (s - 1) n) ct st = (Inr text, st2)"
    using fresh_key st1(1) st2(1) x_public_length [OF assms(3)]
    by (simp add: ratchet_decrypt_def decrypt_staged_def try_skipped_def decode_encode_pub)
  then show thesis
  proof (rule that [OF _ st2(2)])
    show "rs_nr st2 = n + 1" using st2(3) nr by simp
    show "fmlookup (rs_mkskipped st2) key \<noteq> None" if "fmlookup (rs_mkskipped st) key \<noteq> None" for key
      using st1(4) [OF that] st2(4) by simp
    show "fmlookup (rs_mkskipped st2) (epoch_pub C K (s - 1), i) \<noteq> None" if "rs_nr st \<le> i" "i < n" for i
      using st1(5) [OF assms(2) that] st2(4) by simp
  qed
qed

lemma decrypt_turn:
  assumes at: "session_at C sk K sent s st" and len: "length (K s) = 32" "length (K (s + 1)) = 32"
    and new: "s = 0 \<or> x_public C (K (s - 1)) \<noteq> x_public C (K (s + 1))" and "sent (s + 2) = 0"
    and sealed: "seal_aes_gcm C (epoch_key C sk K (s + 1) n) text (epoch_header C K sent (s + 1) n) = Inr ct"
    and fresh_key: "fmlookup (rs_mkskipped st) (epoch_pub C K (s + 1), n) = None"
    and "1 \<le> s \<Longrightarrow> sent (s - 1) \<le> rs_nr st + 100" "1 \<le> s \<Longrightarrow> sent (s - 1) < 2 ^ 32" "n \<le> 100"
  obtains st' where "ratchet_decrypt C (K (s + 2)) (epoch_header C K sent (s + 1) n) ct st = (Inr text, st')"
    "session_at C sk K sent (s + 2) st'" "rs_nr st' = n + 1"
    "\<And>key. fmlookup (rs_mkskipped st) key \<noteq> None \<Longrightarrow> fmlookup (rs_mkskipped st') key \<noteq> None"
    "\<And>i. 2 \<le> s \<Longrightarrow> rs_nr st \<le> i \<Longrightarrow> i < sent (s - 1) \<Longrightarrow> fmlookup (rs_mkskipped st') (epoch_pub C K (s - 1), i) \<noteq> None"
    "\<And>i. i < n \<Longrightarrow> fmlookup (rs_mkskipped st') (epoch_pub C K (s + 1), i) \<noteq> None"
proof -
  let ?h = "epoch_header C K sent (s + 1) n" and ?pn = "rh_pn (epoch_header C K sent (s + 1) n)"
  have pn: "?pn = (if s = 0 then 0 else sent (s - 1))" by (simp add: epoch_header_def)
  then have "?pn \<le> rs_nr st + 100" "?pn < 2 ^ 32" using assms(8,9) by simp_all
  then obtain st1 where st1: "skip_message_keys C ?pn st = (Inr (), st1)"
    "session_at C sk K sent s st1"
    "\<And>key. fmlookup (rs_mkskipped st) key \<noteq> None \<Longrightarrow> fmlookup (rs_mkskipped st1) key \<noteq> None"
    "\<And>i. 2 \<le> s \<Longrightarrow> rs_nr st \<le> i \<Longrightarrow> i < ?pn \<Longrightarrow> fmlookup (rs_mkskipped st1) (epoch_pub C K (s - 1), i) \<noteq> None"
    using skip_at [OF at] by metis
  from ratchet_at [OF st1(2) len assms(5)] obtain st2 where st2:
    "dh_ratchet C (K (s + 2)) (x_public C (K (s + 1))) st1 = (Inr (), st2)"
    "session_at C sk K sent (s + 2) st2" "rs_nr st2 = 0" "rs_mkskipped st2 = rs_mkskipped st1"
    by blast
  obtain st3 where st3: "skip_message_keys C n st2 = (Inr (), st3)"
    "session_at C sk K sent (s + 2) st3" "rs_nr st3 = n"
    "\<And>key. fmlookup (rs_mkskipped st2) key \<noteq> None \<Longrightarrow> fmlookup (rs_mkskipped st3) key \<noteq> None"
    "\<And>i. i < n \<Longrightarrow> fmlookup (rs_mkskipped st3) (epoch_pub C K (s + 1), i) \<noteq> None"
    using skip_new [OF st2(2,3) assms(10)] by metis
  have "2 \<le> s + 2" "rs_nr st3 + 1 < 2 ^ 32"
    "seal_aes_gcm C (epoch_key C sk K (s + 2 - 1) (rs_nr st3)) text ?h = Inr ct"
    using st3(3) assms(10) sealed by simp_all
  from receive_at [OF st3(2) this] obtain st4 where st4:
    "receive_next C ?h ct st3 = (Inr text, st4)" "session_at C sk K sent (s + 2) st4"
    "rs_nr st4 = rs_nr st3 + 1" "rs_mkskipped st4 = rs_mkskipped st3"
    by blast
  have "rs_dhr st \<noteq> Some (x_public C (K (s + 1)))" using at new by (auto simp: session_at_def)
  then have run: "ratchet_decrypt C (K (s + 2)) ?h ct st = (Inr text, st4)"
    using fresh_key st1(1) st2(1) st3(1) st4(1) x_public_length [OF len(2)]
    by (simp add: ratchet_decrypt_def decrypt_staged_def try_skipped_def decode_encode_pub)
  show thesis
  proof (rule that [OF run st4(2)])
    show "rs_nr st4 = n + 1" using st3 st4 by simp
    show "fmlookup (rs_mkskipped st4) key \<noteq> None" if "fmlookup (rs_mkskipped st) key \<noteq> None" for key
      using st1(3) [OF that] st3(4) st2(4) st4(4) by simp
    show "fmlookup (rs_mkskipped st4) (epoch_pub C K (s - 1), i) \<noteq> None"
      if "2 \<le> s" "rs_nr st \<le> i" "i < sent (s - 1)" for i
      using st1(4) [of i] that pn st3(4) st2(4) st4(4) by simp
    show "fmlookup (rs_mkskipped st4) (epoch_pub C K (s + 1), i) \<noteq> None" if "i < n" for i
      using st3(5) [OF that] st4(4) by simp
  qed
qed

lemma decrypt_available:
  assumes at: "session_at C sk K sent s st" and len: "\<And>i. length (K i) = 32"
    and inj: "inj_on (\<lambda>e. x_public C (K e)) {..M}" and le: "s \<le> M" "e \<le> M" and zero: "sent (s + 2) = 0"
    and small: "\<And>i. sent i < 2 ^ 32" and n: "n < sent e"
    and sealed: "seal_aes_gcm C (epoch_key C sk K e n) text (epoch_header C K sent e n) = Inr ct"
    and received: "2 \<le> s \<Longrightarrow> rs_nr st \<le> sent (s - 1)"
    and av: "available C K s st e n" and window: "in_window C (epoch_header C K sent e n) st"
  obtains s' st' where "ratchet_decrypt C (K (s + 2)) (epoch_header C K sent e n) ct st = (Inr text, st')"
    "session_at C sk K sent s' st'" "s' = (if e = s + 1 then s + 2 else s)" "2 \<le> s' \<Longrightarrow> rs_nr st' \<le> sent (s' - 1)"
    "\<And>e' n'. e' \<le> M \<Longrightarrow> n' < sent e' \<Longrightarrow> (e', n') \<noteq> (e, n) \<Longrightarrow> available C K s st e' n' \<Longrightarrow> available C K s' st' e' n'"
proof (cases "fmlookup (rs_mkskipped st) (epoch_pub C K e, n) = None")
  case False
  then obtain e' where "e' < s" "epoch_pub C K e = epoch_pub C K e'"
    using at unfolding session_at_def skipped_keys_def by blast
  then have older: "e < s" using inj_onD [OF inj, of e' e] le by (simp add: b64_encode_inject)
  obtain st' where st': "ratchet_decrypt C (K (s + 2)) (epoch_header C K sent e n) ct st = (Inr text, st')"
    "session_at C sk K sent s st'" "rs_nr st' = rs_nr st"
    "rs_mkskipped st' = fmdrop (epoch_pub C K e, n) (rs_mkskipped st)"
    by (rule decrypt_skipped [OF at inj le sealed False])
  show thesis
  proof (rule that [OF st'(1,2)])
    fix e' n'
    assume other: "e' \<le> M" "(e', n') \<noteq> (e, n)" "available C K s st e' n'"
    have "(epoch_pub C K e', n') \<noteq> (epoch_pub C K e, n)"
      using inj_onD [OF inj, of e' e] other(1,2) le by (auto simp: b64_encode_inject)
    then show "available C K s st' e' n'" using other(3) st'(3,4) by (auto simp: available_def)
  qed (use older received st'(3) in simp_all)
next
  case None: True
  then consider "2 \<le> s" "e = s - 1" "rs_nr st \<le> n" | "e = s + 1" using av unfolding available_def by blast
  then show thesis
  proof cases
    case 1
    have dhr: "rs_dhr st = Some (x_public C (K e))" using at 1 by (simp add: session_at_def)
    then have "n \<le> rs_nr st + 100" using window None by (simp add: in_window_def MAX_SKIP_def)
    moreover have "n + 1 < 2 ^ 32" using n small [of e] by simp
    ultimately obtain st' where st': "ratchet_decrypt C (K (s + 2)) (epoch_header C K sent e n) ct st = (Inr text, st')"
      "session_at C sk K sent s st'" "rs_nr st' = n + 1"
      "\<And>key. fmlookup (rs_mkskipped st) key \<noteq> None \<Longrightarrow> fmlookup (rs_mkskipped st') key \<noteq> None"
      "\<And>i. rs_nr st \<le> i \<Longrightarrow> i < n \<Longrightarrow> fmlookup (rs_mkskipped st') (epoch_pub C K e, i) \<noteq> None"
      using decrypt_chain [OF at _ len, of n "text" ct "K (s + 2)"] sealed None 1 by metis
    show thesis
    proof (rule that [OF st'(1,2)])
      fix e' n'
      assume other: "(e', n') \<noteq> (e, n)" "available C K s st e' n'"
      from other(2) consider "fmlookup (rs_mkskipped st) (epoch_pub C K e', n') \<noteq> None" | "e' = e" "rs_nr st \<le> n'" | "e' = s + 1"
        using 1(2) unfolding available_def by blast
      then show "available C K s st' e' n'"
      proof cases
        case old: 1
        then show ?thesis using st'(4) unfolding available_def by blast
      next
        case same: 2
        then have "n' < n \<or> n < n'" using other(1) by auto
        then show ?thesis using st'(3,5) same 1 unfolding available_def by auto
      qed (simp add: available_def)
    qed (use 1 n st'(3) in simp_all)
  next
    case 2
    have new: "s = 0 \<or> x_public C (K (s - 1)) \<noteq> x_public C (K (s + 1))"
    proof -
      have "s - 1 \<in> {..M}" "s + 1 \<in> {..M}" "s - 1 \<noteq> s + 1" using le 2 by simp_all
      then show ?thesis using inj_onD [OF inj, of "s - 1" "s + 1"] by blast
    qed
    moreover have "rs_dhr st = (if s = 0 then None else Some (x_public C (K (s - 1))))"
      using at by (simp add: session_at_def)
    ultimately have "map_option (b64_encode C) (rs_dhr st) \<noteq> Some (epoch_pub C K (s + 1))"
      by (auto simp: b64_encode_inject)
    then have "rh_pn (epoch_header C K sent e n) \<le> rs_nr st + 100" "n \<le> 100"
      using window None 2 unfolding in_window_def by (auto simp: MAX_SKIP_def split: if_splits)
    then have pn: "1 \<le> s \<Longrightarrow> sent (s - 1) \<le> rs_nr st + 100" "n \<le> 100"
      using 2 by (simp_all add: epoch_header_def split: if_splits)
    obtain st' where st': "ratchet_decrypt C (K (s + 2)) (epoch_header C K sent e n) ct st = (Inr text, st')"
      "session_at C sk K sent (s + 2) st'" "rs_nr st' = n + 1"
      "\<And>key. fmlookup (rs_mkskipped st) key \<noteq> None \<Longrightarrow> fmlookup (rs_mkskipped st') key \<noteq> None"
      "\<And>i. 2 \<le> s \<Longrightarrow> rs_nr st \<le> i \<Longrightarrow> i < sent (s - 1) \<Longrightarrow> fmlookup (rs_mkskipped st') (epoch_pub C K (s - 1), i) \<noteq> None"
      "\<And>i. i < n \<Longrightarrow> fmlookup (rs_mkskipped st') (epoch_pub C K e, i) \<noteq> None"
      using decrypt_turn [OF at len len new zero, of n "text" ct] sealed None 2 pn small by metis
    show thesis
    proof (rule that [OF st'(1,2)])
      fix e' n'
      assume other: "n' < sent e'" "(e', n') \<noteq> (e, n)" "available C K s st e' n'"
      from other(3) consider "fmlookup (rs_mkskipped st) (epoch_pub C K e', n') \<noteq> None"
        | "2 \<le> s" "e' = s - 1" "rs_nr st \<le> n'" | "e' = e"
        using 2 unfolding available_def by blast
      then show "available C K (s + 2) st' e' n'"
      proof cases
        case old: 1
        then show ?thesis using st'(4) unfolding available_def by blast
      next
        case prev: 2
        then show ?thesis using st'(5) other(1) unfolding available_def by blast
      next
        case same: 3
        then have "n' < n \<or> n < n'" using other(2) by auto
        then show ?thesis using st'(3,6) same 2 unfolding available_def by auto
      qed
    qed (use 2 n st'(3) in simp_all)
  qed
qed

lemma decrypt_outside_window:
  assumes "rh_dh_pub_b64 header = b64_encode C p" "length p = 32" "\<not> in_window C header st"
  shows "\<exists>e. ratchet_decrypt C fresh header ct st = (Inl e, st)"
proof -
  have none: "fmlookup (rs_mkskipped st) (b64_encode C p, rh_n header) = None"
    using assms by (simp add: in_window_def)
  have far: "\<exists>e. skip_message_keys C until st' = (Inl e, st')" if "rs_nr st' + 100 < until" for st' until
    using that by (simp add: skip_message_keys_def u32_saturating_add_def MAX_SKIP_def min_less_iff_disj)
  consider "rs_dhr st = Some p" "rs_nr st + 100 < rh_n header"
    | "rs_dhr st \<noteq> Some p" "rs_nr st + 100 < rh_pn header" | "rs_dhr st \<noteq> Some p" "100 < rh_n header"
    using assms(1,3) none by (auto simp: in_window_def MAX_SKIP_def b64_encode_inject split: if_splits)
  then have "\<exists>e st'. decrypt_staged C fresh header ct st = (Inl e, st')"
  proof cases
    case 1
    then show ?thesis using none far [of st "rh_n header"] assms
      by (auto simp: decrypt_staged_def try_skipped_def decode_encode_pub)
  next
    case 2
    then show ?thesis using none far [of st "rh_pn header"] assms
      by (auto simp: decrypt_staged_def try_skipped_def decode_encode_pub)
  next
    case 3
    obtain r st1 where r: "and_then (skip_message_keys C (rh_pn header) st) (\<lambda>u. dh_ratchet C fresh p) = (r, st1)"
      by fastforce
    show ?thesis
    proof (cases r)
      case (Inl e)
      then show ?thesis using none 3 r assms by (auto simp: decrypt_staged_def try_skipped_def decode_encode_pub)
    next
      case (Inr u)
      then obtain st0 where "dh_ratchet C fresh p st0 = (Inr u, st1)" using r by (auto simp: and_then_Inr_iff)
      then have "rs_nr st1 = 0" by (auto simp: dh_ratchet_def Let_def kdf_rk_ok split: sum.splits prod.splits)
      then show ?thesis using none 3 r Inr assms far [of st1 "rh_n header"]
        by (auto simp: decrypt_staged_def try_skipped_def decode_encode_pub)
    qed
  qed
  then show ?thesis by (auto simp: ratchet_decrypt_def)
qed

end

end
