(* ===== verification/Ratchet_Conversation.thy ===== *)
theory Ratchet_Conversation
  imports Ratchet_Epochs
begin

text \<open>
  Two sessions and the network between them, as an inductive set of reachable conversations: a session starts
  after a key agreement; a party sends; the network delivers any message that is under way, in any
  order, or never; and anything else the network may present is rejected by decryption. Drawn
  secrets are new. Every message under way inside the skip window is then decrypted to what was sent.
\<close>

datatype party = Initiator | Responder

fun peer :: "party \<Rightarrow> party" where
  "peer Initiator = Responder"
| "peer Responder = Initiator"

record wire_msg =
  wm_to :: party
  wm_header :: RatchetHeader
  wm_ciphertext :: bytes
  wm_plaintext :: bytes

record conversation =
  cv_session :: "party \<Rightarrow> RatchetState"
  cv_wire :: "wire_msg set"
  cv_secrets :: "bytes set"

definition start_conversation :: "bytes \<Rightarrow> RatchetState \<Rightarrow> bytes \<Rightarrow> bytes \<Rightarrow> conversation" where
  "start_conversation sk alice ephemeral spk =
     \<lparr> cv_session = (\<lambda>p. case p of Initiator \<Rightarrow> alice | Responder \<Rightarrow> init_bob sk spk), cv_wire = {},
       cv_secrets = {ephemeral, spk} \<rparr>"

inductive reachable :: "crypto \<Rightarrow> bytes \<Rightarrow> conversation \<Rightarrow> bool" for C sk where
  start: "reachable C sk (start_conversation sk alice ephemeral spk)"
    if "length ephemeral = 32" "length spk = 32" "x_public C ephemeral \<noteq> x_public C spk"
      "init_alice C ephemeral sk (x_public C spk) = Inr alice"
| send: "reachable C sk (\<sigma>\<lparr>cv_session := (cv_session \<sigma>)(p := st'),
      cv_wire := insert \<lparr> wm_to = peer p, wm_header = header, wm_ciphertext = ct, wm_plaintext = msg \<rparr> (cv_wire \<sigma>)\<rparr>)"
    if "reachable C sk \<sigma>" "rs_ns (cv_session \<sigma> p) + 1 < 2 ^ 32"
      "ratchet_encrypt C msg (cv_session \<sigma> p) = (Inr (header, ct), st')"
| deliver: "reachable C sk (\<sigma>\<lparr>cv_session := (cv_session \<sigma>)(wm_to w := st'), cv_wire := cv_wire \<sigma> - {w},
      cv_secrets := insert fresh (cv_secrets \<sigma>)\<rparr>)"
    if "reachable C sk \<sigma>" "w \<in> cv_wire \<sigma>" "length fresh = 32" "x_public C fresh \<notin> x_public C ` cv_secrets \<sigma>"
      "ratchet_decrypt C fresh (wm_header w) (wm_ciphertext w) (cv_session \<sigma> (wm_to w)) = (Inr msg, st')"
| reject: "reachable C sk (\<sigma>\<lparr>cv_session := (cv_session \<sigma>)(p := st')\<rparr>)"
    if "reachable C sk \<sigma>" "ratchet_decrypt C fresh header ct (cv_session \<sigma> p) = (Inl e, st')"

section \<open>The invariant\<close>

definition wire_at ::
    "crypto \<Rightarrow> bytes \<Rightarrow> (nat \<Rightarrow> bytes) \<Rightarrow> (nat \<Rightarrow> nat) \<Rightarrow> wire_msg \<Rightarrow> nat \<Rightarrow> nat \<Rightarrow> bool" where
  "wire_at C sk K sent w e n \<longleftrightarrow>
     1 \<le> e \<and> (odd e \<longleftrightarrow> wm_to w = Responder) \<and> n < sent e \<and> wm_header w = epoch_header C K sent e n \<and>
     seal_aes_gcm C (epoch_key C sk K e n) (wm_plaintext w) (wm_header w) = Inr (wm_ciphertext w)"

abbreviation newest :: "(party \<Rightarrow> nat) \<Rightarrow> nat" where
  "newest s \<equiv> max (s Initiator) (s Responder)"

definition epochs_ok :: "crypto \<Rightarrow> (nat \<Rightarrow> bytes) \<Rightarrow> (nat \<Rightarrow> nat) \<Rightarrow> (party \<Rightarrow> nat) \<Rightarrow> bytes set \<Rightarrow> bool" where
  "epochs_ok C K sent s secrets \<longleftrightarrow>
     odd (s Initiator) \<and> even (s Responder) \<and> s Initiator \<le> s Responder + 1 \<and> s Responder \<le> s Initiator + 1 \<and>
     (\<forall>e. length (K e) = 32) \<and> inj_on (\<lambda>e. x_public C (K e)) {..newest s} \<and> K ` {..newest s} \<subseteq> secrets \<and>
     (\<forall>e. sent e < 2 ^ 32) \<and> (\<forall>e > newest s. sent e = 0)"

definition conversation_inv ::
    "crypto \<Rightarrow> bytes \<Rightarrow> (nat \<Rightarrow> bytes) \<Rightarrow> (nat \<Rightarrow> nat) \<Rightarrow> (party \<Rightarrow> nat) \<Rightarrow> conversation \<Rightarrow> bool" where
  "conversation_inv C sk K sent s \<sigma> \<longleftrightarrow>
     epochs_ok C K sent s (cv_secrets \<sigma>) \<and> (\<forall>p. session_at C sk K sent (s p) (cv_session \<sigma> p)) \<and>
     (\<forall>p. 2 \<le> s p \<longrightarrow> rs_nr (cv_session \<sigma> p) \<le> sent (s p - 1)) \<and>
     (\<forall>w \<in> cv_wire \<sigma>. \<exists>e n. wire_at C sk K sent w e n \<and> available C K (s (wm_to w)) (cv_session \<sigma> (wm_to w)) e n) \<and>
     inj_on (\<lambda>w. (rh_dh_pub_b64 (wm_header w), rh_n (wm_header w))) (cv_wire \<sigma>)"

lemma peer_peer [simp]: "peer (peer p) = p"
  by (cases p) simp_all

lemma all_party: "(\<forall>p. P p) \<longleftrightarrow> P Initiator \<and> P Responder"
  by (metis party.exhaust)

lemma inj_on_insertI: "inj_on f A \<Longrightarrow> (\<And>y. y \<in> A \<Longrightarrow> f y \<noteq> f x) \<Longrightarrow> inj_on f (insert x A)"
  by (force simp: inj_on_def)

lemma adjacent_epochs:
  assumes "epochs_ok C K sent s secrets"
  shows "s p = s (peer p) + 1 \<or> s (peer p) = s p + 1"
proof -
  have "odd (s Initiator)" "even (s Responder)" "s Initiator \<le> s Responder + 1" "s Responder \<le> s Initiator + 1"
    using assms by (simp_all add: epochs_ok_def)
  then have "s Initiator = s Responder + 1 \<or> s Responder = s Initiator + 1" by presburger
  then show ?thesis by (cases p) auto
qed

lemma newest_le: "epochs_ok C K sent s secrets \<Longrightarrow> newest s \<le> s p + 1"
  by (cases p) (simp_all add: epochs_ok_def)

lemma epoch_le_newest: "s p \<le> newest s"
  by (cases p) simp_all

lemma sent_epoch_le: "epochs_ok C K sent s secrets \<Longrightarrow> n < sent e \<Longrightarrow> e \<le> newest s"
  unfolding epochs_ok_def by (metis less_nat_zero_code not_le)

lemma available_cong:
  "K e = K' e \<Longrightarrow> rs_mkskipped st = rs_mkskipped st' \<Longrightarrow> rs_nr st = rs_nr st' \<Longrightarrow>
   available C K s st e n \<longleftrightarrow> available C K' s st' e n"
  by (simp add: available_def)

lemma wire_at_cong:
  assumes "wire_at C sk K sent w e n" "\<And>i. i \<le> e \<Longrightarrow> K i = K' i" "n < sent' e"
    and "2 \<le> e \<Longrightarrow> sent (e - 2) = sent' (e - 2)"
  shows "wire_at C sk K' sent' w e n"
proof -
  have "epoch_header C K sent e n = epoch_header C K' sent' e n" "epoch_key C sk K e n = epoch_key C sk K' e n"
    using assms(2) [of e] assms(4) epoch_cong [of e K K', OF assms(2)] by (auto simp: epoch_header_def)
  then show ?thesis using assms unfolding wire_at_def by auto
qed

context crypto_contract
begin

lemma start_inv:
  assumes "length ephemeral = 32" "length spk = 32" "x_public C ephemeral \<noteq> x_public C spk"
    and run: "init_alice C ephemeral sk (x_public C spk) = Inr alice"
  shows "\<exists>K sent s. conversation_inv C sk K sent s (start_conversation sk alice ephemeral spk)"
proof -
  let ?K = "\<lambda>e::nat. if e = 0 then spk else ephemeral"
  let ?s = "\<lambda>p. case p of Initiator \<Rightarrow> Suc 0 | Responder \<Rightarrow> 0"
  have "epochs_ok C ?K (\<lambda>e. 0) ?s {ephemeral, spk}"
    using assms(1-3) by (auto simp: epochs_ok_def inj_on_def)
  moreover have "session_at C sk ?K (\<lambda>e. 0) 0 (init_bob sk spk)"
    by (simp add: session_at_def init_bob_def skipped_keys_def)
  moreover have "session_at C sk ?K (\<lambda>e. 0) 1 alice"
    using run by (auto simp: session_at_def init_alice_def Let_def kdf_rk_ok skipped_keys_def chain_key_def split: prod.splits)
  ultimately have "conversation_inv C sk ?K (\<lambda>e. 0) ?s (start_conversation sk alice ephemeral spk)"
    by (simp add: conversation_inv_def start_conversation_def all_party)
  then show ?thesis by blast
qed

lemma send_inv:
  assumes inv: "conversation_inv C sk K sent s \<sigma>" and small: "rs_ns (cv_session \<sigma> p) + 1 < 2 ^ 32"
    and run: "ratchet_encrypt C msg (cv_session \<sigma> p) = (Inr (header, ct), st')"
  shows "conversation_inv C sk K (sent(s p := sent (s p) + 1)) s (\<sigma>\<lparr>cv_session := (cv_session \<sigma>)(p := st'),
      cv_wire := insert \<lparr> wm_to = peer p, wm_header = header, wm_ciphertext = ct, wm_plaintext = msg \<rparr> (cv_wire \<sigma>)\<rparr>)"
proof -
  let ?sent = "sent(s p := sent (s p) + 1)" and ?sessions = "(cv_session \<sigma>)(p := st')"
  let ?w = "\<lparr> wm_to = peer p, wm_header = header, wm_ciphertext = ct, wm_plaintext = msg \<rparr>"
  have ok: "epochs_ok C K sent s (cv_secrets \<sigma>)" and at: "\<And>q. session_at C sk K sent (s q) (cv_session \<sigma> q)"
    and received: "\<And>q. 2 \<le> s q \<Longrightarrow> rs_nr (cv_session \<sigma> q) \<le> sent (s q - 1)"
    and wire: "\<And>w. w \<in> cv_wire \<sigma> \<Longrightarrow>
      \<exists>e n. wire_at C sk K sent w e n \<and> available C K (s (wm_to w)) (cv_session \<sigma> (wm_to w)) e n"
    and keys: "inj_on (\<lambda>w. (rh_dh_pub_b64 (wm_header w), rh_n (wm_header w))) (cv_wire \<sigma>)"
    using inv unfolding conversation_inv_def by blast+
  have ns: "rs_ns (cv_session \<sigma> p) = sent (s p)" using at [of p] by (simp add: session_at_def)
  note enc = encrypt_at [OF at [of p] small [unfolded ns] run]
  note other = adjacent_epochs [OF ok, of p]
  have "epochs_ok C K ?sent s (cv_secrets \<sigma>)" using ok small ns by (cases p) (auto simp: epochs_ok_def)
  moreover have "session_at C sk K ?sent (s q) (?sessions q)" for q
  proof (cases "q = p")
    case True
    then show ?thesis using enc(4) by simp
  next
    case False
    then have "q = peer p" by (cases p; cases q) simp_all
    then have "s q \<noteq> s p" "s q - 2 \<noteq> s p \<or> s q < 2" using other by auto
    then show ?thesis using at [of q] False by (auto simp: session_at_def)
  qed
  moreover have "rs_nr (?sessions q) \<le> ?sent (s q - 1)" if "2 \<le> s q" for q
    using received [OF that] enc(5) by auto
  moreover have "\<exists>e n. wire_at C sk K ?sent w e n \<and> available C K (s (wm_to w)) (?sessions (wm_to w)) e n"
    if "w \<in> insert ?w (cv_wire \<sigma>)" for w
  proof (cases "w = ?w")
    case True
    have "wire_at C sk K ?sent ?w (s p) (sent (s p))"
      using enc(1,2,3) ok by (cases p) (auto simp: wire_at_def epoch_header_def epochs_ok_def)
    moreover have "available C K (s (peer p)) (cv_session \<sigma> (peer p)) (s p) (sent (s p))"
      using other received [of "peer p"] enc(1) by (auto simp: available_def)
    moreover have "?sessions (peer p) = cv_session \<sigma> (peer p)" by (cases p) simp_all
    ultimately show ?thesis using True by auto
  next
    case False
    then have "w \<in> cv_wire \<sigma>" using that by simp
    then obtain e n where w: "wire_at C sk K sent w e n" "available C K (s (wm_to w)) (cv_session \<sigma> (wm_to w)) e n"
      using wire by blast
    have "n < sent e" using w(1) by (simp add: wire_at_def)
    then have "e \<le> s p + 1" by (rule order_trans [OF sent_epoch_le [OF ok] newest_le [OF ok]])
    then have "wire_at C sk K ?sent w e n"
      using w(1) by (intro wire_at_cong [OF w(1)]) (auto simp: wire_at_def)
    moreover have "available C K (s (wm_to w)) (?sessions (wm_to w)) e n"
      using w(2) enc(5,6) by (auto simp: available_def)
    ultimately show ?thesis by blast
  qed
  moreover have "inj_on (\<lambda>w. (rh_dh_pub_b64 (wm_header w), rh_n (wm_header w))) (insert ?w (cv_wire \<sigma>))"
  proof -
    have "(rh_dh_pub_b64 (wm_header w), rh_n (wm_header w)) \<noteq> (epoch_pub C K (s p), sent (s p))" if "w \<in> cv_wire \<sigma>" for w
    proof
      assume key: "(rh_dh_pub_b64 (wm_header w), rh_n (wm_header w)) = (epoch_pub C K (s p), sent (s p))"
      obtain e n where w: "wire_at C sk K sent w e n" using wire [OF \<open>w \<in> cv_wire \<sigma>\<close>] by blast
      then have "e \<le> newest s" using sent_epoch_le [OF ok, of n e] by (simp add: wire_at_def)
      moreover have "x_public C (K e) = x_public C (K (s p))" "n = sent (s p)" "n < sent e"
        using w key by (simp_all add: wire_at_def b64_encode_inject)
      ultimately show False using ok epoch_le_newest [of s p] unfolding epochs_ok_def inj_on_def by fastforce
    qed
    moreover have "rh_dh_pub_b64 header = epoch_pub C K (s p)" "rh_n header = sent (s p)" using enc(2) by simp_all
    ultimately show ?thesis using keys by (intro inj_on_insertI) auto
  qed
  ultimately show ?thesis unfolding conversation_inv_def by simp
qed

text \<open>What a message under way is, seen by its receiver.\<close>

lemma delivery:
  assumes inv: "conversation_inv C sk K sent s \<sigma>" and w: "w \<in> cv_wire \<sigma>"
    and window: "in_window C (wm_header w) (cv_session \<sigma> (wm_to w))"
    and len: "length fresh = 32"
  obtains e n s' st' where "wire_at C sk K sent w e n"
    "ratchet_decrypt C fresh (wm_header w) (wm_ciphertext w) (cv_session \<sigma> (wm_to w)) = (Inr (wm_plaintext w), st')"
    "s' = (if e = s (wm_to w) + 1 then s (wm_to w) + 2 else s (wm_to w))"
    "session_at C sk (K(s (wm_to w) + 2 := fresh)) sent s' st'" "2 \<le> s' \<Longrightarrow> rs_nr st' \<le> sent (s' - 1)"
    "\<And>e' n'. e' \<le> newest s \<Longrightarrow> n' < sent e' \<Longrightarrow> (e', n') \<noteq> (e, n) \<Longrightarrow>
      available C K (s (wm_to w)) (cv_session \<sigma> (wm_to w)) e' n' \<Longrightarrow> available C (K(s (wm_to w) + 2 := fresh)) s' st' e' n'"
proof -
  define q where "q = wm_to w"
  let ?K = "K(s q + 2 := fresh)"
  have ok: "epochs_ok C K sent s (cv_secrets \<sigma>)" and at: "session_at C sk K sent (s q) (cv_session \<sigma> q)"
    and received: "2 \<le> s q \<Longrightarrow> rs_nr (cv_session \<sigma> q) \<le> sent (s q - 1)"
    using inv unfolding conversation_inv_def by blast+
  obtain e n where wire: "wire_at C sk K sent w e n" "available C K (s q) (cv_session \<sigma> q) e n"
    using inv w unfolding conversation_inv_def q_def by blast
  have n: "n < sent e" and header: "wm_header w = epoch_header C K sent e n"
    and sealed: "seal_aes_gcm C (epoch_key C sk K e n) (wm_plaintext w) (wm_header w) = Inr (wm_ciphertext w)"
    using wire(1) unfolding wire_at_def by blast+
  have newest: "newest s < s q + 2" using newest_le [OF ok, of q] by simp
  have e: "e \<le> newest s" by (rule sent_epoch_le [OF ok n])
  have same: "K i = ?K i" if "i \<le> newest s" for i
    using order_le_less_trans [OF that newest] by simp
  have cong: "epoch_header C K sent e' n' = epoch_header C ?K sent e' n'" "epoch_key C sk K e' n' = epoch_key C sk ?K e' n'"
    if "e' \<le> newest s" for e' n'
    using same [OF that] epoch_cong [of e' K ?K] same that by (auto simp: epoch_header_def)
  have at': "session_at C sk ?K sent (s q) (cv_session \<sigma> q)"
    by (rule session_at_cong [OF at]) simp_all
  have len': "length (?K i) = 32" for i using ok len by (simp add: epochs_ok_def)
  have inj: "inj_on (\<lambda>e. x_public C (?K e)) {..newest s}"
  proof -
    have "inj_on (\<lambda>e. x_public C (K e)) {..newest s} = inj_on (\<lambda>e. x_public C (?K e)) {..newest s}"
      using same by (intro inj_on_cong) (metis atMost_iff)
    then show ?thesis using ok unfolding epochs_ok_def by blast
  qed
  have zero: "sent (s q + 2) = 0" and small: "sent i < 2 ^ 32" for i
    using ok newest by (simp_all add: epochs_ok_def)
  have sealed': "seal_aes_gcm C (epoch_key C sk ?K e n) (wm_plaintext w) (epoch_header C ?K sent e n) = Inr (wm_ciphertext w)"
    using sealed unfolding header cong [OF e] .
  have av: "available C ?K (s q) (cv_session \<sigma> q) e n"
    using wire(2) same [OF e] by (simp add: available_def)
  have window': "in_window C (epoch_header C ?K sent e n) (cv_session \<sigma> q)"
    using window unfolding header cong [OF e] q_def .
  obtain s' st' where run: "ratchet_decrypt C (?K (s q + 2)) (epoch_header C ?K sent e n) (wm_ciphertext w) (cv_session \<sigma> q) =
      (Inr (wm_plaintext w), st')"
    and s': "s' = (if e = s q + 1 then s q + 2 else s q)"
    and at'': "session_at C sk ?K sent s' st'" "2 \<le> s' \<Longrightarrow> rs_nr st' \<le> sent (s' - 1)"
    and keep: "\<And>e' n'. e' \<le> newest s \<Longrightarrow> n' < sent e' \<Longrightarrow> (e', n') \<noteq> (e, n) \<Longrightarrow>
      available C ?K (s q) (cv_session \<sigma> q) e' n' \<Longrightarrow> available C ?K s' st' e' n'"
    using decrypt_available [OF at' len' inj epoch_le_newest e zero small n sealed' received av window'] by metis
  show thesis
  proof (rule that [of e n, folded q_def, OF wire(1) _ s' at''])
    show "ratchet_decrypt C fresh (wm_header w) (wm_ciphertext w) (cv_session \<sigma> q) = (Inr (wm_plaintext w), st')"
      using run unfolding header cong [OF e] by simp
    show "available C ?K s' st' e' n'"
      if "e' \<le> newest s" "n' < sent e'" "(e', n') \<noteq> (e, n)" "available C K (s q) (cv_session \<sigma> q) e' n'" for e' n'
      using keep [OF that(1-3)] that(4) same [OF that(1)] by (simp add: available_def)
  qed
qed

lemma epochs_after_delivery:
  assumes ok: "epochs_ok C K sent s secrets" and len: "length fresh = 32"
    and new: "x_public C fresh \<notin> x_public C ` secrets"
    and s': "s' = s q \<or> s' = s q + 2 \<and> s q + 1 \<le> newest s"
  shows "epochs_ok C (K(s q + 2 := fresh)) sent (s(q := s')) (insert fresh secrets)"
proof -
  let ?K = "K(s q + 2 := fresh)" and ?s = "s(q := s')"
  have newest: "newest s < s q + 2" using newest_le [OF ok, of q] by simp
  have same: "?K i = K i" if "i \<le> newest s" for i using order_le_less_trans [OF that newest] by simp
  have parts: "inj_on (\<lambda>e. x_public C (K e)) {..newest s}" "K ` {..newest s} \<subseteq> secrets" "\<And>e. length (K e) = 32"
    "\<And>e. sent e < 2 ^ 32" "\<And>e. newest s < e \<Longrightarrow> sent e = 0"
    using ok unfolding epochs_ok_def by blast+
  have inj: "inj_on (\<lambda>e. x_public C (?K e)) {..newest s}"
  proof -
    have "inj_on (\<lambda>e. x_public C (?K e)) {..newest s} = inj_on (\<lambda>e. x_public C (K e)) {..newest s}"
      using same by (intro inj_on_cong) (metis atMost_iff)
    then show ?thesis using parts(1) by blast
  qed
  have image: "?K ` {..newest s} \<subseteq> secrets" using parts(2) same by auto
  have "odd (?s Initiator) \<and> even (?s Responder) \<and> ?s Initiator \<le> ?s Responder + 1 \<and> ?s Responder \<le> ?s Initiator + 1 \<and>
      (newest ?s = newest s \<or> newest ?s = Suc (newest s) \<and> newest ?s = s q + 2)"
    using ok s' adjacent_epochs [OF ok, of q] by (cases q) (auto simp: epochs_ok_def)
  moreover from this have "inj_on (\<lambda>e. x_public C (?K e)) {..newest ?s} \<and> ?K ` {..newest ?s} \<subseteq> insert fresh secrets"
  proof (elim conjE disjE)
    assume "newest ?s = newest s"
    then show ?thesis using inj image by auto
  next
    assume next_epoch: "newest ?s = Suc (newest s)" "newest ?s = s q + 2"
    then have top: "{..newest ?s} = insert (newest ?s) {..newest s}" "?K (newest ?s) = fresh"
      by (simp_all only: atMost_Suc fun_upd_same)
    have "x_public C (?K e) \<noteq> x_public C (?K (newest ?s))" if "e \<in> {..newest s}" for e
      using new image that unfolding top(2) by (metis imageI image_subset_iff)
    then have "inj_on (\<lambda>e. x_public C (?K e)) {..newest ?s}" unfolding top(1) by (rule inj_on_insertI [OF inj])
    moreover have "?K ` {..newest ?s} \<subseteq> insert fresh secrets"
      unfolding top(1) image_insert top(2) using image by blast
    ultimately show ?thesis by blast
  qed
  ultimately show ?thesis using parts len by (auto simp: epochs_ok_def)
qed

lemma deliver_inv:
  assumes inv: "conversation_inv C sk K sent s \<sigma>" and w: "w \<in> cv_wire \<sigma>"
    and len: "length fresh = 32" and new: "x_public C fresh \<notin> x_public C ` cv_secrets \<sigma>"
    and run: "ratchet_decrypt C fresh (wm_header w) (wm_ciphertext w) (cv_session \<sigma> (wm_to w)) = (Inr msg, st')"
  shows "\<exists>K' s'. conversation_inv C sk K' sent s' (\<sigma>\<lparr>cv_session := (cv_session \<sigma>)(wm_to w := st'),
      cv_wire := cv_wire \<sigma> - {w}, cv_secrets := insert fresh (cv_secrets \<sigma>)\<rparr>)"
proof -
  define q where "q = wm_to w"
  let ?K = "K(s q + 2 := fresh)" and ?sessions = "(cv_session \<sigma>)(q := st')"
  have ok: "epochs_ok C K sent s (cv_secrets \<sigma>)" and at: "\<And>q. session_at C sk K sent (s q) (cv_session \<sigma> q)"
    and received: "\<And>q. 2 \<le> s q \<Longrightarrow> rs_nr (cv_session \<sigma> q) \<le> sent (s q - 1)"
    and wire: "\<And>w. w \<in> cv_wire \<sigma> \<Longrightarrow>
      \<exists>e n. wire_at C sk K sent w e n \<and> available C K (s (wm_to w)) (cv_session \<sigma> (wm_to w)) e n"
    and keys: "inj_on (\<lambda>w. (rh_dh_pub_b64 (wm_header w), rh_n (wm_header w))) (cv_wire \<sigma>)"
    using inv unfolding conversation_inv_def by blast+
  have newest: "newest s < s q + 2" using newest_le [OF ok, of q] by simp
  have same: "K i = ?K i" if "i \<le> newest s" for i using order_le_less_trans [OF that newest] by simp
  obtain e0 n0 where "wire_at C sk K sent w e0 n0" using wire [OF w] by blast
  then have "rh_dh_pub_b64 (wm_header w) = b64_encode C (x_public C (K e0))" "length (x_public C (K e0)) = 32"
    using ok x_public_length [of "K e0"] by (simp_all add: wire_at_def epochs_ok_def)
  then have window: "in_window C (wm_header w) (cv_session \<sigma> (wm_to w))"
    using decrypt_outside_window [of "wm_header w" _ "cv_session \<sigma> (wm_to w)" fresh "wm_ciphertext w"] run by fastforce
  obtain e n s' st1 where wat: "wire_at C sk K sent w e n"
    and dec: "ratchet_decrypt C fresh (wm_header w) (wm_ciphertext w) (cv_session \<sigma> q) = (Inr (wm_plaintext w), st1)"
    and s': "s' = (if e = s q + 1 then s q + 2 else s q)"
    and at1: "session_at C sk ?K sent s' st1" "2 \<le> s' \<Longrightarrow> rs_nr st1 \<le> sent (s' - 1)"
    and keep1: "\<And>e' n'. e' \<le> newest s \<Longrightarrow> n' < sent e' \<Longrightarrow> (e', n') \<noteq> (e, n) \<Longrightarrow>
      available C K (s q) (cv_session \<sigma> q) e' n' \<Longrightarrow> available C ?K s' st1 e' n'"
    by (rule delivery [OF inv w window len, folded q_def]) (rule that; assumption)
  have "st1 = st'" using dec run unfolding q_def by simp
  note at' = at1 [unfolded this] and keep = keep1 [unfolded this]
  have e: "e \<le> newest s" using sent_epoch_le [OF ok, of n e] wat unfolding wire_at_def by blast
  let ?s = "s(q := s')"
  have "epochs_ok C ?K sent ?s (insert fresh (cv_secrets \<sigma>))"
    using s' e by (intro epochs_after_delivery [OF ok len new]) auto
  moreover have "session_at C sk ?K sent (?s p) (?sessions p)" for p
  proof (cases "p = q")
    case False
    show ?thesis
      using session_at_cong [OF at [of p], of ?K sent] same order_trans [OF _ epoch_le_newest [of s p]] False by auto
  next
    case True
    then show ?thesis using at'(1) by simp
  qed
  moreover have "rs_nr (?sessions p) \<le> sent (?s p - 1)" if "2 \<le> ?s p" for p
    using that received [of p] at'(2) by (cases "p = q") auto
  moreover have "\<exists>e' n'. wire_at C sk ?K sent w' e' n' \<and> available C ?K (?s (wm_to w')) (?sessions (wm_to w')) e' n'"
    if "w' \<in> cv_wire \<sigma> - {w}" for w'
  proof -
    have mem: "w' \<in> cv_wire \<sigma>" "w' \<noteq> w" using \<open>w' \<in> cv_wire \<sigma> - {w}\<close> by blast+
    obtain e' n' where w': "wire_at C sk K sent w' e' n'" "available C K (s (wm_to w')) (cv_session \<sigma> (wm_to w')) e' n'"
      using wire [OF mem(1)] by blast
    have n': "n' < sent e'" using w'(1) by (simp add: wire_at_def)
    have e': "e' \<le> newest s" by (rule sent_epoch_le [OF ok n'])
    have "(e', n') \<noteq> (e, n)" using inj_onD [OF keys _ mem(1) w] mem(2) wat w'(1) by (auto simp: wire_at_def)
    then have "available C ?K (?s (wm_to w')) (?sessions (wm_to w')) e' n'"
      using keep [OF e' n'] w'(2) same [OF e'] by (cases "wm_to w' = q") (auto simp: available_def)
    moreover have "wire_at C sk ?K sent w' e' n'"
      using w'(1) same order_trans [OF _ e'] n' by (intro wire_at_cong [OF w'(1)]) auto
    ultimately show ?thesis by blast
  qed
  moreover have "inj_on (\<lambda>w. (rh_dh_pub_b64 (wm_header w), rh_n (wm_header w))) (cv_wire \<sigma> - {w})"
    using keys by (rule inj_on_diff)
  ultimately have "conversation_inv C sk ?K sent ?s (\<sigma>\<lparr>cv_session := ?sessions, cv_wire := cv_wire \<sigma> - {w},
      cv_secrets := insert fresh (cv_secrets \<sigma>)\<rparr>)"
    unfolding conversation_inv_def by simp
  then show ?thesis unfolding q_def by blast
qed

lemma reachable_inv: "reachable C sk \<sigma> \<Longrightarrow> \<exists>K sent s. conversation_inv C sk K sent s \<sigma>"
proof (induction rule: reachable.induct)
  case (start ephemeral spk alice)
  then show ?case by (rule start_inv)
next
  case (send \<sigma> p msg header ct st')
  then show ?case using send_inv by blast
next
  case (deliver \<sigma> w fresh msg st')
  then show ?case using deliver_inv by blast
next
  case (reject \<sigma> fresh header ct p e st')
  then have "st' = cv_session \<sigma> p" by (simp add: ratchet_decrypt_def split: prod.splits sum.splits)
  then show ?case using reject.IH by simp
qed

lemma under_way_decrypts:
  assumes "reachable C sk \<sigma>" "w \<in> cv_wire \<sigma>" "in_window C (wm_header w) (cv_session \<sigma> (wm_to w))" "length fresh = 32"
  shows "fst (ratchet_decrypt C fresh (wm_header w) (wm_ciphertext w) (cv_session \<sigma> (wm_to w))) = Inr (wm_plaintext w)"
  using reachable_inv [OF assms(1)] delivery [OF _ assms(2-4)] by (metis fst_conv)

end

end
