(* ===== verification/X3dh_Deferred.thy ===== *)
theory X3dh_Deferred
  imports E2ee_Crypto
begin

text \<open>
  The X3DH key agreement (\<open>crates/voce-e2ee-core/src/x3dh.rs\<close>) and the deferred envelopes built on it (\<open>deferred.rs\<close>):
  content encryption with the commitment to the metadata, and the wrapping of the content key for one
  recipient device. Secrets, keys and nonces drawn from \<open>OsRng\<close> are arguments; \<open>to_vec\<close> is the
  serialization of a JSON value to bytes, which can fail.
\<close>

section \<open>X3DH\<close>

record PreKeyBundle =
  bu_identity :: IdentityPublic
  bu_signed_prekey :: SignedPreKeyPublic
  bu_one_time_prekey_b64 :: "string option"
  bu_one_time_prekey_id :: "u32 option"

record X3dhInitialMessage =
  im_identity_dh_pub_b64 :: string
  im_ephemeral_pub_b64 :: string
  im_used_signed_prekey_id :: u32
  im_used_one_time_prekey_id :: "u32 option"

text \<open>\<open>eka\<close> is the ephemeral secret drawn.\<close>

definition x3dh_initiator ::
    "crypto \<Rightarrow> bytes \<Rightarrow> bytes \<Rightarrow> IdentityPublic \<Rightarrow> PreKeyBundle \<Rightarrow> E2eError + bytes \<times> X3dhInitialMessage \<times> bytes" where
  "x3dh_initiator C eka alice_ik_secret alice_ik_public bob =
     try_res (verify_signed_prekey C (bu_identity bob) (bu_signed_prekey bob)) (\<lambda>u.
     try_res (decode_x25519_pub C (identity_dh_pub_b64 (bu_identity bob))) (\<lambda>ikb.
     try_res (decode_x25519_pub C (sp_dh_pub_b64 (bu_signed_prekey bob))) (\<lambda>spkb.
       let concat3 = x_dh C alice_ik_secret spkb @ x_dh C eka ikb @ x_dh C eka spkb in
     try_res (case bu_one_time_prekey_b64 bob of
         None \<Rightarrow> Inr (concat3, None)
       | Some otk_b64 \<Rightarrow>
           try_res (decode_x25519_pub C otk_b64) (\<lambda>otkb. Inr (concat3 @ x_dh C eka otkb, bu_one_time_prekey_id bob)))
       (\<lambda>(dh_concat, otk_id).
     try_res (kdf_x3dh C dh_concat) (\<lambda>sk.
       Inr (sk,
         \<lparr> im_identity_dh_pub_b64 = identity_dh_pub_b64 alice_ik_public,
           im_ephemeral_pub_b64 = b64_encode C (x_public C eka),
           im_used_signed_prekey_id = sp_key_id (bu_signed_prekey bob),
           im_used_one_time_prekey_id = otk_id \<rparr>, eka))))))"

definition x3dh_responder ::
    "crypto \<Rightarrow> bytes \<Rightarrow> bytes \<Rightarrow> bytes option \<Rightarrow> X3dhInitialMessage \<Rightarrow> E2eError + bytes" where
  "x3dh_responder C bob_ik_secret bob_spk_secret bob_otk_secret alice_msg =
     try_res (decode_x25519_pub C (im_identity_dh_pub_b64 alice_msg)) (\<lambda>ika.
     try_res (decode_x25519_pub C (im_ephemeral_pub_b64 alice_msg)) (\<lambda>eka.
       let concat3 = x_dh C bob_spk_secret ika @ x_dh C bob_ik_secret eka @ x_dh C bob_spk_secret eka in
     try_res (if im_used_one_time_prekey_id alice_msg \<noteq> None
         then try_res (ok_or (X3dh ''missing OTK secret'') bob_otk_secret) (\<lambda>otk. Inr (concat3 @ x_dh C otk eka))
         else Inr concat3)
       (kdf_x3dh C)))"

section \<open>Deferred content\<close>

definition DEFERRED_ALG :: string where
  "DEFERRED_ALG = ''DEFERRED+AES-GCM''"

definition WRAP_KDF_INFO :: bytes where
  "WRAP_KDF_INFO = ''VoceChat_Deferred_WrapKey_v2''"

definition WRAP_AAD :: bytes where
  "WRAP_AAD = ''VoceChat_Deferred_WrapAad_v2''"

record DeferredEncrypted =
  de_content_key :: bytes
  de_nonce :: bytes
  de_ciphertext :: bytes
  de_sha256 :: bytes

record DeferredEnvelope =
  dv_alg :: string
  dv_x3dh_initial :: X3dhInitialMessage
  dv_nonce_b64 :: string
  dv_wrapped_key_b64 :: string

record DeferredLocalIdentity =
  dl_ik_secret :: bytes
  dl_spk_secret :: bytes
  dl_otk_secret :: "bytes option"

definition deferred_metadata_commitment :: "crypto \<Rightarrow> ('j \<Rightarrow> string + bytes) \<Rightarrow> 'j \<Rightarrow> E2eError + bytes" where
  "deferred_metadata_commitment C to_vec metadata =
     try_res (map_sum Json id (to_vec metadata)) (\<lambda>bytes. Inr (sha256 C bytes))"

text \<open>The difference is accumulated over all 32 bytes.\<close>

fun ct_diff :: "nat \<Rightarrow> bytes \<Rightarrow> bytes \<Rightarrow> nat \<Rightarrow> nat" where
  "ct_diff 0 a b diff = diff"
| "ct_diff (Suc i) a b diff =
     ct_diff i (tl a) (tl b) (or diff (xor (of_char (hd a)) (of_char (hd b))))"

definition ct_eq :: "bytes \<Rightarrow> bytes \<Rightarrow> bool" where
  "ct_eq a b = (ct_diff 32 a b 0 = 0)"

definition deferred_verify_metadata :: "crypto \<Rightarrow> ('j \<Rightarrow> string + bytes) \<Rightarrow> 'j \<Rightarrow> bytes \<Rightarrow> E2eError + bool" where
  "deferred_verify_metadata C to_vec metadata digest =
     try_res (deferred_metadata_commitment C to_vec metadata) (\<lambda>commitment. Inr (ct_eq commitment digest))"

definition decode_fixed :: "crypto \<Rightarrow> string \<Rightarrow> nat \<Rightarrow> string \<Rightarrow> E2eError + bytes" where
  "decode_fixed C b64 n what =
     (case b64_decode C b64 of
        Inl e \<Rightarrow> Inl (InvalidEnvelope (what @ '': '' @ e))
      | Inr bs \<Rightarrow>
          if length bs \<noteq> n
          then Inl (InvalidEnvelope (what @ '' must be '' @ decimal n @ '' bytes, got '' @ decimal (length bs)))
          else Inr bs)"

definition aes_key :: "bytes \<Rightarrow> E2eError + bytes" where
  "aes_key k = (if length k = 32 then Inr k else Inl (InvalidKey ''aes key''))"

definition deferred_encrypt ::
    "crypto \<Rightarrow> ('j \<Rightarrow> string + bytes) \<Rightarrow> bytes \<Rightarrow> bytes \<Rightarrow> bytes \<Rightarrow> 'j \<Rightarrow> E2eError + DeferredEncrypted" where
  "deferred_encrypt C to_vec content_key nonce body metadata =
     try_res (deferred_metadata_commitment C to_vec metadata) (\<lambda>digest.
     try_res (aes_key content_key) (\<lambda>cipher.
     try_res (ok_or EncryptFailed (aes_encrypt C cipher nonce body digest)) (\<lambda>ciphertext.
       Inr \<lparr> de_content_key = content_key, de_nonce = nonce, de_ciphertext = ciphertext, de_sha256 = digest \<rparr>)))"

definition deferred_decrypt :: "crypto \<Rightarrow> bytes \<Rightarrow> bytes \<Rightarrow> bytes \<Rightarrow> bytes \<Rightarrow> E2eError + bytes" where
  "deferred_decrypt C ciphertext key nonce digest =
     try_res (aes_key key) (\<lambda>cipher. ok_or DecryptFailed (aes_decrypt C cipher nonce ciphertext digest))"

text \<open>\<open>x\<close>, \<open>ed\<close> are the throwaway identity, \<open>eka\<close> the ephemeral secret.\<close>

definition deferred_wrap_key ::
    "crypto \<Rightarrow> bytes \<Rightarrow> bytes \<Rightarrow> bytes \<Rightarrow> bytes \<Rightarrow> bytes \<Rightarrow> PreKeyBundle \<Rightarrow> E2eError + DeferredEnvelope" where
  "deferred_wrap_key C x ed eka nonce content_key recipient_bundle =
     (let (throwaway_secret, throwaway_public) = identity_generate C x ed in
     try_res (x3dh_initiator C eka (id_x25519 throwaway_secret) throwaway_public recipient_bundle)
       (\<lambda>(shared_secret, x3dh_initial, eka_secret).
     try_res (hkdf_sha256 C shared_secret [] WRAP_KDF_INFO 32) (\<lambda>wrap_key.
     try_res (aes_key wrap_key) (\<lambda>cipher.
     try_res (ok_or EncryptFailed (aes_encrypt C cipher nonce content_key WRAP_AAD)) (\<lambda>wrapped.
       Inr \<lparr> dv_alg = DEFERRED_ALG, dv_x3dh_initial = x3dh_initial, dv_nonce_b64 = b64_encode C nonce,
             dv_wrapped_key_b64 = b64_encode C wrapped \<rparr>)))))"

definition deferred_unwrap_key :: "crypto \<Rightarrow> DeferredEnvelope \<Rightarrow> DeferredLocalIdentity \<Rightarrow> E2eError + bytes" where
  "deferred_unwrap_key C envelope local_identity =
     (if dv_alg envelope \<noteq> DEFERRED_ALG then Inl (InvalidEnvelope (''unexpected alg: '' @ dv_alg envelope))
      else
     try_res (x3dh_responder C (dl_ik_secret local_identity) (dl_spk_secret local_identity) (dl_otk_secret local_identity)
         (dv_x3dh_initial envelope)) (\<lambda>shared_secret.
     try_res (hkdf_sha256 C shared_secret [] WRAP_KDF_INFO 32) (\<lambda>wrap_key.
     try_res (decode_fixed C (dv_nonce_b64 envelope) 12 ''nonce_b64'') (\<lambda>nonce.
     try_res (case b64_decode C (dv_wrapped_key_b64 envelope) of
         Inl e \<Rightarrow> Inl (InvalidEnvelope (''wrapped_key_b64: '' @ e)) | Inr wrapped \<Rightarrow> Inr wrapped) (\<lambda>wrapped.
     try_res (aes_key wrap_key) (\<lambda>cipher.
     try_res (ok_or DecryptFailed (aes_decrypt C cipher nonce wrapped WRAP_AAD)) (\<lambda>opened.
       if length opened \<noteq> 32 then Inl (InvalidKey ''unwrapped content key length'') else Inr opened)))))))"

section \<open>Facts from the contract\<close>

text \<open>The bundle a device publishes: its identity, a signed prekey and perhaps a one-time prekey.\<close>

definition published_bundle ::
    "crypto \<Rightarrow> IdentitySecret \<Rightarrow> u32 \<Rightarrow> bytes \<Rightarrow> (u32 option \<times> bytes) option \<Rightarrow> PreKeyBundle" where
  "published_bundle C ident i spk otk =
     \<lparr> bu_identity = identity_public C ident, bu_signed_prekey = snd (generate_signed_prekey C spk ident i),
       bu_one_time_prekey_b64 = map_option (\<lambda>(j, s). b64_encode C (x_public C s)) otk,
       bu_one_time_prekey_id = (case otk of None \<Rightarrow> None | Some (j, s) \<Rightarrow> j) \<rparr>"

definition secrets_ok :: "IdentitySecret \<Rightarrow> bytes \<Rightarrow> (u32 option \<times> bytes) option \<Rightarrow> bool" where
  "secrets_ok ident spk otk \<longleftrightarrow> length (id_x25519 ident) = 32 \<and> length (id_ed25519 ident) = 32 \<and> length spk = 32 \<and>
     (case otk of None \<Rightarrow> True | Some (j, s) \<Rightarrow> length s = 32)"

lemma xor_nat_eq_0_iff: "xor m n = 0 \<longleftrightarrow> m = n" for m n :: nat
  by (auto simp: bit_eq_iff bit_simps)

lemma ct_diff_zero:
  assumes "length a = n" "length b = n"
  shows "ct_diff n a b diff = 0 \<longleftrightarrow> diff = 0 \<and> a = b"
  using assms
proof (induction n arbitrary: a b diff)
  case (Suc n)
  then obtain c cs d ds where "a = c # cs" "b = d # ds" by (metis length_Suc_conv)
  then show ?case using Suc by (simp add: or_eq_0_iff xor_nat_eq_0_iff)
qed simp

lemma ct_eq_iff: "length a = 32 \<Longrightarrow> length b = 32 \<Longrightarrow> ct_eq a b \<longleftrightarrow> a = b"
  by (simp add: ct_eq_def ct_diff_zero)

definition has_otk_id :: "(u32 option \<times> bytes) option \<Rightarrow> bool" where
  "has_otk_id otk \<longleftrightarrow> (case otk of None \<Rightarrow> True | Some (j, s) \<Rightarrow> j \<noteq> None)"

context crypto_contract
begin

lemma published_bundle_keys:
  assumes "secrets_ok ident spk otk"
  shows "verify_signed_prekey C (bu_identity (published_bundle C ident i spk otk))
      (bu_signed_prekey (published_bundle C ident i spk otk)) = Inr ()"
    "decode_x25519_pub C (identity_dh_pub_b64 (bu_identity (published_bundle C ident i spk otk))) = Inr (x_public C (id_x25519 ident))"
    "decode_x25519_pub C (sp_dh_pub_b64 (bu_signed_prekey (published_bundle C ident i spk otk))) = Inr (x_public C spk)"
  using assms generated_prekey_verifies [of ident spk i]
  by (simp_all add: published_bundle_def secrets_ok_def identity_public_def generate_signed_prekey_def Let_def
      decode_encode_pub x_public_length)

lemma agreement:
  assumes ok: "secrets_ok ident spk otk" "has_otk_id otk" and len: "length ik = 32" "length eka = 32"
    and pub: "identity_dh_pub_b64 alice = b64_encode C (x_public C ik)"
  obtains sk msg where "x3dh_initiator C eka ik alice (published_bundle C ident i spk otk) = Inr (sk, msg, eka)"
    "x3dh_responder C (id_x25519 ident) spk (map_option snd otk) msg = Inr sk" "length sk = 32"
proof -
  let ?b = "published_bundle C ident i spk otk"
  let ?pub = "x_public C" and ?bob = "id_x25519 ident"
  have bob: "length ?bob = 32" "length spk = 32" using ok(1) by (simp_all add: secrets_ok_def)
  define dh where "dh = x_dh C ik (?pub spk) @ x_dh C eka (?pub ?bob) @ x_dh C eka (?pub spk) @
    (case otk of None \<Rightarrow> [] | Some (j, s) \<Rightarrow> x_dh C eka (?pub s))"
  obtain sk where sk: "kdf_x3dh C dh = Inr sk" "length sk = 32" using kdf_x3dh_ok [of dh] by blast
  let ?msg = "\<lparr> im_identity_dh_pub_b64 = identity_dh_pub_b64 alice, im_ephemeral_pub_b64 = b64_encode C (?pub eka),
    im_used_signed_prekey_id = sp_key_id (bu_signed_prekey ?b), im_used_one_time_prekey_id = bu_one_time_prekey_id ?b \<rparr>"
  have otk: "bu_one_time_prekey_b64 ?b = map_option (\<lambda>(j, s). b64_encode C (?pub s)) otk"
    "bu_one_time_prekey_id ?b = (case otk of None \<Rightarrow> None | Some (j, s) \<Rightarrow> j)"
    by (simp_all add: published_bundle_def)
  have "x3dh_initiator C eka ik alice ?b = Inr (sk, ?msg, eka)"
    using ok sk(1) otk published_bundle_keys [OF ok(1), of i]
    by (cases otk) (auto simp: x3dh_initiator_def Let_def dh_def secrets_ok_def decode_encode_pub x_public_length)
  moreover have "x3dh_responder C ?bob spk (map_option snd otk) ?msg = Inr sk"
    using ok sk(1) otk len pub bob x_dh_agree [OF bob(2) len(1)] x_dh_agree [OF bob(1) len(2)] x_dh_agree [OF bob(2) len(2)]
    by (cases otk) (auto simp: x3dh_responder_def Let_def dh_def secrets_ok_def has_otk_id_def decode_encode_pub
        x_public_length x_dh_agree [of _ eka])
  ultimately show thesis using sk(2) by (rule that)
qed

lemma wrapped_key_unwraps:
  assumes ok: "secrets_ok ident spk otk" "has_otk_id otk"
    and len: "length x = 32" "length eka = 32" "length nonce = 12" "length key = 32"
    and run: "deferred_wrap_key C x ed eka nonce key (published_bundle C ident i spk otk) = Inr env"
  shows "deferred_unwrap_key C env
      \<lparr> dl_ik_secret = id_x25519 ident, dl_spk_secret = spk, dl_otk_secret = map_option snd otk \<rparr> = Inr key"
proof -
  let ?alice = "snd (identity_generate C x ed)"
  have "identity_dh_pub_b64 ?alice = b64_encode C (x_public C x)" by (simp add: identity_generate_def)
  from agreement [OF ok len(1,2) this] obtain sk msg where
    sk: "x3dh_initiator C eka x ?alice (published_bundle C ident i spk otk) = Inr (sk, msg, eka)"
    "x3dh_responder C (id_x25519 ident) spk (map_option snd otk) msg = Inr sk"
    by blast
  obtain wk where wk: "hkdf_sha256 C sk [] WRAP_KDF_INFO 32 = Inr wk" "length wk = 32"
    using hkdf_sha256_ok [of 32 sk "[]" WRAP_KDF_INFO] by auto
  from run sk(1) wk obtain wrapped where w: "aes_encrypt C wk nonce key WRAP_AAD = Some wrapped"
    "env = \<lparr> dv_alg = DEFERRED_ALG, dv_x3dh_initial = msg, dv_nonce_b64 = b64_encode C nonce,
       dv_wrapped_key_b64 = b64_encode C wrapped \<rparr>"
    by (auto simp: deferred_wrap_key_def identity_generate_def aes_key_def try_res_Inr_iff)
  then show ?thesis
    using sk(2) wk len aes_open_seal [OF wk(2) len(3) w(1)]
    by (simp add: deferred_unwrap_key_def decode_fixed_def b64_decode_encode aes_key_def)
qed

lemma content_decrypts:
  assumes "length key = 32" "length nonce = 12" "deferred_encrypt C to_vec key nonce body metadata = Inr enc"
  shows "deferred_decrypt C (de_ciphertext enc) key (de_nonce enc) (de_sha256 enc) = Inr body"
    "de_content_key enc = key" "de_nonce enc = nonce" "deferred_metadata_commitment C to_vec metadata = Inr (de_sha256 enc)"
  using assms aes_open_seal [OF assms(1,2)]
  by (auto simp: deferred_encrypt_def deferred_decrypt_def aes_key_def try_res_Inr_iff)

lemma commitment_length: "deferred_metadata_commitment C to_vec metadata = Inr d \<Longrightarrow> length d = 32"
  by (auto simp: deferred_metadata_commitment_def try_res_Inr_iff sha256_length)

lemma verify_metadata_iff:
  assumes "length digest = 32"
  shows "deferred_verify_metadata C to_vec metadata digest = Inr b \<longleftrightarrow>
    (\<exists>d. deferred_metadata_commitment C to_vec metadata = Inr d \<and> b = (d = digest))"
  using commitment_length [of to_vec metadata] assms
  by (auto simp: deferred_verify_metadata_def try_res_Inr_iff ct_eq_iff)

end

end
