(* ===== verification/Dm_Session.thy ===== *)
theory Dm_Session
  imports Ratchet X3dh_Deferred Service "HOL-Library.Product_Lexorder"
begin

text \<open>
  Sessions as clients keep them: the serialized form \<open>RatchetStateDto\<close> of \<open>ratchet.rs\<close>, and the session methods of the
  foreign-function interface (\<open>ffi.rs\<close>), each of which restores the session, performs one operation and returns the
  new serialized session with the result. The methods are modelled from their parsed arguments on; the
  JSON layer around them is not. The order in which a hash map iterates is taken as the order of the keys.
  Also here: the replay window of \<open>envelope.rs\<close> and the texts of the errors (\<open>error.rs\<close>).
\<close>

definition e2e_error_to_string :: "E2eError \<Rightarrow> string" where
  "e2e_error_to_string e =
     (case e of
        UnsupportedVersion v \<Rightarrow> ''unsupported E2EE version: '' @ decimal v
      | InvalidEnvelope s \<Rightarrow> ''invalid envelope: '' @ s
      | InvalidKey s \<Rightarrow> ''invalid key material: '' @ s
      | DecryptFailed \<Rightarrow> ''decryption failed''
      | EncryptFailed \<Rightarrow> ''encryption failed''
      | Replay n \<Rightarrow> ''replay detected (n='' @ decimal n @ '')''
      | X3dh s \<Rightarrow> ''x3dh failed: '' @ s
      | Ratchet s \<Rightarrow> ''ratchet error: '' @ s
      | Json s \<Rightarrow> ''json: '' @ s
      | NotImplemented s \<Rightarrow> ''not implemented: '' @ s)"

section \<open>Serialized sessions\<close>

record SkippedMk =
  sk_dh_pub_b64 :: string
  sk_n :: u32
  sk_mk_b64 :: string

record RatchetStateDto =
  dto_dhs_b64 :: string
  dto_dhr_b64 :: "string option"
  dto_rk_b64 :: string
  dto_cks_b64 :: "string option"
  dto_ckr_b64 :: "string option"
  dto_ns :: u32
  dto_nr :: u32
  dto_pn :: u32
  dto_mkskipped :: "SkippedMk list"

definition to_dto :: "crypto \<Rightarrow> RatchetState \<Rightarrow> RatchetStateDto" where
  "to_dto C st =
     \<lparr> dto_dhs_b64 = b64_encode C (rs_dhs st), dto_dhr_b64 = map_option (b64_encode C) (rs_dhr st),
       dto_rk_b64 = b64_encode C (rs_rk st), dto_cks_b64 = map_option (b64_encode C) (rs_cks st),
       dto_ckr_b64 = map_option (b64_encode C) (rs_ckr st), dto_ns = rs_ns st, dto_nr = rs_nr st, dto_pn = rs_pn st,
       dto_mkskipped = map (\<lambda>(dh, n). \<lparr> sk_dh_pub_b64 = dh, sk_n = n,
           sk_mk_b64 = b64_encode C (the (fmlookup (rs_mkskipped st) (dh, n))) \<rparr>)
         (sorted_list_of_set (fmdom' (rs_mkskipped st))) \<rparr>"

definition decode32 :: "crypto \<Rightarrow> string \<Rightarrow> E2eError + bytes" where
  "decode32 C s = try_res (b64_bytes C s) (try_into32 ''32-byte field'')"

fun restore_skipped :: "crypto \<Rightarrow> SkippedMk list \<Rightarrow> (string \<times> u32, bytes) fmap \<Rightarrow> E2eError + (string \<times> u32, bytes) fmap" where
  "restore_skipped C [] m = Inr m"
| "restore_skipped C (s # ss) m =
     try_res (decode32 C (sk_mk_b64 s)) (\<lambda>mk. restore_skipped C ss (fmupd (sk_dh_pub_b64 s, sk_n s) mk m))"

definition decode_opt :: "(string \<Rightarrow> E2eError + bytes) \<Rightarrow> string option \<Rightarrow> E2eError + bytes option" where
  "decode_opt f s = (case s of None \<Rightarrow> Inr None | Some b \<Rightarrow> map_sum id Some (f b))"

definition from_dto :: "crypto \<Rightarrow> RatchetStateDto \<Rightarrow> E2eError + RatchetState" where
  "from_dto C dto =
     try_res (try_res (b64_bytes C (dto_dhs_b64 dto)) (try_into32 ''dhs len'')) (\<lambda>dhs.
     try_res (try_res (b64_bytes C (dto_rk_b64 dto)) (try_into32 ''rk len'')) (\<lambda>rk.
     try_res (restore_skipped C (dto_mkskipped dto) fmempty) (\<lambda>mkskipped.
     try_res (decode_opt (decode_x25519_pub C) (dto_dhr_b64 dto)) (\<lambda>dhr.
     try_res (decode_opt (decode32 C) (dto_cks_b64 dto)) (\<lambda>cks.
     try_res (decode_opt (decode32 C) (dto_ckr_b64 dto)) (\<lambda>ckr.
       Inr \<lparr> rs_dhs = dhs, rs_dhr = dhr, rs_rk = rk, rs_cks = cks, rs_ckr = ckr, rs_ns = dto_ns dto,
             rs_nr = dto_nr dto, rs_pn = dto_pn dto, rs_mkskipped = mkskipped \<rparr>))))))"

section \<open>The methods\<close>

definition ffi_err :: "E2eError + 'a \<Rightarrow> string + 'a" where
  "ffi_err = map_sum e2e_error_to_string id"

definition ffi_ratchet_encrypt ::
    "crypto \<Rightarrow> bytes \<Rightarrow> RatchetStateDto \<Rightarrow> string + RatchetStateDto \<times> RatchetHeader \<times> string" where
  "ffi_ratchet_encrypt C plaintext dto =
     try_res (ffi_err (from_dto C dto)) (\<lambda>st.
       case ratchet_encrypt C plaintext st of
         (Inl e, st') \<Rightarrow> Inl (e2e_error_to_string e)
       | (Inr (header, ct), st') \<Rightarrow> Inr (to_dto C st', header, b64_encode C ct))"

definition ffi_ratchet_decrypt ::
    "crypto \<Rightarrow> bytes \<Rightarrow> RatchetHeader \<Rightarrow> string \<Rightarrow> RatchetStateDto \<Rightarrow> string + RatchetStateDto \<times> bytes" where
  "ffi_ratchet_decrypt C fresh header ciphertext_b64 dto =
     try_res (ffi_err (from_dto C dto)) (\<lambda>st.
     try_res (b64_decode C ciphertext_b64) (\<lambda>ct.
       case ratchet_decrypt C fresh header ct st of
         (Inl e, st') \<Rightarrow> Inl (e2e_error_to_string e)
       | (Inr pt, st') \<Rightarrow> Inr (to_dto C st', pt)))"

text \<open>\<open>eka\<close> is drawn by the key agreement, \<open>fresh\<close> by the ratchet.\<close>

definition dm_session_open_initiator ::
    "crypto \<Rightarrow> bytes \<Rightarrow> bytes \<Rightarrow> bytes \<Rightarrow> IdentityPublic \<Rightarrow> PreKeyBundle \<Rightarrow> bytes \<Rightarrow>
     string + RatchetStateDto \<times> RatchetHeader \<times> string \<times> X3dhInitialMessage \<times> u32" where
  "dm_session_open_initiator C eka fresh alice_sec alice_pub bndl plaintext =
     ffi_err (try_res (x3dh_initiator C eka alice_sec alice_pub bndl) (\<lambda>(sk, initial, eph).
     try_res (decode_x25519_pub C (sp_dh_pub_b64 (bu_signed_prekey bndl))) (\<lambda>bob_dh.
     try_res (init_alice C fresh sk bob_dh) (\<lambda>st.
       case ratchet_encrypt C plaintext st of
         (Inl e, st') \<Rightarrow> Inl e
       | (Inr (header, ct), st') \<Rightarrow>
           Inr (to_dto C st', header, b64_encode C ct, initial, sp_key_id (bu_signed_prekey bndl))))))"

definition dm_session_open_responder ::
    "crypto \<Rightarrow> bytes \<Rightarrow> bytes \<Rightarrow> bytes \<Rightarrow> bytes option \<Rightarrow> X3dhInitialMessage \<Rightarrow> RatchetHeader \<Rightarrow> string \<Rightarrow>
     string + RatchetStateDto \<times> bytes" where
  "dm_session_open_responder C fresh bob_ik bob_spk otk initial header ciphertext_b64 =
     try_res (b64_decode C ciphertext_b64) (\<lambda>ct.
     try_res (ffi_err (x3dh_responder C bob_ik bob_spk otk initial)) (\<lambda>sk.
       case ratchet_decrypt C fresh header ct (init_bob sk bob_spk) of
         (Inl e, st') \<Rightarrow> Inl (e2e_error_to_string e)
       | (Inr pt, st') \<Rightarrow> Inr (to_dto C st', pt)))"

datatype session_call = CallEncrypt bytes | CallDecrypt bytes RatchetHeader string
datatype session_answer = Sealed RatchetHeader string | Opened bytes

text \<open>A client replaces its stored session by the one returned; an error returns none.\<close>

definition session_exec ::
    "crypto \<Rightarrow> session_call \<Rightarrow> RatchetStateDto \<Rightarrow> (string + session_answer) \<times> RatchetStateDto" where
  "session_exec C c dto =
     (case c of
        CallEncrypt pt \<Rightarrow>
          (case ffi_ratchet_encrypt C pt dto of
             Inl e \<Rightarrow> (Inl e, dto) | Inr (dto', header, ct) \<Rightarrow> (Inr (Sealed header ct), dto'))
      | CallDecrypt fresh header ct \<Rightarrow>
          (case ffi_ratchet_decrypt C fresh header ct dto of
             Inl e \<Rightarrow> (Inl e, dto) | Inr (dto', pt) \<Rightarrow> (Inr (Opened pt), dto')))"

section \<open>The replay window\<close>

record ReplayWindow =
  rw_seen :: "string set"
  rw_capacity :: usize

definition replay_window_new :: "usize \<Rightarrow> ReplayWindow" where
  "replay_window_new capacity = \<lparr> rw_seen = {}, rw_capacity = capacity \<rparr>"

definition check_and_record :: "string \<Rightarrow> ReplayWindow \<Rightarrow> (E2eError + unit) \<times> ReplayWindow" where
  "check_and_record key w =
     (if key \<in> rw_seen w then (Inl (Replay 0), w)
      else
        let w = (if card (rw_seen w) \<ge> rw_capacity w then w\<lparr>rw_seen := {}\<rparr> else w) in
        (Inr (), w\<lparr>rw_seen := insert key (rw_seen w)\<rparr>))"

end
