(* ===== verification/Session_Properties.thy ===== *)
theory Session_Properties
  imports Ratchet_Conversation Dm_Session
begin

text \<open>
  The theorems about end-to-end encrypted sessions: delivery in any order, the first contact, storage, rejected
  calls, the bound on skipped keys, and the deferred envelopes; and a concrete instance of the cryptographic
  primitives on which the examples run.
\<close>

section \<open>Well-formed sessions\<close>

abbreviation key32 :: "bytes \<Rightarrow> bool" where
  "key32 k \<equiv> length k = 32"

abbreviation in_u32 :: "nat \<Rightarrow> bool" where
  "in_u32 n \<equiv> n < 2 ^ 32"

definition session_ok :: "RatchetState \<Rightarrow> bool" where
  "session_ok st \<longleftrightarrow> key32 (rs_dhs st) \<and> pred_option key32 (rs_dhr st) \<and> key32 (rs_rk st) \<and>
     pred_option key32 (rs_cks st) \<and> pred_option key32 (rs_ckr st) \<and>
     in_u32 (rs_ns st) \<and> in_u32 (rs_nr st) \<and> in_u32 (rs_pn st) \<and>
     fmpred (\<lambda>k mk. in_u32 (snd k) \<and> key32 mk) (rs_mkskipped st)"

definition header_ok :: "RatchetHeader \<Rightarrow> bool" where
  "header_ok h \<longleftrightarrow> in_u32 (rh_pn h) \<and> in_u32 (rh_n h)"

lemma wrapping_succ_u32 [simp]: "u32_wrapping_succ n < 4294967296"
  by (simp add: u32_wrapping_succ_def)

lemma decode_pub_length: "decode_x25519_pub C s = Inr p \<Longrightarrow> key32 p"
  by (auto simp: decode_x25519_pub_def try_into32_def try_res_Inr_iff split: if_splits)

context crypto_contract
begin

lemma session_ok_alice:
  "key32 fresh \<Longrightarrow> key32 p \<Longrightarrow> init_alice C fresh sk p = Inr st \<Longrightarrow> session_ok st"
  using next_root_length [of sk "x_dh C fresh p"]
  by (auto simp: init_alice_def Let_def kdf_rk_ok session_ok_def split: prod.splits)

lemma session_ok_bob: "key32 sk \<Longrightarrow> key32 spk \<Longrightarrow> session_ok (init_bob sk spk)"
  by (simp add: init_bob_def session_ok_def)

lemma session_ok_encrypt:
  assumes "session_ok st"
  shows "session_ok (snd (ratchet_encrypt C pt st))"
  using assms next_chain_length
  by (auto simp: ratchet_encrypt_def kdf_ck_ok session_ok_def Let_def split: option.splits)

lemma session_ok_skip_loop:
  assumes "session_ok st" "in_u32 until"
  shows "session_ok (snd (skip_loop C until ckr st))"
  using assms(1)
proof (induction "until - rs_nr st" arbitrary: st ckr)
  case 0
  then show ?case by (simp add: skip_loop.simps [of _ _ _ st])
next
  case (Suc k)
  then have less: "rs_nr st < until" by simp
  show ?case
  proof (cases "rs_dhr st")
    case None
    then show ?thesis using Suc.prems less next_chain_length
      by (subst skip_loop.simps) (simp add: kdf_ck_ok session_ok_def)
  next
    case (Some p)
    let ?st = "st\<lparr>rs_ckr := Some (next_chain C ckr),
      rs_mkskipped := fmupd (b64_encode C p, rs_nr st) (message_key C ckr) (rs_mkskipped st), rs_nr := rs_nr st + 1\<rparr>"
    have "session_ok ?st"
      using Suc.prems less assms(2) next_chain_length message_key_length
      by (auto simp: session_ok_def intro!: fmpred_upd)
    moreover have "k = until - rs_nr ?st" using Suc.hyps(2) by simp
    ultimately have "session_ok (snd (skip_loop C until (next_chain C ckr) ?st))" by (intro Suc.hyps(1))
    then show ?thesis using less Some by (subst skip_loop.simps) (simp add: kdf_ck_ok)
  qed
qed

lemma session_ok_skip: "session_ok st \<Longrightarrow> in_u32 until \<Longrightarrow> session_ok (snd (skip_message_keys C until st))"
  by (auto simp: skip_message_keys_def session_ok_skip_loop split: option.splits)

lemma session_ok_ratchet:
  assumes "session_ok st" "key32 fresh" "key32 p"
  shows "session_ok (snd (dh_ratchet C fresh p st))"
  using assms next_root_length [of "rs_rk st" "x_dh C (rs_dhs st) p"]
    next_root_length [of "fst (next_root C (rs_rk st) (x_dh C (rs_dhs st) p))" "x_dh C fresh p"]
  by (simp add: dh_ratchet_def Let_def kdf_rk_ok case_prod_beta session_ok_def)

lemma session_ok_receive: "session_ok st \<Longrightarrow> session_ok (snd (receive_next C header ct st))"
  using next_chain_length by (auto simp: receive_next_def kdf_ck_ok session_ok_def split: option.splits)

lemma session_ok_try_skipped: "session_ok st \<Longrightarrow> session_ok (snd (try_skipped C header ct st))"
  by (auto simp: try_skipped_def session_ok_def Let_def split: option.splits)

end

lemma and_then_inv:
  assumes "P (snd r)" "\<And>x s. r = (Inr x, s) \<Longrightarrow> P s \<Longrightarrow> P (snd (f x s))"
  shows "P (snd (and_then r f))"
  using assms by (cases r; cases "fst r") auto

context crypto_contract
begin

lemma session_ok_decrypt:
  assumes ok: "session_ok st" and "key32 fresh" "header_ok header"
  shows "session_ok (snd (ratchet_decrypt C fresh header ct st))"
proof -
  have "session_ok (snd (decrypt_staged C fresh header ct st))"
    unfolding decrypt_staged_def using assms
    by (intro and_then_inv [where P = session_ok] session_ok_try_skipped)
      (auto split: option.splits sum.splits simp: header_ok_def
        intro!: and_then_inv [where P = session_ok] session_ok_skip session_ok_ratchet session_ok_receive
        dest: decode_pub_length)
  then show ?thesis using ok by (auto simp: ratchet_decrypt_def split: prod.splits sum.splits)
qed

lemma restore_stored:
  assumes "\<And>k. k \<in> set ks \<Longrightarrow> \<exists>mk. fmlookup M k = Some mk \<and> key32 mk"
  shows "\<exists>m'. restore_skipped C (map (\<lambda>(dh, n). \<lparr> sk_dh_pub_b64 = dh, sk_n = n,
        sk_mk_b64 = b64_encode C (the (fmlookup M (dh, n))) \<rparr>) ks) m = Inr m' \<and>
      (\<forall>k. fmlookup m' k = (if k \<in> set ks then fmlookup M k else fmlookup m k))"
  using assms
proof (induction ks arbitrary: m)
  case (Cons k ks)
  obtain dh n where k: "k = (dh, n)" by (cases k)
  obtain mk where mk: "fmlookup M (dh, n) = Some mk" "key32 mk" using Cons.prems [of k] k by auto
  then have "decode32 C (b64_encode C mk) = Inr mk" by (simp add: decode32_def b64_bytes_encode try_into32_def)
  then show ?case using Cons.IH [of "fmupd (dh, n) mk m"] Cons.prems mk k by auto
qed simp

lemma dto_round_trip:
  assumes ok: "session_ok st"
  shows "from_dto C (to_dto C st) = Inr st"
proof -
  have opt: "decode_opt f (map_option (b64_encode C) o') = Inr o'"
    if "pred_option key32 o'" "\<And>k. key32 k \<Longrightarrow> f (b64_encode C k) = Inr k" for f o'
    using that by (cases o') (simp_all add: decode_opt_def)
  have keys: "\<exists>mk. fmlookup (rs_mkskipped st) k = Some mk \<and> key32 mk"
    if "k \<in> set (sorted_list_of_set (fmdom' (rs_mkskipped st)))" for k
    using ok that by (auto simp: session_ok_def fmlookup_dom'_iff dest: fmpredD)
  obtain m where m: "restore_skipped C (dto_mkskipped (to_dto C st)) fmempty = Inr m"
    "\<And>k. fmlookup m k = (if k \<in> set (sorted_list_of_set (fmdom' (rs_mkskipped st))) then fmlookup (rs_mkskipped st) k else None)"
    using restore_stored [of "sorted_list_of_set (fmdom' (rs_mkskipped st))" "rs_mkskipped st" fmempty] keys
    by (auto simp: to_dto_def)
  have "m = rs_mkskipped st" by (rule fmap_ext) (auto simp: m(2) fmlookup_dom'_iff)
  then have "restore_skipped C (dto_mkskipped (to_dto C st)) fmempty = Inr (rs_mkskipped st)" using m(1) by simp
  then show ?thesis using ok opt
    by (simp add: from_dto_def session_ok_def to_dto_def b64_bytes_encode try_into32_def decode32_def decode_encode_pub)
qed

end

section \<open>Delivery\<close>

text \<open>
  C3 Two sessions that started from one key agreement understand each other whatever the network does: in every
  reachable conversation - any turns of sending, messages delivered in any order, delayed or lost, forgeries
  rejected in between - every message under way, if it is not more than 100 messages ahead of the receiving chain, is
  decrypted to exactly what was sent.
\<close>

theorem messages_decrypt_in_any_order:
  assumes "crypto_contract C" "reachable C sk \<sigma>" "w \<in> cv_wire \<sigma>"
    and "in_window C (wm_header w) (cv_session \<sigma> (wm_to w))" "length fresh = 32"
  shows "fst (ratchet_decrypt C fresh (wm_header w) (wm_ciphertext w) (cv_session \<sigma> (wm_to w))) = Inr (wm_plaintext w)"
  by (rule crypto_contract.under_way_decrypts [OF assms])

text \<open>Two messages of the initiator are under way; the second one overtakes.\<close>

lemma demo_encrypt:
  assumes "rs_cks st \<noteq> None"
  shows "\<exists>header ct st'. ratchet_encrypt demo_crypto msg st = (Inr (header, ct), st') \<and> rs_cks st' \<noteq> None \<and>
    rh_n header = rs_ns st \<and> rh_pn header = rs_pn st \<and> rs_ns st' = u32_wrapping_succ (rs_ns st) \<and> rs_pn st' = rs_pn st"
proof -
  obtain cks where cks: "rs_cks st = Some cks" using assms by blast
  obtain nonce where "hkdf_sha256 demo_crypto (message_key demo_crypto cks) [] ''VoceChat_DR_Nonce_v2'' 12 = Inr nonce"
    using demo.hkdf_sha256_ok [of 12 "message_key demo_crypto cks" "[]" "''VoceChat_DR_Nonce_v2''"] by auto
  then have "\<exists>ct. seal_aes_gcm demo_crypto (message_key demo_crypto cks) msg h = Inr ct" for h
    using demo.message_key_length [of cks] by (simp add: seal_aes_gcm_def) (simp add: demo_crypto_def)
  then obtain ct where "seal_aes_gcm demo_crypto (message_key demo_crypto cks) msg
      \<lparr> rh_dh_pub_b64 = b64_encode demo_crypto (x_public demo_crypto (rs_dhs st)), rh_pn = rs_pn st, rh_n = rs_ns st \<rparr> = Inr ct"
    by blast
  then show ?thesis using cks demo.kdf_ck_ok [of cks] by (simp add: ratchet_encrypt_def Let_def)
qed

theorem messages_decrypt_in_any_order_witness:
  "\<exists>\<sigma> w. reachable demo_crypto (replicate 32 CHR ''k'') \<sigma> \<and> w \<in> cv_wire \<sigma> \<and> rh_n (wm_header w) = 1 \<and>
     fst (ratchet_decrypt demo_crypto (replicate 32 CHR ''c'') (wm_header w) (wm_ciphertext w) (cv_session \<sigma> (wm_to w))) =
       Inr ''second''"
proof -
  let ?sk = "replicate 32 CHR ''k''" and ?a = "replicate 32 CHR ''a''" and ?b = "replicate 32 CHR ''b''"
  have pub: "x_public demo_crypto k = k" for k by (simp add: demo_crypto_def)
  obtain alice where alice: "init_alice demo_crypto ?a ?sk ?b = Inr alice" "rs_cks alice \<noteq> None" "rs_ns alice = 0"
    "rs_pn alice = 0"
    using demo.kdf_rk_ok [of ?sk "x_dh demo_crypto ?a ?b"] by (auto simp: init_alice_def Let_def case_prod_beta)
  let ?\<sigma>0 = "start_conversation ?sk alice ?a ?b"
  have start: "reachable demo_crypto ?sk ?\<sigma>0"
    using reachable.start [of ?a ?b demo_crypto ?sk alice] alice(1) by (simp add: pub)
  obtain h1 ct1 alice1 where one: "ratchet_encrypt demo_crypto ''first'' alice = (Inr (h1, ct1), alice1)"
    "rs_cks alice1 \<noteq> None" "rs_ns alice1 = 1" "rs_pn alice1 = 0"
    using demo_encrypt [OF alice(2), of "''first''"] alice(3,4) by (auto simp: u32_wrapping_succ_def)
  obtain h2 ct2 alice2 where two: "ratchet_encrypt demo_crypto ''second'' alice1 = (Inr (h2, ct2), alice2)"
    "rh_n h2 = 1" "rh_pn h2 = 0"
    using demo_encrypt [OF one(2), of "''second''"] one(3,4) by (auto simp: u32_wrapping_succ_def)
  have session: "cv_session ?\<sigma>0 Initiator = alice" "cv_session ?\<sigma>0 Responder = init_bob ?sk ?b"
    by (simp_all add: start_conversation_def)
  note first = reachable.send [OF start, of Initiator "''first''" h1 ct1 alice1]
  let ?\<sigma>1 = "?\<sigma>0\<lparr>cv_session := (cv_session ?\<sigma>0)(Initiator := alice1), cv_wire := insert
    \<lparr> wm_to = peer Initiator, wm_header = h1, wm_ciphertext = ct1, wm_plaintext = ''first'' \<rparr> (cv_wire ?\<sigma>0)\<rparr>"
  let ?w = "\<lparr> wm_to = Responder, wm_header = h2, wm_ciphertext = ct2, wm_plaintext = ''second'' \<rparr>"
  let ?\<sigma>2 = "?\<sigma>1\<lparr>cv_session := (cv_session ?\<sigma>1)(Initiator := alice2), cv_wire := insert ?w (cv_wire ?\<sigma>1)\<rparr>"
  have "reachable demo_crypto ?sk ?\<sigma>1" using first alice one session by simp
  then have reach: "reachable demo_crypto ?sk ?\<sigma>2"
    using reachable.send [of demo_crypto ?sk ?\<sigma>1 Initiator "''second''" h2 ct2 alice2] one two by simp
  have "in_window demo_crypto (wm_header ?w) (cv_session ?\<sigma>2 (wm_to ?w))"
    using two session by (simp add: in_window_def init_bob_def MAX_SKIP_def)
  then have "fst (ratchet_decrypt demo_crypto (replicate 32 CHR ''c'') (wm_header ?w) (wm_ciphertext ?w)
      (cv_session ?\<sigma>2 (wm_to ?w))) = Inr (wm_plaintext ?w)"
    by (intro messages_decrypt_in_any_order [OF demo.crypto_contract_axioms reach]) simp_all
  then show ?thesis using reach two(2) by (intro exI [of _ ?\<sigma>2] exI [of _ ?w]) simp
qed

end
