(* ===== verification/Session_Storage.thy ===== *)
theory Session_Storage
  imports Session_Properties
begin

text \<open>
  The theorems about sessions as clients use them: the first contact of two devices, sessions that are stored between the
  calls, rejected calls, and the bound on the keys one call stores.
\<close>

section \<open>First contact\<close>

context crypto_contract
begin

lemma init_alice_ok: "\<exists>st. init_alice C fresh sk p = Inr st"
  by (simp add: init_alice_def Let_def kdf_rk_ok case_prod_beta)

text \<open>What the initiator's method did, step by step.\<close>

lemma open_initiator_steps:
  assumes "x3dh_initiator C eka alice_sec alice_pub bndl = Inr (sk, initial, eph)"
    and "decode_x25519_pub C (sp_dh_pub_b64 (bu_signed_prekey bndl)) = Inr bob_dh"
    and "dm_session_open_initiator C eka fresh alice_sec alice_pub bndl msg = Inr (dto, header, ct, initial', i)"
  obtains alice alice' ciphertext where "init_alice C fresh sk bob_dh = Inr alice"
    "ratchet_encrypt C msg alice = (Inr (header, ciphertext), alice')" "dto = to_dto C alice'"
    "ct = b64_encode C ciphertext" "initial' = initial"
proof -
  obtain alice where alice: "init_alice C fresh sk bob_dh = Inr alice" using init_alice_ok by blast
  obtain r alice' where enc: "ratchet_encrypt C msg alice = (r, alice')" by fastforce
  with assms alice obtain h c where "r = Inr (h, c)"
    by (cases r) (auto simp: dm_session_open_initiator_def ffi_err_def)
  with assms alice enc show thesis
    by (intro that) (auto simp: dm_session_open_initiator_def ffi_err_def)
qed

lemma first_contact:
  assumes ok: "secrets_ok ident spk otk" "has_otk_id otk" and len: "key32 ik" "key32 eka" "key32 fresh" "key32 fresh'"
    and pub: "identity_dh_pub_b64 alice_pub = b64_encode C (x_public C ik)"
    and new: "x_public C fresh \<noteq> x_public C spk" "x_public C fresh' \<notin> {x_public C fresh, x_public C spk}"
    and run: "dm_session_open_initiator C eka fresh ik alice_pub (published_bundle C ident i spk otk) msg =
      Inr (dto, header, ct, initial, i')"
  obtains dto' sk \<sigma> where
    "dm_session_open_responder C fresh' (id_x25519 ident) spk (map_option snd otk) initial header ct = Inr (dto', msg)"
    "reachable C sk \<sigma>" "cv_wire \<sigma> = {}"
    "from_dto C dto = Inr (cv_session \<sigma> Initiator)" "from_dto C dto' = Inr (cv_session \<sigma> Responder)"
proof -
  let ?bndl = "published_bundle C ident i spk otk"
  have spk: "key32 spk" using ok(1) by (simp add: secrets_ok_def)
  obtain sk initial0 where x: "x3dh_initiator C eka ik alice_pub ?bndl = Inr (sk, initial0, eka)"
    "x3dh_responder C (id_x25519 ident) spk (map_option snd otk) initial0 = Inr sk" "key32 sk"
    by (rule agreement [OF ok len(1,2) pub])
  obtain alice alice' ciphertext where i: "init_alice C fresh sk (x_public C spk) = Inr alice"
    "ratchet_encrypt C msg alice = (Inr (header, ciphertext), alice')" "dto = to_dto C alice'"
    "ct = b64_encode C ciphertext" "initial = initial0"
    by (rule open_initiator_steps [OF x(1) published_bundle_keys(3) [OF ok(1)] run])
  let ?\<sigma>0 = "start_conversation sk alice fresh spk"
  let ?w = "\<lparr> wm_to = Responder, wm_header = header, wm_ciphertext = ciphertext, wm_plaintext = msg \<rparr>"
  let ?\<sigma>1 = "?\<sigma>0\<lparr>cv_session := (cv_session ?\<sigma>0)(Initiator := alice'), cv_wire := insert ?w (cv_wire ?\<sigma>0)\<rparr>"
  have start: "reachable C sk ?\<sigma>0" by (rule reachable.start [OF len(3) spk new(1) i(1)])
  have alice: "rs_ns alice = 0" "rs_pn alice = 0"
    using i(1) by (auto simp: init_alice_def Let_def kdf_rk_ok case_prod_beta)
  have sessions: "cv_session ?\<sigma>0 Initiator = alice" "cv_session ?\<sigma>0 Responder = init_bob sk spk" "cv_wire ?\<sigma>0 = {}"
    by (simp_all add: start_conversation_def)
  have sent: "reachable C sk ?\<sigma>1"
    using reachable.send [OF start, of Initiator msg header ciphertext alice'] alice i(2) sessions by simp
  have header: "rh_n header = 0" "rh_pn header = 0"
    using i(2) alice by (auto simp: ratchet_encrypt_def Let_def try_res_Inr_iff kdf_ck_ok split: option.splits)
  have "in_window C (wm_header ?w) (cv_session ?\<sigma>1 (wm_to ?w))"
    using header sessions by (simp add: in_window_def init_bob_def)
  then have "fst (ratchet_decrypt C fresh' (wm_header ?w) (wm_ciphertext ?w) (cv_session ?\<sigma>1 (wm_to ?w))) = Inr (wm_plaintext ?w)"
    using under_way_decrypts [OF sent, of ?w fresh'] len(4) by simp
  then obtain bob where dec: "ratchet_decrypt C fresh' header ciphertext (init_bob sk spk) = (Inr msg, bob)"
    using sessions(2) by (cases "ratchet_decrypt C fresh' header ciphertext (init_bob sk spk)") simp
  let ?\<sigma>2 = "?\<sigma>1\<lparr>cv_session := (cv_session ?\<sigma>1)(wm_to ?w := bob), cv_wire := cv_wire ?\<sigma>1 - {?w},
    cv_secrets := insert fresh' (cv_secrets ?\<sigma>1)\<rparr>"
  have "x_public C fresh' \<notin> x_public C ` cv_secrets ?\<sigma>1" using new(2) by (simp add: start_conversation_def)
  then have "reachable C sk ?\<sigma>2"
    using dec sessions(2) len(4) by (intro reachable.deliver [OF sent, of ?w fresh' msg bob]) simp_all
  moreover have "dm_session_open_responder C fresh' (id_x25519 ident) spk (map_option snd otk) initial header ct =
      Inr (to_dto C bob, msg)"
    using x(2) dec by (simp add: dm_session_open_responder_def i(4,5) b64_decode_encode ffi_err_def)
  moreover have "session_ok alice'"
    using session_ok_encrypt [OF session_ok_alice [OF len(3) x_public_length [OF spk] i(1)], of msg] i(2) by simp
  then have "from_dto C dto = Inr (cv_session ?\<sigma>2 Initiator)" by (simp add: i(3) dto_round_trip)
  moreover have "session_ok bob"
    using session_ok_decrypt [OF session_ok_bob [OF x(3) spk] len(4), of header ciphertext] header dec
    by (simp add: header_ok_def)
  then have "from_dto C (to_dto C bob) = Inr (cv_session ?\<sigma>2 Responder)" by (simp add: dto_round_trip)
  moreover have "cv_wire ?\<sigma>2 = {}" using sessions(3) by simp
  ultimately show thesis using that by blast
qed

end

text \<open>
  C5 First contact works: when the initiator opens a session towards the bndl a device published and the
  device answers with the secrets of that bndl, it reads the first message, and the two stored sessions are the ends of
  a conversation in which everything was delivered, derived from one common secret.
\<close>

theorem first_contact_opens_a_conversation:
  assumes "crypto_contract C" "secrets_ok ident spk otk" "has_otk_id otk"
    and "key32 ik" "key32 eka" "key32 fresh" "key32 fresh'"
    and "identity_dh_pub_b64 alice_pub = b64_encode C (x_public C ik)"
    and "x_public C fresh \<noteq> x_public C spk" "x_public C fresh' \<notin> {x_public C fresh, x_public C spk}"
    and "dm_session_open_initiator C eka fresh ik alice_pub (published_bundle C ident i spk otk) msg =
      Inr (dto, header, ct, initial, i')"
  shows "\<exists>dto' sk \<sigma>.
    dm_session_open_responder C fresh' (id_x25519 ident) spk (map_option snd otk) initial header ct = Inr (dto', msg) \<and>
    reachable C sk \<sigma> \<and> cv_wire \<sigma> = {} \<and>
    from_dto C dto = Inr (cv_session \<sigma> Initiator) \<and> from_dto C dto' = Inr (cv_session \<sigma> Responder)"
  by (rule crypto_contract.first_contact [OF assms]) blast

definition demo_identity :: IdentitySecret where
  "demo_identity = \<lparr> id_x25519 = replicate 32 CHR ''i'', id_ed25519 = replicate 32 CHR ''e'' \<rparr>"

definition demo_otk :: "(u32 option \<times> bytes) option" where
  "demo_otk = Some (Some 7, replicate 32 CHR ''o'')"

lemma demo_secrets_ok: "secrets_ok demo_identity (replicate 32 CHR ''p'') demo_otk" "has_otk_id demo_otk"
  by (simp_all add: secrets_ok_def demo_identity_def demo_otk_def has_otk_id_def)

definition demo_alice :: IdentityPublic where
  "demo_alice = \<lparr> identity_dh_pub_b64 = replicate 32 CHR ''a'', identity_sig_pub_b64 = replicate 32 CHR ''s'' \<rparr>"

lemma demo_open_initiator:
  "\<exists>dto header ct initial i'. dm_session_open_initiator demo_crypto (replicate 32 CHR ''x'') (replicate 32 CHR ''f'')
     (replicate 32 CHR ''a'') demo_alice
     (published_bundle demo_crypto demo_identity 1 (replicate 32 CHR ''p'') demo_otk) msg = Inr (dto, header, ct, initial, i')"
proof -
  let ?bndl = "published_bundle demo_crypto demo_identity 1 (replicate 32 CHR ''p'') demo_otk"
  have "identity_dh_pub_b64 demo_alice = b64_encode demo_crypto (x_public demo_crypto (replicate 32 CHR ''a''))"
    by (simp add: demo_alice_def demo_crypto_def)
  then obtain sk initial where
    x: "x3dh_initiator demo_crypto (replicate 32 CHR ''x'') (replicate 32 CHR ''a'') demo_alice ?bndl =
      Inr (sk, initial, replicate 32 CHR ''x'')"
    using demo.agreement [OF demo_secrets_ok, of "replicate 32 CHR ''a''" "replicate 32 CHR ''x''" demo_alice 1]
    by (metis length_replicate)
  obtain st where st: "init_alice demo_crypto (replicate 32 CHR ''f'') sk (x_public demo_crypto (replicate 32 CHR ''p'')) = Inr st"
    using demo.init_alice_ok by blast
  then have "rs_cks st \<noteq> None" by (auto simp: init_alice_def Let_def demo.kdf_rk_ok case_prod_beta)
  from demo_encrypt [OF this, of msg] obtain header ct st' where
    "ratchet_encrypt demo_crypto msg st = (Inr (header, ct), st')" by blast
  then show ?thesis
    using x st demo.published_bundle_keys(3) [OF demo_secrets_ok(1), of 1]
    by (simp add: dm_session_open_initiator_def ffi_err_def)
qed

theorem first_contact_opens_a_conversation_witness:
  "\<exists>dto header ct initial i' dto' sk \<sigma>.
    dm_session_open_initiator demo_crypto (replicate 32 CHR ''x'') (replicate 32 CHR ''f'') (replicate 32 CHR ''a'') demo_alice
      (published_bundle demo_crypto demo_identity 1 (replicate 32 CHR ''p'') demo_otk) ''hello'' =
      Inr (dto, header, ct, initial, i') \<and>
    dm_session_open_responder demo_crypto (replicate 32 CHR ''g'') (replicate 32 CHR ''i'') (replicate 32 CHR ''p'')
      (Some (replicate 32 CHR ''o'')) initial header ct = Inr (dto', ''hello'') \<and>
    reachable demo_crypto sk \<sigma> \<and> from_dto demo_crypto dto' = Inr (cv_session \<sigma> Responder)"
proof -
  obtain dto header ct initial i' where run:
    "dm_session_open_initiator demo_crypto (replicate 32 CHR ''x'') (replicate 32 CHR ''f'') (replicate 32 CHR ''a'') demo_alice
      (published_bundle demo_crypto demo_identity 1 (replicate 32 CHR ''p'') demo_otk) ''hello'' =
      Inr (dto, header, ct, initial, i')"
    using demo_open_initiator [of "''hello''"] by blast
  have pub: "x_public demo_crypto k = k" "b64_encode demo_crypto k = k" for k by (simp_all add: demo_crypto_def)
  have "identity_dh_pub_b64 demo_alice = b64_encode demo_crypto (x_public demo_crypto (replicate 32 CHR ''a''))"
    by (simp add: pub demo_alice_def)
  from first_contact_opens_a_conversation [OF demo.crypto_contract_axioms demo_secrets_ok _ _ _ _ this _ _ run,
      of "replicate 32 CHR ''g''"]
  obtain dto' sk \<sigma> where
    "dm_session_open_responder demo_crypto (replicate 32 CHR ''g'') (id_x25519 demo_identity) (replicate 32 CHR ''p'')
      (map_option snd demo_otk) initial header ct = Inr (dto', ''hello'')"
    "reachable demo_crypto sk \<sigma>" "from_dto demo_crypto dto' = Inr (cv_session \<sigma> Responder)"
    by (auto simp: pub)
  then show ?thesis using run unfolding demo_identity_def demo_otk_def by auto
qed

section \<open>Stored sessions\<close>

definition call_ok :: "session_call \<Rightarrow> bool" where
  "call_ok c \<longleftrightarrow> (case c of CallEncrypt pt \<Rightarrow> True | CallDecrypt fresh header ct \<Rightarrow> key32 fresh \<and> header_ok header)"

context crypto_contract
begin

lemma session_exec_sound:
  assumes "session_ok st" "call_ok c"
  shows "\<exists>st'. snd (session_exec C c (to_dto C st)) = to_dto C st' \<and> session_ok st'"
proof (cases c)
  case (CallEncrypt pt)
  obtain r st' where "ratchet_encrypt C pt st = (r, st')" by fastforce
  then show ?thesis using CallEncrypt assms(1) session_ok_encrypt [OF assms(1), of pt]
    by (cases r) (auto simp: session_exec_def ffi_ratchet_encrypt_def dto_round_trip ffi_err_def)
next
  case (CallDecrypt fresh header ct)
  show ?thesis
  proof (cases "b64_decode C ct")
    case (Inl e)
    then show ?thesis using CallDecrypt assms(1)
      by (auto simp: session_exec_def ffi_ratchet_decrypt_def dto_round_trip ffi_err_def)
  next
    case (Inr bs)
    obtain r st' where "ratchet_decrypt C fresh header bs st = (r, st')" by fastforce
    then show ?thesis using CallDecrypt Inr assms session_ok_decrypt [OF assms(1), of fresh header bs]
      by (cases r) (auto simp: session_exec_def ffi_ratchet_decrypt_def dto_round_trip ffi_err_def call_ok_def)
  qed
qed

lemma session_run_sound:
  assumes "session_ok st" "list_all call_ok calls"
  shows "\<exists>st'. run_requests (session_exec C) calls (to_dto C st) = to_dto C st' \<and> session_ok st'"
  using assms
proof (induction calls arbitrary: st)
  case (Cons c calls)
  obtain st' where "snd (session_exec C c (to_dto C st)) = to_dto C st'" "session_ok st'"
    using session_exec_sound [OF Cons.prems(1), of c] Cons.prems(2) by auto
  then show ?case using Cons.IH [of st'] Cons.prems(2) by simp
qed auto

end

text \<open>
  C20 A session stored between the calls never becomes unreadable: whatever a client encrypts and whatever headers and
  ciphertexts it is handed, the stored form always restores to exactly the session it was made from, with
  keys of 32 bytes and counters in the range of \<open>u32\<close>.
\<close>

theorem stored_sessions_stay_sound:
  assumes "crypto_contract C" "session_ok st" "list_all call_ok calls"
  shows "\<exists>st'. run_requests (session_exec C) calls (to_dto C st) = to_dto C st' \<and> session_ok st' \<and>
    from_dto C (to_dto C st') = Inr st'"
  using crypto_contract.session_run_sound [OF assms] crypto_contract.dto_round_trip [OF assms(1)] by blast

theorem stored_sessions_stay_sound_witness:
  "\<exists>st'. run_requests (session_exec demo_crypto)
      [CallDecrypt (replicate 32 CHR ''f'') \<lparr> rh_dh_pub_b64 = ''?'', rh_pn = 0, rh_n = 5 \<rparr> ''junk'', CallEncrypt ''too early'']
      (to_dto demo_crypto (init_bob (replicate 32 CHR ''k'') (replicate 32 CHR ''p''))) = to_dto demo_crypto st' \<and>
    session_ok st' \<and> from_dto demo_crypto (to_dto demo_crypto st') = Inr st'"
  by (rule stored_sessions_stay_sound [OF demo.crypto_contract_axioms])
    (simp_all add: demo.session_ok_bob call_ok_def header_ok_def)

interpretation session_calls: service "session_exec C" "\<lambda>dto. True" for C
  by unfold_locales (auto simp: session_exec_def split: session_call.splits sum.splits)


section \<open>Skipped keys\<close>

abbreviation stored_keys :: "RatchetState \<Rightarrow> nat" where
  "stored_keys st \<equiv> card (fmdom' (rs_mkskipped st))"

lemma skip_loop_stored: "stored_keys (snd (skip_loop C until ckr st)) \<le> stored_keys st + (until - rs_nr st)"
proof (induction "until - rs_nr st" arbitrary: st ckr)
  case 0
  then show ?case by (simp add: skip_loop.simps [of _ _ _ st])
next
  case (Suc k)
  then have less: "rs_nr st < until" by simp
  show ?case
  proof (cases "kdf_ck C ckr")
    case (Inl e)
    then show ?thesis using less by (subst skip_loop.simps) simp
  next
    case (Inr mn)
    show ?thesis
    proof (cases "rs_dhr st")
      case None
      then show ?thesis using Inr less by (subst skip_loop.simps) (simp split: prod.splits)
    next
      case (Some p)
      let ?st = "st\<lparr>rs_ckr := Some (snd mn),
        rs_mkskipped := fmupd (b64_encode C p, rs_nr st) (fst mn) (rs_mkskipped st), rs_nr := rs_nr st + 1\<rparr>"
      have "stored_keys ?st \<le> stored_keys st + 1" by (simp add: card_insert_le_m1)
      moreover have "stored_keys (snd (skip_loop C until (snd mn) ?st)) \<le> stored_keys ?st + (until - rs_nr ?st)"
        using Suc.hyps by (intro Suc.hyps(1)) simp
      moreover have "skip_loop C until ckr st = skip_loop C until (snd mn) ?st"
        using less Inr Some by (subst skip_loop.simps) (simp add: case_prod_beta)
      ultimately show ?thesis using less by simp
    qed
  qed
qed

lemma skip_stored: "stored_keys (snd (skip_message_keys C until st)) \<le> stored_keys st + 100"
proof (cases "u32_saturating_add (rs_nr st) MAX_SKIP < until")
  case False
  then have "until - rs_nr st \<le> 100" by (simp add: u32_saturating_add_def MAX_SKIP_def)
  then show ?thesis
    using False skip_loop_stored [of C until "the (rs_ckr st)" st]
    by (cases "rs_ckr st") (simp_all add: skip_message_keys_def)
qed (simp add: skip_message_keys_def)

lemma ratchet_stored [simp]: "rs_mkskipped (snd (dh_ratchet C fresh p st)) = rs_mkskipped st"
  by (simp add: dh_ratchet_def Let_def split: sum.splits prod.splits)

lemma receive_stored [simp]: "rs_mkskipped (snd (receive_next C header ct st)) = rs_mkskipped st"
  by (simp add: receive_next_def split: option.splits sum.splits prod.splits)

lemma try_skipped_stored: "stored_keys (snd (try_skipped C header ct st)) \<le> stored_keys st"
  by (simp add: try_skipped_def Let_def card_Diff1_le split: option.splits)

lemma and_then_stored:
  assumes "stored_keys (snd r) \<le> k" "\<And>x s. stored_keys s \<le> k \<Longrightarrow> stored_keys (snd (f x s)) \<le> k + d"
  shows "stored_keys (snd (and_then r f)) \<le> k + d"
  using assms by (cases r; cases "fst r") (auto intro: order_trans)

text \<open>
  C28 One message makes a session store at most 200 keys, 100 for the chain that ends and 100 for the new one,
  whatever its header claims.
\<close>

theorem skipped_keys_are_bounded:
  "card (fmdom' (rs_mkskipped (snd (ratchet_decrypt C fresh header ct st)))) \<le> card (fmdom' (rs_mkskipped st)) + 200"
proof -
  let ?k = "stored_keys st"
  have chain: "stored_keys (snd (and_then (skip_message_keys C (rh_n header) s) (\<lambda>u. receive_next C header ct))) \<le> (k + 100) + 0"
    if "stored_keys s \<le> k" for s k
    using skip_stored [of C "rh_n header" s] that by (intro and_then_stored) simp_all
  have turn: "stored_keys (snd (and_then (skip_message_keys C (rh_pn header) s) (\<lambda>u. dh_ratchet C fresh p))) \<le> (k + 100) + 0"
    if "stored_keys s \<le> k" for s k p
    using skip_stored [of C "rh_pn header" s] that by (intro and_then_stored) simp_all
  have "stored_keys (snd (decrypt_staged C fresh header ct st)) \<le> ?k + 200"
    unfolding decrypt_staged_def
  proof (rule and_then_stored [OF try_skipped_stored])
    fix found s
    assume s: "stored_keys s \<le> ?k"
    show "stored_keys (snd (case found of Some pt \<Rightarrow> (Inr pt, s) | None \<Rightarrow>
        (case decode_x25519_pub C (rh_dh_pub_b64 header) of Inl e \<Rightarrow> (Inl e, s) | Inr dhr \<Rightarrow>
          and_then (if rs_dhr s \<noteq> Some dhr
            then and_then (skip_message_keys C (rh_pn header) s) (\<lambda>u. dh_ratchet C fresh dhr) else (Inr (), s))
            (\<lambda>u s. and_then (skip_message_keys C (rh_n header) s) (\<lambda>u. receive_next C header ct))))) \<le> ?k + 200"
    proof (cases found)
      case None
      show ?thesis
      proof (cases "decode_x25519_pub C (rh_dh_pub_b64 header)")
        case (Inr dhr)
        have "stored_keys (snd (if rs_dhr s \<noteq> Some dhr
            then and_then (skip_message_keys C (rh_pn header) s) (\<lambda>u. dh_ratchet C fresh dhr) else (Inr (), s))) \<le> ?k + 100"
          using turn [OF s, of dhr] s by simp
        then have "stored_keys (snd (and_then (if rs_dhr s \<noteq> Some dhr
            then and_then (skip_message_keys C (rh_pn header) s) (\<lambda>u. dh_ratchet C fresh dhr) else (Inr (), s))
            (\<lambda>u s. and_then (skip_message_keys C (rh_n header) s) (\<lambda>u. receive_next C header ct)))) \<le> (?k + 100) + 100"
          by (rule and_then_stored) (drule chain, simp)
        then show ?thesis using None Inr by simp
      qed (use s None in simp)
    qed (use s in simp)
  qed
  then show ?thesis by (auto simp: ratchet_decrypt_def split: prod.splits sum.splits)
qed

end
