(* ===== verification/Deferred_Properties.thy ===== *)
theory Deferred_Properties
  imports X3dh_Deferred
begin

text \<open>The theorems about deferred messages and their key agreement.\<close>

text \<open>
  C6 A deferred message reads back on every device its key was wrapped for: the device unwraps the content key,
  the content opens to the body that was encrypted, and the check of the metadata accepts exactly the
  metadata with the commitment of the sender's.
\<close>

theorem deferred_message_reads_back:
  assumes "crypto_contract C" "secrets_ok ident spk otk" "has_otk_id otk"
    and "length x = 32" "length eka = 32" "length key = 32" "length nonce = 12" "length nonce' = 12"
    and "deferred_encrypt C to_vec key nonce body metadata = Inr enc"
    and "deferred_wrap_key C x ed eka nonce' (de_content_key enc) (published_bundle C ident i spk otk) = Inr env"
  shows "\<exists>k. deferred_unwrap_key C env
      \<lparr> dl_ik_secret = id_x25519 ident, dl_spk_secret = spk, dl_otk_secret = map_option snd otk \<rparr> = Inr k \<and>
    deferred_decrypt C (de_ciphertext enc) k (de_nonce enc) (de_sha256 enc) = Inr body \<and>
    (\<forall>metadata'. deferred_verify_metadata C to_vec metadata' (de_sha256 enc) = Inr True \<longleftrightarrow>
      deferred_metadata_commitment C to_vec metadata' = deferred_metadata_commitment C to_vec metadata)"
proof -
  note content = crypto_contract.content_decrypts [OF assms(1,6,7,9)]
  have "deferred_unwrap_key C env
      \<lparr> dl_ik_secret = id_x25519 ident, dl_spk_secret = spk, dl_otk_secret = map_option snd otk \<rparr> = Inr key"
    using crypto_contract.wrapped_key_unwraps [OF assms(1-5,8,6)] assms(10) by (simp add: content(2))
  moreover have "deferred_verify_metadata C to_vec metadata' (de_sha256 enc) = Inr True \<longleftrightarrow>
      deferred_metadata_commitment C to_vec metadata' = deferred_metadata_commitment C to_vec metadata" for metadata'
    using crypto_contract.verify_metadata_iff [OF assms(1) crypto_contract.commitment_length [OF assms(1) content(4)],
        of to_vec metadata' True] content(4)
    by auto
  ultimately show ?thesis using content(1) by blast
qed

definition demo_recipient :: IdentitySecret where
  "demo_recipient = \<lparr> id_x25519 = replicate 32 CHR ''r'', id_ed25519 = replicate 32 CHR ''e'' \<rparr>"

definition demo_bundle :: PreKeyBundle where
  "demo_bundle = published_bundle demo_crypto demo_recipient 1 (replicate 32 CHR ''p'') None"

lemma demo_seal:
  assumes "length k = 32"
  shows "\<exists>ct. aes_key k = Inr k \<and> aes_encrypt demo_crypto k nonce m aad = Some ct"
  using assms by (simp add: aes_key_def demo_crypto_def)

lemma demo_wrap:
  "\<exists>env. deferred_wrap_key demo_crypto (replicate 32 CHR ''x'') ed (replicate 32 CHR ''y'') nonce key demo_bundle = Inr env"
proof -
  have ok: "secrets_ok demo_recipient (replicate 32 CHR ''p'') None" "has_otk_id None"
    by (simp_all add: secrets_ok_def demo_recipient_def has_otk_id_def)
  let ?me = "identity_generate demo_crypto (replicate 32 CHR ''x'') ed"
  have "identity_dh_pub_b64 (snd ?me) = b64_encode demo_crypto (x_public demo_crypto (replicate 32 CHR ''x''))"
    by (simp add: identity_generate_def)
  then obtain sk msg where x: "x3dh_initiator demo_crypto (replicate 32 CHR ''y'') (replicate 32 CHR ''x'') (snd ?me) demo_bundle =
      Inr (sk, msg, replicate 32 CHR ''y'')"
    unfolding demo_bundle_def
    using demo.agreement [OF ok, of "replicate 32 CHR ''x''" "replicate 32 CHR ''y''" "snd ?me" 1] by (metis length_replicate)
  obtain wk where wk: "hkdf_sha256 demo_crypto sk [] WRAP_KDF_INFO 32 = Inr wk" "length wk = 32"
    using demo.hkdf_sha256_ok [of 32 sk "[]" WRAP_KDF_INFO] by auto
  show ?thesis using x wk demo_seal [OF wk(2), of nonce key WRAP_AAD]
    by (auto simp: deferred_wrap_key_def identity_generate_def)
qed

theorem deferred_message_reads_back_witness:
  "\<exists>enc env k. deferred_encrypt demo_crypto Inr (replicate 32 CHR ''k'') (replicate 12 CHR ''n'') ''body'' ''{chat:1}'' = Inr enc \<and>
    deferred_unwrap_key demo_crypto env
      \<lparr> dl_ik_secret = replicate 32 CHR ''r'', dl_spk_secret = replicate 32 CHR ''p'', dl_otk_secret = None \<rparr> = Inr k \<and>
    deferred_decrypt demo_crypto (de_ciphertext enc) k (de_nonce enc) (de_sha256 enc) = Inr ''body''"
proof -
  have "\<exists>enc. deferred_encrypt demo_crypto Inr (replicate 32 CHR ''k'') (replicate 12 CHR ''n'') ''body'' ''{chat:1}'' = Inr enc"
    using demo_seal [of "replicate 32 CHR ''k''" "replicate 12 CHR ''n''" "''body''" "sha256 demo_crypto ''{chat:1}''"]
    by (auto simp: deferred_encrypt_def deferred_metadata_commitment_def)
  then obtain enc where
    enc: "deferred_encrypt demo_crypto Inr (replicate 32 CHR ''k'') (replicate 12 CHR ''n'') ''body'' ''{chat:1}'' = Inr enc" ..
  obtain env where env: "deferred_wrap_key demo_crypto (replicate 32 CHR ''x'') (replicate 32 CHR ''d'')
      (replicate 32 CHR ''y'') (replicate 12 CHR ''m'') (de_content_key enc) demo_bundle = Inr env"
    using demo_wrap by blast
  have ok: "secrets_ok demo_recipient (replicate 32 CHR ''p'') None" "has_otk_id None"
    by (simp_all add: secrets_ok_def demo_recipient_def has_otk_id_def)
  have "\<exists>k. deferred_unwrap_key demo_crypto env
      \<lparr> dl_ik_secret = id_x25519 demo_recipient, dl_spk_secret = replicate 32 CHR ''p'', dl_otk_secret = map_option snd None \<rparr> = Inr k \<and>
    deferred_decrypt demo_crypto (de_ciphertext enc) k (de_nonce enc) (de_sha256 enc) = Inr ''body''"
    using deferred_message_reads_back [OF demo.crypto_contract_axioms ok _ _ _ _ _ enc env [unfolded demo_bundle_def]]
    by auto
  then show ?thesis using enc by (auto simp: demo_recipient_def)
qed

text \<open>
  A bundle may carry a one-time prekey without its id: then the initiator mixes the prekey in and does not name it, and the
  responder, seeing no id, leaves it out.
\<close>

lemma one_time_prekey_without_id:
  assumes "x3dh_initiator C eka ik alice bob = Inr (sk, msg, eph)"
    and "bu_one_time_prekey_b64 bob = Some otk_b64" "bu_one_time_prekey_id bob = None"
  shows "\<exists>otk dhs. decode_x25519_pub C otk_b64 = Inr otk \<and> kdf_x3dh C (dhs @ x_dh C eka otk) = Inr sk \<and>
    im_used_one_time_prekey_id msg = None \<and> x3dh_responder C bik bspk (Some s) msg = x3dh_responder C bik bspk None msg"
  using assms by (auto simp: x3dh_initiator_def Let_def try_res_Inr_iff x3dh_responder_def) (metis append.assoc)

end
