(* ===== verification/Bot_Errors.thy ===== *)
theory Bot_Errors
  imports E2ee_Crypto
begin

text \<open>
  The errors of the bot vault (\<open>src/bot_e2ee.rs\<close>, lines 142-316): status, code and the two messages of the
  body. JSON text is made by the argument \<open>to_text\<close>.
\<close>

text \<open>A character of the Basic Multilingual Plane in UTF-8.\<close>

definition utf8_char :: "nat \<Rightarrow> string" where
  "utf8_char c =
     (if c < 0x80 then [char_of c]
      else if c < 0x800 then [char_of (0xC0 + c div 64), char_of (0x80 + c mod 64)]
      else [char_of (0xE0 + c div 4096), char_of (0x80 + c div 64 mod 64), char_of (0x80 + c mod 64)])"

definition utf8 :: "nat list \<Rightarrow> string" where
  "utf8 cs = concat (map utf8_char cs)"

datatype BotE2eeError =
    NotBot
  | MissingMasterKey
  | InvalidMasterKey
  | VaultDecryptFailed
  | NotInitialized
  | AlreadyInitialized
  | ConfirmationRequired
  | ChannelNotFound
  | NoUsableRecipientDevice
  | MessageNotFound
  | EnvelopeNotFound
  | OneTimePrekeyUnavailable
  | MetadataMismatch
  | BotCrypto string
  | BotDatabase string
  | BotInternal string

definition bot_error_status :: "BotE2eeError \<Rightarrow> status" where
  "bot_error_status e =
     (case e of
        NotBot \<Rightarrow> BAD_REQUEST | ConfirmationRequired \<Rightarrow> BAD_REQUEST | MetadataMismatch \<Rightarrow> BAD_REQUEST
      | MissingMasterKey \<Rightarrow> SERVICE_UNAVAILABLE | InvalidMasterKey \<Rightarrow> SERVICE_UNAVAILABLE
      | VaultDecryptFailed \<Rightarrow> SERVICE_UNAVAILABLE
      | NotInitialized \<Rightarrow> CONFLICT | AlreadyInitialized \<Rightarrow> CONFLICT | NoUsableRecipientDevice \<Rightarrow> CONFLICT
      | OneTimePrekeyUnavailable \<Rightarrow> CONFLICT
      | ChannelNotFound \<Rightarrow> NOT_FOUND | MessageNotFound \<Rightarrow> NOT_FOUND | EnvelopeNotFound \<Rightarrow> NOT_FOUND
      | BotCrypto d \<Rightarrow> INTERNAL_SERVER_ERROR | BotDatabase d \<Rightarrow> INTERNAL_SERVER_ERROR
      | BotInternal d \<Rightarrow> INTERNAL_SERVER_ERROR)"

fun bot_error_code :: "BotE2eeError \<Rightarrow> string" where
  "bot_error_code NotBot = ''E2E_BOT_NOT_A_BOT''"
| "bot_error_code MissingMasterKey = ''E2E_BOT_MASTER_KEY_MISSING''"
| "bot_error_code InvalidMasterKey = ''E2E_BOT_MASTER_KEY_INVALID''"
| "bot_error_code VaultDecryptFailed = ''E2E_BOT_VAULT_DECRYPT_FAILED''"
| "bot_error_code NotInitialized = ''E2E_BOT_NOT_INITIALIZED''"
| "bot_error_code AlreadyInitialized = ''E2E_BOT_ALREADY_INITIALIZED''"
| "bot_error_code ConfirmationRequired = ''E2E_BOT_REBUILD_CONFIRMATION_REQUIRED''"
| "bot_error_code ChannelNotFound = ''E2E_BOT_CHANNEL_NOT_FOUND''"
| "bot_error_code NoUsableRecipientDevice = ''E2E_BOT_NO_USABLE_RECIPIENT_DEVICE''"
| "bot_error_code MessageNotFound = ''E2E_BOT_MESSAGE_NOT_FOUND''"
| "bot_error_code EnvelopeNotFound = ''E2E_BOT_ENVELOPE_NOT_FOUND''"
| "bot_error_code OneTimePrekeyUnavailable = ''E2E_BOT_ONE_TIME_PREKEY_UNAVAILABLE''"
| "bot_error_code MetadataMismatch = ''E2E_BOT_METADATA_MISMATCH''"
| "bot_error_code (BotCrypto detail) = ''E2E_BOT_CRYPTO_ERROR''"
| "bot_error_code (BotDatabase detail) = ''E2E_BOT_DATABASE_ERROR''"
| "bot_error_code (BotInternal detail) = ''E2E_BOT_INTERNAL_ERROR''"

fun message_en :: "BotE2eeError \<Rightarrow> string" where
  "message_en NotBot = ''This user is not a Bot.''"
| "message_en MissingMasterKey =
      ''Bot E2EE master key file is missing. Set VOCECHAT_BOT_E2EE_MASTER_KEY_FILE to a file '' @
      ''containing a base64-encoded 32-byte key.''"
| "message_en InvalidMasterKey = ''Bot E2EE master key is invalid: it must decode to exactly 32 bytes.''"
| "message_en VaultDecryptFailed =
      ''Failed to decrypt the Bot'' @ utf8 [0x27] @ ''s stored key material with the current master key.''"
| "message_en NotInitialized = ''This Bot'' @ utf8 [0x27] @ ''s E2EE has not been initialized yet.''"
| "message_en AlreadyInitialized = ''This Bot'' @ utf8 [0x27] @ ''s E2EE has already been initialized.''"
| "message_en ConfirmationRequired =
      ''Rebuilding a Bot'' @ utf8 [0x27] @
      ''s E2EE identity is destructive (all prior keys are discarded and existing sessions with '' @
      ''this Bot will need to re-establish). Resend with '' @ [char_of (34::nat)] @ ''confirm'' @ [char_of (34::nat)]
      @ '': true to proceed.''"
| "message_en ChannelNotFound = ''Channel not found.''"
| "message_en NoUsableRecipientDevice = ''The recipient has no usable E2EE device yet.''"
| "message_en MessageNotFound = ''Message not found.''"
| "message_en EnvelopeNotFound = ''Envelope not found.''"
| "message_en OneTimePrekeyUnavailable = ''The referenced one-time prekey is not available.''"
| "message_en MetadataMismatch = ''Message metadata failed commitment verification.''"
| "message_en (BotCrypto detail) = ''Bot E2EE cryptographic operation failed: '' @ detail"
| "message_en (BotDatabase detail) = ''Bot E2EE database error: '' @ detail"
| "message_en (BotInternal detail) = ''Bot E2EE internal error: '' @ detail"

fun message_zh :: "BotE2eeError \<Rightarrow> string" where
  "message_zh NotBot =
      utf8 [0x8BE5, 0x7528, 0x6237, 0x4E0D, 0x662F, 0x673A, 0x5668, 0x4EBA, 0xFF08] @ ''Bot'' @ utf8 [0xFF09, 0x3002]"
| "message_zh MissingMasterKey =
      utf8 [0x7F3A, 0x5C11] @ '' Bot '' @ utf8 [0x7AEF, 0x5230, 0x7AEF, 0x52A0, 0x5BC6, 0x4E3B, 0x5BC6, 0x94A5,
      0x6587, 0x4EF6, 0x3002, 0x8BF7, 0x8BBE, 0x7F6E] @ '' VOCECHAT_BOT_E2EE_MASTER_KEY_FILE '' @ utf8 [0x6307,
      0x5411, 0x4E00, 0x4E2A, 0x5305, 0x542B] @ '' base64 '' @ utf8 [0x7F16, 0x7801, 0x7684] @ '' 32 '' @
      utf8 [0x5B57, 0x8282, 0x5BC6, 0x94A5, 0x7684, 0x6587, 0x4EF6, 0x3002]"
| "message_zh InvalidMasterKey =
      ''Bot '' @ utf8 [0x7AEF, 0x5230, 0x7AEF, 0x52A0, 0x5BC6, 0x4E3B, 0x5BC6, 0x94A5, 0x65E0, 0x6548, 0xFF1A, 0x89E3,
      0x7801, 0x540E, 0x5FC5, 0x987B, 0x6070, 0x597D, 0x4E3A] @ '' 32 '' @ utf8 [0x5B57, 0x8282, 0x3002]"
| "message_zh VaultDecryptFailed =
      utf8 [0x4F7F, 0x7528, 0x5F53, 0x524D, 0x4E3B, 0x5BC6, 0x94A5, 0x89E3, 0x5BC6] @ '' Bot '' @ utf8 [0x7684,
      0x5BC6, 0x94A5, 0x6750, 0x6599, 0x5931, 0x8D25, 0x3002]"
| "message_zh NotInitialized =
      utf8 [0x8BE5] @ '' Bot '' @ utf8 [0x7684, 0x7AEF, 0x5230, 0x7AEF, 0x52A0, 0x5BC6, 0x5C1A, 0x672A, 0x521D,
      0x59CB, 0x5316, 0x3002]"
| "message_zh AlreadyInitialized =
      utf8 [0x8BE5] @ '' Bot '' @ utf8 [0x7684, 0x7AEF, 0x5230, 0x7AEF, 0x52A0, 0x5BC6, 0x5DF2, 0x7ECF, 0x521D,
      0x59CB, 0x5316, 0x8FC7, 0x3002]"
| "message_zh ConfirmationRequired =
      utf8 [0x91CD, 0x5EFA] @ '' Bot '' @ utf8 [0x7684, 0x7AEF, 0x5230, 0x7AEF, 0x52A0, 0x5BC6, 0x8EAB, 0x4EFD,
      0x662F, 0x7834, 0x574F, 0x6027, 0x64CD, 0x4F5C, 0xFF08, 0x4F1A, 0x4E22, 0x5F03, 0x6240, 0x6709, 0x65E7, 0x5BC6,
      0x94A5, 0xFF0C, 0x4E14, 0x4E0E, 0x8BE5] @ '' Bot '' @ utf8 [0x7684, 0x73B0, 0x6709, 0x4F1A, 0x8BDD, 0x9700,
      0x8981, 0x91CD, 0x65B0, 0x5EFA, 0x7ACB, 0xFF09, 0x3002, 0x8BF7, 0x5728, 0x8BF7, 0x6C42, 0x4E2D, 0x5E26, 0x4E0A]
      @ '' '' @ [char_of (34::nat)] @ ''confirm'' @ [char_of (34::nat)] @ '': true '' @ utf8 [0x4EE5, 0x7EE7, 0x7EED,
      0x3002]"
| "message_zh ChannelNotFound = utf8 [0x672A, 0x627E, 0x5230, 0x8BE5, 0x9891, 0x9053, 0x3002]"
| "message_zh NoUsableRecipientDevice =
      utf8 [0x63A5, 0x6536, 0x8005, 0x76EE, 0x524D, 0x6CA1, 0x6709, 0x53EF, 0x7528, 0x7684, 0x7AEF, 0x5230, 0x7AEF,
      0x52A0, 0x5BC6, 0x8BBE, 0x5907, 0x3002]"
| "message_zh MessageNotFound = utf8 [0x672A, 0x627E, 0x5230, 0x8BE5, 0x6D88, 0x606F, 0x3002]"
| "message_zh EnvelopeNotFound =
      utf8 [0x672A, 0x627E, 0x5230, 0x5BF9, 0x5E94, 0x7684, 0x5BC6, 0x94A5, 0x4FE1, 0x5C01, 0x3002]"
| "message_zh OneTimePrekeyUnavailable =
      utf8 [0x5F15, 0x7528, 0x7684, 0x4E00, 0x6B21, 0x6027, 0x9884, 0x5171, 0x4EAB, 0x5BC6, 0x94A5, 0x4E0D, 0x53EF,
      0x7528, 0x3002]"
| "message_zh MetadataMismatch =
      utf8 [0x6D88, 0x606F, 0x5143, 0x6570, 0x636E, 0x672A, 0x901A, 0x8FC7, 0x627F, 0x8BFA, 0x9A8C, 0x8BC1, 0x3002]"
| "message_zh (BotCrypto detail) =
      ''Bot '' @ utf8 [0x7AEF, 0x5230, 0x7AEF, 0x52A0, 0x5BC6, 0x64CD, 0x4F5C, 0x5931, 0x8D25, 0xFF1A] @ detail"
| "message_zh (BotDatabase detail) =
      ''Bot '' @ utf8 [0x7AEF, 0x5230, 0x7AEF, 0x52A0, 0x5BC6, 0x6570, 0x636E, 0x5E93, 0x9519, 0x8BEF, 0xFF1A] @ detail"
| "message_zh (BotInternal detail) =
      ''Bot '' @ utf8 [0x7AEF, 0x5230, 0x7AEF, 0x52A0, 0x5BC6, 0x5185, 0x90E8, 0x9519, 0x8BEF, 0xFF1A] @ detail"

definition into_poem_error :: "((string \<times> string) list \<Rightarrow> string) \<Rightarrow> BotE2eeError \<Rightarrow> api_error" where
  "into_poem_error to_text e =
     from_string (to_text [(''code'', bot_error_code e), (''message_en'', message_en e), (''message_zh'', message_zh e)])
       (bot_error_status e)"

definition bot_error_to_string :: "BotE2eeError \<Rightarrow> string" where
  "bot_error_to_string e = bot_error_code e @ '': '' @ message_en e"

end
