(* ===== verification/E2e_Keys.thy ===== *)
theory E2e_Keys
  imports Chat_State E2ee_Routing E2ee_Crypto
begin

text \<open>
  The key directory of end-to-end encryption (\<open>src/api/e2e.rs\<close>, \<open>migrations/20260713120000_e2e.sql\<close>): the
  published identities of devices, their one-time prekeys, encrypted backups and the settings of
  direct conversations. \<open>users\<close> are the rows of the table \<open>user\<close> (foreign keys), \<open>db_ok\<close> says whether the
  database works; when it does not, nothing is changed. Lists of rows are in the order of the row ids.
\<close>

record identity_row =
  ei_uid :: i64
  ei_device_id :: string
  ei_identity_key_pub :: string
  ei_signed_prekey_pub :: "string option"
  ei_signed_prekey_sig :: "string option"
  ei_updated_at :: DateTime
  ei_key_version :: i64
  ei_retired_at :: "DateTime option"

record prekey_row =
  ek_id :: i64
  ek_uid :: i64
  ek_device_id :: string
  ek_key_id :: i32
  ek_public_key :: string
  ek_consumed :: bool

record backup_row =
  eb_version :: i32
  eb_size_bytes :: i64
  eb_updated_by_device :: string
  eb_blob :: bytes
  eb_updated_at :: DateTime

record e2e_tables =
  et_identity :: "identity_row list"
  et_prekey :: "prekey_row list"
  et_prekey_seq :: i64
  et_backup :: "(i64, backup_row) fmap"
  et_dm_setting :: "(i64 \<times> i64, bool \<times> DateTime) fmap"

type_synonym 'a keys = "e2e_tables \<Rightarrow> (api_error + 'a) \<times> e2e_tables"

definition device_exists :: "tables \<Rightarrow> i64 \<Rightarrow> string \<Rightarrow> bool" where
  "device_exists db uid device_id \<longleftrightarrow> list_ex (\<lambda>(u, d, t). u = uid \<and> d = device_id) (tb_device db)"

definition dm_pair :: "i64 \<Rightarrow> i64 \<Rightarrow> i64 \<times> i64" where
  "dm_pair a b = (if a < b then (a, b) else (b, a))"

section \<open>Identities\<close>

abbreviation identity_of :: "i64 \<Rightarrow> string \<Rightarrow> identity_row \<Rightarrow> bool" where
  "identity_of uid device_id r \<equiv> ei_uid r = uid \<and> ei_device_id r = device_id"

definition find_identity :: "e2e_tables \<Rightarrow> i64 \<Rightarrow> string \<Rightarrow> identity_row option" where
  "find_identity t uid device_id = List.find (identity_of uid device_id) (et_identity t)"

definition update_identity :: "i64 \<Rightarrow> string \<Rightarrow> (identity_row \<Rightarrow> identity_row) \<Rightarrow> e2e_tables \<Rightarrow> e2e_tables" where
  "update_identity uid device_id f t =
     t\<lparr>et_identity := map (\<lambda>r. if identity_of uid device_id r then f r else r) (et_identity t)\<rparr>"

record PutE2eIdentityRequest =
  pi_device_id :: string
  pi_identity_key_pub :: string
  pi_signed_prekey_pub :: "string option"
  pi_signed_prekey_sig :: "string option"

text \<open>\<open>is not\<close> also compares the values \<open>null\<close>.\<close>

definition keys_changed :: "PutE2eIdentityRequest \<Rightarrow> identity_row \<Rightarrow> bool" where
  "keys_changed req r \<longleftrightarrow> ei_identity_key_pub r \<noteq> pi_identity_key_pub req \<or>
     ei_signed_prekey_pub r \<noteq> pi_signed_prekey_pub req \<or> ei_signed_prekey_sig r \<noteq> pi_signed_prekey_sig req"

definition upsert_identity :: "DateTime \<Rightarrow> i64 \<Rightarrow> PutE2eIdentityRequest \<Rightarrow> e2e_tables \<Rightarrow> e2e_tables" where
  "upsert_identity now uid req t =
     (if find_identity t uid (pi_device_id req) = None
      then t\<lparr>et_identity := et_identity t @
        [\<lparr>ei_uid = uid, ei_device_id = pi_device_id req, ei_identity_key_pub = pi_identity_key_pub req,
          ei_signed_prekey_pub = pi_signed_prekey_pub req, ei_signed_prekey_sig = pi_signed_prekey_sig req,
          ei_updated_at = now, ei_key_version = 1, ei_retired_at = None\<rparr>]\<rparr>
      else update_identity uid (pi_device_id req) (\<lambda>r.
        r\<lparr> ei_key_version := (if keys_changed req r then ei_key_version r + 1 else ei_key_version r),
           ei_identity_key_pub := pi_identity_key_pub req, ei_signed_prekey_pub := pi_signed_prekey_pub req,
           ei_signed_prekey_sig := pi_signed_prekey_sig req, ei_updated_at := now, ei_retired_at := None \<rparr>) t)"

definition check_device :: "Token \<Rightarrow> string \<Rightarrow> api_error + unit" where
  "check_device token device_id =
     (case validate_authenticated_device device_id (tk_device token) of
        Inl e \<Rightarrow> Inl (from_string (e2e_error_message e) BAD_REQUEST)
      | Inr u \<Rightarrow> Inr ())"

definition blank :: "string option \<Rightarrow> bool" where
  "blank s \<longleftrightarrow> str_trim (case s of None \<Rightarrow> '''' | Some v \<Rightarrow> v) = ''''"

definition check_identity_request :: "i32 \<Rightarrow> Token \<Rightarrow> PutE2eIdentityRequest \<Rightarrow> api_error + unit" where
  "check_identity_request protocol_ver token req =
     try_res (check_device token (pi_device_id req)) (\<lambda>u.
       if pi_device_id req = '''' \<or> pi_identity_key_pub req = '''' then Inl (from_status BAD_REQUEST)
       else if protocol_ver \<ge> 2 \<and> (blank (pi_signed_prekey_pub req) \<or> blank (pi_signed_prekey_sig req))
       then Inl (from_string ''E2E_SIGNED_PREKEY_REQUIRED'' BAD_REQUEST)
       else Inr ())"

text \<open>The first transaction of \<open>put_identity\<close>: the identity is published, and its version is the answer.\<close>

definition publish_identity ::
    "bool \<Rightarrow> tables \<Rightarrow> i32 \<Rightarrow> DateTime \<Rightarrow> Token \<Rightarrow> PutE2eIdentityRequest \<Rightarrow> i64 keys" where
  "publish_identity db_ok db protocol_ver now token req t =
     (case check_identity_request protocol_ver token req of
        Inl e \<Rightarrow> (Inl e, t)
      | Inr u \<Rightarrow>
          if \<not> db_ok then (Inl internal_error, t)
          else if \<not> device_exists db (tk_uid token) (tk_device token)
          then (Inl (from_string ''E2E_SENDER_DEVICE_REVOKED'' FORBIDDEN), t)
          else if tk_uid token \<notin> fmdom' (tb_user db) then (Inl internal_error, t)
          else
            let t' = upsert_identity now (tk_uid token) req t in
            (case find_identity t' (tk_uid token) (pi_device_id req) of
               None \<Rightarrow> (Inl internal_error, t)
             | Some r \<Rightarrow> (Inr (ei_key_version r), t')))"

text \<open>\<open>delete_device\<close> and \<open>logout\<close> retire the identity of the device.\<close>

definition retire_identity :: "DateTime \<Rightarrow> i64 \<Rightarrow> string \<Rightarrow> e2e_tables \<Rightarrow> e2e_tables" where
  "retire_identity now uid device_id t =
     update_identity uid device_id (\<lambda>r. if ei_retired_at r = None then r\<lparr>ei_retired_at := Some now\<rparr> else r) t"

record E2eIdentity =
  id_uid :: i64
  id_device_id :: string
  id_identity_version :: i64
  id_identity_key_pub :: string
  id_signed_prekey_pub :: "string option"
  id_signed_prekey_sig :: "string option"
  id_updated_at :: DateTime

definition api_identity :: "identity_row \<Rightarrow> E2eIdentity" where
  "api_identity r =
     \<lparr>id_uid = ei_uid r, id_device_id = ei_device_id r, id_identity_version = ei_key_version r,
      id_identity_key_pub = ei_identity_key_pub r, id_signed_prekey_pub = ei_signed_prekey_pub r,
      id_signed_prekey_sig = ei_signed_prekey_sig r, id_updated_at = ei_updated_at r\<rparr>"

text \<open>The current identities of a user: published for a device that exists and not retired.\<close>

definition current_identity :: "tables \<Rightarrow> i64 \<Rightarrow> identity_row \<Rightarrow> bool" where
  "current_identity db uid r \<longleftrightarrow> ei_uid r = uid \<and> ei_retired_at r = None \<and> device_exists db uid (ei_device_id r)"

definition current_identities :: "tables \<Rightarrow> e2e_tables \<Rightarrow> i64 \<Rightarrow> identity_row list" where
  "current_identities db t uid = filter (current_identity db uid) (et_identity t)"

definition get_identity :: "bool \<Rightarrow> tables \<Rightarrow> i64 \<Rightarrow> e2e_tables \<Rightarrow> api_error + E2eIdentity list" where
  "get_identity db_ok db uid t =
     (if \<not> db_ok then Inl internal_error else Inr (map api_identity (current_identities db t uid)))"

section \<open>One-time prekeys\<close>

abbreviation prekey_of :: "i64 \<Rightarrow> string \<Rightarrow> prekey_row \<Rightarrow> bool" where
  "prekey_of uid device_id p \<equiv> ek_uid p = uid \<and> ek_device_id p = device_id"

definition delete_unconsumed :: "i64 \<Rightarrow> string \<Rightarrow> e2e_tables \<Rightarrow> e2e_tables" where
  "delete_unconsumed uid device_id t =
     t\<lparr>et_prekey := filter (\<lambda>p. \<not> (prekey_of uid device_id p \<and> \<not> ek_consumed p)) (et_prekey t)\<rparr>"

text \<open>A row violates the unique constraint when its device has a prekey of that id, consumed or not.\<close>

definition insert_prekey :: "i64 set \<Rightarrow> i64 \<Rightarrow> string \<Rightarrow> i32 \<times> string \<Rightarrow> e2e_tables \<Rightarrow> e2e_tables option" where
  "insert_prekey users uid device_id key t =
     (if uid \<notin> users \<or> list_ex (\<lambda>p. prekey_of uid device_id p \<and> ek_key_id p = fst key) (et_prekey t) then None
      else let i = et_prekey_seq t + 1 in
        Some (t\<lparr> et_prekey := et_prekey t @ [\<lparr>ek_id = i, ek_uid = uid, ek_device_id = device_id,
                   ek_key_id = fst key, ek_public_key = snd key, ek_consumed = False\<rparr>],
                 et_prekey_seq := i \<rparr>))"

fun insert_prekeys :: "i64 set \<Rightarrow> i64 \<Rightarrow> string \<Rightarrow> (i32 \<times> string) list \<Rightarrow> e2e_tables \<Rightarrow> e2e_tables option" where
  "insert_prekeys users uid device_id [] t = Some t"
| "insert_prekeys users uid device_id (key # keys) t =
     Option.bind (insert_prekey users uid device_id key t) (insert_prekeys users uid device_id keys)"

definition put_prekeys ::
    "bool \<Rightarrow> i64 set \<Rightarrow> Token \<Rightarrow> string \<Rightarrow> (i32 \<times> string) list \<Rightarrow> unit keys" where
  "put_prekeys db_ok users token device_id keys t =
     (case check_device token device_id of
        Inl e \<Rightarrow> (Inl e, t)
      | Inr u \<Rightarrow>
          if device_id = '''' then (Inl (from_status BAD_REQUEST), t)
          else if \<not> db_ok then (Inl internal_error, t)
          else (case insert_prekeys users (tk_uid token) device_id keys
                      (delete_unconsumed (tk_uid token) device_id t) of
              None \<Rightarrow> (Inl internal_error, t)
            | Some t' \<Rightarrow> (Inr (), t')))"

text \<open>\<open>order by id asc limit 1\<close>.\<close>

definition peek_prekey :: "i64 \<Rightarrow> string \<Rightarrow> e2e_tables \<Rightarrow> prekey_row option" where
  "peek_prekey uid device_id t =
     List.find (\<lambda>p. prekey_of uid device_id p \<and> \<not> ek_consumed p) (et_prekey t)"

definition consume_prekey :: "i64 \<Rightarrow> e2e_tables \<Rightarrow> e2e_tables" where
  "consume_prekey i t =
     t\<lparr>et_prekey := map (\<lambda>p. if ek_id p = i then p\<lparr>ek_consumed := True\<rparr> else p) (et_prekey t)\<rparr>"

section \<open>Bundles\<close>

record E2ePrekeyBundle =
  pb_uid :: i64
  pb_device_id :: string
  pb_identity_key_pub :: string
  pb_signed_prekey_pub :: "string option"
  pb_signed_prekey_sig :: "string option"
  pb_one_time_prekey :: "(i32 \<times> string) option"

text \<open>\<open>order by updated_at desc limit 1\<close>; of several rows of one time the first of the table.\<close>

fun latest_identity :: "identity_row list \<Rightarrow> identity_row option" where
  "latest_identity [] = None"
| "latest_identity (r # rs) =
     (case latest_identity rs of
        None \<Rightarrow> Some r
      | Some r' \<Rightarrow> if ei_updated_at r < ei_updated_at r' then Some r' else Some r)"

definition bundle_identity :: "e2e_tables \<Rightarrow> i64 \<Rightarrow> string option \<Rightarrow> identity_row option" where
  "bundle_identity t uid device_id =
     (case device_id of
        Some d \<Rightarrow> find_identity t uid d
      | None \<Rightarrow> latest_identity (filter (\<lambda>r. ei_uid r = uid) (et_identity t)))"

definition present :: "string option \<Rightarrow> bool" where
  "present s \<longleftrightarrow> (case s of None \<Rightarrow> False | Some v \<Rightarrow> str_trim v \<noteq> '''')"

definition get_bundle :: "bool \<Rightarrow> i32 \<Rightarrow> i64 \<Rightarrow> string option \<Rightarrow> E2ePrekeyBundle keys" where
  "get_bundle db_ok protocol_ver uid device_id t =
     (if \<not> db_ok then (Inl internal_error, t)
      else (case bundle_identity t uid device_id of
          None \<Rightarrow> (Inl (from_status NOT_FOUND), t)
        | Some r \<Rightarrow>
            if protocol_ver \<ge> 2 \<and> \<not> (present (ei_signed_prekey_pub r) \<and> present (ei_signed_prekey_sig r))
            then (Inl (from_string ''E2E_SIGNED_PREKEY_REQUIRED'' CONFLICT), t)
            else
              let otp = peek_prekey uid (ei_device_id r) t in
              (Inr \<lparr>pb_uid = uid, pb_device_id = ei_device_id r, pb_identity_key_pub = ei_identity_key_pub r,
                 pb_signed_prekey_pub = ei_signed_prekey_pub r, pb_signed_prekey_sig = ei_signed_prekey_sig r,
                 pb_one_time_prekey = map_option (\<lambda>p. (ek_key_id p, ek_public_key p)) otp\<rparr>,
               case otp of None \<Rightarrow> t | Some p \<Rightarrow> consume_prekey (ek_id p) t)))"

section \<open>Backups\<close>

text \<open>At most one backup is accepted per second; \<open>num_seconds\<close> rounds towards zero.\<close>

definition backup_accepted :: "DateTime \<Rightarrow> i64 \<Rightarrow> e2e_tables \<Rightarrow> bool" where
  "backup_accepted now uid t =
     (case fmlookup (et_backup t) uid of None \<Rightarrow> True | Some b \<Rightarrow> 1000000000 \<le> now - eb_updated_at b)"

definition put_backup ::
    "crypto \<Rightarrow> bool \<Rightarrow> i64 set \<Rightarrow> DateTime \<Rightarrow> Token \<Rightarrow> i32 \<Rightarrow> string \<Rightarrow> unit keys" where
  "put_backup C db_ok users now token version blob_base64 t =
     (case b64_decode C (str_trim blob_base64) of
        Inl e \<Rightarrow> (Inl (from_status BAD_REQUEST), t)
      | Inr raw \<Rightarrow>
          if version \<noteq> 2 \<or> length raw < 32 \<or> length raw > 8 * 1024 * 1024 then (Inl (from_status BAD_REQUEST), t)
          else if \<not> db_ok then (Inl internal_error, t)
          else if \<not> backup_accepted now (tk_uid token) t then (Inl (from_status TOO_MANY_REQUESTS), t)
          else if tk_uid token \<notin> users then (Inl internal_error, t)
          else (Inr (), t\<lparr>et_backup := fmupd (tk_uid token) \<lparr>eb_version = version, eb_size_bytes = int (length raw),
                 eb_updated_by_device = tk_device token, eb_blob = raw, eb_updated_at = now\<rparr> (et_backup t)\<rparr>))"

record E2eBackupResponse =
  br_version :: i32
  br_size_bytes :: i64
  br_updated_by_device :: string
  br_blob_base64 :: string
  br_updated_at :: DateTime

definition get_backup :: "crypto \<Rightarrow> bool \<Rightarrow> Token \<Rightarrow> e2e_tables \<Rightarrow> api_error + E2eBackupResponse" where
  "get_backup C db_ok token t =
     (if \<not> db_ok then Inl internal_error
      else try_res (ok_or (from_status NOT_FOUND) (fmlookup (et_backup t) (tk_uid token))) (\<lambda>b.
        Inr \<lparr>br_version = eb_version b, br_size_bytes = eb_size_bytes b, br_updated_by_device = eb_updated_by_device b,
          br_blob_base64 = b64_encode C (eb_blob b), br_updated_at = eb_updated_at b\<rparr>))"

definition delete_backup :: "bool \<Rightarrow> Token \<Rightarrow> unit keys" where
  "delete_backup db_ok token t =
     (if \<not> db_ok then (Inl internal_error, t)
      else (Inr (), t\<lparr>et_backup := fmdrop (tk_uid token) (et_backup t)\<rparr>))"

section \<open>Settings of direct conversations\<close>

definition get_dm_setting :: "bool \<Rightarrow> Token \<Rightarrow> i64 \<Rightarrow> e2e_tables \<Rightarrow> api_error + i64 \<times> bool" where
  "get_dm_setting db_ok token peer_uid t =
     (if \<not> db_ok then Inl internal_error
      else Inr (peer_uid,
        case fmlookup (et_dm_setting t) (dm_pair (tk_uid token) peer_uid) of None \<Rightarrow> True | Some (b, at) \<Rightarrow> b))"

definition put_dm_setting ::
    "bool \<Rightarrow> i64 set \<Rightarrow> 'j Cache \<Rightarrow> DateTime \<Rightarrow> Token \<Rightarrow> i64 \<Rightarrow> bool \<Rightarrow> (i64 \<times> bool) keys" where
  "put_dm_setting db_ok users cache now token peer_uid e2e_enabled t =
     (if peer_uid = tk_uid token then (Inl (from_status BAD_REQUEST), t)
      else if fmlookup (ca_users cache) peer_uid = None then (Inl (from_status NOT_FOUND), t)
      else if \<not> db_ok \<or> tk_uid token \<notin> users \<or> peer_uid \<notin> users then (Inl internal_error, t)
      else (Inr (peer_uid, e2e_enabled),
        t\<lparr>et_dm_setting := fmupd (dm_pair (tk_uid token) peer_uid) (e2e_enabled, now) (et_dm_setting t)\<rparr>))"

end
