(* ===== verification/Bot_Vault.thy ===== *)
theory Bot_Vault
  imports Bot_Errors E2e_Keys X3dh_Deferred Dm_Session Mls_Delivery Message_Send
begin

text \<open>
  The key vault of bots (\<open>src/bot_e2ee.rs\<close>, \<open>migrations/20260721140000_bot_e2ee.sql\<close>): the server holds
  the secrets of a bot, sealed with the operator's master key, and publishes their public halves like those of
  any other device. This theory has the state, sealing, and the life cycle: initialize, rotate, rebuild, and
  the admission to channels. JSON is the argument \<open>'j bot_json\<close>; secrets and nonces drawn are arguments.
\<close>

section \<open>State\<close>

record OtpSecret =
  os_key_id :: u32
  os_secret :: bytes

record BotSecretMaterial =
  bs_identity_x25519 :: bytes
  bs_identity_ed25519 :: bytes
  bs_signed_prekey_secret :: bytes
  bs_one_time_prekeys :: "OtpSecret list"
  bs_mls_seed :: bytes

record bot_identity_row =
  bi_device_id :: string
  bi_key_version :: i64
  bi_nonce :: bytes
  bi_ciphertext :: bytes
  bi_identity_key_pub :: string
  bi_signed_prekey_pub :: string
  bi_signed_prekey_sig :: string
  bi_created_at :: DateTime
  bi_updated_at :: DateTime
  bi_rotated_at :: "DateTime option"

record bot_secret_row =
  bx_uid :: i64
  bx_nonce :: bytes
  bx_ciphertext :: bytes

record bot_channel_row =
  bc_enabled_at :: "DateTime option"
  bc_mls_device_id :: "string option"
  bc_credential_published_at :: "DateTime option"
  bc_key_package_published_at :: "DateTime option"
  bc_updated_at :: DateTime

record bot_audit_row =
  ba_uid :: i64
  ba_actor_uid :: "i64 option"
  ba_action :: string
  ba_detail :: string
  ba_created_at :: DateTime

record bot_tables =
  bt_identity :: "(i64, bot_identity_row) fmap"
  bt_secret :: "(i64, bot_secret_row) fmap"
  bt_channel :: "(i64 \<times> i64, bot_channel_row) fmap"
  bt_audit :: "bot_audit_row list"

text \<open>A decrypted message on its way to the webhook of a bot.\<close>

record 'j webhook_post =
  wp_url :: string
  wp_body :: 'j

record ('j, 'db) E2eServer =
  es_server :: "('j, 'db) Server"
  es_keys :: e2e_tables
  es_bot :: bot_tables
  es_delivery :: delivery_tables
  es_webhooks :: "'j webhook_post list"

record InboundWire =
  iw_ciphertext_b64 :: string
  iw_nonce_b64 :: string

text \<open>
  \<open>serde_json\<close> on the types of the vault: objects and numbers of the macro \<open>json!\<close>, printing, and the derived
  codecs. An error carries its message.
\<close>

record 'j bot_json =
  bj_ops :: "'j json_ops"
  bj_object :: "(string \<times> 'j) list \<Rightarrow> 'j"
  bj_get :: "'j \<Rightarrow> string \<Rightarrow> 'j option"
  bj_int :: "int \<Rightarrow> 'j"
  bj_bool :: "bool \<Rightarrow> 'j"
  bj_print :: "'j \<Rightarrow> string"
  bj_to_vec :: "'j \<Rightarrow> string + bytes"
  bj_of_identity :: "IdentityPublic \<Rightarrow> string + string"
  bj_to_identity :: "string \<Rightarrow> string + IdentityPublic"
  bj_of_material :: "BotSecretMaterial \<Rightarrow> string + bytes"
  bj_to_material :: "bytes \<Rightarrow> string + BotSecretMaterial"
  bj_of_envelope :: "DeferredEnvelope \<Rightarrow> string + bytes"
  bj_to_envelope :: "bytes \<Rightarrow> string + DeferredEnvelope"
  bj_to_wire :: "string \<Rightarrow> string + InboundWire \<times> 'j"

text \<open>
  What a vault operation takes from outside: the primitives, the content of the file with the master key
  (\<open>None\<close> when there is none), the clock, the messages of the errors of the database and of \<open>poem\<close>, and for each
  statement of the operation, counted from 0, whether the database works.
\<close>

record 'j bot_env =
  be_C :: crypto
  be_J :: "'j bot_json"
  be_secret_file :: "string option"
  be_now :: DateTime
  be_db_ok :: "nat \<Rightarrow> bool"
  be_db_error :: string
  be_show :: "api_error \<Rightarrow> string"

type_synonym ('j, 'db, 'a) bot_op = "('j, 'db) E2eServer \<Rightarrow> (BotE2eeError + 'a) \<times> ('j, 'db) E2eServer"

definition database_error :: "'j bot_env \<Rightarrow> BotE2eeError" where
  "database_error B = BotDatabase (be_db_error B)"

definition crypto_result :: "E2eError + 'a \<Rightarrow> BotE2eeError + 'a" where
  "crypto_result r = map_sum (\<lambda>e. BotCrypto (e2e_error_to_string e)) id r"

definition json_result :: "string + 'a \<Rightarrow> BotE2eeError + 'a" where
  "json_result r = map_sum BotCrypto id r"

section \<open>The master key\<close>

text \<open>\<open>env\<close> and \<open>file\<close> are the environment and the readable files.\<close>

definition read_env_file_secret :: "(string \<Rightarrow> string option) \<Rightarrow> (string \<Rightarrow> string option) \<Rightarrow> string \<Rightarrow> string option" where
  "read_env_file_secret env file env_var = map_option str_trim (Option.bind (env env_var) file)"

definition load_master_key :: "'j bot_env \<Rightarrow> BotE2eeError + bytes" where
  "load_master_key B =
     try_res (ok_or MissingMasterKey (be_secret_file B)) (\<lambda>raw.
     try_res (map_sum (\<lambda>e. InvalidMasterKey) id (b64_decode (be_C B) raw)) (\<lambda>decoded.
       if length decoded = 32 then Inr decoded else Inl InvalidMasterKey))"

text \<open>AES-256-GCM without associated data; keys here have 32 bytes.\<close>

definition vault_seal :: "crypto \<Rightarrow> bytes \<Rightarrow> bytes \<Rightarrow> bytes \<Rightarrow> BotE2eeError + bytes \<times> bytes" where
  "vault_seal C nonce master_key plaintext =
     (if length master_key \<noteq> 32 then Inl InvalidMasterKey
      else case aes_encrypt C master_key nonce plaintext [] of
        None \<Rightarrow> Inl (BotCrypto ''vault seal failed'')
      | Some ciphertext \<Rightarrow> Inr (nonce, ciphertext))"

definition vault_open :: "crypto \<Rightarrow> bytes \<Rightarrow> bytes \<Rightarrow> bytes \<Rightarrow> BotE2eeError + bytes" where
  "vault_open C master_key nonce ciphertext =
     (if length master_key \<noteq> 32 then Inl InvalidMasterKey
      else if length nonce \<noteq> 12 then Inl (BotCrypto ''vault nonce length'')
      else ok_or VaultDecryptFailed (aes_decrypt C master_key nonce ciphertext []))"

section \<open>Material\<close>

definition BOT_KEY_ID :: u32 where
  "BOT_KEY_ID = 1"

definition OTP_BATCH_SIZE :: u32 where
  "OTP_BATCH_SIZE = 20"

definition bot_device_id :: "i64 \<Rightarrow> string" where
  "bot_device_id uid = ''bot:'' @ decimal_int uid"

text \<open>The secrets drawn: identity, signed prekey, one-time prekeys by key id, MLS seed, vault nonce.\<close>

record key_draw =
  kd_x25519 :: bytes
  kd_ed25519 :: bytes
  kd_spk :: bytes
  kd_otk :: "u32 \<Rightarrow> bytes"
  kd_mls_seed :: bytes
  kd_nonce :: bytes

record GeneratedMaterial =
  gm_secret :: BotSecretMaterial
  gm_identity_public :: IdentityPublic
  gm_signed_prekey_public :: SignedPreKeyPublic
  gm_otp_publics :: "(u32 \<times> string) list"

definition otp_secrets :: "key_draw \<Rightarrow> OtpSecret list" where
  "otp_secrets d = map (\<lambda>key_id. \<lparr>os_key_id = key_id, os_secret = kd_otk d key_id\<rparr>) [1..<Suc OTP_BATCH_SIZE]"

definition otp_publics :: "crypto \<Rightarrow> IdentitySecret \<Rightarrow> key_draw \<Rightarrow> (u32 \<times> string) list" where
  "otp_publics C identity d =
     map (\<lambda>key_id. (key_id, sp_dh_pub_b64 (snd (generate_signed_prekey C (kd_otk d key_id) identity key_id))))
       [1..<Suc OTP_BATCH_SIZE]"

definition generate_material :: "crypto \<Rightarrow> key_draw \<Rightarrow> GeneratedMaterial" where
  "generate_material C d =
     (let (identity_secret, identity_public) = identity_generate C (kd_x25519 d) (kd_ed25519 d);
          (spk_secret, spk_public) = generate_signed_prekey C (kd_spk d) identity_secret BOT_KEY_ID
      in \<lparr> gm_secret = \<lparr> bs_identity_x25519 = id_x25519 identity_secret, bs_identity_ed25519 = id_ed25519 identity_secret,
             bs_signed_prekey_secret = ss_secret spk_secret, bs_one_time_prekeys = otp_secrets d,
             bs_mls_seed = kd_mls_seed d \<rparr>,
           gm_identity_public = identity_public, gm_signed_prekey_public = spk_public,
           gm_otp_publics = otp_publics C identity_secret d \<rparr>)"

definition load_identity_row :: "bool \<Rightarrow> 'j bot_env \<Rightarrow> i64 \<Rightarrow> bot_tables \<Rightarrow> BotE2eeError + bot_identity_row option" where
  "load_identity_row ok B uid t = (if ok then Inr (fmlookup (bt_identity t) uid) else Inl (database_error B))"

definition load_and_decrypt_material ::
    "bool \<Rightarrow> 'j bot_env \<Rightarrow> i64 \<Rightarrow> bytes \<Rightarrow> bot_tables \<Rightarrow> BotE2eeError + BotSecretMaterial" where
  "load_and_decrypt_material ok B uid master_key t =
     try_res (load_identity_row ok B uid t) (\<lambda>found.
     try_res (ok_or NotInitialized found) (\<lambda>row.
     try_res (vault_open (be_C B) master_key (bi_nonce row) (bi_ciphertext row)) (\<lambda>plaintext.
       json_result (bj_to_material (be_J B) plaintext))))"

definition seal_material :: "'j bot_env \<Rightarrow> bytes \<Rightarrow> bytes \<Rightarrow> BotSecretMaterial \<Rightarrow> BotE2eeError + bytes \<times> bytes" where
  "seal_material B nonce master_key material =
     try_res (json_result (bj_of_material (be_J B) material)) (vault_seal (be_C B) nonce master_key)"

definition persist_material ::
    "bool \<Rightarrow> 'j bot_env \<Rightarrow> bytes \<Rightarrow> i64 \<Rightarrow> bytes \<Rightarrow> BotSecretMaterial \<Rightarrow> bot_tables \<Rightarrow>
     (BotE2eeError + unit) \<times> bot_tables" where
  "persist_material ok B fresh uid master_key material t =
     (case seal_material B fresh master_key material of
        Inl e \<Rightarrow> (Inl e, t)
      | Inr (nonce, ciphertext) \<Rightarrow>
          if \<not> ok then (Inl (database_error B), t)
          else (Inr (), t\<lparr>bt_identity := fm_modify uid (\<lambda>r. r\<lparr>bi_nonce := nonce, bi_ciphertext := ciphertext,
                  bi_updated_at := be_now B\<rparr>) (bt_identity t)\<rparr>))"

section \<open>Status and audit\<close>

record BotE2eeStatus =
  bst_uid :: i64
  bst_initialized :: bool
  bst_device_id :: "string option"
  bst_key_version :: "i64 option"
  bst_master_key_available :: bool
  bst_created_at :: "DateTime option"
  bst_updated_at :: "DateTime option"
  bst_rotated_at :: "DateTime option"
  bst_enabled_channels :: "i64 list"

definition bot_status :: "bool \<Rightarrow> 'j bot_env \<Rightarrow> i64 \<Rightarrow> bot_tables \<Rightarrow> BotE2eeError + BotE2eeStatus" where
  "bot_status ok B bot_uid t =
     try_res (load_identity_row ok B bot_uid t) (\<lambda>row.
       let enabled = Set.filter (\<lambda>(u, g). u = bot_uid \<and>
             (case fmlookup (bt_channel t) (u, g) of None \<Rightarrow> False | Some c \<Rightarrow> bc_enabled_at c \<noteq> None))
             (fmdom' (bt_channel t))
       in Inr \<lparr> bst_uid = bot_uid, bst_initialized = (row \<noteq> None), bst_device_id = map_option bi_device_id row,
            bst_key_version = map_option bi_key_version row, bst_master_key_available = (\<not> isl (load_master_key B)),
            bst_created_at = map_option bi_created_at row, bst_updated_at = map_option bi_updated_at row,
            bst_rotated_at = Option.bind row bi_rotated_at,
            bst_enabled_channels = sorted_list_of_set (snd ` enabled) \<rparr>)"

text \<open>The audit is best effort: when it fails nothing is said.\<close>

definition audit ::
    "bool \<Rightarrow> 'j bot_env \<Rightarrow> i64 \<Rightarrow> i64 option \<Rightarrow> string \<Rightarrow> 'j \<Rightarrow> bot_tables \<Rightarrow> bot_tables" where
  "audit ok B uid actor_uid action detail t =
     (if ok then t\<lparr>bt_audit := bt_audit t @ [\<lparr>ba_uid = uid, ba_actor_uid = actor_uid, ba_action = action,
         ba_detail = bj_print (be_J B) detail, ba_created_at = be_now B\<rparr>]\<rparr> else t)"

definition ensure_target_is_bot :: "'j Cache \<Rightarrow> i64 \<Rightarrow> BotE2eeError + unit" where
  "ensure_target_is_bot cache uid =
     (case fmlookup (ca_users cache) uid of
        Some user \<Rightarrow> if cu_is_bot user then Inr () else Inl NotBot
      | None \<Rightarrow> Inl NotBot)"

end
