(* ===== verification/Bot_Lifecycle.thy ===== *)
theory Bot_Lifecycle
  imports Bot_Vault
begin

text \<open>
  The administration of a bot's keys: \<open>initialize\<close>, \<open>rotate\<close>, \<open>rebuild\<close> and \<open>set_channel_enabled\<close> of
  \<open>src/bot_e2ee.rs\<close>. Each reads, then changes the tables in one transaction (a violated constraint undoes
  it), then writes the audit and answers with the status.
\<close>

abbreviation es_cache :: "('j, 'db) E2eServer \<Rightarrow> 'j Cache" where
  "es_cache es \<equiv> st_cache (sv_state (es_server es))"

abbreviation es_tables :: "('j, 'db) E2eServer \<Rightarrow> tables" where
  "es_tables es \<equiv> st_tables (sv_state (es_server es))"

definition set_es_tables :: "tables \<Rightarrow> ('j, 'db) E2eServer \<Rightarrow> ('j, 'db) E2eServer" where
  "set_es_tables db es = es\<lparr>es_server := (es_server es)\<lparr>sv_state := set_tables db (sv_state (es_server es))\<rparr>\<rparr>"

lemma es_access [simp]:
  "es_tables (set_es_tables db es) = db"
  "es_cache (set_es_tables db es) = es_cache es"
  "es_keys (set_es_tables db es) = es_keys es"
  "es_bot (set_es_tables db es) = es_bot es"
  "es_delivery (set_es_tables db es) = es_delivery es"
  "es_webhooks (set_es_tables db es) = es_webhooks es"
  by (simp_all add: set_es_tables_def)

text \<open>The audit is statement \<open>n\<close>, the status the next.\<close>

definition audit_and_status ::
    "'j bot_env \<Rightarrow> nat \<Rightarrow> i64 \<Rightarrow> i64 \<Rightarrow> string \<Rightarrow> 'j \<Rightarrow> ('j, 'db, BotE2eeStatus) bot_op" where
  "audit_and_status B n actor_uid bot_uid action detail es =
     (let t = audit (be_db_ok B n) B bot_uid (Some actor_uid) action detail (es_bot es)
      in (bot_status (be_db_ok B (Suc n)) B bot_uid t, es\<lparr>es_bot := t\<rparr>))"

section \<open>Initialize\<close>

text \<open>\<open>insert into device ... on conflict(uid, device) do nothing\<close>.\<close>

definition ensure_device :: "i64 \<Rightarrow> string \<Rightarrow> tables \<Rightarrow> tables" where
  "ensure_device uid device_id db =
     (if device_exists db uid device_id then db else db\<lparr>tb_device := tb_device db @ [(uid, device_id, None)]\<rparr>)"

definition prekey_items :: "(u32 \<times> string) list \<Rightarrow> (i32 \<times> string) list" where
  "prekey_items publics = map (\<lambda>(key_id, public). (int key_id, public)) publics"

definition bot_identity_entry :: "DateTime \<Rightarrow> i64 \<Rightarrow> string \<Rightarrow> string \<Rightarrow> SignedPreKeyPublic \<Rightarrow> identity_row" where
  "bot_identity_entry now uid device_id identity_key_pub spk =
     \<lparr>ei_uid = uid, ei_device_id = device_id, ei_identity_key_pub = identity_key_pub,
      ei_signed_prekey_pub = Some (sp_dh_pub_b64 spk), ei_signed_prekey_sig = Some (sp_signature_b64 spk),
      ei_updated_at = now, ei_key_version = 1, ei_retired_at = None\<rparr>"

definition publish_bot_keys ::
    "DateTime \<Rightarrow> i64 set \<Rightarrow> i64 \<Rightarrow> string \<Rightarrow> string \<Rightarrow> GeneratedMaterial \<Rightarrow> e2e_tables \<Rightarrow> e2e_tables option" where
  "publish_bot_keys now users uid device_id identity_key_pub g t =
     (if uid \<notin> users \<or> find_identity t uid device_id \<noteq> None then None
      else insert_prekeys users uid device_id (prekey_items (gm_otp_publics g))
        (t\<lparr>et_identity := et_identity t @
            [bot_identity_entry now uid device_id identity_key_pub (gm_signed_prekey_public g)]\<rparr>))"

definition new_bot_row :: "DateTime \<Rightarrow> string \<Rightarrow> string \<Rightarrow> GeneratedMaterial \<Rightarrow> bytes \<times> bytes \<Rightarrow> bot_identity_row" where
  "new_bot_row now device_id identity_key_pub g sealed =
     \<lparr>bi_device_id = device_id, bi_key_version = 1, bi_nonce = fst sealed, bi_ciphertext = snd sealed,
      bi_identity_key_pub = identity_key_pub, bi_signed_prekey_pub = sp_dh_pub_b64 (gm_signed_prekey_public g),
      bi_signed_prekey_sig = sp_signature_b64 (gm_signed_prekey_public g), bi_created_at = now, bi_updated_at = now,
      bi_rotated_at = None\<rparr>"

text \<open>The checks and the sealing, before anything is written.\<close>

definition prepare_initialize ::
    "'j bot_env \<Rightarrow> key_draw \<Rightarrow> i64 \<Rightarrow> ('j, 'db) E2eServer \<Rightarrow>
     BotE2eeError + GeneratedMaterial \<times> string \<times> bytes \<times> bytes" where
  "prepare_initialize B d bot_uid es =
     try_res (ensure_target_is_bot (es_cache es) bot_uid) (\<lambda>u.
     try_res (load_identity_row (be_db_ok B 0) B bot_uid (es_bot es)) (\<lambda>row.
       if row \<noteq> None then Inl AlreadyInitialized
       else
     try_res (load_master_key B) (\<lambda>master_key.
       let generated = generate_material (be_C B) d in
     try_res (json_result (bj_of_identity (be_J B) (gm_identity_public generated))) (\<lambda>identity_key_pub.
     try_res (seal_material B (kd_nonce d) master_key (gm_secret generated)) (\<lambda>sealed.
       Inr (generated, identity_key_pub, sealed))))))"

definition initialize ::
    "'j bot_env \<Rightarrow> key_draw \<Rightarrow> i64 \<Rightarrow> i64 \<Rightarrow> ('j, 'db, BotE2eeStatus) bot_op" where
  "initialize B d actor_uid bot_uid es =
     (case prepare_initialize B d bot_uid es of
        Inl e \<Rightarrow> (Inl e, es)
      | Inr (generated, identity_key_pub, sealed) \<Rightarrow>
          let device_id = bot_device_id bot_uid; now = be_now B in
          (case (if be_db_ok B 1
                 then publish_bot_keys now (fmdom' (tb_user (es_tables es))) bot_uid device_id identity_key_pub generated
                   (es_keys es)
                 else None) of
             None \<Rightarrow> (Inl (database_error B), es)
           | Some keys \<Rightarrow>
               audit_and_status B 2 actor_uid bot_uid ''initialize''
                 (bj_object (be_J B) [(''device_id'', json_string (bj_ops (be_J B)) device_id)])
                 ((set_es_tables (ensure_device bot_uid device_id (es_tables es)) es)\<lparr>
                    es_keys := keys,
                    es_bot := (es_bot es)\<lparr>bt_identity := fmupd bot_uid
                      (new_bot_row now device_id identity_key_pub generated sealed) (bt_identity (es_bot es))\<rparr>\<rparr>)))"

section \<open>Rotate\<close>

text \<open>\<open>on conflict(uid, device_id, key_id) do update set public_key = ..., consumed = false\<close>.\<close>

definition upsert_prekey :: "i64 set \<Rightarrow> i64 \<Rightarrow> string \<Rightarrow> i32 \<times> string \<Rightarrow> e2e_tables \<Rightarrow> e2e_tables option" where
  "upsert_prekey users uid device_id key t =
     (if list_ex (\<lambda>p. prekey_of uid device_id p \<and> ek_key_id p = fst key) (et_prekey t)
      then Some (t\<lparr>et_prekey := map (\<lambda>p. if prekey_of uid device_id p \<and> ek_key_id p = fst key
             then p\<lparr>ek_public_key := snd key, ek_consumed := False\<rparr> else p) (et_prekey t)\<rparr>)
      else insert_prekey users uid device_id key t)"

fun upsert_prekeys :: "i64 set \<Rightarrow> i64 \<Rightarrow> string \<Rightarrow> (i32 \<times> string) list \<Rightarrow> e2e_tables \<Rightarrow> e2e_tables option" where
  "upsert_prekeys users uid device_id [] t = Some t"
| "upsert_prekeys users uid device_id (key # keys) t =
     Option.bind (upsert_prekey users uid device_id key t) (upsert_prekeys users uid device_id keys)"

definition rotated_material :: "crypto \<Rightarrow> key_draw \<Rightarrow> BotSecretMaterial \<Rightarrow>
    BotSecretMaterial \<times> SignedPreKeyPublic \<times> (u32 \<times> string) list" where
  "rotated_material C d material =
     (let identity_secret = \<lparr>id_x25519 = bs_identity_x25519 material, id_ed25519 = bs_identity_ed25519 material\<rparr>;
          (spk_secret, spk_public) = generate_signed_prekey C (kd_spk d) identity_secret BOT_KEY_ID
      in (material\<lparr>bs_signed_prekey_secret := ss_secret spk_secret, bs_one_time_prekeys := otp_secrets d\<rparr>,
          spk_public, otp_publics C identity_secret d))"

definition rotate_keys ::
    "DateTime \<Rightarrow> i64 set \<Rightarrow> i64 \<Rightarrow> string \<Rightarrow> SignedPreKeyPublic \<Rightarrow> (u32 \<times> string) list \<Rightarrow> i64 \<Rightarrow> e2e_tables \<Rightarrow> e2e_tables option" where
  "rotate_keys now users uid device_id spk publics version t =
     map_option (update_identity uid device_id (\<lambda>r. r\<lparr>ei_signed_prekey_pub := Some (sp_dh_pub_b64 spk),
         ei_signed_prekey_sig := Some (sp_signature_b64 spk), ei_key_version := version, ei_updated_at := now\<rparr>))
       (upsert_prekeys users uid device_id (prekey_items publics) (delete_unconsumed uid device_id t))"

definition prepare_rotate ::
    "'j bot_env \<Rightarrow> key_draw \<Rightarrow> i64 \<Rightarrow> ('j, 'db) E2eServer \<Rightarrow>
     BotE2eeError + bot_identity_row \<times> SignedPreKeyPublic \<times> (u32 \<times> string) list \<times> bytes \<times> bytes" where
  "prepare_rotate B d bot_uid es =
     try_res (ensure_target_is_bot (es_cache es) bot_uid) (\<lambda>u.
     try_res (load_identity_row (be_db_ok B 0) B bot_uid (es_bot es)) (\<lambda>row.
     try_res (ok_or NotInitialized row) (\<lambda>existing.
     try_res (load_master_key B) (\<lambda>master_key.
     try_res (load_and_decrypt_material (be_db_ok B 1) B bot_uid master_key (es_bot es)) (\<lambda>material.
       let (material', spk_public, publics) = rotated_material (be_C B) d material in
     try_res (seal_material B (kd_nonce d) master_key material') (\<lambda>sealed.
       Inr (existing, spk_public, publics, sealed)))))))"

definition rotate_bot ::
    "'j bot_env \<Rightarrow> key_draw \<Rightarrow> i64 \<Rightarrow> i64 \<Rightarrow> ('j, 'db, BotE2eeStatus) bot_op" where
  "rotate_bot B d actor_uid bot_uid es =
     (case prepare_rotate B d bot_uid es of
        Inl e \<Rightarrow> (Inl e, es)
      | Inr (existing, spk_public, publics, nonce, ciphertext) \<Rightarrow>
          let new_key_version = bi_key_version existing + 1; now = be_now B in
          (case (if be_db_ok B 2
                 then rotate_keys now (fmdom' (tb_user (es_tables es))) bot_uid (bi_device_id existing) spk_public publics
                   new_key_version (es_keys es)
                 else None) of
             None \<Rightarrow> (Inl (database_error B), es)
           | Some keys \<Rightarrow>
               audit_and_status B 3 actor_uid bot_uid ''rotate''
                 (bj_object (be_J B) [(''key_version'', bj_int (be_J B) new_key_version)])
                 (es\<lparr>es_keys := keys,
                    es_bot := (es_bot es)\<lparr>bt_identity := fm_modify bot_uid
                      (\<lambda>r. r\<lparr>bi_signed_prekey_pub := sp_dh_pub_b64 spk_public,
                        bi_signed_prekey_sig := sp_signature_b64 spk_public, bi_key_version := new_key_version,
                        bi_nonce := nonce, bi_ciphertext := ciphertext, bi_updated_at := now, bi_rotated_at := Some now\<rparr>)
                      (bt_identity (es_bot es))\<rparr>\<rparr>)))"

section \<open>Rebuild\<close>

definition delete_prekeys :: "i64 \<Rightarrow> string \<Rightarrow> e2e_tables \<Rightarrow> e2e_tables" where
  "delete_prekeys uid device_id t = t\<lparr>et_prekey := filter (\<lambda>p. \<not> prekey_of uid device_id p) (et_prekey t)\<rparr>"

definition rebuild_keys ::
    "DateTime \<Rightarrow> i64 set \<Rightarrow> i64 \<Rightarrow> string \<Rightarrow> string \<Rightarrow> GeneratedMaterial \<Rightarrow> i64 \<Rightarrow> e2e_tables \<Rightarrow> e2e_tables option" where
  "rebuild_keys now users uid device_id identity_key_pub g version t =
     map_option (update_identity uid device_id (\<lambda>r. r\<lparr>ei_identity_key_pub := identity_key_pub,
         ei_signed_prekey_pub := Some (sp_dh_pub_b64 (gm_signed_prekey_public g)),
         ei_signed_prekey_sig := Some (sp_signature_b64 (gm_signed_prekey_public g)), ei_key_version := version,
         ei_updated_at := now, ei_retired_at := None\<rparr>))
       (insert_prekeys users uid device_id (prekey_items (gm_otp_publics g)) (delete_prekeys uid device_id t))"

definition prepare_rebuild ::
    "'j bot_env \<Rightarrow> key_draw \<Rightarrow> i64 \<Rightarrow> bool \<Rightarrow> ('j, 'db) E2eServer \<Rightarrow>
     BotE2eeError + bot_identity_row \<times> GeneratedMaterial \<times> string \<times> bytes \<times> bytes" where
  "prepare_rebuild B d bot_uid confirm es =
     (if \<not> confirm then Inl ConfirmationRequired
      else
     try_res (ensure_target_is_bot (es_cache es) bot_uid) (\<lambda>u.
     try_res (load_identity_row (be_db_ok B 0) B bot_uid (es_bot es)) (\<lambda>row.
     try_res (ok_or NotInitialized row) (\<lambda>existing.
     try_res (load_master_key B) (\<lambda>master_key.
       let generated = generate_material (be_C B) d in
     try_res (json_result (bj_of_identity (be_J B) (gm_identity_public generated))) (\<lambda>identity_key_pub.
     try_res (seal_material B (kd_nonce d) master_key (gm_secret generated)) (\<lambda>sealed.
       Inr (existing, generated, identity_key_pub, sealed))))))))"

text \<open>The credentials of channels are those of the discarded material.\<close>

definition unpublish_channels :: "DateTime \<Rightarrow> i64 \<Rightarrow> bot_tables \<Rightarrow> bot_tables" where
  "unpublish_channels now uid t =
     t\<lparr>bt_channel := fmmap_keys (\<lambda>(u, g) c. if u = uid
         then c\<lparr>bc_credential_published_at := None, bc_key_package_published_at := None, bc_updated_at := now\<rparr> else c)
       (bt_channel t)\<rparr>"

definition rebuild ::
    "'j bot_env \<Rightarrow> key_draw \<Rightarrow> i64 \<Rightarrow> i64 \<Rightarrow> bool \<Rightarrow> ('j, 'db, BotE2eeStatus) bot_op" where
  "rebuild B d actor_uid bot_uid confirm es =
     (case prepare_rebuild B d bot_uid confirm es of
        Inl e \<Rightarrow> (Inl e, es)
      | Inr (existing, generated, identity_key_pub, nonce, ciphertext) \<Rightarrow>
          let new_key_version = bi_key_version existing + 1; now = be_now B in
          (case (if be_db_ok B 1
                 then rebuild_keys now (fmdom' (tb_user (es_tables es))) bot_uid (bi_device_id existing) identity_key_pub
                   generated new_key_version (es_keys es)
                 else None) of
             None \<Rightarrow> (Inl (database_error B), es)
           | Some keys \<Rightarrow>
               audit_and_status B 2 actor_uid bot_uid ''rebuild''
                 (bj_object (be_J B) [(''key_version'', bj_int (be_J B) new_key_version),
                    (''destructive'', bj_bool (be_J B) True)])
                 (es\<lparr>es_keys := keys,
                    es_bot := unpublish_channels now bot_uid ((es_bot es)\<lparr>bt_identity := fm_modify bot_uid
                      (\<lambda>r. r\<lparr>bi_identity_key_pub := identity_key_pub,
                        bi_signed_prekey_pub := sp_dh_pub_b64 (gm_signed_prekey_public generated),
                        bi_signed_prekey_sig := sp_signature_b64 (gm_signed_prekey_public generated),
                        bi_key_version := new_key_version, bi_nonce := nonce, bi_ciphertext := ciphertext,
                        bi_updated_at := now, bi_rotated_at := Some now\<rparr>)
                      (bt_identity (es_bot es))\<rparr>)\<rparr>)))"

section \<open>Channels\<close>

definition bot_mls_credential_bytes :: "'j bot_json \<Rightarrow> string \<Rightarrow> i64 \<Rightarrow> string \<Rightarrow> bytes" where
  "bot_mls_credential_bytes J device_id gid identity_key_pub =
     (case bj_to_vec J (bj_object J
         [(''kind'', json_string (bj_ops J) ''vocechat-bot-mls-credential-placeholder-v1''),
          (''device_id'', json_string (bj_ops J) device_id), (''gid'', bj_int J gid),
          (''identity_key_pub'', json_string (bj_ops J) identity_key_pub)]) of
        Inl e \<Rightarrow> [] | Inr bs \<Rightarrow> bs)"

text \<open>\<open>package_id\<close> is a new UUID.\<close>

definition bot_mls_key_package_bytes :: "'j bot_json \<Rightarrow> string \<Rightarrow> string \<Rightarrow> i64 \<Rightarrow> bytes" where
  "bot_mls_key_package_bytes J package_id device_id gid =
     (case bj_to_vec J (bj_object J
         [(''kind'', json_string (bj_ops J) ''vocechat-bot-mls-key-package-placeholder-v1''),
          (''device_id'', json_string (bj_ops J) device_id), (''gid'', bj_int J gid),
          (''package_id'', json_string (bj_ops J) package_id)]) of
        Inl e \<Rightarrow> [] | Inr bs \<Rightarrow> bs)"

record BotE2eeChannelStatus =
  cs_gid :: i64
  cs_enabled :: bool
  cs_credential_published :: bool
  cs_key_package_published :: bool

definition modify_channel ::
    "i64 \<Rightarrow> i64 \<Rightarrow> (bot_channel_row \<Rightarrow> bot_channel_row) \<Rightarrow> ('j, 'db) E2eServer \<Rightarrow> ('j, 'db) E2eServer" where
  "modify_channel uid gid f es =
     es\<lparr>es_bot := (es_bot es)\<lparr>bt_channel := fm_modify (uid, gid) f (bt_channel (es_bot es))\<rparr>\<rparr>"

definition enable_channel :: "DateTime \<Rightarrow> i64 \<Rightarrow> i64 \<Rightarrow> string \<Rightarrow> bot_tables \<Rightarrow> bot_tables" where
  "enable_channel now uid gid device_id t =
     t\<lparr>bt_channel := fmupd (uid, gid)
        (case fmlookup (bt_channel t) (uid, gid) of
           None \<Rightarrow> \<lparr>bc_enabled_at = Some now, bc_mls_device_id = Some device_id, bc_credential_published_at = None,
             bc_key_package_published_at = None, bc_updated_at = now\<rparr>
         | Some c \<Rightarrow> c\<lparr>bc_enabled_at := Some now, bc_mls_device_id := Some device_id, bc_updated_at := now\<rparr>)
        (bt_channel t)\<rparr>"

text \<open>A call into the MLS delivery (statement \<open>n\<close>), then the note that it was made (the next).\<close>

definition publish_step ::
    "'j bot_env \<Rightarrow> nat \<Rightarrow> i64 \<Rightarrow> i64 \<Rightarrow> (bot_channel_row \<Rightarrow> bot_channel_row) \<Rightarrow> (bool \<Rightarrow> unit delivery) \<Rightarrow>
     ('j, 'db, unit) bot_op" where
  "publish_step B n uid gid note call es =
     (case call (be_db_ok B n) (es_delivery es) of
        (Inl e, dl) \<Rightarrow> (Inl (BotInternal (be_show B e)), es\<lparr>es_delivery := dl\<rparr>)
      | (Inr u, dl) \<Rightarrow>
          if be_db_ok B (Suc n) then (Inr (), modify_channel uid gid note (es\<lparr>es_delivery := dl\<rparr>))
          else (Inl (database_error B), es\<lparr>es_delivery := dl\<rparr>))"

definition publish_channel ::
    "'j bot_env \<Rightarrow> string \<Rightarrow> i64 \<Rightarrow> i64 \<Rightarrow> bot_identity_row \<Rightarrow> ('j, 'db, unit) bot_op" where
  "publish_channel B package_id bot_uid gid identity es =
     (let users = fmdom' (tb_user (es_tables es)); device_id = bi_device_id identity; now = be_now B in
      case fmlookup (bt_channel (es_bot es)) (bot_uid, gid) of
        None \<Rightarrow> (Inl (database_error B), es)
      | Some published \<Rightarrow>
          and_then
            (if bc_credential_published_at published = None
             then publish_step B 4 bot_uid gid (\<lambda>c. c\<lparr>bc_credential_published_at := Some now\<rparr>)
               (\<lambda>ok. put_credential ok users bot_uid device_id
                  (bot_mls_credential_bytes (be_J B) device_id gid (bi_identity_key_pub identity))) es
             else (Inr (), es)) (\<lambda>u es.
             if bc_key_package_published_at published = None
             then publish_step B 6 bot_uid gid (\<lambda>c. c\<lparr>bc_key_package_published_at := Some now\<rparr>)
               (\<lambda>ok. publish_key_package ok bot_uid device_id
                  (bot_mls_key_package_bytes (be_J B) package_id device_id gid)) es
             else (Inr (), es)))"

definition channel_status :: "'j bot_env \<Rightarrow> nat \<Rightarrow> i64 \<Rightarrow> i64 \<Rightarrow> bot_tables \<Rightarrow> BotE2eeError + BotE2eeChannelStatus" where
  "channel_status B n uid gid t =
     (if \<not> be_db_ok B n then Inl (database_error B)
      else Inr (case fmlookup (bt_channel t) (uid, gid) of
          None \<Rightarrow> \<lparr>cs_gid = gid, cs_enabled = False, cs_credential_published = False, cs_key_package_published = False\<rparr>
        | Some c \<Rightarrow> \<lparr>cs_gid = gid, cs_enabled = (bc_enabled_at c \<noteq> None),
            cs_credential_published = (bc_credential_published_at c \<noteq> None),
            cs_key_package_published = (bc_key_package_published_at c \<noteq> None)\<rparr>))"

definition audit_channel :: "'j bot_env \<Rightarrow> i64 \<Rightarrow> i64 \<Rightarrow> i64 \<Rightarrow> string \<Rightarrow> ('j, 'db) E2eServer \<Rightarrow> ('j, 'db) E2eServer" where
  "audit_channel B actor_uid bot_uid gid action es =
     es\<lparr>es_bot := audit (be_db_ok B 8) B bot_uid (Some actor_uid) action
        (bj_object (be_J B) [(''gid'', bj_int (be_J B) gid)]) (es_bot es)\<rparr>"

definition set_channel_enabled ::
    "'j bot_env \<Rightarrow> string \<Rightarrow> i64 \<Rightarrow> i64 \<Rightarrow> i64 \<Rightarrow> bool \<Rightarrow> ('j, 'db, BotE2eeChannelStatus) bot_op" where
  "set_channel_enabled B package_id actor_uid bot_uid gid enabled es =
     (case try_res (ensure_target_is_bot (es_cache es) bot_uid) (\<lambda>u.
           try_res (load_identity_row (be_db_ok B 0) B bot_uid (es_bot es)) (\<lambda>row.
           try_res (ok_or NotInitialized row) (\<lambda>identity.
             if \<not> be_db_ok B 1 then Inl (database_error B)
             else if fmlookup (tb_group (es_tables es)) gid = None then Inl ChannelNotFound
             else if enabled then try_res (load_master_key B) (\<lambda>key. Inr identity)
             else Inr identity))) of
        Inl e \<Rightarrow> (Inl e, es)
      | Inr identity \<Rightarrow>
          and_then
            (if enabled then
               if \<not> be_db_ok B 2 \<or> bot_uid \<notin> fmdom' (tb_user (es_tables es)) then (Inl (database_error B), es)
               else
                 let es1 = es\<lparr>es_bot := enable_channel (be_now B) bot_uid gid (bi_device_id identity) (es_bot es)\<rparr> in
                 if \<not> be_db_ok B 3 then (Inl (database_error B), es1)
                 else and_then (publish_channel B package_id bot_uid gid identity es1) (\<lambda>u es2.
                   (Inr (), audit_channel B actor_uid bot_uid gid ''channel_enabled'' es2))
             else
               if \<not> be_db_ok B 2 then (Inl (database_error B), es)
               else (Inr (), audit_channel B actor_uid bot_uid gid ''channel_disabled''
                 (modify_channel bot_uid gid (\<lambda>c. c\<lparr>bc_enabled_at := None, bc_updated_at := be_now B\<rparr>) es)))
            (\<lambda>u es. (channel_status B 9 bot_uid gid (es_bot es), es)))"

end
