(* ===== verification/Bot_Messages.thy ===== *)
theory Bot_Messages
  imports Bot_Lifecycle
begin

text \<open>
  The messages of bots (\<open>src/bot_e2ee.rs\<close>, and \<open>deliver_bot_webhook_plaintext\<close> of \<open>src/state.rs\<close>): a bot's
  plaintext is encrypted once and its key wrapped for every usable device of the receiver, at once or, when
  there is none, later; what is sent to a bot is decrypted and handed to its webhook. What is drawn for one wrap, whether the
  database works then, and what other requests do to the key tables between looking at a prekey and claiming it, is the
  record \<open>wrap_draw\<close>.
\<close>

record UsableDevice =
  ud_uid :: i64
  ud_device_id :: string
  ud_key_version :: i64
  ud_identity :: IdentityPublic
  ud_signed_prekey :: SignedPreKeyPublic

record wrap_draw =
  wd_x25519 :: bytes
  wd_ed25519 :: bytes
  wd_ephemeral :: bytes
  wd_nonce :: bytes
  wd_db_ok :: bool
  wd_meanwhile :: "e2e_tables \<Rightarrow> e2e_tables"

section \<open>Devices\<close>

definition to_usable_device :: "'j bot_env \<Rightarrow> identity_row \<Rightarrow> UsableDevice option" where
  "to_usable_device B r =
     (case (ei_signed_prekey_pub r, ei_signed_prekey_sig r) of
        (Some spk_pub, Some spk_sig) \<Rightarrow>
          if str_trim spk_pub = '''' \<or> str_trim spk_sig = '''' then None
          else (case bj_to_identity (be_J B) (ei_identity_key_pub r) of
              Inl e \<Rightarrow> None
            | Inr identity \<Rightarrow>
                let signed_prekey = \<lparr>sp_key_id = BOT_KEY_ID, sp_dh_pub_b64 = spk_pub, sp_signature_b64 = spk_sig\<rparr> in
                if isl (verify_signed_prekey (be_C B) identity signed_prekey) then None
                else Some \<lparr>ud_uid = ei_uid r, ud_device_id = ei_device_id r, ud_key_version = ei_key_version r,
                  ud_identity = identity, ud_signed_prekey = signed_prekey\<rparr>)
      | _ \<Rightarrow> None)"

definition fetch_target_devices :: "'j bot_env \<Rightarrow> bool \<Rightarrow> i64 \<Rightarrow> e2e_tables \<Rightarrow> BotE2eeError + UsableDevice list" where
  "fetch_target_devices B ok target_uid t =
     (if \<not> ok then Inl (database_error B)
      else Inr (List.map_filter (to_usable_device B)
        (filter (\<lambda>r. ei_uid r = target_uid \<and> ei_retired_at r = None) (et_identity t))))"

definition fetch_one_device :: "'j bot_env \<Rightarrow> bool \<Rightarrow> i64 \<Rightarrow> string \<Rightarrow> e2e_tables \<Rightarrow> BotE2eeError + UsableDevice option" where
  "fetch_one_device B ok uid device_id t =
     (if \<not> ok then Inl (database_error B)
      else Inr (case find_identity t uid device_id of
          None \<Rightarrow> None
        | Some r \<Rightarrow> if ei_retired_at r = None then to_usable_device B r else None))"

section \<open>One-time prekeys\<close>

text \<open>\<open>key_id as u32\<close> wraps around.\<close>

definition peek_one_time_prekey ::
    "'j bot_env \<Rightarrow> bool \<Rightarrow> i64 \<Rightarrow> string \<Rightarrow> e2e_tables \<Rightarrow> BotE2eeError + (i64 \<times> u32 \<times> string) option" where
  "peek_one_time_prekey B ok uid device_id t =
     (if \<not> ok then Inl (database_error B)
      else Inr (map_option (\<lambda>p. (ek_id p, nat (ek_key_id p mod 2 ^ 32), ek_public_key p)) (peek_prekey uid device_id t)))"

definition try_consume_one_time_prekey ::
    "'j bot_env \<Rightarrow> bool \<Rightarrow> i64 \<Rightarrow> e2e_tables \<Rightarrow> (BotE2eeError + bool) \<times> e2e_tables" where
  "try_consume_one_time_prekey B ok i t =
     (if \<not> ok then (Inl (database_error B), t)
      else if list_ex (\<lambda>p. ek_id p = i \<and> \<not> ek_consumed p) (et_prekey t) then (Inr True, consume_prekey i t)
      else (Inr False, t))"

definition MAX_CLAIM_RETRIES :: nat where
  "MAX_CLAIM_RETRIES = 8"

definition device_bundle :: "UsableDevice \<Rightarrow> (i64 \<times> u32 \<times> string) option \<Rightarrow> PreKeyBundle" where
  "device_bundle device otp =
     \<lparr> bu_identity = ud_identity device, bu_signed_prekey = ud_signed_prekey device,
       bu_one_time_prekey_b64 = map_option (\<lambda>(i, key_id, pk). pk) otp,
       bu_one_time_prekey_id = map_option (\<lambda>(i, key_id, pk). key_id) otp \<rparr>"

definition draw_wrap :: "'j bot_env \<Rightarrow> wrap_draw \<Rightarrow> bytes \<Rightarrow> PreKeyBundle \<Rightarrow> E2eError + DeferredEnvelope" where
  "draw_wrap B w content_key bundle' =
     deferred_wrap_key (be_C B) (wd_x25519 w) (wd_ed25519 w) (wd_ephemeral w) (wd_nonce w) content_key bundle'"

definition ok_of :: "'e + 'a \<Rightarrow> 'a option" where
  "ok_of r = (case r of Inl e \<Rightarrow> None | Inr x \<Rightarrow> Some x)"

text \<open>
  The loop with the attempts left; \<open>draw i\<close> is for attempt \<open>i\<close>. The prekey is looked at, the key wrapped, and
  only then is the prekey claimed; when another request was faster the envelope is dropped.
\<close>

fun wrap_attempts ::
    "'j bot_env \<Rightarrow> (nat \<Rightarrow> wrap_draw) \<Rightarrow> bytes \<Rightarrow> UsableDevice \<Rightarrow> nat \<Rightarrow> nat \<Rightarrow> e2e_tables \<Rightarrow>
     (BotE2eeError + DeferredEnvelope option) \<times> e2e_tables" where
  "wrap_attempts B draw content_key device i 0 t =
     (Inr (ok_of (draw_wrap B (draw i) content_key (device_bundle device None))), t)"
| "wrap_attempts B draw content_key device i (Suc n) t =
     (let w = draw i in
      case peek_one_time_prekey B (wd_db_ok w) (ud_uid device) (ud_device_id device) t of
        Inl e \<Rightarrow> (Inl e, t)
      | Inr otp \<Rightarrow>
          (case draw_wrap B w content_key (device_bundle device otp) of
             Inl e \<Rightarrow> (Inr None, t)
           | Inr envelope \<Rightarrow>
               (case otp of
                  None \<Rightarrow> (Inr (Some envelope), t)
                | Some (row, key_id, pk) \<Rightarrow>
                    (case try_consume_one_time_prekey B (wd_db_ok w) row (wd_meanwhile w t) of
                       (Inl e, t') \<Rightarrow> (Inl e, t')
                     | (Inr True, t') \<Rightarrow> (Inr (Some envelope), t')
                     | (Inr False, t') \<Rightarrow> wrap_attempts B draw content_key device (Suc i) n t'))))"

definition wrap_content_key_for_device ::
    "'j bot_env \<Rightarrow> (nat \<Rightarrow> wrap_draw) \<Rightarrow> bytes \<Rightarrow> UsableDevice \<Rightarrow> e2e_tables \<Rightarrow>
     (BotE2eeError + DeferredEnvelope option) \<times> e2e_tables" where
  "wrap_content_key_for_device B draw content_key device t =
     wrap_attempts B draw content_key device 0 MAX_CLAIM_RETRIES t"

section \<open>From a bot\<close>

definition append_envelope ::
    "'j bot_env \<Rightarrow> bool \<Rightarrow> i64 \<Rightarrow> i64 \<Rightarrow> string \<Rightarrow> i64 \<Rightarrow> DeferredEnvelope \<Rightarrow> ('j, 'db, bool) bot_op" where
  "append_envelope B ok mid target_uid device_id version envelope es =
     (let envelope_b64 = b64_encode (be_C B) (case bj_of_envelope (be_J B) envelope of Inl e \<Rightarrow> [] | Inr bs \<Rightarrow> bs) in
      case append_pending_envelope_internal ok (be_now B) (fmdom' (tb_user (es_tables es))) mid target_uid device_id version
          envelope_b64 (sv_pending (es_server es)) of
        (Inl e, pt) \<Rightarrow> (Inl (database_error B), es)
      | (Inr added, pt) \<Rightarrow> (Inr added, es\<lparr>es_server := (es_server es)\<lparr>sv_pending := pt\<rparr>\<rparr>))"

text \<open>
  Wraps the key for one device and appends the envelope: \<open>None\<close> when it could not be wrapped, else whether it was
  added. The draws are by device and message.
\<close>

definition wrap_and_append ::
    "'j bot_env \<Rightarrow> (nat \<Rightarrow> wrap_draw) \<Rightarrow> bool \<Rightarrow> bytes \<Rightarrow> i64 \<Rightarrow> i64 \<Rightarrow> string \<Rightarrow> i64 \<Rightarrow> UsableDevice \<Rightarrow>
     ('j, 'db, bool option) bot_op" where
  "wrap_and_append B draw ok content_key mid target_uid device_id version device es =
     (case wrap_content_key_for_device B draw content_key device (es_keys es) of
        (Inl e, t) \<Rightarrow> (Inl e, es\<lparr>es_keys := t\<rparr>)
      | (Inr None, t) \<Rightarrow> (Inr None, es\<lparr>es_keys := t\<rparr>)
      | (Inr (Some envelope), t) \<Rightarrow>
          (case append_envelope B ok mid target_uid device_id version envelope (es\<lparr>es_keys := t\<rparr>) of
             (Inl e, es') \<Rightarrow> (Inl e, es')
           | (Inr added, es') \<Rightarrow> (Inr (Some added), es')))"

fun wrap_for_devices ::
    "'j bot_env \<Rightarrow> (i64 \<Rightarrow> string \<Rightarrow> nat \<Rightarrow> wrap_draw) \<Rightarrow> bool \<Rightarrow> bytes \<Rightarrow> i64 \<Rightarrow> i64 \<Rightarrow> UsableDevice list \<Rightarrow> bool \<Rightarrow>
     ('j, 'db, bool) bot_op" where
  "wrap_for_devices B draws ok content_key mid target_uid [] appended_any es = (Inr appended_any, es)"
| "wrap_for_devices B draws ok content_key mid target_uid (device # devices) appended_any es =
     (case wrap_and_append B (draws mid (ud_device_id device)) ok content_key mid target_uid (ud_device_id device)
          (ud_key_version device) device es of
        (Inl e, es') \<Rightarrow> (Inl e, es')
      | (Inr added, es') \<Rightarrow>
          wrap_for_devices B draws ok content_key mid target_uid devices (appended_any \<or> added = Some True) es')"

text \<open>\<open>local_id\<close> is a new UUID; key and nonce of the content are drawn.\<close>

record dm_draw =
  dd_local_id :: string
  dd_content_key :: bytes
  dd_nonce :: bytes
  dd_secret_nonce :: bytes
  dd_wraps :: "i64 \<Rightarrow> string \<Rightarrow> nat \<Rightarrow> wrap_draw"

definition dm_metadata :: "'j bot_json \<Rightarrow> string \<Rightarrow> string \<Rightarrow> i64 \<Rightarrow> i64 \<Rightarrow> 'j" where
  "dm_metadata J local_id content_type bot_uid target_uid =
     bj_object J [(''local_id'', json_string (bj_ops J) local_id), (''content_type'', json_string (bj_ops J) content_type),
       (''from_bot_uid'', bj_int J bot_uid), (''to_uid'', bj_int J target_uid)]"

definition dm_wire :: "crypto \<Rightarrow> 'j bot_json \<Rightarrow> bytes \<Rightarrow> bytes \<Rightarrow> 'j \<Rightarrow> string" where
  "dm_wire C J ciphertext nonce metadata =
     bj_print J (bj_object J [(''ciphertext_b64'', json_string (bj_ops J) (b64_encode C ciphertext)),
       (''nonce_b64'', json_string (bj_ops J) (b64_encode C nonce)), (''metadata'', metadata)])"

definition dm_properties :: "'j bot_json \<Rightarrow> string \<Rightarrow> string \<Rightarrow> (string, 'j) fmap" where
  "dm_properties J device_id local_id =
     fmap_of_list [(''local_id'', json_string (bj_ops J) local_id),
       (''sender_device_id'', json_string (bj_ops J) device_id),
       (''wire_class'', json_string (bj_ops J) ''dr_envelope''),
       (''algorithm'', json_string (bj_ops J) DEFERRED_ALG),
       (''protocol'', json_string (bj_ops J) ''dr-pending''),
       (''e2e_version'', bj_int J 2)]"

definition dm_payload :: "DateTime \<Rightarrow> i64 \<Rightarrow> i64 \<Rightarrow> (string, 'j) fmap \<Rightarrow> string \<Rightarrow> 'j ChatMessagePayload" where
  "dm_payload now bot_uid target_uid properties content =
     \<lparr>pl_from_uid = bot_uid, pl_created_at = now, pl_target = TargetUser target_uid,
      pl_detail = Normal \<lparr>nm_content = \<lparr>cc_properties = Some properties, cc_content_type = CONTENT_TYPE,
         cc_content = content\<rparr>, nm_expires_in = None\<rparr>\<rparr>"

text \<open>The content key of a message without envelopes is kept, sealed (statement 2).\<close>

definition keep_content_key :: "'j bot_env \<Rightarrow> bytes \<Rightarrow> i64 \<Rightarrow> i64 \<Rightarrow> bytes \<Rightarrow> ('j, 'db, unit) bot_op" where
  "keep_content_key B fresh bot_uid mid content_key es =
     (case try_res (load_master_key B) (\<lambda>master_key. vault_seal (be_C B) fresh master_key content_key) of
        Inl e \<Rightarrow> (Inl e, es)
      | Inr (nonce, ciphertext) \<Rightarrow>
          if \<not> be_db_ok B 2 \<or> bot_uid \<notin> fmdom' (tb_user (es_tables es)) \<or>
             fmlookup (pd_message (sv_pending (es_server es))) mid = None
          then (Inl (database_error B), es)
          else (Inr (), if fmlookup (bt_secret (es_bot es)) mid \<noteq> None then es
            else es\<lparr>es_bot := (es_bot es)\<lparr>bt_secret := fmupd mid
              \<lparr>bx_uid = bot_uid, bx_nonce = nonce, bx_ciphertext = ciphertext\<rparr> (bt_secret (es_bot es))\<rparr>\<rparr>))"

definition prepare_bot_dm ::
    "'j bot_env \<Rightarrow> dm_draw \<Rightarrow> i64 \<Rightarrow> i64 \<Rightarrow> string \<Rightarrow> string \<Rightarrow> bot_tables \<Rightarrow>
     BotE2eeError + DeferredEncrypted \<times> 'j ChatMessagePayload" where
  "prepare_bot_dm B d bot_uid target_uid content_type plaintext t =
     try_res (load_master_key B) (\<lambda>key.
     try_res (load_identity_row (be_db_ok B 0) B bot_uid t) (\<lambda>row.
     try_res (ok_or NotInitialized row) (\<lambda>identity.
       let metadata = dm_metadata (be_J B) (dd_local_id d) content_type bot_uid target_uid in
     try_res (crypto_result (deferred_encrypt (be_C B) (bj_to_vec (be_J B)) (dd_content_key d) (dd_nonce d) plaintext metadata))
       (\<lambda>encrypted.
       Inr (encrypted, dm_payload (be_now B) bot_uid target_uid
         (dm_properties (be_J B) (bi_device_id identity) (dd_local_id d))
         (dm_wire (be_C B) (be_J B) (de_ciphertext encrypted) (de_nonce encrypted) metadata))))))"

definition send_bot_dm ::
    "('j, 'db) Env \<Rightarrow> 'j bot_env \<Rightarrow> dm_draw \<Rightarrow> i64 \<Rightarrow> i64 \<Rightarrow> string \<Rightarrow> string \<Rightarrow> ('j, 'db, i64) bot_op" where
  "send_bot_dm E B d bot_uid target_uid content_type plaintext es =
     (case prepare_bot_dm B d bot_uid target_uid content_type plaintext (es_bot es) of
        Inl e \<Rightarrow> (Inl e, es)
      | Inr (encrypted, payload) \<Rightarrow>
          (case send_message E payload (es_server es) of
             (Inl e, srv) \<Rightarrow> (Inl (BotInternal (be_show B e)), es\<lparr>es_server := srv\<rparr>)
           | (Inr mid, srv) \<Rightarrow>
               let es1 = es\<lparr>es_server := srv\<rparr> in
               (case fetch_target_devices B (be_db_ok B 1) target_uid (es_keys es1) of
                  Inl e \<Rightarrow> (Inl e, es1)
                | Inr devices \<Rightarrow>
                    and_then (wrap_for_devices B (dd_wraps d) (be_db_ok B 3) (de_content_key encrypted) mid target_uid devices
                        False es1) (\<lambda>appended_any es2.
                    and_then (if appended_any then (Inr (), es2)
                        else keep_content_key B (dd_secret_nonce d) bot_uid mid (de_content_key encrypted) es2) (\<lambda>u es3.
                      (Inr mid, es3\<lparr>es_bot := audit (be_db_ok B 4) B bot_uid (Some bot_uid) ''outbound_dm''
                        (bj_object (be_J B) [(''target_uid'', bj_int (be_J B) target_uid), (''mid'', bj_int (be_J B) mid),
                          (''immediate_envelope'', bj_bool (be_J B) appended_any)]) (es_bot es3)\<rparr>))))))"

section \<open>Catching up\<close>

definition has_envelope :: "pending_tables \<Rightarrow> i64 \<Rightarrow> i64 \<Rightarrow> string \<Rightarrow> i64 \<Rightarrow> bool" where
  "has_envelope pt mid uid device_id version \<longleftrightarrow>
     list_ex (\<lambda>e. pe_mid e = mid \<and> pe_recipient_uid e = uid \<and> pe_device_id e = device_id \<and> pe_identity_version e = version)
       (pd_envelope pt)"

definition waiting_secrets :: "('j, 'db) E2eServer \<Rightarrow> i64 \<Rightarrow> i64 \<Rightarrow> string \<Rightarrow> i64 \<Rightarrow> i64 list" where
  "waiting_secrets es bot_uid target_uid device_id version =
     (let pt = sv_pending (es_server es) in
      filter (\<lambda>mid. fmlookup (bt_secret (es_bot es)) mid \<noteq> None \<and>
          (case fmlookup (pd_message pt) mid of
             None \<Rightarrow> False
           | Some m \<Rightarrow> pp_sender_uid m = bot_uid \<and> pp_target_uid m = target_uid) \<and>
          \<not> has_envelope pt mid target_uid device_id version)
        (fm_keys (pd_message pt)))"

fun catch_up_loop ::
    "'j bot_env \<Rightarrow> (i64 \<Rightarrow> string \<Rightarrow> nat \<Rightarrow> wrap_draw) \<Rightarrow> bytes \<Rightarrow> i64 \<Rightarrow> string \<Rightarrow> i64 \<Rightarrow> UsableDevice \<Rightarrow> i64 list \<Rightarrow> nat \<Rightarrow>
     ('j, 'db, nat) bot_op" where
  "catch_up_loop B draws master_key target_uid device_id version device [] caught es = (Inr caught, es)"
| "catch_up_loop B draws master_key target_uid device_id version device (mid # mids) caught es =
     (if \<not> be_db_ok B 2 then (Inl (database_error B), es)
      else case fmlookup (bt_secret (es_bot es)) mid of
        None \<Rightarrow> catch_up_loop B draws master_key target_uid device_id version device mids caught es
      | Some row \<Rightarrow>
          (case vault_open (be_C B) master_key (bx_nonce row) (bx_ciphertext row) of
             Inl e \<Rightarrow> (Inl e, es)
           | Inr content_key \<Rightarrow>
               if length content_key \<noteq> 32
               then catch_up_loop B draws master_key target_uid device_id version device mids caught es
               else
                 (case wrap_and_append B (draws mid device_id) (be_db_ok B 3) content_key mid target_uid device_id version
                      device es of
                    (Inl e, es') \<Rightarrow> (Inl e, es')
                  | (Inr added, es') \<Rightarrow>
                      catch_up_loop B draws master_key target_uid device_id version device mids
                        (if added = Some True then Suc caught else caught) es')))"

definition catch_up_pending_sends ::
    "'j bot_env \<Rightarrow> (i64 \<Rightarrow> string \<Rightarrow> nat \<Rightarrow> wrap_draw) \<Rightarrow> i64 \<Rightarrow> i64 \<Rightarrow> string \<Rightarrow> i64 \<Rightarrow> ('j, 'db, nat) bot_op" where
  "catch_up_pending_sends B draws bot_uid target_uid device_id version es =
     (if \<not> be_db_ok B 0 then (Inl (database_error B), es)
      else
        let mids = waiting_secrets es bot_uid target_uid device_id version in
        if mids = [] then (Inr 0, es)
        else
          case try_res (load_master_key B) (\<lambda>key.
              try_res (fetch_one_device B (be_db_ok B 1) target_uid device_id (es_keys es)) (\<lambda>found.
              try_res (ok_or NoUsableRecipientDevice found) (\<lambda>device. Inr (key, device)))) of
            Inl e \<Rightarrow> (Inl e, es)
          | Inr (key, device) \<Rightarrow>
              and_then (catch_up_loop B draws key target_uid device_id version device mids 0 es) (\<lambda>caught es'.
                (Inr caught,
                 if caught = 0 then es'
                 else es'\<lparr>es_bot := audit (be_db_ok B 4) B bot_uid None ''outbound_dm_catchup''
                   (bj_object (be_J B) [(''target_uid'', bj_int (be_J B) target_uid),
                     (''device_id'', json_string (bj_ops (be_J B)) device_id), (''count'', bj_int (be_J B) (int caught))])
                   (es_bot es')\<rparr>)))"

section \<open>To a bot\<close>

definition deliver_bot_webhook_plaintext ::
    "'j bot_json \<Rightarrow> i64 \<Rightarrow> i64 \<Rightarrow> i64 \<Rightarrow> string \<Rightarrow> string \<Rightarrow> ('j, 'db) E2eServer \<Rightarrow> ('j, 'db) E2eServer" where
  "deliver_bot_webhook_plaintext J bot_uid mid from_uid content_type plaintext es =
     (case Option.bind (fmlookup (ca_users (es_cache es)) bot_uid) cu_webhook_url of
        None \<Rightarrow> es
      | Some url \<Rightarrow>
          es\<lparr>es_webhooks := es_webhooks es @ [\<lparr>wp_url = url, wp_body = bj_object J
            [(''mid'', bj_int J mid), (''from_uid'', bj_int J from_uid), (''to_uid'', bj_int J bot_uid),
             (''e2e'', bj_bool J True), (''e2e_bot_decrypted'', bj_bool J True),
             (''detail'', bj_object J [(''type'', json_string (bj_ops J) ''normal''),
                (''content_type'', json_string (bj_ops J) content_type), (''content'', json_string (bj_ops J) plaintext)])]\<rparr>]\<rparr>)"

text \<open>\<open>position\<close> and \<open>remove\<close>: the first secret of the id, and the rest.\<close>

fun take_otp :: "u32 \<Rightarrow> OtpSecret list \<Rightarrow> (bytes \<times> OtpSecret list) option" where
  "take_otp i [] = None"
| "take_otp i (s # ss) =
     (if os_key_id s = i then Some (os_secret s, ss)
      else map_option (\<lambda>(secret, rest). (secret, s # rest)) (take_otp i ss))"

definition latest_envelope :: "pending_tables \<Rightarrow> i64 \<Rightarrow> i64 \<Rightarrow> string \<Rightarrow> envelope_row option" where
  "latest_envelope pt mid uid device_id =
     (case filter (\<lambda>e. pe_mid e = mid \<and> pe_recipient_uid e = uid \<and> pe_device_id e = device_id) (pd_envelope pt) of
        [] \<Rightarrow> None
      | e # es \<Rightarrow> Some (fold (\<lambda>x best. if pe_identity_version best < pe_identity_version x then x else best) es e))"

text \<open>The stored message: ciphertext, nonce and metadata.\<close>

definition inbound_content ::
    "('j, 'db) Env \<Rightarrow> 'j bot_env \<Rightarrow> i64 \<Rightarrow> 'db msgdb \<Rightarrow> BotE2eeError + i64 \<times> bytes \<times> bytes \<times> 'j" where
  "inbound_content E B mid db =
     try_res (map_sum (\<lambda>e. BotInternal (be_show B e)) id (get_merged_message (en_K E) (en_C E) db mid)) (\<lambda>found.
     try_res (ok_or MessageNotFound found) (\<lambda>merged.
       if cc_content_type (mp_content merged) \<noteq> CONTENT_TYPE then Inl MessageNotFound
       else
     try_res (json_result (bj_to_wire (be_J B) (cc_content (mp_content merged)))) (\<lambda>(wire, metadata).
     try_res (map_sum (\<lambda>e. BotCrypto ''bad ciphertext_b64'') id (b64_decode (be_C B) (iw_ciphertext_b64 wire))) (\<lambda>ciphertext.
     try_res (map_sum (\<lambda>e. BotCrypto ''bad nonce_b64'') id (b64_decode (be_C B) (iw_nonce_b64 wire))) (\<lambda>nonce.
       if length nonce \<noteq> 12 then Inl (BotCrypto ''bad nonce length'')
       else Inr (mp_from_uid merged, ciphertext, nonce, metadata))))))"

definition inbound_envelope ::
    "'j bot_env \<Rightarrow> i64 \<Rightarrow> i64 \<Rightarrow> string \<Rightarrow> pending_tables \<Rightarrow> BotE2eeError + DeferredEnvelope" where
  "inbound_envelope B mid bot_uid device_id pt =
     (if \<not> be_db_ok B 0 then Inl (database_error B)
      else
     try_res (ok_or EnvelopeNotFound (latest_envelope pt mid bot_uid device_id)) (\<lambda>row.
     try_res (map_sum (\<lambda>e. BotCrypto ''bad envelope_b64'') id (b64_decode (be_C B) (pe_envelope row))) (\<lambda>bs.
       json_result (bj_to_envelope (be_J B) bs))))"

definition take_otk ::
    "BotSecretMaterial \<Rightarrow> u32 option \<Rightarrow> BotE2eeError + bytes option \<times> BotSecretMaterial" where
  "take_otk material used =
     (case used of
        None \<Rightarrow> Inr (None, material)
      | Some i \<Rightarrow>
          try_res (ok_or OneTimePrekeyUnavailable (take_otp i (bs_one_time_prekeys material))) (\<lambda>(secret, rest).
            Inr (Some secret, material\<lparr>bs_one_time_prekeys := rest\<rparr>)))"

definition decrypt_inbound ::
    "'j bot_env \<Rightarrow> DeferredEnvelope \<Rightarrow> BotSecretMaterial \<Rightarrow> bytes option \<Rightarrow> bytes \<Rightarrow> bytes \<Rightarrow> 'j \<Rightarrow> BotE2eeError + bytes" where
  "decrypt_inbound B envelope material otk ciphertext nonce metadata =
     try_res (crypto_result (deferred_unwrap_key (be_C B) envelope
       \<lparr>dl_ik_secret = bs_identity_x25519 material, dl_spk_secret = bs_signed_prekey_secret material, dl_otk_secret = otk\<rparr>))
       (\<lambda>content_key.
     try_res (crypto_result (deferred_metadata_commitment (be_C B) (bj_to_vec (be_J B)) metadata)) (\<lambda>digest.
     try_res (crypto_result (deferred_verify_metadata (be_C B) (bj_to_vec (be_J B)) metadata digest)) (\<lambda>same.
       if \<not> same then Inl MetadataMismatch
       else crypto_result (deferred_decrypt (be_C B) ciphertext content_key nonce digest))))"

text \<open>
  \<open>utf8_ok\<close> is the check of \<open>String::from_utf8\<close>; \<open>fresh\<close> is the nonce under which the vault is sealed again.
\<close>

definition prepare_inbound ::
    "('j, 'db) Env \<Rightarrow> 'j bot_env \<Rightarrow> i64 \<Rightarrow> i64 \<Rightarrow> string \<Rightarrow> ('j, 'db) E2eServer \<Rightarrow>
     BotE2eeError + i64 \<times> 'j \<times> bytes \<times> bytes \<times> u32 option \<times> BotSecretMaterial" where
  "prepare_inbound E B mid bot_uid device_id es =
     try_res (inbound_content E B mid (sv_msg_db (es_server es))) (\<lambda>(sender_uid, ciphertext, nonce, metadata).
     try_res (inbound_envelope B mid bot_uid device_id (sv_pending (es_server es))) (\<lambda>envelope.
     try_res (load_master_key B) (\<lambda>master_key.
     try_res (load_and_decrypt_material (be_db_ok B 1) B bot_uid master_key (es_bot es)) (\<lambda>material.
       let used_otp_id = im_used_one_time_prekey_id (dv_x3dh_initial envelope) in
     try_res (take_otk material used_otp_id) (\<lambda>(otk, material').
     try_res (decrypt_inbound B envelope material' otk ciphertext nonce metadata) (\<lambda>plaintext.
       Inr (sender_uid, metadata, plaintext, master_key, used_otp_id, material')))))))"

definition handle_inbound_bot_envelope ::
    "('j, 'db) Env \<Rightarrow> 'j bot_env \<Rightarrow> (bytes \<Rightarrow> bool) \<Rightarrow> bytes \<Rightarrow> i64 \<Rightarrow> i64 \<Rightarrow> string \<Rightarrow> ('j, 'db, unit) bot_op" where
  "handle_inbound_bot_envelope E B utf8_ok fresh mid bot_uid device_id es =
     (case prepare_inbound E B mid bot_uid device_id es of
        Inl e \<Rightarrow> (Inl e, es)
      | Inr (sender_uid, metadata, plaintext, master_key, used_otp_id, material) \<Rightarrow>
          (case (if used_otp_id = None then (Inr (), es_bot es)
                 else persist_material (be_db_ok B 2) B fresh bot_uid master_key material (es_bot es)) of
             (Inl e, t) \<Rightarrow> (Inl e, es\<lparr>es_bot := t\<rparr>)
           | (Inr u, t) \<Rightarrow>
               let J = be_J B; es1 = es\<lparr>es_bot := t\<rparr>;
                   content_type = (case Option.bind (bj_get J metadata ''content_type'') (as_str (bj_ops J)) of
                      None \<Rightarrow> ''text/plain'' | Some ct \<Rightarrow> ct)
               in if \<not> utf8_ok plaintext then (Inl (BotCrypto ''decrypted content is not valid utf-8''), es1)
                  else
                    let es2 = deliver_bot_webhook_plaintext J bot_uid mid sender_uid content_type plaintext es1 in
                    (Inr (), es2\<lparr>es_bot := audit (be_db_ok B 3) B bot_uid None ''inbound_decrypted''
                      (bj_object J [(''mid'', bj_int J mid), (''sender_uid'', bj_int J sender_uid),
                        (''device_id'', json_string (bj_ops J) device_id)]) (es_bot es2)\<rparr>)))"

end
