(* ===== verification/E2e_Api.thy ===== *)
theory E2e_Api
  imports Bot_Messages
begin

text \<open>
  The endpoints of \<open>src/api/e2e.rs\<close> that tie the key directory (\<open>E2e_Keys\<close>) to deferred messages (\<open>Pending_Dm\<close>) and to
  the bots (\<open>Bot_Messages\<close>): publishing an identity, listing the messages that still need an envelope, and
  appending one. What the bots do for a request is best effort: their errors are logged only.
\<close>

definition es_broadcast :: "'j BroadcastEvent \<Rightarrow> ('j, 'db) E2eServer \<Rightarrow> ('j, 'db) E2eServer" where
  "es_broadcast ev es =
     es\<lparr>es_server := (es_server es)\<lparr>sv_state := broadcast [ev] (sv_state (es_server es))\<rparr>\<rparr>"

abbreviation es_pending :: "('j, 'db) E2eServer \<Rightarrow> pending_tables" where
  "es_pending es \<equiv> sv_pending (es_server es)"

definition is_bot_user :: "'j Cache \<Rightarrow> i64 \<Rightarrow> bool" where
  "is_bot_user cache uid \<longleftrightarrow> (case fmlookup (ca_users cache) uid of None \<Rightarrow> False | Some u \<Rightarrow> cu_is_bot u)"

section \<open>Publishing an identity\<close>

definition waiting_senders :: "pending_tables \<Rightarrow> i64 \<Rightarrow> string \<Rightarrow> i64 \<Rightarrow> i64 set" where
  "waiting_senders pt uid device_id version =
     set (map (\<lambda>mid. pp_sender_uid (the (fmlookup (pd_message pt) mid)))
       (filter (\<lambda>mid. pp_target_uid (the (fmlookup (pd_message pt) mid)) = uid \<and>
            \<not> has_envelope pt mid uid device_id version) (fm_keys (pd_message pt))))"

text \<open>The catch-up of the bots, one after the other; \<open>calls\<close> has the environment and the draws of each.\<close>

fun catch_up_bots ::
    "(i64 \<Rightarrow> 'j bot_env \<times> (i64 \<Rightarrow> string \<Rightarrow> nat \<Rightarrow> wrap_draw)) \<Rightarrow> i64 \<Rightarrow> string \<Rightarrow> i64 \<Rightarrow> i64 list \<Rightarrow>
     ('j, 'db) E2eServer \<Rightarrow> ('j, 'db) E2eServer" where
  "catch_up_bots calls target_uid device_id version [] es = es"
| "catch_up_bots calls target_uid device_id version (bot_uid # bots) es =
     catch_up_bots calls target_uid device_id version bots
       (snd (catch_up_pending_sends (fst (calls bot_uid)) (snd (calls bot_uid)) bot_uid target_uid device_id version es))"

definition put_identity ::
    "bool \<Rightarrow> i32 \<Rightarrow> DateTime \<Rightarrow> (i64 \<Rightarrow> 'j bot_env \<times> (i64 \<Rightarrow> string \<Rightarrow> nat \<Rightarrow> wrap_draw)) \<Rightarrow> Token \<Rightarrow>
     PutE2eIdentityRequest \<Rightarrow> ('j, 'db) E2eServer \<Rightarrow> (api_error + E2eIdentity) \<times> ('j, 'db) E2eServer" where
  "put_identity db_ok protocol_ver now calls token req es =
     (case publish_identity db_ok (es_tables es) protocol_ver now token req (es_keys es) of
        (Inl e, keys) \<Rightarrow> (Inl e, es)
      | (Inr version, keys) \<Rightarrow>
          let es1 = es\<lparr>es_keys := keys\<rparr>;
              uid = tk_uid token; device_id = pi_device_id req;
              waiting = waiting_senders (es_pending es1) uid device_id version;
              bots = filter (is_bot_user (es_cache es1)) (sorted_list_of_set waiting)
          in (Inr \<lparr>id_uid = uid, id_device_id = device_id, id_identity_version = version,
                 id_identity_key_pub = pi_identity_key_pub req, id_signed_prekey_pub = pi_signed_prekey_pub req,
                 id_signed_prekey_sig = pi_signed_prekey_sig req, id_updated_at = now\<rparr>,
              if waiting = {} then es1
              else es_broadcast (E2eIdentityChanged waiting uid device_id version now)
                (catch_up_bots calls uid device_id version bots es1)))"

section \<open>Pending messages\<close>

text \<open>A device of the receiver, current now, has no envelope of its current version.\<close>

definition needs_envelope :: "tables \<Rightarrow> e2e_tables \<Rightarrow> pending_tables \<Rightarrow> i64 \<Rightarrow> i64 \<Rightarrow> bool" where
  "needs_envelope db t pt target_uid mid \<longleftrightarrow>
     list_ex (\<lambda>r. \<not> has_envelope pt mid target_uid (ei_device_id r) (ei_key_version r)) (current_identities db t target_uid)"

definition pending_for :: "tables \<Rightarrow> e2e_tables \<Rightarrow> pending_tables \<Rightarrow> i64 \<Rightarrow> i64 \<Rightarrow> i64 list" where
  "pending_for db t pt sender_uid target_uid =
     filter (\<lambda>mid. case fmlookup (pd_message pt) mid of
          None \<Rightarrow> False
        | Some m \<Rightarrow> pp_sender_uid m = sender_uid \<and> pp_target_uid m = target_uid \<and>
            (pp_completed_at m = None \<or> needs_envelope db t pt target_uid mid))
       (fm_keys (pd_message pt))"

text \<open>The projection of markers first, as every reader of the table does.\<close>

definition es_reconcile :: "('j, 'db) Env \<Rightarrow> ('j, 'db) E2eServer \<Rightarrow> (api_error + unit) \<times> ('j, 'db) E2eServer" where
  "es_reconcile E es =
     (case project_pending E True (es_server es) of (r, srv) \<Rightarrow> (r, es\<lparr>es_server := srv\<rparr>))"

definition get_pending ::
    "('j, 'db) Env \<Rightarrow> bool \<Rightarrow> Token \<Rightarrow> i64 \<Rightarrow> ('j, 'db) E2eServer \<Rightarrow>
     (api_error + (i64 \<times> DateTime) list) \<times> ('j, 'db) E2eServer" where
  "get_pending E db_ok token uid es =
     and_then (es_reconcile E es) (\<lambda>u es1.
       if \<not> db_ok then (Inl internal_error, es1)
       else (Inr (map (\<lambda>mid. (mid, pp_created_at (the (fmlookup (pd_message (es_pending es1)) mid))))
               (pending_for (es_tables es1) (es_keys es1) (es_pending es1) (tk_uid token) uid)), es1))"

record AppendPendingEnvelopeRequest =
  ap_recipient_uid :: i64
  ap_device_id :: string
  ap_envelope :: string

record PendingEnvelopeAck =
  ak_mid :: i64
  ak_recipient_uid :: i64
  ak_device_id :: string
  ak_identity_version :: i64
  ak_completed :: bool

text \<open>The checks of \<open>post_pending_envelope\<close> inside its transaction; the answer is the version of the identity.\<close>

definition check_append ::
    "tables \<Rightarrow> e2e_tables \<Rightarrow> pending_tables \<Rightarrow> Token \<Rightarrow> i64 \<Rightarrow> AppendPendingEnvelopeRequest \<Rightarrow> api_error + i64" where
  "check_append db t pt token mid req =
     (if \<not> device_exists db (tk_uid token) (tk_device token)
      then Inl (from_string ''E2E_SENDER_DEVICE_REVOKED'' FORBIDDEN)
      else case fmlookup (pd_message pt) mid of
        None \<Rightarrow> Inl (from_status NOT_FOUND)
      | Some m \<Rightarrow>
          if pp_sender_uid m \<noteq> tk_uid token then Inl (from_string ''E2E_PENDING_FORBIDDEN'' FORBIDDEN)
          else if ap_recipient_uid req \<noteq> pp_target_uid m
          then Inl (from_string ''E2E_PENDING_WRONG_RECIPIENT'' BAD_REQUEST)
          else (case filter (\<lambda>r. ei_device_id r = ap_device_id req) (current_identities db t (ap_recipient_uid req)) of
              [] \<Rightarrow> Inl (from_string ''E2E_PENDING_UNKNOWN_DEVICE'' BAD_REQUEST)
            | r # rs \<Rightarrow> Inr (ei_key_version r)))"

text \<open>What follows an added envelope: a bot reads its message at once, and both sides are told.\<close>

definition after_append ::
    "('j, 'db) Env \<Rightarrow> 'j bot_env \<Rightarrow> (bytes \<Rightarrow> bool) \<Rightarrow> bytes \<Rightarrow> Token \<Rightarrow> i64 \<Rightarrow> AppendPendingEnvelopeRequest \<Rightarrow> i64 \<Rightarrow>
     ('j, 'db) E2eServer \<Rightarrow> ('j, 'db) E2eServer" where
  "after_append E B utf8_ok fresh token mid req version es =
     (let es' = (if is_bot_user (es_cache es) (ap_recipient_uid req)
           then snd (handle_inbound_bot_envelope E B utf8_ok fresh mid (ap_recipient_uid req) (ap_device_id req) es)
           else es)
      in es_broadcast (E2ePendingEnvelopeAdded {tk_uid token, ap_recipient_uid req} mid (ap_recipient_uid req)
           (ap_device_id req) version (ap_envelope req)) es')"

definition post_pending_envelope ::
    "('j, 'db) Env \<Rightarrow> 'j bot_env \<Rightarrow> (bytes \<Rightarrow> bool) \<Rightarrow> bytes \<Rightarrow> bool \<Rightarrow> DateTime \<Rightarrow> Token \<Rightarrow> i64 \<Rightarrow>
     AppendPendingEnvelopeRequest \<Rightarrow> ('j, 'db) E2eServer \<Rightarrow> (api_error + PendingEnvelopeAck) \<times> ('j, 'db) E2eServer" where
  "post_pending_envelope E B utf8_ok fresh db_ok now token mid req es =
     (if ap_device_id req = '''' \<or> ap_envelope req = '''' then (Inl (from_status BAD_REQUEST), es)
      else
        and_then (es_reconcile E es) (\<lambda>u es1.
          if \<not> db_ok then (Inl internal_error, es1)
          else
            case check_append (es_tables es1) (es_keys es1) (es_pending es1) token mid req of
              Inl e \<Rightarrow> (Inl e, es1)
            | Inr version \<Rightarrow>
                (case append_pending_envelope_internal True now (fmdom' (tb_user (es_tables es1))) mid
                    (ap_recipient_uid req) (ap_device_id req) version (ap_envelope req) (es_pending es1) of
                   (Inl u, pt) \<Rightarrow> (Inl internal_error, es1)
                 | (Inr added, pt) \<Rightarrow>
                     let es2 = es1\<lparr>es_server := (es_server es1)\<lparr>sv_pending := pt\<rparr>\<rparr> in
                     (Inr \<lparr>ak_mid = mid, ak_recipient_uid = ap_recipient_uid req, ak_device_id = ap_device_id req,
                        ak_identity_version = version, ak_completed = True\<rparr>,
                      if added then after_append E B utf8_ok fresh token mid req version es2 else es2))))"

section \<open>Protocol and webhooks\<close>

record LoginConfig =
  lc_e2e_available :: bool
  lc_e2e_default_on :: bool
  lc_e2e_protocol_ver :: i32

definition e2e_protocol_ver :: "LoginConfig option \<Rightarrow> i32" where
  "e2e_protocol_ver cfg = (case cfg of None \<Rightarrow> 1 | Some c \<Rightarrow> lc_e2e_protocol_ver c)"

text \<open>\<open>defaults\<close> is \<open>LoginConfig::default()\<close>.\<close>

definition get_protocol :: "LoginConfig \<Rightarrow> LoginConfig option \<Rightarrow> bool \<times> bool \<times> i32" where
  "get_protocol defaults cfg =
     (let c = (case cfg of None \<Rightarrow> defaults | Some c \<Rightarrow> c)
      in (lc_e2e_available c, lc_e2e_default_on c, lc_e2e_protocol_ver c))"

definition is_e2e_content :: "'j json_ops \<Rightarrow> 'j ChatMessageContent \<Rightarrow> bool" where
  "is_e2e_content J c \<longleftrightarrow> cc_content_type c = CONTENT_TYPE \<or>
     Option.bind (Option.bind (cc_properties c) (\<lambda>p. fmlookup p ''e2e'')) (as_bool J) = Some True"

text \<open>
  \<open>to_json\<close> is the JSON object of a chat message (\<open>None\<close> when it does not parse back), as an association list;
  the members of the result are replaced as \<open>get_mut\<close> and indexing do.
\<close>

definition set_member :: "string \<Rightarrow> 'j \<Rightarrow> (string \<times> 'j) list \<Rightarrow> (string \<times> 'j) list" where
  "set_member k v ms = (if k \<in> fst ` set ms then map (\<lambda>(k', v'). (k', if k' = k then v else v')) ms else ms @ [(k, v)])"

definition redact_e2e_chat_message_json ::
    "'j bot_json \<Rightarrow> ('j ChatMessage \<Rightarrow> (string \<times> 'j) list option) \<Rightarrow> 'j ChatMessage \<Rightarrow> string option" where
  "redact_e2e_chat_message_json J to_json message =
     (let is_e2e = (case pl_detail (cm_payload message) of
            Normal n \<Rightarrow> is_e2e_content (bj_ops J) (nm_content n)
          | Reply r \<Rightarrow> is_e2e_content (bj_ops J) (rp_content r)
          | Reaction r \<Rightarrow> False);
          opaque = bj_object J [(''type'', json_string (bj_ops J) ''e2e_opaque'')]
      in if \<not> is_e2e then None
         else
           let v = (case to_json message of
                 Some ms \<Rightarrow> ms
               | None \<Rightarrow> [(''mid'', bj_int J (cm_mid message)), (''e2e'', bj_bool J True), (''detail'', opaque)]);
               v1 = (if ''detail'' \<in> fst ` set v then set_member ''detail'' opaque v else v)
           in Some (bj_print J (bj_object J (set_member ''e2e'' (bj_bool J True) v1))))"

end
