(* ===== verification/E2e_Keys_Service.thy ===== *)
theory E2e_Keys_Service
  imports E2e_Keys Service
begin

text \<open>
  The requests on the key directory as one handler, its invariant, and what follows for sequences of requests:
  every one-time prekey is handed out at most once, and versions of identities count the changes of keys.
\<close>

datatype keys_req =
    PutIdentity PutE2eIdentityRequest
  | RetireIdentity string
  | PutPrekeys string "(i32 \<times> string) list"
  | GetBundle i64 "string option"
  | PutBackup i32 string
  | DeleteBackup
  | PutDmSetting i64 bool

datatype keys_reply = Version i64 | Unit | Bundle E2ePrekeyBundle | Setting "i64 \<times> bool"

record 'j keys_call =
  kq_token :: Token
  kq_now :: DateTime
  kq_db_ok :: bool
  kq_db :: tables
  kq_cache :: "'j Cache"
  kq_protocol_ver :: i32
  kq_crypto :: crypto
  kq_req :: keys_req

definition answer :: "('a \<Rightarrow> 'b) \<Rightarrow> (api_error + 'a) \<times> 's \<Rightarrow> (api_error + 'b) \<times> 's" where
  "answer f r = (map_sum id f (fst r), snd r)"

lemma answer_simps [simp]:
  "answer f (Inl e, t) = (Inl e, t)"
  "answer f (Inr x, t) = (Inr (f x), t)"
  by (simp_all add: answer_def)

lemma answer_eq: "answer f r = (Inl e, t) \<longleftrightarrow> r = (Inl e, t)"
    "answer f r = (Inr y, t) \<longleftrightarrow> (\<exists>x. r = (Inr x, t) \<and> y = f x)"
  by (cases r; cases "fst r"; auto)+

lemma answer_dest: "answer f r = (q, t) \<Longrightarrow> \<exists>r1. r = (r1, t) \<and> q = map_sum id f r1"
  by (cases r) (simp add: answer_def)

definition keys_exec :: "'j keys_call \<Rightarrow> keys_reply keys" where
  "keys_exec c t =
     (let token = kq_token c; now = kq_now c; ok = kq_db_ok c; db = kq_db c; users = fmdom' (tb_user db) in
      case kq_req c of
        PutIdentity req \<Rightarrow> answer Version (publish_identity ok db (kq_protocol_ver c) now token req t)
      | RetireIdentity device \<Rightarrow>
          if ok then (Inr Unit, retire_identity now (tk_uid token) device t) else (Inl internal_error, t)
      | PutPrekeys device ks \<Rightarrow> answer (\<lambda>u. Unit) (put_prekeys ok users token device ks t)
      | GetBundle uid device \<Rightarrow> answer Bundle (get_bundle ok (kq_protocol_ver c) uid device t)
      | PutBackup version blob \<Rightarrow> answer (\<lambda>u. Unit) (put_backup (kq_crypto c) ok users now token version blob t)
      | DeleteBackup \<Rightarrow> answer (\<lambda>u. Unit) (delete_backup ok token t)
      | PutDmSetting peer b \<Rightarrow> answer Setting (put_dm_setting ok users (kq_cache c) now token peer b t))"

section \<open>The invariant\<close>

definition prekey_name :: "prekey_row \<Rightarrow> i64 \<times> string \<times> i32" where
  "prekey_name p = (ek_uid p, ek_device_id p, ek_key_id p)"

definition keys_inv :: "e2e_tables \<Rightarrow> bool" where
  "keys_inv t \<longleftrightarrow> distinct (map (\<lambda>r. (ei_uid r, ei_device_id r)) (et_identity t)) \<and>
     distinct (map prekey_name (et_prekey t)) \<and> sorted_wrt (<) (map ek_id (et_prekey t)) \<and>
     list_all (\<lambda>i. i \<le> et_prekey_seq t) (map ek_id (et_prekey t))"

definition consumed_keys :: "e2e_tables \<Rightarrow> (i64 \<times> string \<times> i32) set" where
  "consumed_keys t = prekey_name ` {p \<in> set (et_prekey t). ek_consumed p}"

lemma update_identity_names [simp]:
  assumes "\<And>r. ei_uid (f r) = ei_uid r" "\<And>r. ei_device_id (f r) = ei_device_id r"
  shows "map (\<lambda>r. (ei_uid r, ei_device_id r)) (et_identity (update_identity uid d f t)) =
    map (\<lambda>r. (ei_uid r, ei_device_id r)) (et_identity t)"
    "et_prekey (update_identity uid d f t) = et_prekey t" "et_prekey_seq (update_identity uid d f t) = et_prekey_seq t"
  using assms by (auto simp: update_identity_def)

lemma upsert_prekeys [simp]:
  "et_prekey (upsert_identity now uid req t) = et_prekey t"
  "et_prekey_seq (upsert_identity now uid req t) = et_prekey_seq t"
  by (simp_all add: upsert_identity_def)

lemma upsert_names:
  "distinct (map (\<lambda>r. (ei_uid r, ei_device_id r)) (et_identity t)) \<Longrightarrow>
   distinct (map (\<lambda>r. (ei_uid r, ei_device_id r)) (et_identity (upsert_identity now uid req t)))"
  by (auto simp: upsert_identity_def find_identity_def find_None_iff)

lemma insert_prekey_ok:
  assumes "insert_prekey users uid d key t = Some t'" "keys_inv t"
  shows "keys_inv t' \<and> consumed_keys t' = consumed_keys t"
  using assms
  by (auto simp: insert_prekey_def keys_inv_def consumed_keys_def Let_def prekey_name_def list_ex_iff list_all_iff sorted_wrt_append
      split: if_splits) (smt (verit, best))+

lemma insert_prekeys_ok:
  "insert_prekeys users uid d keys t = Some t' \<Longrightarrow> keys_inv t \<Longrightarrow> keys_inv t' \<and> consumed_keys t' = consumed_keys t"
proof (induction keys arbitrary: t)
  case (Cons key keys)
  then obtain t1 where "insert_prekey users uid d key t = Some t1" "insert_prekeys users uid d keys t1 = Some t'"
    by (auto simp: bind_eq_Some_conv)
  then show ?case using Cons insert_prekey_ok by metis
qed simp

lemma delete_unconsumed_ok:
  assumes "keys_inv t"
  shows "keys_inv (delete_unconsumed uid d t) \<and> consumed_keys (delete_unconsumed uid d t) = consumed_keys t"
  using assms
  by (auto simp: keys_inv_def delete_unconsumed_def consumed_keys_def list_all_iff distinct_map_filter sorted_wrt_map sorted_wrt_filter)

lemma peek_prekey_Some:
  assumes "peek_prekey uid d t = Some p" "keys_inv t"
  shows "p \<in> set (et_prekey t) \<and> prekey_of uid d p \<and> \<not> ek_consumed p \<and> prekey_name p \<notin> consumed_keys t"
proof -
  have p: "p \<in> set (et_prekey t)" "prekey_of uid d p" "\<not> ek_consumed p"
    using assms(1) by (auto simp: peek_prekey_def find_Some_iff)
  have "prekey_name p \<notin> consumed_keys t"
    using p assms(2) by (auto simp: consumed_keys_def keys_inv_def distinct_map inj_on_def)
  with p show ?thesis by simp
qed

lemma consume_prekey_ok:
  assumes "keys_inv t" "p \<in> set (et_prekey t)"
  shows "keys_inv (consume_prekey (ek_id p) t)" "consumed_keys (consume_prekey (ek_id p) t) = insert (prekey_name p) (consumed_keys t)"
proof -
  have "map ek_id (et_prekey (consume_prekey i t)) = map ek_id (et_prekey t)"
    "map prekey_name (et_prekey (consume_prekey i t)) = map prekey_name (et_prekey t)" for i
    by (auto simp: consume_prekey_def prekey_name_def)
  moreover have "et_identity (consume_prekey i t) = et_identity t" "et_prekey_seq (consume_prekey i t) = et_prekey_seq t" for i
    by (simp_all add: consume_prekey_def)
  ultimately show "keys_inv (consume_prekey (ek_id p) t)" using assms(1) by (simp only: keys_inv_def)
  have "q = p" if "q \<in> set (et_prekey t)" "ek_id q = ek_id p" for q
    using that assms strict_sorted_iff [of "map ek_id (et_prekey t)"]
    by (auto simp: keys_inv_def distinct_map inj_on_def)
  then have one: "et_prekey (consume_prekey (ek_id p) t) =
      map (\<lambda>q. if q = p then q\<lparr>ek_consumed := True\<rparr> else q) (et_prekey t)"
    by (auto simp: consume_prekey_def)
  have "{q \<in> set (et_prekey (consume_prekey (ek_id p) t)). ek_consumed q} =
      insert (p\<lparr>ek_consumed := True\<rparr>) ({q \<in> set (et_prekey t). ek_consumed q} - {p})"
    using assms(2) unfolding one by auto
  moreover have "prekey_name (p\<lparr>ek_consumed := True\<rparr>) = prekey_name p" by (simp add: prekey_name_def)
  ultimately show "consumed_keys (consume_prekey (ek_id p) t) = insert (prekey_name p) (consumed_keys t)"
    by (auto simp: consumed_keys_def)
qed


section \<open>The requests\<close>

definition bundle_prekey :: "keys_reply \<Rightarrow> (i64 \<times> string \<times> i32) option" where
  "bundle_prekey x =
     (case x of
        Bundle b \<Rightarrow> map_option (\<lambda>(key_id, public). (pb_uid b, pb_device_id b, key_id)) (pb_one_time_prekey b)
      | _ \<Rightarrow> None)"

text \<open>What every request does to the invariant and the consumed prekeys; \<open>k\<close> is the prekey it hands out.\<close>

definition step_ok :: "e2e_tables \<Rightarrow> e2e_tables \<Rightarrow> (i64 \<times> string \<times> i32) option \<Rightarrow> bool" where
  "step_ok t t' k \<longleftrightarrow> keys_inv t' \<and>
     consumed_keys t' = (case k of None \<Rightarrow> consumed_keys t | Some n \<Rightarrow> insert n (consumed_keys t)) \<and>
     (case k of None \<Rightarrow> True | Some n \<Rightarrow> n \<notin> consumed_keys t)"

lemma step_ok_other [intro]:
  assumes "keys_inv t" "et_prekey t' = et_prekey t" "et_prekey_seq t' = et_prekey_seq t"
    "distinct (map (\<lambda>r. (ei_uid r, ei_device_id r)) (et_identity t'))"
  shows "step_ok t t' None"
  using assms by (simp add: step_ok_def keys_inv_def consumed_keys_def)

lemma identity_names: "keys_inv t \<Longrightarrow> distinct (map (\<lambda>r. (ei_uid r, ei_device_id r)) (et_identity t))"
  by (simp add: keys_inv_def)

lemma publish_step:
  assumes "publish_identity ok db pv now token req t = (r, t')" "keys_inv t"
  shows "(isl r \<longrightarrow> t' = t) \<and> step_ok t t' None"
  using assms upsert_names [OF identity_names [OF assms(2)]]
  by (auto simp: publish_identity_def Let_def identity_names intro!: step_ok_other split: sum.splits if_splits option.splits)

lemma put_prekeys_step:
  assumes "put_prekeys ok users token d ks t = (r, t')" "keys_inv t"
  shows "(isl r \<longrightarrow> t' = t) \<and> step_ok t t' None"
  using assms delete_unconsumed_ok [OF assms(2), of "tk_uid token" d]
    insert_prekeys_ok [of users "tk_uid token" d ks "delete_unconsumed (tk_uid token) d t"]
  by (cases "check_device token d") (auto simp: put_prekeys_def step_ok_def split: if_splits option.splits, metis sum.disc(2))

lemma get_bundle_step:
  assumes "get_bundle ok pv uid d t = (r, t')" "keys_inv t"
  shows "(isl r \<longrightarrow> t' = t) \<and> step_ok t t' (case r of Inl e \<Rightarrow> None | Inr b \<Rightarrow> bundle_prekey (Bundle b))"
  using assms
  by (auto simp: get_bundle_def Let_def step_ok_def bundle_prekey_def prekey_name_def
      split: if_splits option.splits sum.splits dest: peek_prekey_Some
      simp: consume_prekey_ok [OF assms(2)])

lemma put_backup_step:
  assumes "put_backup C ok users now token v blob t = (r, t')" "keys_inv t"
  shows "(isl r \<longrightarrow> t' = t) \<and> step_ok t t' None"
  using assms by (auto simp: put_backup_def identity_names split: sum.splits if_splits)

lemma keys_step:
  assumes "keys_exec c t = (r, t')" "keys_inv t"
  shows "(isl r \<longrightarrow> t' = t) \<and> step_ok t t' (case r of Inl e \<Rightarrow> None | Inr x \<Rightarrow> bundle_prekey x)"
proof (cases "kq_req c")
  case (GetBundle uid d)
  then obtain r1 where "get_bundle (kq_db_ok c) (kq_protocol_ver c) uid d t = (r1, t')" "r = map_sum id Bundle r1"
    using assms(1) by (auto simp: keys_exec_def Let_def dest!: answer_dest)
  then show ?thesis using get_bundle_step [OF _ assms(2)] by (cases r1) fastforce+
next
  case (PutIdentity req)
  then obtain r1 where "publish_identity (kq_db_ok c) (kq_db c) (kq_protocol_ver c) (kq_now c) (kq_token c) req t = (r1, t')"
    "r = map_sum id Version r1"
    using assms(1) by (auto simp: keys_exec_def Let_def dest!: answer_dest)
  then show ?thesis using publish_step [OF _ assms(2)] by (cases r1) (fastforce simp: bundle_prekey_def)+
next
  case (PutPrekeys d ks)
  then obtain r1 where "put_prekeys (kq_db_ok c) (fmdom' (tb_user (kq_db c))) (kq_token c) d ks t = (r1, t')"
    "r = map_sum id (\<lambda>u. Unit) r1"
    using assms(1) by (auto simp: keys_exec_def Let_def dest!: answer_dest)
  then show ?thesis using put_prekeys_step [OF _ assms(2)] by (cases r1) (fastforce simp: bundle_prekey_def)+
next
  case (PutBackup v blob)
  then obtain r1 where "put_backup (kq_crypto c) (kq_db_ok c) (fmdom' (tb_user (kq_db c))) (kq_now c) (kq_token c) v blob t = (r1, t')"
    "r = map_sum id (\<lambda>u. Unit) r1"
    using assms(1) by (auto simp: keys_exec_def Let_def dest!: answer_dest)
  then show ?thesis using put_backup_step [OF _ assms(2)] by (cases r1) (fastforce simp: bundle_prekey_def)+
next
  case (RetireIdentity d)
  then show ?thesis using assms
    by (auto simp: keys_exec_def retire_identity_def bundle_prekey_def identity_names intro!: step_ok_other split: if_splits)
next
  case DeleteBackup
  then show ?thesis using assms
    by (auto simp: keys_exec_def delete_backup_def bundle_prekey_def identity_names intro!: step_ok_other split: if_splits)
next
  case (PutDmSetting peer b)
  then show ?thesis using assms
    by (auto simp: keys_exec_def Let_def put_dm_setting_def bundle_prekey_def identity_names intro!: step_ok_other split: if_splits)
qed

interpretation keys: handout_service keys_exec keys_inv consumed_keys "\<lambda>q. bundle_prekey"
proof unfold_locales
  show "keys_inv t'" if "keys_inv t" "keys_exec c t = (r, t')" for t c r t'
    using keys_step [OF that(2,1)] by (simp add: step_ok_def)
  show "t' = t" if "keys_exec c t = (Inl e, t')" for c e t t'
    using that
    by (auto simp: keys_exec_def Let_def answer_eq publish_identity_def put_prekeys_def get_bundle_def put_backup_def
        delete_backup_def put_dm_setting_def split: keys_req.splits if_splits sum.splits option.splits)
  show "consumed_keys t \<subseteq> consumed_keys t'" if "keys_inv t" "keys_exec c t = (Inr x, t')" for t c x t'
    using keys_step [OF that(2,1)] by (auto simp: step_ok_def split: option.splits)
  show "k \<notin> consumed_keys t \<and> k \<in> consumed_keys t'"
    if "keys_inv t" "keys_exec c t = (Inr x, t')" "bundle_prekey x = Some k" for t c x t' k
    using keys_step [OF that(2,1)] that(3) by (auto simp: step_ok_def)
qed

lemma find_map_update:
  assumes "\<And>r. P (f r) = P r"
  shows "List.find P (map (\<lambda>r. if P r then f r else r) rs) = map_option f (List.find P rs)"
  by (induction rs) (use assms in auto)

lemma find_map_other:
  assumes "\<And>r. Q r \<Longrightarrow> \<not> P r \<and> \<not> P (f r)"
  shows "List.find P (map (\<lambda>r. if Q r then f r else r) rs) = List.find P rs"
  by (induction rs) (use assms in auto)

lemma find_append: "List.find P (xs @ ys) = (case List.find P xs of None \<Rightarrow> List.find P ys | Some x \<Rightarrow> Some x)"
  by (induction xs) auto

lemma find_update_identity:
  assumes "\<And>r. ei_uid (f r) = ei_uid r" "\<And>r. ei_device_id (f r) = ei_device_id r"
  shows "find_identity (update_identity uid d f t) uid' d' =
    (if uid' = uid \<and> d' = d then map_option f (find_identity t uid d) else find_identity t uid' d')"
  using find_map_update [of "identity_of uid d" f "et_identity t"]
    find_map_other [of "identity_of uid d" "identity_of uid' d'" f "et_identity t"] assms
  by (auto simp: find_identity_def update_identity_def)

definition published_row :: "DateTime \<Rightarrow> i64 \<Rightarrow> PutE2eIdentityRequest \<Rightarrow> identity_row option \<Rightarrow> identity_row" where
  "published_row now uid req old =
     \<lparr>ei_uid = uid, ei_device_id = pi_device_id req, ei_identity_key_pub = pi_identity_key_pub req,
      ei_signed_prekey_pub = pi_signed_prekey_pub req, ei_signed_prekey_sig = pi_signed_prekey_sig req, ei_updated_at = now,
      ei_key_version = (case old of None \<Rightarrow> 1 | Some r \<Rightarrow> if keys_changed req r then ei_key_version r + 1 else ei_key_version r),
      ei_retired_at = None\<rparr>"

lemma find_identity_Some: "find_identity t uid d = Some r \<Longrightarrow> ei_uid r = uid \<and> ei_device_id r = d \<and> r \<in> set (et_identity t)"
  by (auto simp: find_identity_def find_Some_iff)

lemma find_upsert:
  "find_identity (upsert_identity now uid req t) uid' d =
    (if uid' = uid \<and> d = pi_device_id req then Some (published_row now uid req (find_identity t uid d))
     else find_identity t uid' d)"
proof (cases "find_identity t uid (pi_device_id req)")
  case None
  then show ?thesis
    by (auto simp: upsert_identity_def find_identity_def find_append published_row_def split: option.splits)
next
  case (Some r)
  have "(\<lambda>r. r\<lparr>ei_key_version := (if keys_changed req r then ei_key_version r + 1 else ei_key_version r),
       ei_identity_key_pub := pi_identity_key_pub req, ei_signed_prekey_pub := pi_signed_prekey_pub req,
       ei_signed_prekey_sig := pi_signed_prekey_sig req, ei_updated_at := now, ei_retired_at := None\<rparr>) r =
     published_row now uid req (Some r)"
    using find_identity_Some [OF Some] by (simp add: published_row_def)
  then show ?thesis using Some by (auto simp: upsert_identity_def find_update_identity)
qed

lemma publish_identity_row:
  assumes "publish_identity ok db pv now token req t = (Inr v, t')"
  shows "pi_device_id req = tk_device token \<and> device_exists db (tk_uid token) (tk_device token) \<and>
    v = (case find_identity t (tk_uid token) (tk_device token) of
       None \<Rightarrow> 1 | Some r \<Rightarrow> if keys_changed req r then ei_key_version r + 1 else ei_key_version r) \<and>
    t' = upsert_identity now (tk_uid token) req t"
proof -
  have "pi_device_id req = tk_device token \<and> device_exists db (tk_uid token) (tk_device token)"
    "t' = upsert_identity now (tk_uid token) req t"
    "find_identity (upsert_identity now (tk_uid token) req t) (tk_uid token) (pi_device_id req) \<noteq> None"
    "v = ei_key_version (the (find_identity (upsert_identity now (tk_uid token) req t) (tk_uid token) (pi_device_id req)))"
    using assms
    by (auto simp: publish_identity_def check_identity_request_def check_device_def validate_authenticated_device_def Let_def
        split: if_splits option.splits sum.splits)
  then show ?thesis by (auto simp: find_upsert published_row_def split: option.splits)
qed


definition demo_keys :: e2e_tables where
  "demo_keys = \<lparr>et_identity = [\<lparr>ei_uid = 7, ei_device_id = ''web'', ei_identity_key_pub = ''ik'', ei_signed_prekey_pub = None,
       ei_signed_prekey_sig = None, ei_updated_at = 0, ei_key_version = 1, ei_retired_at = None\<rparr>],
     et_prekey = [\<lparr>ek_id = 1, ek_uid = 7, ek_device_id = ''web'', ek_key_id = 5, ek_public_key = ''a'', ek_consumed = False\<rparr>,
       \<lparr>ek_id = 2, ek_uid = 7, ek_device_id = ''web'', ek_key_id = 6, ek_public_key = ''b'', ek_consumed = False\<rparr>],
     et_prekey_seq = 2, et_backup = fmempty, et_dm_setting = fmempty\<rparr>"

definition no_rows :: tables where
  "no_rows = \<lparr>tb_user = fmempty, tb_user_seq = 0, tb_user_log_seq = 0, tb_device = [], tb_mute = [], tb_burn_after_reading = [],
     tb_read_index = [], tb_bot_key = [], tb_group = fmempty, tb_group_seq = 0, tb_group_user = {}, tb_pinned_message = []\<rparr>"

definition no_cache :: "'j Cache" where
  "no_cache = \<lparr>ca_groups = fmempty, ca_users = fmempty, ca_codes = \<lparr>codes = fmempty, email_code = fmempty\<rparr>\<rparr>"

definition demo_fetch :: "unit keys_call" where
  "demo_fetch = \<lparr>kq_token = \<lparr>tk_uid = 9, tk_device = ''phone'', tk_is_admin = False, tk_is_guest = False\<rparr>, kq_now = 1,
     kq_db_ok = True, kq_db = no_rows, kq_cache = no_cache, kq_protocol_ver = 1, kq_crypto = demo_crypto,
     kq_req = GetBundle 7 None\<rparr>"


end
