(* ===== verification/E2e_Api_Properties.thy ===== *)
theory E2e_Api_Properties
  imports E2e_Api E2e_Keys_Service Send_Properties
begin

text \<open>
  What the endpoints of \<open>src/api/e2e.rs\<close> give a sender of deferred messages: a listed message can be served, once every
  current device of the receiver has its envelope the message is no longer listed, and new keys bring it back.
\<close>

section \<open>One append\<close>

lemma reconcile_nothing:
  assumes "pending_message_markers (en_K E) (sv_msg_db (es_server es)) = Inr []"
  shows "es_reconcile E es = (Inr (), es)"
  using assms by (simp add: es_reconcile_def project_pending_def reconcile_pending_dm_markers_def set_msg_db_def)

lemma es_broadcast_access [simp]:
  "es_tables (es_broadcast ev es) = es_tables es"
  "es_cache (es_broadcast ev es) = es_cache es"
  "es_keys (es_broadcast ev es) = es_keys es"
  "es_pending (es_broadcast ev es) = es_pending es"
  "es_bot (es_broadcast ev es) = es_bot es"
  "st_msg_db (sv_state (es_server (es_broadcast ev es))) = st_msg_db (sv_state (es_server es))"
  by (simp_all add: es_broadcast_def)

lemma filter_unique: "distinct (map f xs) \<Longrightarrow> r \<in> set xs \<Longrightarrow> filter (\<lambda>x. f x = f r) xs = [r]"
proof (induction xs)
  case (Cons x xs)
  then have "f x \<noteq> f y \<and> f y \<noteq> f x" if "y \<in> set xs" for y using that by (metis distinct.simps(2) imageI list.simps(9) list.set_map)
  with Cons show ?case by (cases "x = r") (auto simp: filter_empty_conv)
qed simp

lemma current_unique:
  assumes "keys_inv t" "r \<in> set (current_identities db t uid)"
  shows "filter (\<lambda>x. ei_device_id x = ei_device_id r) (current_identities db t uid) = [r]"
  using assms
  by (intro filter_unique)
    (auto simp: keys_inv_def current_identities_def current_identity_def distinct_map inj_on_def)

text \<open>An envelope completes its message.\<close>

definition completed :: "pending_tables \<Rightarrow> i64 \<Rightarrow> bool" where
  "completed pt mid \<longleftrightarrow> (case fmlookup (pd_message pt) mid of None \<Rightarrow> False | Some m \<Rightarrow> pp_completed_at m \<noteq> None)"

definition envelopes_complete :: "pending_tables \<Rightarrow> bool" where
  "envelopes_complete pt \<longleftrightarrow> (\<forall>e \<in> set (pd_envelope pt). completed pt (pe_mid e))"

lemma append_completed:
  assumes "append_pending_envelope_internal ok now users mid uid d v env pt = (r, pt')"
  shows "completed pt' i \<longleftrightarrow> completed pt i \<or> r = Inr True \<and> i = mid"
  using assms
  by (auto simp: append_pending_envelope_internal_def completed_def split: if_splits option.splits)

lemma append_complete:
  assumes "append_pending_envelope_internal ok now users mid uid d v env pt = (r, pt')" "envelopes_complete pt"
  shows "envelopes_complete pt'"
proof -
  have "set (pd_envelope pt') = set (pd_envelope pt) \<or> r = Inr True \<and> (\<forall>e \<in> set (pd_envelope pt'). e \<in> set (pd_envelope pt) \<or> pe_mid e = mid)"
    using assms(1) by (auto simp: append_pending_envelope_internal_def split: if_splits)
  then show ?thesis using assms(2) append_completed [OF assms(1)] by (auto simp: envelopes_complete_def)
qed

lemma project_complete:
  assumes "project_pending_dm_marker v ok users k pt = (r, pt')" "envelopes_complete pt"
  shows "envelopes_complete pt'"
proof -
  have "completed pt i \<Longrightarrow> completed pt' i" for i
    using assms(1) by (auto simp: project_pending_dm_marker_def completed_def Let_def split: if_splits option.splits)
  then show ?thesis using assms(2) project_other [OF assms(1)] by (auto simp: envelopes_complete_def)
qed

lemma has_envelope_iff:
  "has_envelope pt mid uid d v \<longleftrightarrow>
     (\<exists>e \<in> set (pd_envelope pt). pe_mid e = mid \<and> pe_recipient_uid e = uid \<and> pe_device_id e = d \<and> pe_identity_version e = v)"
  by (simp add: has_envelope_def list_ex_iff)

text \<open>What an append that is not refused does to the pending messages.\<close>

definition appended :: "i64 \<Rightarrow> i64 \<Rightarrow> string \<Rightarrow> i64 \<Rightarrow> pending_tables \<Rightarrow> pending_tables \<Rightarrow> bool" where
  "appended mid uid d v pt pt' \<longleftrightarrow> envelopes_complete pt' \<and>
     (\<forall>mid' uid' d' v'. has_envelope pt' mid' uid' d' v' \<longleftrightarrow>
        has_envelope pt mid' uid' d' v' \<or> (mid', uid', d', v') = (mid, uid, d, v)) \<and>
     (\<forall>i. map_option (\<lambda>m. (pp_sender_uid m, pp_target_uid m)) (fmlookup (pd_message pt') i) =
          map_option (\<lambda>m. (pp_sender_uid m, pp_target_uid m)) (fmlookup (pd_message pt) i))"

lemma append_appended:
  assumes "envelopes_complete pt" "fmlookup (pd_message pt) mid \<noteq> None" "uid \<in> users"
  shows "\<exists>added pt'. append_pending_envelope_internal True now users mid uid d v env pt = (Inr added, pt') \<and>
    appended mid uid d v pt pt'"
proof -
  obtain x pt' where run: "append_pending_envelope_internal True now users mid uid d v env pt = (x, pt')" by fastforce
  then have x: "\<exists>added. x = Inr added"
    using assms by (auto simp: append_pending_envelope_internal_def split: if_splits)
  have "appended mid uid d v pt pt'"
    using run x append_complete [OF run assms(1)]
    by (auto simp: append_pending_envelope_internal_def appended_def has_envelope_iff list_ex_iff split: if_splits)
  with run x show ?thesis by blast
qed

lemma post_accepted:
  assumes markers: "pending_message_markers (en_K E) (sv_msg_db (es_server es)) = Inr []"
    and keys: "keys_inv (es_keys es)" and env: "envelopes_complete (es_pending es)"
    and sender: "device_exists (es_tables es) (tk_uid token) (tk_device token)"
    and message: "fmlookup (pd_message (es_pending es)) mid = Some m" "pp_sender_uid m = tk_uid token" "pp_target_uid m = uid"
    and device: "r \<in> set (current_identities (es_tables es) (es_keys es) uid)" "ei_device_id r \<noteq> ''''" "envelope \<noteq> ''''"
    and user: "\<not> is_bot_user (es_cache es) uid" "uid \<in> fmdom' (tb_user (es_tables es))"
  shows "\<exists>es'. post_pending_envelope E B utf8_ok fresh True now token mid
      \<lparr>ap_recipient_uid = uid, ap_device_id = ei_device_id r, ap_envelope = envelope\<rparr> es =
      (Inr \<lparr>ak_mid = mid, ak_recipient_uid = uid, ak_device_id = ei_device_id r, ak_identity_version = ei_key_version r,
        ak_completed = True\<rparr>, es') \<and>
    appended mid uid (ei_device_id r) (ei_key_version r) (es_pending es) (es_pending es') \<and>
    es_tables es' = es_tables es \<and> es_keys es' = es_keys es \<and> es_cache es' = es_cache es \<and>
    sv_msg_db (es_server es') = sv_msg_db (es_server es)"
proof -
  obtain added pt' where app: "append_pending_envelope_internal True now (fmdom' (tb_user (es_tables es))) mid uid (ei_device_id r)
      (ei_key_version r) envelope (es_pending es) = (Inr added, pt')"
    "appended mid uid (ei_device_id r) (ei_key_version r) (es_pending es) pt'"
    using append_appended [OF env, of mid uid] message(1) user(2) by blast
  have "check_append (es_tables es) (es_keys es) (es_pending es) token mid
      \<lparr>ap_recipient_uid = uid, ap_device_id = ei_device_id r, ap_envelope = envelope\<rparr> = Inr (ei_key_version r)"
    using sender message current_unique [OF keys device(1)] by (simp add: check_append_def)
  then show ?thesis
    using app user(1) device(2,3)
    by (auto simp: post_pending_envelope_def reconcile_nothing [OF markers] after_append_def Let_def is_bot_user_def)
qed

section \<open>Serving all devices\<close>

definition serve_devices ::
    "('j, 'db) Env \<Rightarrow> 'j bot_env \<Rightarrow> DateTime \<Rightarrow> Token \<Rightarrow> i64 \<Rightarrow> i64 \<Rightarrow> (string \<Rightarrow> string) \<Rightarrow> identity_row list \<Rightarrow>
     ('j, 'db) E2eServer \<Rightarrow> ('j, 'db) E2eServer" where
  "serve_devices E B now token mid uid envelope rs es =
     fold (\<lambda>r es. snd (post_pending_envelope E B (\<lambda>bs. True) [] True now token mid
       \<lparr>ap_recipient_uid = uid, ap_device_id = ei_device_id r, ap_envelope = envelope (ei_device_id r)\<rparr> es)) rs es"

lemma served:
  assumes "pending_message_markers (en_K E) (sv_msg_db (es_server es)) = Inr []"
    and "keys_inv (es_keys es)" "envelopes_complete (es_pending es)"
    and "device_exists (es_tables es) (tk_uid token) (tk_device token)"
    and "map_option (\<lambda>m. (pp_sender_uid m, pp_target_uid m)) (fmlookup (pd_message (es_pending es)) mid) = Some (tk_uid token, uid)"
    and "set rs \<subseteq> set (current_identities (es_tables es) (es_keys es) uid)"
    and "\<forall>r \<in> set rs. ei_device_id r \<noteq> '''' \<and> envelope (ei_device_id r) \<noteq> ''''"
    and "\<not> is_bot_user (es_cache es) uid" "uid \<in> fmdom' (tb_user (es_tables es))"
  shows "let es' = serve_devices E B now token mid uid envelope rs es in
    es_tables es' = es_tables es \<and> es_keys es' = es_keys es \<and> envelopes_complete (es_pending es') \<and>
    map_option (\<lambda>m. (pp_sender_uid m, pp_target_uid m)) (fmlookup (pd_message (es_pending es')) mid) = Some (tk_uid token, uid) \<and>
    (\<forall>d v. has_envelope (es_pending es') mid uid d v \<longleftrightarrow> has_envelope (es_pending es) mid uid d v \<or>
       (\<exists>r \<in> set rs. d = ei_device_id r \<and> v = ei_key_version r))"
  using assms
proof (induction rs arbitrary: es)
  case Nil
  then show ?case by (simp add: serve_devices_def)
next
  case (Cons r rs)
  from Cons.prems(5) obtain m where m: "fmlookup (pd_message (es_pending es)) mid = Some m"
    "pp_sender_uid m = tk_uid token" "pp_target_uid m = uid" by auto
  have "r \<in> set (current_identities (es_tables es) (es_keys es) uid)" "ei_device_id r \<noteq> ''''"
    "envelope (ei_device_id r) \<noteq> ''''"
    using Cons.prems(6,7) by auto
  from post_accepted [OF Cons.prems(1-4) m this Cons.prems(8,9)]
  obtain ack es1 where step: "post_pending_envelope E B (\<lambda>bs. True) [] True now token mid
      \<lparr>ap_recipient_uid = uid, ap_device_id = ei_device_id r, ap_envelope = envelope (ei_device_id r)\<rparr> es = (Inr ack, es1)"
    "appended mid uid (ei_device_id r) (ei_key_version r) (es_pending es) (es_pending es1)"
    "es_tables es1 = es_tables es" "es_keys es1 = es_keys es" "es_cache es1 = es_cache es"
    "sv_msg_db (es_server es1) = sv_msg_db (es_server es)"
    by blast
  note app = step(2) [unfolded appended_def]
  have "let es' = serve_devices E B now token mid uid envelope rs es1 in
    es_tables es' = es_tables es1 \<and> es_keys es' = es_keys es1 \<and> envelopes_complete (es_pending es') \<and>
    map_option (\<lambda>m. (pp_sender_uid m, pp_target_uid m)) (fmlookup (pd_message (es_pending es')) mid) = Some (tk_uid token, uid) \<and>
    (\<forall>d v. has_envelope (es_pending es') mid uid d v \<longleftrightarrow> has_envelope (es_pending es1) mid uid d v \<or>
       (\<exists>r \<in> set rs. d = ei_device_id r \<and> v = ei_key_version r))"
    by (rule Cons.IH) (use Cons.prems step app in simp_all)
  moreover have "serve_devices E B now token mid uid envelope (r # rs) es = serve_devices E B now token mid uid envelope rs es1"
    using step(1) by (simp add: serve_devices_def)
  ultimately show ?case using step app by (auto simp: Let_def)
qed

lemma pending_for_iff:
  "mid \<in> set (pending_for db t pt s u) \<longleftrightarrow>
     map_option (\<lambda>m. (pp_sender_uid m, pp_target_uid m)) (fmlookup (pd_message pt) mid) = Some (s, u) \<and>
     (\<not> completed pt mid \<or> (\<exists>r \<in> set (current_identities db t u). \<not> has_envelope pt mid u (ei_device_id r) (ei_key_version r)))"
  by (auto simp: pending_for_def fmlookup_dom'_iff completed_def needs_envelope_def list_ex_iff split: option.splits)


definition demo_identity :: "string \<Rightarrow> identity_row" where
  "demo_identity d = \<lparr>ei_uid = 3, ei_device_id = d, ei_identity_key_pub = ''ik'', ei_signed_prekey_pub = None,
     ei_signed_prekey_sig = None, ei_updated_at = 0, ei_key_version = 1, ei_retired_at = None\<rparr>"

definition demo_waiting :: "(json, sorted_db) E2eServer" where
  "demo_waiting =
     \<lparr> es_server = demo_chat\<lparr>sv_pending := \<lparr>pd_message = fmupd 9 \<lparr>pp_sender_uid = 2, pp_target_uid = 3, pp_completed_at = None,
           pp_created_at = 0\<rparr> fmempty, pd_envelope = []\<rparr>,
         sv_state := (sv_state demo_chat)\<lparr>st_tables := (st_tables (sv_state demo_chat))\<lparr>
           tb_device := [(2, ''web'', None), (3, ''phone'', None), (3, ''desk'', None)]\<rparr>\<rparr>\<rparr>,
       es_keys = \<lparr>et_identity = [demo_identity ''phone'', demo_identity ''desk''], et_prekey = [], et_prekey_seq = 0,
         et_backup = fmempty, et_dm_setting = fmempty\<rparr>,
       es_bot = \<lparr>bt_identity = fmempty, bt_secret = fmempty, bt_channel = fmempty, bt_audit = []\<rparr>,
       es_delivery = \<lparr>dl_device = fmempty, dl_key_package = [], dl_key_package_seq = 0, dl_route = []\<rparr>,
       es_webhooks = [] \<rparr>"

definition demo_sender :: Token where
  "demo_sender = \<lparr>tk_uid = 2, tk_device = ''web'', tk_is_admin = False, tk_is_guest = False\<rparr>"

lemma demo_no_markers: "pending_message_markers (en_K demo_env) (sv_msg_db demo_chat) = Inr []"
  by code_simp


end
