(* ===== verification/Api_Key.thy ===== *)
theory Api_Key
  imports Prelude
begin

text \<open>
  The API keys of bots (\<open>src/api_key.rs\<close>): a JSON text signed with the server key. HMAC-SHA256, hex and the codec of the
  struct \<open>ApiKey\<close> are the argument \<open>key_ops\<close> with the contract \<open>key_contract\<close>. Slicing beyond the end of a
  vector panics in Rust; so a result is \<open>Panics\<close> or a value.
\<close>

record ApiKey =
  ky_uid :: i64
  ky_nonce :: string

record key_ops =
  ko_hmac :: "string \<Rightarrow> bytes \<Rightarrow> bytes"
  ko_hex_encode :: "bytes \<Rightarrow> string"
  ko_hex_decode :: "string \<Rightarrow> bytes option"
  ko_to_vec :: "ApiKey \<Rightarrow> bytes"
  ko_from_slice :: "bytes \<Rightarrow> ApiKey option"

datatype 'a outcome = Panics | Returns 'a

locale key_contract =
  fixes H :: key_ops
  assumes hmac_length: "length (ko_hmac H k m) = 32"
    and hex_decode_encode: "ko_hex_decode H (ko_hex_encode H bs) = Some bs"
    and from_slice_to_vec: "ko_from_slice H (ko_to_vec H a) = Some a"

text \<open>\<open>nonce\<close> is drawn.\<close>

definition create_api_key :: "key_ops \<Rightarrow> string \<Rightarrow> i64 \<Rightarrow> string \<Rightarrow> string" where
  "create_api_key H nonce uid server_key =
     (let content = ko_to_vec H \<lparr>ky_uid = uid, ky_nonce = nonce\<rparr>
      in ko_hex_encode H (ko_hmac H server_key content @ content))"

definition parse_api_key :: "key_ops \<Rightarrow> string \<Rightarrow> string \<Rightarrow> i64 option outcome" where
  "parse_api_key H data server_key =
     (case ko_hex_decode H data of
        None \<Rightarrow> Returns None
      | Some bs \<Rightarrow>
          if length bs < 32 then Panics
          else if ko_hmac H server_key (drop 32 bs) \<noteq> take 32 bs then Returns None
          else Returns (map_option ky_uid (ko_from_slice H (drop 32 bs))))"

context key_contract
begin

lemma parse_create: "parse_api_key H (create_api_key H nonce uid server_key) server_key = Returns (Some uid)"
  by (simp add: parse_api_key_def create_api_key_def Let_def hex_decode_encode hmac_length from_slice_to_vec)

lemma parse_Some_iff:
  "parse_api_key H data server_key = Returns (Some uid) \<longleftrightarrow>
    (\<exists>content a. ko_hex_decode H data = Some (ko_hmac H server_key content @ content) \<and>
       ko_from_slice H content = Some a \<and> ky_uid a = uid)"
proof
  assume "parse_api_key H data server_key = Returns (Some uid)"
  then obtain bs a where "ko_hex_decode H data = Some bs" "ko_hmac H server_key (drop 32 bs) = take 32 bs"
    "ko_from_slice H (drop 32 bs) = Some a" "ky_uid a = uid"
    by (auto simp: parse_api_key_def split: option.splits if_splits)
  then have "ko_hex_decode H data = Some (ko_hmac H server_key (drop 32 bs) @ drop 32 bs) \<and>
      ko_from_slice H (drop 32 bs) = Some a \<and> ky_uid a = uid"
    by simp
  then show "\<exists>content a. ko_hex_decode H data = Some (ko_hmac H server_key content @ content) \<and>
       ko_from_slice H content = Some a \<and> ky_uid a = uid" by blast
next
  assume "\<exists>content a. ko_hex_decode H data = Some (ko_hmac H server_key content @ content) \<and>
       ko_from_slice H content = Some a \<and> ky_uid a = uid"
  then show "parse_api_key H data server_key = Returns (Some uid)"
    by (auto simp: parse_api_key_def hmac_length)
qed

end

definition demo_key_ops :: key_ops where
  "demo_key_ops = \<lparr>ko_hmac = (\<lambda>k m. replicate 32 CHR ''s''), ko_hex_encode = (\<lambda>bs. bs), ko_hex_decode = Some,
     ko_to_vec = (\<lambda>a. (if ky_uid a < 0 then CHR ''-'' else CHR ''+'') #
       replicate (nat \<bar>ky_uid a\<bar>) CHR ''i'' @ CHR '':'' # ky_nonce a),
     ko_from_slice = (\<lambda>bs. case bs of [] \<Rightarrow> None
       | c # cs \<Rightarrow>
          let n = length (takeWhile (\<lambda>d. d \<noteq> CHR '':'') cs)
          in Some \<lparr>ky_uid = (if c = CHR ''-'' then - int n else int n), ky_nonce = drop (Suc n) cs\<rparr>)\<rparr>"

interpretation demo_hmac: key_contract demo_key_ops
proof unfold_locales
  have *: "takeWhile (\<lambda>d. d \<noteq> CHR '':'') (replicate n CHR ''i'' @ CHR '':'' # xs) = replicate n CHR ''i''" for n xs
    by (induction n) auto
  show "ko_from_slice demo_key_ops (ko_to_vec demo_key_ops a) = Some a" for a
    by (cases a) (auto simp: demo_key_ops_def Let_def *)
qed (simp_all add: demo_key_ops_def)

text \<open>
  C30 An API key authenticates exactly the bot it was made for: the key created for a user parses back to that
  user under the same server key; a text is accepted as a key of a user only when it is the encoding of a content naming that
  user behind its code under the server key. A text that encodes fewer than 32 bytes makes the parser panic.
\<close>

theorem api_keys_authenticate:
  assumes "key_contract H"
  shows "parse_api_key H (create_api_key H nonce uid server_key) server_key = Returns (Some uid) \<and>
    (parse_api_key H data server_key = Returns (Some uid') \<longleftrightarrow>
      (\<exists>content a. ko_hex_decode H data = Some (ko_hmac H server_key content @ content) \<and>
         ko_from_slice H content = Some a \<and> ky_uid a = uid')) \<and>
    (parse_api_key H data server_key = Panics \<longleftrightarrow> (\<exists>bs. ko_hex_decode H data = Some bs \<and> length bs < 32))"
  using key_contract.parse_create [OF assms] key_contract.parse_Some_iff [OF assms]
  by (auto simp: parse_api_key_def split: option.splits)

theorem api_keys_authenticate_witness:
  "parse_api_key demo_key_ops (create_api_key demo_key_ops ''n1'' 7 ''key'') ''key'' = Returns (Some 7) \<and>
   parse_api_key demo_key_ops ''ab'' ''key'' = Panics"
  using api_keys_authenticate [OF demo_hmac.key_contract_axioms, of "''n1''" 7 "''key''" "''ab''" 0]
  by (simp add: demo_key_ops_def)

end
