(* ===== verification/Bot_Api.thy ===== *)
theory Bot_Api
  imports Api_Key Bot_Messages Group_Api
begin

text \<open>
  The endpoints of bots (\<open>src/api/bot.rs\<close>) other than file upload: authentication by API key, and sending, where the plain text of a bot
  with keys goes out encrypted when the receiver is a human.
\<close>

definition es_users :: "('j, 'db) E2eServer \<Rightarrow> (i64, CacheUser) fmap" where
  "es_users es = ca_users (es_cache es)"

definition set_es_users :: "(i64, CacheUser) fmap \<Rightarrow> ('j, 'db) E2eServer \<Rightarrow> ('j, 'db) E2eServer" where
  "set_es_users users es =
     es\<lparr>es_server := (es_server es)\<lparr>sv_state := (sv_state (es_server es))\<lparr>
       st_cache := (es_cache es)\<lparr>ca_users := users\<rparr>\<rparr>\<rparr>\<rparr>"

section \<open>Authentication\<close>

text \<open>The first key with the text; the time of its use is noted in the cache only.\<close>

definition find_bot_key :: "CacheUser \<Rightarrow> string \<Rightarrow> i64 option" where
  "find_bot_key user key =
     List.find (\<lambda>i. case fmlookup (cu_bot_keys user) i of None \<Rightarrow> False | Some k \<Rightarrow> bk_key k = key) (fm_keys (cu_bot_keys user))"

definition check_api_key :: "DateTime \<Rightarrow> i64 \<Rightarrow> string \<Rightarrow> ('j, 'db) E2eServer \<Rightarrow> (api_error + unit) \<times> ('j, 'db) E2eServer" where
  "check_api_key now uid key es =
     (case Option.bind (fmlookup (es_users es) uid) (\<lambda>user. find_bot_key user key) of
        None \<Rightarrow> (Inl (from_status UNAUTHORIZED), es)
      | Some i \<Rightarrow>
          (Inr (), set_es_users (fm_modify uid (\<lambda>user. user\<lparr>cu_bot_keys :=
             fm_modify i (\<lambda>k. k\<lparr>bk_last_used := Some now\<rparr>) (cu_bot_keys user)\<rparr>) (es_users es)) es))"

definition with_api_key ::
    "key_ops \<Rightarrow> string \<Rightarrow> DateTime \<Rightarrow> string \<Rightarrow> (i64 \<Rightarrow> ('j, 'db) E2eServer \<Rightarrow> (api_error + 'a) \<times> ('j, 'db) E2eServer) \<Rightarrow>
     ('j, 'db) E2eServer \<Rightarrow> (api_error + 'a) outcome \<times> ('j, 'db) E2eServer" where
  "with_api_key H server_key now api_key handler es =
     (case parse_api_key H api_key server_key of
        Panics \<Rightarrow> (Panics, es)
      | Returns None \<Rightarrow> (Returns (Inl (from_status UNAUTHORIZED)), es)
      | Returns (Some uid) \<Rightarrow> map_prod Returns id (and_then (check_api_key now uid api_key es) (\<lambda>u. handler uid)))"

section \<open>Sending\<close>

definition plain_text_content :: "SendMessageRequest \<Rightarrow> (string \<times> string) option" where
  "plain_text_content req =
     (case req of
        ReqText t \<Rightarrow> Some (t, ''text/plain'')
      | ReqMarkdown t \<Rightarrow> Some (t, ''text/markdown'')
      | _ \<Rightarrow> None)"

definition user_is_bot :: "(i64, CacheUser) fmap \<Rightarrow> i64 \<Rightarrow> bool" where
  "user_is_bot users uid \<longleftrightarrow> (case fmlookup users uid of None \<Rightarrow> False | Some u \<Rightarrow> cu_is_bot u)"

text \<open>\<open>to_text\<close> prints the body of an error; \<open>status_ok\<close> says whether the database works for the status.\<close>

definition maybe_send_as_managed_bot ::
    "('j, 'db) Env \<Rightarrow> 'j bot_env \<Rightarrow> ((string \<times> string) list \<Rightarrow> string) \<Rightarrow> bool \<Rightarrow> dm_draw \<Rightarrow> i64 \<Rightarrow> i64 \<Rightarrow> SendMessageRequest \<Rightarrow>
     ('j, 'db) E2eServer \<Rightarrow> (api_error + i64 option) \<times> ('j, 'db) E2eServer" where
  "maybe_send_as_managed_bot E B to_text status_ok d current_uid target_uid req es =
     (case plain_text_content req of
        None \<Rightarrow> (Inr None, es)
      | Some (plaintext, content_type) \<Rightarrow>
          if \<not> user_is_bot (es_users es) current_uid \<or> user_is_bot (es_users es) target_uid then (Inr None, es)
          else (case bot_status status_ok B current_uid (es_bot es) of
              Inl e \<Rightarrow> (Inr None, es)
            | Inr s \<Rightarrow>
                if \<not> bst_initialized s then (Inr None, es)
                else (case send_bot_dm E B d current_uid target_uid content_type plaintext es of
                    (Inl e, es') \<Rightarrow> (Inl (into_poem_error to_text e), es')
                  | (Inr mid, es') \<Rightarrow> (Inr (Some mid), es'))))"

definition es_send ::
    "('j, 'db) Env \<Rightarrow> SendMessageRequest \<Rightarrow> i64 \<Rightarrow> MessageTarget \<Rightarrow> 'j props option \<Rightarrow> ('j, 'db) E2eServer \<Rightarrow>
     (api_error + i64) \<times> ('j, 'db) E2eServer" where
  "es_send E req uid target properties es =
     (case into_chat_message_payload E req uid target properties of
        Inl e \<Rightarrow> (Inl e, es)
      | Inr payload \<Rightarrow>
          (case send_message E payload (es_server es) of (r, srv) \<Rightarrow> (r, es\<lparr>es_server := srv\<rparr>)))"

definition bot_send_to_user ::
    "('j, 'db) Env \<Rightarrow> 'j bot_env \<Rightarrow> ((string \<times> string) list \<Rightarrow> string) \<Rightarrow> bool \<Rightarrow> dm_draw \<Rightarrow> i64 \<Rightarrow> 'j props option \<Rightarrow>
     SendMessageRequest \<Rightarrow> i64 \<Rightarrow> ('j, 'db) E2eServer \<Rightarrow> (api_error + i64) \<times> ('j, 'db) E2eServer" where
  "bot_send_to_user E B to_text status_ok d uid properties req current_uid es =
     and_then (maybe_send_as_managed_bot E B to_text status_ok d current_uid uid req es) (\<lambda>sent es'.
       case sent of
         Some mid \<Rightarrow> (Inr mid, es')
       | None \<Rightarrow> es_send E req current_uid (TargetUser uid) properties es')"

definition bot_send_to_group ::
    "('j, 'db) Env \<Rightarrow> i64 \<Rightarrow> 'j props option \<Rightarrow> SendMessageRequest \<Rightarrow> i64 \<Rightarrow> ('j, 'db) E2eServer \<Rightarrow>
     (api_error + i64) \<times> ('j, 'db) E2eServer" where
  "bot_send_to_group E gid properties req current_uid es = es_send E req current_uid (TargetGroup gid) properties es"

definition bot_related_groups ::
    "bool option \<Rightarrow> i64 \<Rightarrow> ('j, 'db) E2eServer \<Rightarrow> (api_error + 'j Group list) \<times> ('j, 'db) E2eServer" where
  "bot_related_groups public_only current_uid es =
     (Inr (get_related_groups (ca_groups (es_cache es)) current_uid (case public_only of None \<Rightarrow> False | Some b \<Rightarrow> b)), es)"

definition bot_group_info :: "i64 \<Rightarrow> i64 \<Rightarrow> ('j, 'db) E2eServer \<Rightarrow> (api_error + 'j Group) \<times> ('j, 'db) E2eServer" where
  "bot_group_info gid current_uid es =
     (ok_or (from_status NOT_FOUND) (map_option (\<lambda>g. api_group g gid) (fmlookup (ca_groups (es_cache es)) gid)), es)"

end
