(* ===== verification/Bot_Json.thy ===== *)
theory Bot_Json
  imports Bot_Vault
begin

text \<open>
  What the vault relies on in \<open>serde_json\<close>, the locale \<open>bot_json_contract\<close>: derived codecs read back what they wrote,
  objects have the members they were made of, and the wire format of a message is read back. And a concrete JSON,
  in which a value is the list of its parts, each preceded by its length.
\<close>

definition material_ok :: "BotSecretMaterial \<Rightarrow> bool" where
  "material_ok m \<longleftrightarrow> length (bs_identity_x25519 m) = 32 \<and> length (bs_identity_ed25519 m) = 32 \<and>
     length (bs_signed_prekey_secret m) = 32 \<and> length (bs_mls_seed m) = 32 \<and>
     (\<forall>s \<in> set (bs_one_time_prekeys m). length (os_secret s) = 32 \<and> os_key_id s < 2 ^ 32)"

definition envelope_ok :: "DeferredEnvelope \<Rightarrow> bool" where
  "envelope_ok e \<longleftrightarrow> im_used_signed_prekey_id (dv_x3dh_initial e) < 2 ^ 32 \<and>
     (case im_used_one_time_prekey_id (dv_x3dh_initial e) of None \<Rightarrow> True | Some i \<Rightarrow> i < 2 ^ 32)"

locale bot_json_contract =
  fixes J :: "'j bot_json"
  assumes identity_codec: "\<exists>s. bj_of_identity J p = Inr s \<and> bj_to_identity J s = Inr p"
    and material_codec: "material_ok m \<Longrightarrow> \<exists>s. bj_of_material J m = Inr s \<and> bj_to_material J s = Inr m"
    and envelope_codec: "envelope_ok e \<Longrightarrow> \<exists>s. bj_of_envelope J e = Inr s \<and> bj_to_envelope J s = Inr e"
    and object_get: "distinct (map fst ms) \<Longrightarrow> bj_get J (bj_object J ms) k = map_of ms k"
    and string_read: "as_str (bj_ops J) (json_string (bj_ops J) s) = Some s"
    and wire_codec: "bj_to_wire J (bj_print J (bj_object J
        [(''ciphertext_b64'', json_string (bj_ops J) c), (''nonce_b64'', json_string (bj_ops J) n), (''metadata'', v)])) =
      Inr (\<lparr>iw_ciphertext_b64 = c, iw_nonce_b64 = n\<rparr>, v)"

section \<open>A concrete JSON\<close>

definition parts :: "string list \<Rightarrow> string" where
  "parts ss = concat (map (\<lambda>s. replicate (length s) CHR ''1'' @ CHR ''0'' # s) ss)"

function unparts :: "string \<Rightarrow> string list" where
  "unparts s =
     (if s = [] then []
      else
        let n = length (takeWhile (\<lambda>c. c = CHR ''1'') s)
        in take n (drop (Suc n) s) # unparts (drop (Suc (n + n)) s))"
  by pat_completeness auto
termination by (relation "measure length") (auto simp: Let_def)

declare unparts.simps [simp del]

lemma unparts_parts [simp]: "unparts (parts ss) = ss"
proof (induction ss)
  case Nil
  then show ?case by (simp add: parts_def unparts.simps)
next
  case (Cons s ss)
  let ?n = "length s" and ?x = "parts (s # ss)"
  have tw: "takeWhile (\<lambda>c. c = CHR ''1'') (replicate n CHR ''1'' @ CHR ''0'' # xs) = replicate n CHR ''1''" for n xs
    by (induction n) auto
  have x: "?x = replicate ?n CHR ''1'' @ CHR ''0'' # s @ parts ss" by (simp add: parts_def)
  have one: "drop (Suc ?n) ?x = s @ parts ss" unfolding x by (induction ?n) auto
  then have two: "drop (Suc (?n + ?n)) ?x = parts ss"
    by (metis add_Suc append_eq_conv_conj drop_drop add.commute)
  have "length (takeWhile (\<lambda>c. c = CHR ''1'') ?x) = ?n" unfolding x tw by simp
  then have "unparts ?x = take ?n (drop (Suc ?n) ?x) # unparts (drop (Suc (?n + ?n)) ?x)"
    by (subst unparts.simps) (simp add: x Let_def del: drop_append drop_Suc_Cons)
  then show ?case unfolding one two using Cons by simp
qed

definition num :: "nat \<Rightarrow> string" where
  "num n = replicate n CHR ''i''"

definition opt_part :: "nat option \<Rightarrow> string list" where
  "opt_part i = (case i of None \<Rightarrow> [''n''] | Some n \<Rightarrow> [''s'', num n])"

definition part_opt :: "string list \<Rightarrow> nat option" where
  "part_opt ss = (if hd ss = ''n'' then None else Some (length (ss ! 1)))"

lemma part_opt_part [simp]: "part_opt (opt_part i) = i"
  by (cases i) (simp_all add: part_opt_def opt_part_def num_def)

fun pairs :: "string list \<Rightarrow> (string \<times> string) list" where
  "pairs (k # v # ss) = (k, v) # pairs ss"
| "pairs _ = []"

lemma pairs_flat [simp]: "pairs (concat (map (\<lambda>(k, v). [k, v]) ms)) = ms"
  by (induction ms) auto

definition text_object :: "(string \<times> string) list \<Rightarrow> string" where
  "text_object ms = parts (''o'' # concat (map (\<lambda>(k, v). [k, v]) ms))"

definition text_get :: "string \<Rightarrow> string \<Rightarrow> string option" where
  "text_get v k = (if take 1 (unparts v) = [''o''] then map_of (pairs (tl (unparts v))) k else None)"

definition text_string :: "string \<Rightarrow> string" where
  "text_string s = parts [''s'', s]"

definition text_int :: "int \<Rightarrow> string" where
  "text_int i = parts [''i'', if i < 0 then ''-'' else '''', num (nat \<bar>i\<bar>)]"

definition text_as_str :: "string \<Rightarrow> string option" where
  "text_as_str v = (if take 1 (unparts v) = [''s''] then Some (unparts v ! 1) else None)"

definition text_as_int :: "string \<Rightarrow> int option" where
  "text_as_int v = (if take 1 (unparts v) = [''i'']
     then Some ((if unparts v ! 1 = '''' then 1 else -1) * int (length (unparts v ! 2))) else None)"

definition text_ops :: "string json_ops" where
  "text_ops = \<lparr> as_str = text_as_str,
     as_u64 = (\<lambda>v. case text_as_int v of Some i \<Rightarrow> if 0 \<le> i \<and> i < 2 ^ 64 then Some (nat i) else None | None \<Rightarrow> None),
     as_i64 = (\<lambda>v. case text_as_int v of Some i \<Rightarrow> if in_i64 i then Some i else None | None \<Rightarrow> None),
     as_bool = (\<lambda>v. if unparts v = [''b'', ''t''] then Some True else if unparts v = [''b'', ''f''] then Some False else None),
     as_array = (\<lambda>v. if take 1 (unparts v) = [''a''] then Some (tl (unparts v)) else None),
     json_string = text_string, json_u64 = (\<lambda>n. text_int (int n)) \<rparr>"

definition material_parts :: "BotSecretMaterial \<Rightarrow> string" where
  "material_parts m = parts ([bs_identity_x25519 m, bs_identity_ed25519 m, bs_signed_prekey_secret m, bs_mls_seed m] @
     concat (map (\<lambda>(k, v). [k, v]) (map (\<lambda>s. (num (os_key_id s), os_secret s)) (bs_one_time_prekeys m))))"

definition parts_material :: "string \<Rightarrow> BotSecretMaterial" where
  "parts_material v = (let ss = unparts v in
     \<lparr> bs_identity_x25519 = ss ! 0, bs_identity_ed25519 = ss ! 1, bs_signed_prekey_secret = ss ! 2,
       bs_one_time_prekeys = map (\<lambda>(k, s). \<lparr>os_key_id = length k, os_secret = s\<rparr>) (pairs (drop 4 ss)), bs_mls_seed = ss ! 3 \<rparr>)"

definition envelope_parts :: "DeferredEnvelope \<Rightarrow> string" where
  "envelope_parts e = (let x = dv_x3dh_initial e in
     parts ([dv_alg e, dv_nonce_b64 e, dv_wrapped_key_b64 e, im_identity_dh_pub_b64 x, im_ephemeral_pub_b64 x,
       num (im_used_signed_prekey_id x)] @ opt_part (im_used_one_time_prekey_id x)))"

definition parts_envelope :: "string \<Rightarrow> DeferredEnvelope" where
  "parts_envelope v = (let ss = unparts v in
     \<lparr> dv_alg = ss ! 0,
       dv_x3dh_initial = \<lparr> im_identity_dh_pub_b64 = ss ! 3, im_ephemeral_pub_b64 = ss ! 4,
         im_used_signed_prekey_id = length (ss ! 5), im_used_one_time_prekey_id = part_opt (drop 6 ss) \<rparr>,
       dv_nonce_b64 = ss ! 1, dv_wrapped_key_b64 = ss ! 2 \<rparr>)"

definition text_json :: "string bot_json" where
  "text_json = \<lparr> bj_ops = text_ops, bj_object = text_object, bj_get = text_get, bj_int = text_int,
     bj_bool = (\<lambda>b. parts [''b'', if b then ''t'' else ''f'']), bj_print = (\<lambda>v. v), bj_to_vec = Inr,
     bj_of_identity = (\<lambda>p. Inr (parts [identity_dh_pub_b64 p, identity_sig_pub_b64 p])),
     bj_to_identity = (\<lambda>s. case unparts s of
        [d, g] \<Rightarrow> Inr \<lparr>identity_dh_pub_b64 = d, identity_sig_pub_b64 = g\<rparr> | _ \<Rightarrow> Inl ''invalid''),
     bj_of_material = (\<lambda>m. Inr (material_parts m)), bj_to_material = (\<lambda>s. Inr (parts_material s)),
     bj_of_envelope = (\<lambda>e. Inr (envelope_parts e)), bj_to_envelope = (\<lambda>s. Inr (parts_envelope s)),
     bj_to_wire = (\<lambda>s.
        case (Option.bind (text_get s ''ciphertext_b64'') text_as_str, Option.bind (text_get s ''nonce_b64'') text_as_str,
            text_get s ''metadata'') of
          (Some c, Some n, Some m) \<Rightarrow> Inr (\<lparr>iw_ciphertext_b64 = c, iw_nonce_b64 = n\<rparr>, m)
        | _ \<Rightarrow> Inl ''invalid'') \<rparr>"

lemma text_simps [simp]:
  "text_get (text_object ms) k = map_of ms k"
  "text_as_str (text_string s) = Some s"
  "text_as_int (text_int i) = Some i"
  by (simp_all add: text_get_def text_object_def text_as_str_def text_string_def text_as_int_def text_int_def num_def)

lemma pairs_flat_map [simp]: "pairs (concat (map (\<lambda>x. [g x, h x]) xs)) = map (\<lambda>x. (g x, h x)) xs"
  by (induction xs) auto

lemma parts_material_parts [simp]: "parts_material (material_parts m) = m"
  by (cases m) (simp add: parts_material_def material_parts_def Let_def num_def o_def case_prod_beta eval_nat_numeral map_idI)

lemma parts_envelope_parts [simp]: "parts_envelope (envelope_parts e) = e"
  by (cases e; cases "dv_x3dh_initial e") (simp add: parts_envelope_def envelope_parts_def Let_def num_def eval_nat_numeral)

interpretation demo_json: bot_json_contract text_json
  by unfold_locales (simp_all add: text_json_def text_ops_def)

end
