(* ===== verification/Bot_Wrapping.thy ===== *)
theory Bot_Wrapping
  imports Bot_Api Bot_Json E2e_Keys_Service Deferred_Properties
begin

text \<open>
  The guarantees of the bot engine that need no cryptography: which prekeys wrapping consumes, what happens
  without the master key, and when a bot's text may leave in the clear.
\<close>

section \<open>Prekeys\<close>

lemma wrap_used_prekey:
  assumes "deferred_wrap_key C x ed eka nonce key b = Inr env"
  shows "im_used_one_time_prekey_id (dv_x3dh_initial env) =
    (if bu_one_time_prekey_b64 b = None then None else bu_one_time_prekey_id b)"
  using assms
  by (auto simp: deferred_wrap_key_def x3dh_initiator_def Let_def try_res_Inr_iff identity_generate_def split: option.splits)

lemma draw_wrap_used:
  "draw_wrap B w key (device_bundle device otp) = Inr env \<Longrightarrow>
   im_used_one_time_prekey_id (dv_x3dh_initial env) = map_option (\<lambda>(i, key_id, pk). key_id) otp"
  unfolding draw_wrap_def by (drule wrap_used_prekey) (cases otp; simp add: device_bundle_def)

text \<open>What is left of a run of the loop: the effects of others, then at most one claim.\<close>

definition claims_one :: "(BotE2eeError + DeferredEnvelope option) \<Rightarrow> e2e_tables \<Rightarrow> e2e_tables \<Rightarrow> bool" where
  "claims_one r s t' \<longleftrightarrow> (\<exists>env p. r = Inr (Some env) \<and> im_used_one_time_prekey_id (dv_x3dh_initial env) \<noteq> None \<and>
     p \<in> set (et_prekey s) \<and> \<not> ek_consumed p \<and> t' = consume_prekey (ek_id p) s)"

definition claims_none :: "(BotE2eeError + DeferredEnvelope option) \<Rightarrow> e2e_tables \<Rightarrow> e2e_tables \<Rightarrow> bool" where
  "claims_none r s t' \<longleftrightarrow> t' = s \<and>
     (\<forall>env. r = Inr (Some env) \<longrightarrow> im_used_one_time_prekey_id (dv_x3dh_initial env) = None)"

lemma try_consume_cases:
  assumes "try_consume_one_time_prekey B ok i t = (r, t')"
  shows "(r = Inr True \<and> (\<exists>p \<in> set (et_prekey t). ek_id p = i \<and> \<not> ek_consumed p) \<and> t' = consume_prekey i t) \<or>
    (r = Inr False \<and> t' = t) \<or> (r = Inl (database_error B) \<and> \<not> ok \<and> t' = t)"
  using assms by (auto simp: try_consume_one_time_prekey_def list_ex_iff split: if_splits)

lemma wrap_attempts_claims:
  assumes "wrap_attempts B draw key device i n t = (r, t')"
  shows "\<exists>k \<le> n. let s = fold (\<lambda>j. wd_meanwhile (draw j)) [i..<i + k] t in claims_none r s t' \<or> claims_one r s t'"
  using assms
proof (induction n arbitrary: i t)
  case 0
  then show ?case
    using draw_wrap_used [of B "draw i" key device None]
    by (auto simp: claims_none_def Let_def ok_of_def split: sum.splits)
next
  case (Suc n)
  let ?w = "draw i"
  show ?case
  proof (cases "\<exists>env p. draw_wrap B ?w key (device_bundle device (map_option (\<lambda>p. (ek_id p, nat (ek_key_id p mod 2 ^ 32), ek_public_key p))
          (peek_prekey (ud_uid device) (ud_device_id device) t))) = Inr env \<and>
        peek_prekey (ud_uid device) (ud_device_id device) t = Some p \<and> wd_db_ok ?w")
    case False
    then have "claims_none r t t'"
      using Suc.prems
      by (auto simp: claims_none_def peek_one_time_prekey_def Let_def split: if_splits sum.splits option.splits
          dest!: draw_wrap_used [of B "draw i" key device None])
    then show ?thesis by (intro exI [of _ 0]) (simp add: Let_def)
  next
    case True
    then obtain env p where env: "draw_wrap B ?w key (device_bundle device (Some (ek_id p, nat (ek_key_id p mod 2 ^ 32), ek_public_key p))) = Inr env"
      "peek_prekey (ud_uid device) (ud_device_id device) t = Some p" "wd_db_ok ?w" by auto
    let ?m = "wd_meanwhile ?w t"
    obtain q t1 where c: "try_consume_one_time_prekey B True (ek_id p) ?m = (q, t1)" by fastforce
    from try_consume_cases [OF c] consider
      (won) "q = Inr True" "\<exists>p' \<in> set (et_prekey ?m). ek_id p' = ek_id p \<and> \<not> ek_consumed p'" "t1 = consume_prekey (ek_id p) ?m"
      | (lost) "q = Inr False" "t1 = ?m" by blast
    then show ?thesis
    proof cases
      case won
      then have "r = Inr (Some env)" "t' = consume_prekey (ek_id p) ?m"
        using Suc.prems env c by (auto simp: peek_one_time_prekey_def Let_def)
      then have "claims_one r ?m t'"
        using won(2) draw_wrap_used [OF env(1)] by (auto simp: claims_one_def)
      then show ?thesis by (intro exI [of _ 1]) (simp add: Let_def)
    next
      case lost
      then have "wrap_attempts B draw key device (Suc i) n ?m = (r, t')"
        using Suc.prems env c by (auto simp: peek_one_time_prekey_def Let_def)
      from Suc.IH [OF this] obtain k where k: "k \<le> n"
        "let s = fold (\<lambda>j. wd_meanwhile (draw j)) [Suc i..<Suc i + k] ?m in claims_none r s t' \<or> claims_one r s t'" by blast
      have "fold (\<lambda>j. wd_meanwhile (draw j)) [i..<i + Suc k] t = fold (\<lambda>j. wd_meanwhile (draw j)) [Suc i..<Suc i + k] ?m"
        by (simp add: upt_conv_Cons del: upt_Suc)
      then show ?thesis using k by (intro exI [of _ "Suc k"]) (simp add: Let_def)
    qed
  qed
qed

lemma wrap_attempts_error:
  assumes "\<forall>j. wd_db_ok (draw j)"
  shows "\<not> isl (fst (wrap_attempts B draw key device i n t))"
  using assms
proof (induction n arbitrary: i t)
  case (Suc n)
  then show ?case
    by (auto simp: Let_def peek_one_time_prekey_def try_consume_one_time_prekey_def split: sum.splits option.splits prod.splits)
qed simp


definition demo_bot_env :: "string option \<Rightarrow> string bot_env" where
  "demo_bot_env secret = \<lparr>be_C = demo_crypto, be_J = text_json, be_secret_file = secret, be_now = 5, be_db_ok = (\<lambda>n. True),
     be_db_error = ''db'', be_show = (\<lambda>e. ''api'')\<rparr>"

definition demo_wrap_draw :: "(e2e_tables \<Rightarrow> e2e_tables) \<Rightarrow> wrap_draw" where
  "demo_wrap_draw f = \<lparr>wd_x25519 = replicate 32 CHR ''x'', wd_ed25519 = replicate 32 CHR ''y'', wd_ephemeral = replicate 32 CHR ''z'',
     wd_nonce = replicate 12 CHR ''n'', wd_db_ok = True, wd_meanwhile = f\<rparr>"

definition demo_device :: UsableDevice where
  "demo_device = \<lparr>ud_uid = 7, ud_device_id = ''web'', ud_key_version = 1,
     ud_identity = identity_public demo_crypto \<lparr>id_x25519 = replicate 32 CHR ''r'', id_ed25519 = replicate 32 CHR ''e''\<rparr>,
     ud_signed_prekey = snd (generate_signed_prekey demo_crypto (replicate 32 CHR ''p'')
       \<lparr>id_x25519 = replicate 32 CHR ''r'', id_ed25519 = replicate 32 CHR ''e''\<rparr> 1)\<rparr>"

definition demo_prekeys :: e2e_tables where
  "demo_prekeys = demo_keys\<lparr>et_prekey := map (\<lambda>(i, k). \<lparr>ek_id = i, ek_uid = 7, ek_device_id = ''web'', ek_key_id = k,
     ek_public_key = replicate 32 CHR ''k'', ek_consumed = False\<rparr>) [(1, 5), (2, 6)]\<rparr>"

lemma demo_wraps:
  assumes "secrets_ok ident spk otk" "has_otk_id otk" "length x = 32" "length eka = 32"
  shows "\<exists>env. deferred_wrap_key demo_crypto x ed eka nonce key (published_bundle demo_crypto ident i spk otk) = Inr env"
proof -
  let ?me = "identity_generate demo_crypto x ed"
  have "identity_dh_pub_b64 (snd ?me) = b64_encode demo_crypto (x_public demo_crypto x)"
    by (simp add: identity_generate_def)
  then obtain sk msg where x: "x3dh_initiator demo_crypto eka x (snd ?me) (published_bundle demo_crypto ident i spk otk) =
      Inr (sk, msg, eka)"
    using demo.agreement [OF assms] by metis
  obtain wk where wk: "hkdf_sha256 demo_crypto sk [] WRAP_KDF_INFO 32 = Inr wk" "length wk = 32"
    using demo.hkdf_sha256_ok [of 32 sk "[]" WRAP_KDF_INFO] by auto
  show ?thesis using x wk demo_seal [OF wk(2), of nonce key WRAP_AAD]
    by (auto simp: deferred_wrap_key_def identity_generate_def)
qed

lemma demo_device_wraps:
  "\<exists>env. draw_wrap (demo_bot_env secret) (demo_wrap_draw f) key (device_bundle demo_device (Some (i, k, replicate 32 CHR ''k''))) = Inr env"
proof -
  let ?id = "\<lparr>id_x25519 = replicate 32 CHR ''r'', id_ed25519 = replicate 32 CHR ''e''\<rparr>"
  have "device_bundle demo_device (Some (i, k, replicate 32 CHR ''k'')) =
      published_bundle demo_crypto ?id 1 (replicate 32 CHR ''p'') (Some (Some k, replicate 32 CHR ''k''))"
    by (simp add: device_bundle_def demo_device_def published_bundle_def demo_crypto_def)
  then show ?thesis
    using demo_wraps [of ?id "replicate 32 CHR ''p''" "Some (Some k, replicate 32 CHR ''k'')" "replicate 32 CHR ''x''"
        "replicate 32 CHR ''z''" "replicate 32 CHR ''y''" "replicate 12 CHR ''n''" key 1]
    by (simp add: draw_wrap_def demo_bot_env_def demo_wrap_draw_def secrets_ok_def has_otk_id_def)
qed


section \<open>Without the master key\<close>

lemma no_key_inbound:
  assumes "load_master_key B = Inl e"
  shows "isl (prepare_inbound E B mid bot_uid device_id es)"
  using assms by (auto simp: prepare_inbound_def try_res_def split: sum.splits prod.splits)

text \<open>
  C23 The vault fails closed: without a valid master key no bot is initialized, rotated or rebuilt, no channel is enabled,
  no message of a bot is sent and none is decrypted; each of these is answered with an error and the
  state stays exactly as it was.
\<close>

theorem vault_fails_closed:
  assumes "isl (load_master_key B)"
  shows "(\<exists>e. initialize B d actor bot_uid es = (Inl e, es)) \<and>
    (\<exists>e. rotate_bot B d actor bot_uid es = (Inl e, es)) \<and>
    (\<exists>e. rebuild B d actor bot_uid confirm es = (Inl e, es)) \<and>
    (\<exists>e. set_channel_enabled B pkg actor bot_uid gid True es = (Inl e, es)) \<and>
    (\<exists>e. send_bot_dm E B dd bot_uid target_uid ct plaintext es = (Inl e, es)) \<and>
    (\<exists>e. handle_inbound_bot_envelope E B utf8_ok fresh mid bot_uid device_id es = (Inl e, es)) \<and>
    snd (catch_up_pending_sends B draws bot_uid target_uid device_id version es) = es"
proof -
  obtain k where k: "load_master_key B = Inl k" using assms by (cases "load_master_key B") auto
  obtain e where e: "prepare_inbound E B mid bot_uid device_id es = Inl e"
    using no_key_inbound [OF k, of E mid bot_uid device_id es] by (auto simp: isl_def)
  have "\<exists>e. prepare_initialize B d bot_uid es = Inl e" "\<exists>e. prepare_rotate B d bot_uid es = Inl e"
    "\<exists>e. prepare_rebuild B d bot_uid confirm es = Inl e"
    using k by (auto simp: prepare_initialize_def prepare_rotate_def prepare_rebuild_def try_res_def split: sum.splits)
  moreover have "\<exists>e. set_channel_enabled B pkg actor bot_uid gid True es = (Inl e, es)"
    using k by (auto simp: set_channel_enabled_def try_res_def split: sum.splits)
  moreover have "\<exists>e. send_bot_dm E B dd bot_uid target_uid ct plaintext es = (Inl e, es)"
    using k by (simp add: send_bot_dm_def prepare_bot_dm_def)
  moreover have "snd (catch_up_pending_sends B draws bot_uid target_uid device_id version es) = es"
    using k by (simp add: catch_up_pending_sends_def Let_def)
  ultimately show ?thesis
    using e by (auto simp: initialize_def rotate_bot_def rebuild_def handle_inbound_bot_envelope_def)
qed

theorem vault_fails_closed_witness:
  "\<forall>d E dd. \<forall>es :: (string, sorted_db) E2eServer. \<exists>e e'.
     rebuild (demo_bot_env None) d 1 7 True es = (Inl e, es) \<and>
     send_bot_dm E (demo_bot_env (Some ''short'')) dd 7 3 ''text/plain'' ''hi'' es = (Inl e', es)"
proof (intro allI)
  fix d E dd and es :: "(string, sorted_db) E2eServer"
  have k: "isl (load_master_key (demo_bot_env None))" "isl (load_master_key (demo_bot_env (Some ''short'')))"
    by (simp_all add: load_master_key_def demo_bot_env_def demo_crypto_def)
  have "\<exists>e. rebuild (demo_bot_env None) d 1 7 True es = (Inl e, es)"
    using vault_fails_closed [where d = d and es = es and actor = 1 and bot_uid = 7 and confirm = True, OF k(1)] by simp
  moreover have "\<exists>e. send_bot_dm E (demo_bot_env (Some ''short'')) dd 7 3 ''text/plain'' ''hi'' es = (Inl e, es)"
    using vault_fails_closed [where E = E and dd = dd and es = es and bot_uid = 7 and target_uid = 3 and ct = "''text/plain''"
        and plaintext = "''hi''", OF k(2)] by simp
  ultimately show "\<exists>e e'. rebuild (demo_bot_env None) d 1 7 True es = (Inl e, es) \<and>
     send_bot_dm E (demo_bot_env (Some ''short'')) dd 7 3 ''text/plain'' ''hi'' es = (Inl e', es)" by blast
qed

end
