(* ===== verification/Bot_Backing.thy ===== *)
theory Bot_Backing
  imports Bot_Wrapping
begin

text \<open>
  The vault and the published keys agree: what a bot publishes is always the public half of what its vault
  holds, through initialization, rotation, rebuilding and the handing out of bundles.
\<close>

section \<open>Secrets and public keys\<close>

definition mat_identity :: "BotSecretMaterial \<Rightarrow> IdentitySecret" where
  "mat_identity m = \<lparr>id_x25519 = bs_identity_x25519 m, id_ed25519 = bs_identity_ed25519 m\<rparr>"

text \<open>The one-time secret of a published prekey is in the vault under its id.\<close>

definition otp_backs :: "crypto \<Rightarrow> BotSecretMaterial \<Rightarrow> i32 \<Rightarrow> string \<Rightarrow> bool" where
  "otp_backs C m key_id public \<longleftrightarrow> 0 \<le> key_id \<and> key_id < 2 ^ 32 \<and>
     (\<exists>s rest. take_otp (nat key_id) (bs_one_time_prekeys m) = Some (s, rest) \<and> length s = 32 \<and>
        public = b64_encode C (x_public C s))"

definition identity_backs :: "crypto \<Rightarrow> 'j bot_json \<Rightarrow> BotSecretMaterial \<Rightarrow> identity_row \<Rightarrow> bool" where
  "identity_backs C J m r \<longleftrightarrow> bj_to_identity J (ei_identity_key_pub r) = Inr (identity_public C (mat_identity m)) \<and>
     (let spk = snd (generate_signed_prekey C (bs_signed_prekey_secret m) (mat_identity m) BOT_KEY_ID)
      in ei_signed_prekey_pub r = Some (sp_dh_pub_b64 spk) \<and> ei_signed_prekey_sig r = Some (sp_signature_b64 spk))"

definition backed :: "crypto \<Rightarrow> 'j bot_json \<Rightarrow> BotSecretMaterial \<Rightarrow> i64 \<Rightarrow> string \<Rightarrow> e2e_tables \<Rightarrow> bool" where
  "backed C J m uid device_id t \<longleftrightarrow>
     (\<exists>r. find_identity t uid device_id = Some r \<and> identity_backs C J m r) \<and>
     (\<forall>p \<in> set (et_prekey t). prekey_of uid device_id p \<and> \<not> ek_consumed p \<longrightarrow> otp_backs C m (ek_key_id p) (ek_public_key p))"

definition row_holds :: "'j bot_env \<Rightarrow> bytes \<Rightarrow> bot_identity_row \<Rightarrow> BotSecretMaterial \<Rightarrow> bool" where
  "row_holds B master_key row m \<longleftrightarrow> material_ok m \<and>
     (\<exists>pt. vault_open (be_C B) master_key (bi_nonce row) (bi_ciphertext row) = Inr pt \<and> bj_to_material (be_J B) pt = Inr m)"

definition vault_backed :: "'j bot_env \<Rightarrow> bytes \<Rightarrow> i64 \<Rightarrow> bot_tables \<Rightarrow> e2e_tables \<Rightarrow> bool" where
  "vault_backed B master_key uid bt t \<longleftrightarrow>
     (case fmlookup (bt_identity bt) uid of
        None \<Rightarrow> \<not> (\<exists>p \<in> set (et_prekey t). prekey_of uid (bot_device_id uid) p \<and> \<not> ek_consumed p)
      | Some row \<Rightarrow> bi_device_id row = bot_device_id uid \<and>
          (\<exists>m. row_holds B master_key row m \<and> backed (be_C B) (be_J B) m uid (bot_device_id uid) t))"

definition key_draw_ok :: "key_draw \<Rightarrow> bool" where
  "key_draw_ok d \<longleftrightarrow> length (kd_x25519 d) = 32 \<and> length (kd_ed25519 d) = 32 \<and> length (kd_spk d) = 32 \<and>
     (\<forall>i. length (kd_otk d i) = 32) \<and> length (kd_mls_seed d) = 32 \<and> length (kd_nonce d) = 12"

lemma take_otp_map:
  "i \<in> set ks \<Longrightarrow> \<exists>rest. take_otp i (map (\<lambda>k. \<lparr>os_key_id = k, os_secret = f k\<rparr>) ks) = Some (f i, rest)"
  by (induction ks) auto

lemma fresh_otps_back:
  assumes "(key_id, public) \<in> set (prekey_items (otp_publics C ident d))" "bs_one_time_prekeys m = otp_secrets d" "key_draw_ok d"
  shows "otp_backs C m key_id public"
proof -
  obtain i where i: "i \<in> {1..<Suc OTP_BATCH_SIZE}" "key_id = int i" "public = b64_encode C (x_public C (kd_otk d i))"
    using assms(1) by (auto simp: prekey_items_def otp_publics_def generate_signed_prekey_def Let_def)
  moreover obtain rest where "take_otp i (otp_secrets d) = Some (kd_otk d i, rest)"
    using take_otp_map [of i "[1..<Suc OTP_BATCH_SIZE]" "kd_otk d"] i(1) unfolding otp_secrets_def set_upt by blast
  ultimately show ?thesis
    using assms(2,3) by (auto simp: otp_backs_def key_draw_ok_def OTP_BATCH_SIZE_def)
qed

lemma fresh_otps_ok: "key_draw_ok d \<Longrightarrow> \<forall>s \<in> set (otp_secrets d). length (os_secret s) = 32 \<and> os_key_id s < 2 ^ 32"
  by (auto simp: otp_secrets_def key_draw_ok_def OTP_BATCH_SIZE_def)

lemma generated_ok:
  assumes "key_draw_ok d"
  shows "material_ok (gm_secret (generate_material C d))"
    "bs_one_time_prekeys (gm_secret (generate_material C d)) = otp_secrets d"
    "mat_identity (gm_secret (generate_material C d)) = \<lparr>id_x25519 = kd_x25519 d, id_ed25519 = kd_ed25519 d\<rparr>"
    "gm_identity_public (generate_material C d) = identity_public C (mat_identity (gm_secret (generate_material C d)))"
    "gm_signed_prekey_public (generate_material C d) = snd (generate_signed_prekey C
       (bs_signed_prekey_secret (gm_secret (generate_material C d))) (mat_identity (gm_secret (generate_material C d))) BOT_KEY_ID)"
    "gm_otp_publics (generate_material C d) = otp_publics C (mat_identity (gm_secret (generate_material C d))) d"
  using assms fresh_otps_ok [OF assms]
  by (simp_all add: generate_material_def Let_def identity_generate_def generate_signed_prekey_def mat_identity_def
      identity_public_def material_ok_def key_draw_ok_def)

lemma rotated_ok:
  assumes "key_draw_ok d" "material_ok m" "rotated_material C d m = (m', spk, publics)"
  shows "material_ok m'" "bs_one_time_prekeys m' = otp_secrets d" "mat_identity m' = mat_identity m"
    "spk = snd (generate_signed_prekey C (bs_signed_prekey_secret m') (mat_identity m') BOT_KEY_ID)"
    "publics = otp_publics C (mat_identity m') d"
  using assms fresh_otps_ok [OF assms(1)]
  by (auto simp: rotated_material_def Let_def generate_signed_prekey_def mat_identity_def material_ok_def key_draw_ok_def)

section \<open>Sealing\<close>

lemma json_result_Inr [simp]: "json_result r = Inr x \<longleftrightarrow> r = Inr x"
  by (cases r) (simp_all add: json_result_def)

lemma seal_material_holds:
  assumes "crypto_contract (be_C B)" "bot_json_contract (be_J B)" "material_ok m" "length fresh = 12"
    and "seal_material B fresh master_key m = Inr (nonce, ciphertext)" "bi_nonce row = nonce" "bi_ciphertext row = ciphertext"
  shows "row_holds B master_key row m"
proof -
  obtain s where s: "bj_of_material (be_J B) m = Inr s" "bj_to_material (be_J B) s = Inr m"
    using bot_json_contract.material_codec [OF assms(2,3)] by blast
  have v: "vault_seal (be_C B) fresh master_key s = Inr (nonce, ciphertext)"
    using assms(5) s by (simp add: seal_material_def json_result_def)
  then have "length master_key = 32" "nonce = fresh" "aes_encrypt (be_C B) master_key fresh s [] = Some ciphertext"
    by (auto simp: vault_seal_def split: if_splits option.splits)
  then have "vault_open (be_C B) master_key nonce ciphertext = Inr s"
    using crypto_contract.aes_open_seal [OF assms(1)] assms(4) by (simp add: vault_open_def)
  then show ?thesis using assms(3,6,7) s(2) by (auto simp: row_holds_def)
qed

section \<open>The key tables\<close>

text \<open>How a change of the prekeys of one device looks: kept rows, and rows with one of the given keys.\<close>

definition rows_from :: "i64 \<Rightarrow> string \<Rightarrow> (i32 \<times> string) list \<Rightarrow> e2e_tables \<Rightarrow> e2e_tables \<Rightarrow> bool" where
  "rows_from uid d keys t t' \<longleftrightarrow> et_identity t' = et_identity t \<and>
     (\<forall>p \<in> set (et_prekey t'). p \<in> set (et_prekey t) \<or> prekey_of uid d p \<and> (ek_key_id p, ek_public_key p) \<in> set keys)"

lemma rows_from_trans:
  "rows_from uid d keys t t1 \<Longrightarrow> rows_from uid d keys' t1 t2 \<Longrightarrow> rows_from uid d (keys @ keys') t t2"
  unfolding rows_from_def by (metis Un_iff set_append)

lemma rows_from_mono: "rows_from uid d keys t t' \<Longrightarrow> set keys \<subseteq> set keys' \<Longrightarrow> rows_from uid d keys' t t'"
  unfolding rows_from_def by blast

lemma insert_prekeys_rows: "insert_prekeys users uid d keys t = Some t' \<Longrightarrow> rows_from uid d keys t t'"
proof (induction keys arbitrary: t)
  case (Cons key keys)
  then obtain t1 where t1: "insert_prekey users uid d key t = Some t1" "insert_prekeys users uid d keys t1 = Some t'"
    by (auto simp: bind_eq_Some_conv)
  then have "rows_from uid d [key] t t1" by (auto simp: insert_prekey_def rows_from_def Let_def split: if_splits)
  from rows_from_trans [OF this Cons.IH [OF t1(2)]] show ?case by simp
qed (simp add: rows_from_def)

lemma upsert_prekeys_rows: "upsert_prekeys users uid d keys t = Some t' \<Longrightarrow> rows_from uid d keys t t'"
proof (induction keys arbitrary: t)
  case (Cons key keys)
  then obtain t1 where t1: "upsert_prekey users uid d key t = Some t1" "upsert_prekeys users uid d keys t1 = Some t'"
    by (auto simp: bind_eq_Some_conv)
  then have "rows_from uid d [key] t t1"
    by (auto simp: upsert_prekey_def insert_prekey_def rows_from_def Let_def split: if_splits)
  from rows_from_trans [OF this Cons.IH [OF t1(2)]] show ?case by simp
qed (simp add: rows_from_def)

lemma rows_from_backed:
  assumes "rows_from uid d keys t t'" "\<forall>p \<in> set (et_prekey t). prekey_of uid d p \<longrightarrow> ek_consumed p"
    and "\<forall>(key_id, public) \<in> set keys. otp_backs C m key_id public" "find_identity t uid d = Some r" "identity_backs C J m r"
  shows "backed C J m uid d t'"
  using assms by (auto simp: backed_def rows_from_def find_identity_def)

text \<open>A change of the keys of one user leaves the vaults of the others backed.\<close>

definition only_user :: "i64 \<Rightarrow> e2e_tables \<Rightarrow> e2e_tables \<Rightarrow> bool" where
  "only_user uid t t' \<longleftrightarrow> (\<forall>u d. u \<noteq> uid \<longrightarrow> find_identity t' u d = find_identity t u d) \<and>
     (\<forall>p \<in> set (et_prekey t'). ek_uid p \<noteq> uid \<longrightarrow> p \<in> set (et_prekey t))"

lemma other_vaults_backed:
  assumes "only_user uid t t'" "u \<noteq> uid" "fmlookup (bt_identity bt') u = fmlookup (bt_identity bt) u"
    and "vault_backed B master_key u bt t"
  shows "vault_backed B master_key u bt' t'"
proof -
  have "find_identity t' u d = find_identity t u d" for d using assms(1,2) by (simp add: only_user_def)
  moreover have "p \<in> set (et_prekey t)" if "p \<in> set (et_prekey t')" "prekey_of u d p" for p d
    using that assms(1,2) by (auto simp: only_user_def)
  ultimately have "backed C J m u d t'" if "backed C J m u d t" for C and J :: "'a bot_json" and m d
    using that by (auto simp: backed_def)
  with assms(3,4) \<open>\<And>d p. \<lbrakk>p \<in> set (et_prekey t'); prekey_of u d p\<rbrakk> \<Longrightarrow> p \<in> set (et_prekey t)\<close> show ?thesis
    by (fastforce simp: vault_backed_def split: option.splits)
qed

lemma rows_from_only: "rows_from uid d keys t t' \<Longrightarrow> only_user uid t t'"
  by (auto simp: rows_from_def only_user_def find_identity_def)

lemma only_user_trans: "only_user uid t t1 \<Longrightarrow> only_user uid t1 t2 \<Longrightarrow> only_user uid t t2"
  unfolding only_user_def by metis

section \<open>The operations\<close>

lemma audit_identity [simp]: "bt_identity (audit ok B uid actor action detail t) = bt_identity t"
  by (simp add: audit_def)

lemma audit_and_status_state:
  "audit_and_status B n actor uid action detail es = (r, es') \<Longrightarrow>
     bt_identity (es_bot es') = bt_identity (es_bot es) \<and> es_keys es' = es_keys es"
  by (auto simp: audit_and_status_def Let_def)

lemma device_consumed:
  "\<forall>p \<in> set (et_prekey (delete_unconsumed uid d t)). prekey_of uid d p \<longrightarrow> ek_consumed p"
  "\<forall>p \<in> set (et_prekey (delete_prekeys uid d t)). prekey_of uid d p \<longrightarrow> ek_consumed p"
  by (auto simp: delete_unconsumed_def delete_prekeys_def)

lemma deletions_only:
  "rows_from uid d [] t (delete_unconsumed uid d t)" "rows_from uid d [] t (delete_prekeys uid d t)"
  by (auto simp: rows_from_def delete_unconsumed_def delete_prekeys_def)

lemma update_identity_only:
  assumes "\<And>r. ei_uid (f r) = ei_uid r" "\<And>r. ei_device_id (f r) = ei_device_id r"
  shows "only_user uid t (update_identity uid d f t)"
  by (auto simp: only_user_def find_update_identity [OF assms]) (simp add: update_identity_def)

lemma backed_update:
  assumes "rows_from uid d keys t t'" "\<forall>p \<in> set (et_prekey t). prekey_of uid d p \<longrightarrow> ek_consumed p"
    and "\<forall>(key_id, public) \<in> set keys. otp_backs C m key_id public" "find_identity t uid d = Some r"
    and "\<And>r. ei_uid (f r) = ei_uid r" "\<And>r. ei_device_id (f r) = ei_device_id r" "identity_backs C J m (f r)"
  shows "backed C J m uid d (update_identity uid d f t')"
proof -
  have "find_identity t' uid d = Some r" using assms(1,4) by (simp add: rows_from_def find_identity_def)
  then have "find_identity (update_identity uid d f t') uid d = Some (f r)"
    by (simp add: find_update_identity [OF assms(5,6)])
  moreover have "et_prekey (update_identity uid d f t') = et_prekey t'" by (simp add: update_identity_def)
  ultimately show ?thesis using assms(1-3,7) by (auto simp: backed_def rows_from_def)
qed

text \<open>What an operation on the vault of one bot leaves.\<close>

definition op_backed :: "'j bot_env \<Rightarrow> bytes \<Rightarrow> i64 \<Rightarrow> ('j, 'db) E2eServer \<Rightarrow> ('j, 'db) E2eServer \<Rightarrow> bool" where
  "op_backed B master_key uid es es' \<longleftrightarrow> only_user uid (es_keys es) (es_keys es') \<and>
     (\<forall>u. u \<noteq> uid \<longrightarrow> fmlookup (bt_identity (es_bot es')) u = fmlookup (bt_identity (es_bot es)) u) \<and>
     vault_backed B master_key uid (es_bot es') (es_keys es')"

lemma op_backed_all:
  assumes "op_backed B master_key uid es es'" "\<forall>u. vault_backed B master_key u (es_bot es) (es_keys es)"
  shows "\<forall>u. vault_backed B master_key u (es_bot es') (es_keys es')"
proof
  fix u
  show "vault_backed B master_key u (es_bot es') (es_keys es')"
    using assms other_vaults_backed [of uid "es_keys es" "es_keys es'" u "es_bot es'" "es_bot es" B master_key]
    by (cases "u = uid") (auto simp: op_backed_def)
qed

lemma op_backed_refl: "vault_backed B master_key uid (es_bot es) (es_keys es) \<Longrightarrow> op_backed B master_key uid es es"
  by (simp add: op_backed_def only_user_def)

lemma initialize_backed:
  assumes env: "crypto_contract (be_C B)" "bot_json_contract (be_J B)" "load_master_key B = Inr master_key" "key_draw_ok d"
    and inv: "vault_backed B master_key uid (es_bot es) (es_keys es)"
    and run: "initialize B d actor uid es = (r, es')"
  shows "op_backed B master_key uid es es'"
proof (cases "prepare_initialize B d uid es")
  case (Inl e)
  then show ?thesis using run inv by (simp add: initialize_def op_backed_refl)
next
  case (Inr x)
  let ?g = "generate_material (be_C B) d" and ?dev = "bot_device_id uid"
  obtain ikp nonce ct where x: "x = (?g, ikp, nonce, ct)" and fresh: "fmlookup (bt_identity (es_bot es)) uid = None"
    and ikp: "bj_of_identity (be_J B) (gm_identity_public ?g) = Inr ikp"
    and sealed: "seal_material B (kd_nonce d) master_key (gm_secret ?g) = Inr (nonce, ct)"
    using Inr env(3)
    by (auto simp: prepare_initialize_def Let_def try_res_Inr_iff load_identity_row_def split: if_splits)
  note g = generated_ok [OF env(4), of "be_C B"]
  show ?thesis
  proof (cases "if be_db_ok B 1 then publish_bot_keys (be_now B) (fmdom' (tb_user (es_tables es))) uid ?dev ikp ?g (es_keys es)
      else None")
    case None
    then show ?thesis using run inv Inr x by (simp add: initialize_def op_backed_refl Let_def)
  next
    case (Some keys)
    let ?row = "new_bot_row (be_now B) ?dev ikp ?g (nonce, ct)"
    have es': "es_keys es' = keys" "bt_identity (es_bot es') = fmupd uid ?row (bt_identity (es_bot es))"
      using run Inr x Some by (auto simp: initialize_def Let_def dest!: audit_and_status_state)
    let ?entry = "bot_identity_entry (be_now B) uid ?dev ikp (gm_signed_prekey_public ?g)"
    let ?t = "(es_keys es)\<lparr>et_identity := et_identity (es_keys es) @ [?entry]\<rparr>"
    have ins: "insert_prekeys (fmdom' (tb_user (es_tables es))) uid ?dev (prekey_items (gm_otp_publics ?g)) ?t = Some keys"
      and none: "find_identity (es_keys es) uid ?dev = None"
      using Some by (auto simp: publish_bot_keys_def split: if_splits)
    note rows = insert_prekeys_rows [OF ins]
    have entry: "find_identity ?t uid ?dev = Some ?entry"
      using none by (simp add: find_identity_def find_append bot_identity_entry_def)
    have only: "only_user uid (es_keys es) ?t"
      by (auto simp: only_user_def find_identity_def find_append bot_identity_entry_def split: option.splits)
    have "\<exists>s. bj_of_identity (be_J B) (gm_identity_public ?g) = Inr s \<and> bj_to_identity (be_J B) s = Inr (gm_identity_public ?g)"
      by (rule bot_json_contract.identity_codec [OF env(2)])
    then have "identity_backs (be_C B) (be_J B) (gm_secret ?g) ?entry"
      using ikp g(4,5) by (auto simp: identity_backs_def bot_identity_entry_def Let_def)
    moreover have "\<forall>p \<in> set (et_prekey ?t). prekey_of uid ?dev p \<longrightarrow> ek_consumed p"
      using inv fresh by (auto simp: vault_backed_def)
    moreover have "\<forall>(key_id, public) \<in> set (prekey_items (gm_otp_publics ?g)). otp_backs (be_C B) (gm_secret ?g) key_id public"
      using fresh_otps_back g(2,6) env(4) by fastforce
    ultimately have "backed (be_C B) (be_J B) (gm_secret ?g) uid ?dev keys"
      using rows_from_backed [OF rows _ _ entry] by blast
    moreover have "row_holds B master_key ?row (gm_secret ?g)"
      using seal_material_holds [OF env(1,2) g(1) _ sealed] env(4) by (simp add: new_bot_row_def key_draw_ok_def)
    ultimately have "vault_backed B master_key uid (es_bot es') (es_keys es')"
      by (auto simp: vault_backed_def es' new_bot_row_def)
    then show ?thesis
      using es' only_user_trans [OF only rows_from_only [OF rows]] by (simp add: op_backed_def)
  qed
qed

lemma fresh_keys_back:
  assumes "key_draw_ok d" "bs_one_time_prekeys m = otp_secrets d" "publics = otp_publics C ident d"
  shows "\<forall>(key_id, public) \<in> set (prekey_items publics). otp_backs C m key_id public"
  using fresh_otps_back assms by fastforce

lemma rotate_backed:
  assumes env: "crypto_contract (be_C B)" "bot_json_contract (be_J B)" "load_master_key B = Inr master_key" "key_draw_ok d"
    and inv: "vault_backed B master_key uid (es_bot es) (es_keys es)"
    and run: "rotate_bot B d actor uid es = (r, es')"
  shows "op_backed B master_key uid es es'"
proof (cases "prepare_rotate B d uid es")
  case (Inl e)
  then show ?thesis using run inv by (simp add: rotate_bot_def op_backed_refl)
next
  case (Inr x)
  obtain row pt m m' spk publics nonce ct where x: "x = (row, spk, publics, nonce, ct)"
    and row: "fmlookup (bt_identity (es_bot es)) uid = Some row"
    and pt: "vault_open (be_C B) master_key (bi_nonce row) (bi_ciphertext row) = Inr pt" "bj_to_material (be_J B) pt = Inr m"
    and rot: "rotated_material (be_C B) d m = (m', spk, publics)"
    and sealed: "seal_material B (kd_nonce d) master_key m' = Inr (nonce, ct)"
    using Inr env(3)
    by (auto simp: prepare_rotate_def Let_def try_res_Inr_iff load_identity_row_def load_and_decrypt_material_def
        case_prod_beta split: if_splits) (metis prod.collapse)
  let ?dev = "bot_device_id uid"
  obtain old where dev: "bi_device_id row = ?dev" and m: "material_ok m"
    and old: "find_identity (es_keys es) uid ?dev = Some old" "identity_backs (be_C B) (be_J B) m old"
    using inv row pt by (auto simp: vault_backed_def row_holds_def backed_def)
  note g = rotated_ok [OF env(4) m rot]
  show ?thesis
  proof (cases "if be_db_ok B 2 then rotate_keys (be_now B) (fmdom' (tb_user (es_tables es))) uid (bi_device_id row) spk publics
      (bi_key_version row + 1) (es_keys es) else None")
    case None
    then show ?thesis using run inv Inr x by (simp add: rotate_bot_def op_backed_refl Let_def)
  next
    case (Some keys)
    have es': "es_keys es' = keys" "fmlookup (bt_identity (es_bot es')) uid = Some (row\<lparr>bi_signed_prekey_pub := sp_dh_pub_b64 spk,
        bi_signed_prekey_sig := sp_signature_b64 spk, bi_key_version := bi_key_version row + 1, bi_nonce := nonce,
        bi_ciphertext := ct, bi_updated_at := be_now B, bi_rotated_at := Some (be_now B)\<rparr>)"
      "\<forall>u. u \<noteq> uid \<longrightarrow> fmlookup (bt_identity (es_bot es')) u = fmlookup (bt_identity (es_bot es)) u"
      using run Inr x Some row by (auto simp: rotate_bot_def Let_def dest!: audit_and_status_state)
    let ?f = "\<lambda>r. r\<lparr>ei_signed_prekey_pub := Some (sp_dh_pub_b64 spk), ei_signed_prekey_sig := Some (sp_signature_b64 spk),
      ei_key_version := bi_key_version row + 1, ei_updated_at := be_now B\<rparr>"
    obtain t where t: "upsert_prekeys (fmdom' (tb_user (es_tables es))) uid ?dev (prekey_items publics)
        (delete_unconsumed uid ?dev (es_keys es)) = Some t" "keys = update_identity uid ?dev ?f t"
      using Some dev by (auto simp: rotate_keys_def split: if_splits)
    note rows = upsert_prekeys_rows [OF t(1)]
    have "identity_backs (be_C B) (be_J B) m' (?f old)"
      using old(2) g(3,4) by (auto simp: identity_backs_def Let_def)
    then have "backed (be_C B) (be_J B) m' uid ?dev keys"
      unfolding t(2) using old(1)
      by (intro backed_update [OF rows device_consumed(1) fresh_keys_back [OF env(4) g(2,5)], where r = old])
        (simp_all add: find_identity_def delete_unconsumed_def)
    moreover have "row_holds B master_key (row\<lparr>bi_signed_prekey_pub := sp_dh_pub_b64 spk,
        bi_signed_prekey_sig := sp_signature_b64 spk, bi_key_version := bi_key_version row + 1, bi_nonce := nonce,
        bi_ciphertext := ct, bi_updated_at := be_now B, bi_rotated_at := Some (be_now B)\<rparr>) m'"
      using seal_material_holds [OF env(1,2) g(1) _ sealed] env(4) by (simp add: key_draw_ok_def)
    ultimately have "vault_backed B master_key uid (es_bot es') (es_keys es')"
      using dev by (auto simp: vault_backed_def es')
    moreover have "only_user uid (es_keys es) keys"
      unfolding t(2)
      using only_user_trans [OF only_user_trans [OF rows_from_only [OF deletions_only(1)] rows_from_only [OF rows]]
          update_identity_only [of ?f]] by simp
    ultimately show ?thesis using es' by (simp add: op_backed_def)
  qed
qed

lemma rebuild_backed:
  assumes env: "crypto_contract (be_C B)" "bot_json_contract (be_J B)" "load_master_key B = Inr master_key" "key_draw_ok d"
    and inv: "vault_backed B master_key uid (es_bot es) (es_keys es)"
    and run: "rebuild B d actor uid confirm es = (r, es')"
  shows "op_backed B master_key uid es es'"
proof (cases "prepare_rebuild B d uid confirm es")
  case (Inl e)
  then show ?thesis using run inv by (simp add: rebuild_def op_backed_refl)
next
  case (Inr x)
  let ?g = "generate_material (be_C B) d" and ?dev = "bot_device_id uid"
  obtain row ikp nonce ct where x: "x = (row, ?g, ikp, nonce, ct)"
    and row: "fmlookup (bt_identity (es_bot es)) uid = Some row"
    and ikp: "bj_of_identity (be_J B) (gm_identity_public ?g) = Inr ikp"
    and sealed: "seal_material B (kd_nonce d) master_key (gm_secret ?g) = Inr (nonce, ct)"
    using Inr env(3)
    by (auto simp: prepare_rebuild_def Let_def try_res_Inr_iff load_identity_row_def split: if_splits)
  obtain old where dev: "bi_device_id row = ?dev" and old: "find_identity (es_keys es) uid ?dev = Some old"
    using inv row by (auto simp: vault_backed_def backed_def)
  note g = generated_ok [OF env(4), of "be_C B"]
  show ?thesis
  proof (cases "if be_db_ok B 1 then rebuild_keys (be_now B) (fmdom' (tb_user (es_tables es))) uid (bi_device_id row) ikp ?g
      (bi_key_version row + 1) (es_keys es) else None")
    case None
    then show ?thesis using run inv Inr x by (simp add: rebuild_def op_backed_refl Let_def)
  next
    case (Some keys)
    let ?row = "row\<lparr>bi_identity_key_pub := ikp, bi_signed_prekey_pub := sp_dh_pub_b64 (gm_signed_prekey_public ?g),
        bi_signed_prekey_sig := sp_signature_b64 (gm_signed_prekey_public ?g), bi_key_version := bi_key_version row + 1,
        bi_nonce := nonce, bi_ciphertext := ct, bi_updated_at := be_now B, bi_rotated_at := Some (be_now B)\<rparr>"
    have es': "es_keys es' = keys" "fmlookup (bt_identity (es_bot es')) uid = Some ?row"
      "\<forall>u. u \<noteq> uid \<longrightarrow> fmlookup (bt_identity (es_bot es')) u = fmlookup (bt_identity (es_bot es)) u"
      using run Inr x Some row by (auto simp: rebuild_def Let_def unpublish_channels_def dest!: audit_and_status_state)
    let ?f = "\<lambda>r. r\<lparr>ei_identity_key_pub := ikp, ei_signed_prekey_pub := Some (sp_dh_pub_b64 (gm_signed_prekey_public ?g)),
      ei_signed_prekey_sig := Some (sp_signature_b64 (gm_signed_prekey_public ?g)),
      ei_key_version := bi_key_version row + 1, ei_updated_at := be_now B, ei_retired_at := None\<rparr>"
    obtain t where t: "insert_prekeys (fmdom' (tb_user (es_tables es))) uid ?dev (prekey_items (gm_otp_publics ?g))
        (delete_prekeys uid ?dev (es_keys es)) = Some t" "keys = update_identity uid ?dev ?f t"
      using Some dev by (auto simp: rebuild_keys_def split: if_splits)
    note rows = insert_prekeys_rows [OF t(1)]
    have "\<exists>s. bj_of_identity (be_J B) (gm_identity_public ?g) = Inr s \<and> bj_to_identity (be_J B) s = Inr (gm_identity_public ?g)"
      by (rule bot_json_contract.identity_codec [OF env(2)])
    then have "identity_backs (be_C B) (be_J B) (gm_secret ?g) (?f old)"
      using ikp g(4,5) by (auto simp: identity_backs_def Let_def)
    then have "backed (be_C B) (be_J B) (gm_secret ?g) uid ?dev keys"
      unfolding t(2) using old
      by (intro backed_update [OF rows device_consumed(2) fresh_keys_back [OF env(4) g(2,6)], where r = old])
        (simp_all add: find_identity_def delete_prekeys_def)
    moreover have "row_holds B master_key ?row (gm_secret ?g)"
      using seal_material_holds [OF env(1,2) g(1) _ sealed] env(4) by (simp add: key_draw_ok_def)
    ultimately have "vault_backed B master_key uid (es_bot es') (es_keys es')"
      using dev by (auto simp: vault_backed_def es')
    moreover have "only_user uid (es_keys es) keys"
      unfolding t(2)
      using only_user_trans [OF only_user_trans [OF rows_from_only [OF deletions_only(2)] rows_from_only [OF rows]]
          update_identity_only [of ?f]] by simp
    ultimately show ?thesis using es' by (simp add: op_backed_def)
  qed
qed

text \<open>Handing out a bundle, or claiming a prekey, only consumes.\<close>

lemma consume_backed:
  assumes "vault_backed B master_key u bt t"
  shows "vault_backed B master_key u bt (consume_prekey i t)"
proof -
  have same: "find_identity (consume_prekey i t) u d = find_identity t u d" for d
    by (simp add: find_identity_def consume_prekey_def)
  have rows: "\<forall>p \<in> set (et_prekey (consume_prekey i t)). \<not> ek_consumed p \<longrightarrow> p \<in> set (et_prekey t)"
    by (auto simp: consume_prekey_def)
  then have "backed C J m u d (consume_prekey i t)" if "backed C J m u d t" for C and J :: "'a bot_json" and m d
    using that by (auto simp: backed_def same)
  then show ?thesis using assms rows by (cases "fmlookup (bt_identity bt) u") (auto simp: vault_backed_def)
qed

end
