(* ===== verification/Bot_Properties.thy ===== *)
theory Bot_Properties
  imports Bot_Backing E2e_Api Send_Properties
begin

text \<open>The theorems about the keys of bots and about messages to bots.\<close>

section \<open>Published keys\<close>

datatype bot_req = Initialize key_draw | Rotate key_draw | Rebuild key_draw bool | FetchBundle "string option"

record 'j bot_call =
  bq_env :: "'j bot_env"
  bq_actor :: i64
  bq_uid :: i64
  bq_protocol_ver :: i32
  bq_req :: bot_req

definition bot_exec :: "'j bot_call \<Rightarrow> ('j, 'db) E2eServer \<Rightarrow> ('j, 'db) E2eServer" where
  "bot_exec c es =
     (let B = bq_env c; actor = bq_actor c; uid = bq_uid c in
      case bq_req c of
        Initialize d \<Rightarrow> snd (initialize B d actor uid es)
      | Rotate d \<Rightarrow> snd (rotate_bot B d actor uid es)
      | Rebuild d confirm \<Rightarrow> snd (rebuild B d actor uid confirm es)
      | FetchBundle device \<Rightarrow> es\<lparr>es_keys := snd (get_bundle (be_db_ok B 0) (bq_protocol_ver c) uid device (es_keys es))\<rparr>)"

text \<open>All requests run with the same primitives, JSON and master key, and draw keys of the right length.\<close>

definition call_ok :: "'j bot_env \<Rightarrow> bytes \<Rightarrow> 'j bot_call \<Rightarrow> bool" where
  "call_ok B master_key c \<longleftrightarrow> be_C (bq_env c) = be_C B \<and> be_J (bq_env c) = be_J B \<and>
     load_master_key (bq_env c) = Inr master_key \<and>
     (case bq_req c of Initialize d \<Rightarrow> key_draw_ok d | Rotate d \<Rightarrow> key_draw_ok d | Rebuild d b \<Rightarrow> key_draw_ok d | _ \<Rightarrow> True)"

lemma vault_backed_env:
  "be_C B' = be_C B \<Longrightarrow> be_J B' = be_J B \<Longrightarrow> vault_backed B' master_key u bt t = vault_backed B master_key u bt t"
  by (cases "fmlookup (bt_identity bt) u") (simp_all add: vault_backed_def row_holds_def)

lemma bot_exec_backed:
  assumes "crypto_contract (be_C B)" "bot_json_contract (be_J B)" "call_ok B master_key c"
    and "\<forall>u. vault_backed B master_key u (es_bot es) (es_keys es)"
  shows "\<forall>u. vault_backed B master_key u (es_bot (bot_exec c es)) (es_keys (bot_exec c es))"
proof -
  let ?B = "bq_env c" and ?uid = "bq_uid c"
  have env: "be_C ?B = be_C B" "be_J ?B = be_J B" "load_master_key ?B = Inr master_key"
    using assms(3) by (simp_all add: call_ok_def)
  note same = vault_backed_env [OF env(1,2), of master_key]
  have inv: "\<forall>u. vault_backed ?B master_key u (es_bot es) (es_keys es)" using assms(4) by (simp add: same)
  have con: "crypto_contract (be_C ?B)" "bot_json_contract (be_J ?B)" using assms(1,2) env by simp_all
  have "\<forall>u. vault_backed ?B master_key u (es_bot (bot_exec c es)) (es_keys (bot_exec c es))"
  proof (cases "bq_req c")
    case (Initialize d)
    then have "op_backed ?B master_key ?uid es (bot_exec c es)"
      using initialize_backed [OF con env(3) _ spec [OF inv] prod.collapse [symmetric]] assms(3)
      by (simp add: bot_exec_def call_ok_def)
    then show ?thesis using inv by (rule op_backed_all)
  next
    case (Rotate d)
    then have "op_backed ?B master_key ?uid es (bot_exec c es)"
      using rotate_backed [OF con env(3) _ spec [OF inv] prod.collapse [symmetric]] assms(3)
      by (simp add: bot_exec_def call_ok_def)
    then show ?thesis using inv by (rule op_backed_all)
  next
    case (Rebuild d confirm)
    then have "op_backed ?B master_key ?uid es (bot_exec c es)"
      using rebuild_backed [OF con env(3) _ spec [OF inv] prod.collapse [symmetric]] assms(3)
      by (simp add: bot_exec_def call_ok_def)
    then show ?thesis using inv by (rule op_backed_all)
  next
    case (FetchBundle device)
    then show ?thesis using inv
      by (auto simp: bot_exec_def Let_def get_bundle_def intro!: consume_backed split: option.splits)
  qed
  then show ?thesis by (simp add: same)
qed

lemma bot_run_backed:
  assumes "crypto_contract (be_C B)" "bot_json_contract (be_J B)" "\<forall>c \<in> set calls. call_ok B master_key c"
    and "\<forall>u. vault_backed B master_key u (es_bot es) (es_keys es)"
  shows "\<forall>u. vault_backed B master_key u (es_bot (fold bot_exec calls es)) (es_keys (fold bot_exec calls es))"
  using assms
proof (induction calls arbitrary: es)
  case (Cons c calls)
  then show ?case using bot_exec_backed [OF assms(1,2), of master_key c es] by simp
qed simp

text \<open>The bundle a client makes of the answer, as the format of the module says: the signed prekey has the id 1.\<close>

definition client_bundle :: "'j bot_json \<Rightarrow> E2ePrekeyBundle \<Rightarrow> PreKeyBundle option" where
  "client_bundle J b =
     (case (bj_to_identity J (pb_identity_key_pub b), pb_signed_prekey_pub b, pb_signed_prekey_sig b) of
        (Inr identity, Some spk_pub, Some spk_sig) \<Rightarrow>
          Some \<lparr> bu_identity = identity,
            bu_signed_prekey = \<lparr>sp_key_id = BOT_KEY_ID, sp_dh_pub_b64 = spk_pub, sp_signature_b64 = spk_sig\<rparr>,
            bu_one_time_prekey_b64 = map_option snd (pb_one_time_prekey b),
            bu_one_time_prekey_id = map_option (\<lambda>k. nat (fst k)) (pb_one_time_prekey b) \<rparr>
      | _ \<Rightarrow> None)"

text \<open>The one-time prekey of a bundle, if any, is in the vault under its id.\<close>

definition otk_in_vault :: "BotSecretMaterial \<Rightarrow> (u32 option \<times> bytes) option \<Rightarrow> bool" where
  "otk_in_vault m otk \<longleftrightarrow>
     (case otk of
        None \<Rightarrow> True
      | Some (k, s) \<Rightarrow> \<exists>i rest. k = Some i \<and> i < 2 ^ 32 \<and> take_otp i (bs_one_time_prekeys m) = Some (s, rest))"

lemma backed_bundle:
  assumes "backed C J m u d t" "material_ok m" "get_bundle ok pv u (Some d) t = (Inr b, t')"
  shows "\<exists>otk. client_bundle J b = Some (published_bundle C (mat_identity m) BOT_KEY_ID (bs_signed_prekey_secret m) otk) \<and>
    secrets_ok (mat_identity m) (bs_signed_prekey_secret m) otk \<and> has_otk_id otk \<and> otk_in_vault m otk"
proof -
  obtain r where r: "find_identity t u d = Some r" "identity_backs C J m r" using assms(1) by (auto simp: backed_def)
  then have dev: "ei_device_id r = d" by (simp add: find_identity_Some)
  let ?spk = "snd (generate_signed_prekey C (bs_signed_prekey_secret m) (mat_identity m) BOT_KEY_ID)"
  have key: "sp_key_id ?spk = BOT_KEY_ID" by (simp add: generate_signed_prekey_def Let_def)
  have b: "pb_identity_key_pub b = ei_identity_key_pub r" "pb_signed_prekey_pub b = Some (sp_dh_pub_b64 ?spk)"
    "pb_signed_prekey_sig b = Some (sp_signature_b64 ?spk)"
    "pb_one_time_prekey b = map_option (\<lambda>p. (ek_key_id p, ek_public_key p)) (peek_prekey u d t)"
    using assms(3) r dev by (auto simp: get_bundle_def bundle_identity_def identity_backs_def Let_def split: if_splits)
  have spk: "\<lparr>sp_key_id = BOT_KEY_ID, sp_dh_pub_b64 = sp_dh_pub_b64 ?spk, sp_signature_b64 = sp_signature_b64 ?spk\<rparr> = ?spk"
    using key by simp
  show ?thesis
  proof (cases "peek_prekey u d t")
    case None
    then show ?thesis using b r(2) spk assms(2)
      by (intro exI [of _ None])
        (auto simp: client_bundle_def identity_backs_def published_bundle_def secrets_ok_def has_otk_id_def otk_in_vault_def
          mat_identity_def material_ok_def)
  next
    case (Some p)
    then have "p \<in> set (et_prekey t)" "prekey_of u d p" "\<not> ek_consumed p" by (auto simp: peek_prekey_def find_Some_iff)
    then have "otp_backs C m (ek_key_id p) (ek_public_key p)" using assms(1) by (simp add: backed_def)
    then obtain s rest where p: "0 \<le> ek_key_id p" "ek_key_id p < 2 ^ 32"
      "take_otp (nat (ek_key_id p)) (bs_one_time_prekeys m) = Some (s, rest)" "length s = 32"
      "ek_public_key p = b64_encode C (x_public C s)"
      by (auto simp: otp_backs_def)
    then show ?thesis using b r(2) spk assms(2) Some
      by (intro exI [of _ "Some (Some (nat (ek_key_id p)), s)"])
        (auto simp: client_bundle_def identity_backs_def published_bundle_def secrets_ok_def has_otk_id_def otk_in_vault_def
          mat_identity_def material_ok_def)
  qed
qed


section \<open>A bot on a server\<close>

text \<open>User 7 is a bot with a webhook, user 3 a human; the master key is 32 times the letter m.\<close>

definition demo_bot :: CacheUser where
  "demo_bot = (demo_user ''bot'' False)\<lparr>cu_is_bot := True, cu_webhook_url := Some ''http://bot''\<rparr>"

definition demo_bot_server :: "(string, sorted_db) E2eServer" where
  "demo_bot_server =
     \<lparr> es_server = \<lparr> sv_state = \<lparr> st_cache = \<lparr> ca_groups = fmempty,
           ca_users = fmupd 7 demo_bot (fmupd 3 (demo_user ''cyd'' False) fmempty),
           ca_codes = \<lparr>codes = fmempty, email_code = fmempty\<rparr> \<rparr>,
         st_tables = no_rows\<lparr>tb_user := fmupd 7 (demo_row ''bot'' False) (fmupd 3 (demo_row ''cyd'' False) fmempty)\<rparr>,
         st_msg_db = demo_db, st_events = [], st_stream_events = [], st_msg_updated = [] \<rparr>,
       sv_pending = \<lparr>pd_message = fmempty, pd_envelope = []\<rparr>,
       sv_mls = \<lparr>mt_commit = [], mt_welcome = [], mt_application = []\<rparr>, sv_notifications = [] \<rparr>,
       es_keys = \<lparr>et_identity = [], et_prekey = [], et_prekey_seq = 0, et_backup = fmempty, et_dm_setting = fmempty\<rparr>,
       es_bot = \<lparr>bt_identity = fmempty, bt_secret = fmempty, bt_channel = fmempty, bt_audit = []\<rparr>,
       es_delivery = \<lparr>dl_device = fmempty, dl_key_package = [], dl_key_package_seq = 0, dl_route = []\<rparr>,
       es_webhooks = [] \<rparr>"

definition demo_key_draw :: key_draw where
  "demo_key_draw = \<lparr>kd_x25519 = replicate 32 CHR ''a'', kd_ed25519 = replicate 32 CHR ''b'', kd_spk = replicate 32 CHR ''c'',
     kd_otk = (\<lambda>i. replicate 32 CHR ''d''), kd_mls_seed = replicate 32 CHR ''e'', kd_nonce = replicate 12 CHR ''f''\<rparr>"

definition demo_key :: bytes where
  "demo_key = replicate 32 CHR ''m''"

abbreviation demo_B :: "string bot_env" where
  "demo_B \<equiv> demo_bot_env (Some demo_key)"

lemma demo_B_simps [simp]:
  "be_C demo_B = demo_crypto" "be_J demo_B = text_json" "be_db_ok demo_B n" "load_master_key demo_B = Inr demo_key"
  by (simp_all add: demo_bot_env_def load_master_key_def demo_crypto_def demo_key_def)

lemma demo_key_length: "length demo_key = 32"
  by (simp add: demo_key_def)

lemma demo_draw_ok: "key_draw_ok demo_key_draw"
  by (simp add: key_draw_ok_def demo_key_draw_def)

lemma demo_seals: "length master_key = 32 \<Longrightarrow> \<exists>sealed. seal_material demo_B nonce master_key m = Inr sealed"
  by (simp add: seal_material_def json_result_def text_json_def vault_seal_def demo_crypto_def)

lemma insert_prekeys_succeeds:
  "uid \<in> users \<Longrightarrow> distinct (map fst keys) \<Longrightarrow>
     \<forall>p \<in> set (et_prekey t). prekey_of uid d p \<longrightarrow> ek_key_id p \<notin> fst ` set keys \<Longrightarrow>
     \<exists>t'. insert_prekeys users uid d keys t = Some t'"
proof (induction keys arbitrary: t)
  case (Cons key keys)
  then obtain t1 where t1: "insert_prekey users uid d key t = Some t1"
    by (auto simp: insert_prekey_def list_ex_iff Let_def)
  then have "et_prekey t1 = et_prekey t @ [\<lparr>ek_id = et_prekey_seq t + 1, ek_uid = uid, ek_device_id = d,
      ek_key_id = fst key, ek_public_key = snd key, ek_consumed = False\<rparr>]"
    by (simp add: insert_prekey_def Let_def split: if_splits) (erule subst, simp)
  then have "\<forall>p \<in> set (et_prekey t1). prekey_of uid d p \<longrightarrow> ek_key_id p \<notin> fst ` set keys"
    using Cons.prems(2,3) by simp
  then show ?case using Cons.IH [of t1] Cons.prems t1 by simp
qed simp

lemma demo_initialized: "\<exists>row. fmlookup (bt_identity (es_bot (snd (initialize demo_B demo_key_draw 1 7 demo_bot_server)))) 7 = Some row"
proof -
  let ?g = "generate_material demo_crypto demo_key_draw"
  obtain ikp where ikp: "bj_of_identity text_json (gm_identity_public ?g) = Inr ikp" by (simp add: text_json_def)
  obtain sealed where sealed: "seal_material demo_B (kd_nonce demo_key_draw) demo_key (gm_secret ?g) = Inr sealed"
    using demo_seals [of demo_key] demo_key_length by blast
  have prep: "prepare_initialize demo_B demo_key_draw 7 demo_bot_server = Inr (?g, ikp, sealed)"
    using ikp sealed
    by (simp add: prepare_initialize_def ensure_target_is_bot_def demo_bot_server_def demo_bot_def load_identity_row_def
        json_result_def)
  have "map fst (prekey_items (gm_otp_publics ?g)) = map int [1..<21]"
    by (simp add: generated_ok [OF demo_draw_ok] prekey_items_def otp_publics_def OTP_BATCH_SIZE_def o_def case_prod_beta)
  then have dis: "distinct (map fst (prekey_items (gm_otp_publics ?g)))" by (simp add: distinct_map)
  have ins: "\<exists>t'. insert_prekeys users 7 d (prekey_items (gm_otp_publics ?g)) t = Some t'" if "et_prekey t = []" "7 \<in> users" for t users d
    using insert_prekeys_succeeds [OF that(2) dis] that(1) by simp
  have "\<exists>keys. publish_bot_keys (be_now demo_B) (fmdom' (tb_user (es_tables demo_bot_server))) 7 (bot_device_id 7) ikp ?g
      (es_keys demo_bot_server) = Some keys"
    by (auto simp: publish_bot_keys_def demo_bot_server_def find_identity_def intro!: ins)
  then obtain keys where "publish_bot_keys (be_now demo_B) (fmdom' (tb_user (es_tables demo_bot_server))) 7 (bot_device_id 7) ikp ?g
      (es_keys demo_bot_server) = Some keys" ..
  then show ?thesis using prep by (simp add: initialize_def audit_and_status_def Let_def)
qed


end
