(* ===== verification/Bot_Conversations.thy ===== *)
theory Bot_Conversations
  imports Bot_Properties
begin

text \<open>
  Messages to bots and from bots, from encryption to plaintext: what a human seals for a bot reaches the bot's
  webhook, and what a bot sends opens on each device its key was wrapped for.
\<close>

section \<open>To a bot\<close>

lemma crypto_result_Inr [simp]: "crypto_result r = Inr x \<longleftrightarrow> r = Inr x"
  by (cases r) (simp_all add: crypto_result_def)

lemma inbound_content_read:
  assumes "crypto_contract (be_C B)" "bot_json_contract (be_J B)"
    and "get_merged_message (en_K E) (en_C E) db mid = Inr (Some merged)" "cc_content_type (mp_content merged) = CONTENT_TYPE"
    and "cc_content (mp_content merged) = dm_wire (be_C B) (be_J B) ct nonce metadata" "length nonce = 12"
  shows "inbound_content E B mid db = Inr (mp_from_uid merged, ct, nonce, metadata)"
  using assms crypto_contract.b64_decode_encode [OF assms(1)] bot_json_contract.wire_codec [OF assms(2)]
  by (simp add: inbound_content_def dm_wire_def json_result_def)

lemma wrapped_envelope_ok:
  assumes "deferred_wrap_key C x ed eka nonce key b = Inr env" "sp_key_id (bu_signed_prekey b) < 2 ^ 32"
    and "case bu_one_time_prekey_id b of None \<Rightarrow> True | Some i \<Rightarrow> i < 2 ^ 32"
  shows "envelope_ok env"
  using assms
  by (auto simp: deferred_wrap_key_def x3dh_initiator_def Let_def try_res_Inr_iff identity_generate_def envelope_ok_def
      split: option.splits)

lemma inbound_envelope_read:
  assumes "crypto_contract (be_C B)" "bot_json_contract (be_J B)" "be_db_ok B 0" "envelope_ok env"
    and "latest_envelope pt mid uid d = Some e" "bj_of_envelope (be_J B) env = Inr s" "pe_envelope e = b64_encode (be_C B) s"
  shows "inbound_envelope B mid uid d pt = Inr env"
proof -
  have "bj_to_envelope (be_J B) s = Inr env"
    using bot_json_contract.envelope_codec [OF assms(2,4)] assms(6) by auto
  then show ?thesis using assms crypto_contract.b64_decode_encode [OF assms(1)]
    by (simp add: inbound_envelope_def json_result_def)
qed

definition otk_rest :: "BotSecretMaterial \<Rightarrow> (u32 option \<times> bytes) option \<Rightarrow> BotSecretMaterial" where
  "otk_rest m otk =
     (case otk of
        Some (Some i, s) \<Rightarrow> m\<lparr>bs_one_time_prekeys := snd (the (take_otp i (bs_one_time_prekeys m)))\<rparr>
      | _ \<Rightarrow> m)"

lemma take_otk_found:
  assumes "otk_in_vault m otk"
  shows "take_otk m (case otk of None \<Rightarrow> None | Some (k, s) \<Rightarrow> k) = Inr (map_option snd otk, otk_rest m otk)"
  using assms by (cases otk) (auto simp: otk_in_vault_def take_otk_def otk_rest_def)

lemma otk_rest_fields [simp]:
  "bs_identity_x25519 (otk_rest m otk) = bs_identity_x25519 m"
  "bs_signed_prekey_secret (otk_rest m otk) = bs_signed_prekey_secret m"
  by (auto simp: otk_rest_def split: option.splits)

lemma take_otp_subset: "take_otp i ss = Some (s, rest) \<Longrightarrow> set rest \<subseteq> set ss"
  by (induction ss arbitrary: s rest) (auto split: if_splits)

lemma otk_rest_ok:
  assumes "material_ok m" "otk_in_vault m otk"
  shows "material_ok (otk_rest m otk)"
proof (cases "\<exists>i s. otk = Some (Some i, s)")
  case True
  then obtain i s rest where "otk = Some (Some i, s)" "take_otp i (bs_one_time_prekeys m) = Some (s, rest)"
    using assms(2) by (auto simp: otk_in_vault_def)
  moreover from this(2) have "set rest \<subseteq> set (bs_one_time_prekeys m)" by (rule take_otp_subset)
  moreover from calculation have "otk_rest m otk = m\<lparr>bs_one_time_prekeys := rest\<rparr>" by (simp add: otk_rest_def)
  ultimately show ?thesis using assms(1) by (simp add: material_ok_def subset_iff)
next
  case False
  then have "otk_rest m otk = m"
    by (cases otk) (auto simp: otk_rest_def split: prod.split option.split)
  then show ?thesis using assms(1) by simp
qed

lemma inbound_decrypts:
  assumes "crypto_contract (be_C B)" "secrets_ok (mat_identity m) (bs_signed_prekey_secret m) otk" "has_otk_id otk"
    and len: "length x = 32" "length eka = 32" "length key = 32" "length nonce = 12" "length nonce' = 12"
    and enc: "deferred_encrypt (be_C B) (bj_to_vec (be_J B)) key nonce body metadata = Inr enc"
    and env: "deferred_wrap_key (be_C B) x ed eka nonce' key
       (published_bundle (be_C B) (mat_identity m) BOT_KEY_ID (bs_signed_prekey_secret m) otk) = Inr env"
  shows "decrypt_inbound B env (otk_rest m otk) (map_option snd otk) (de_ciphertext enc) (de_nonce enc) metadata = Inr body"
proof -
  have key: "deferred_unwrap_key (be_C B) env \<lparr>dl_ik_secret = bs_identity_x25519 m, dl_spk_secret = bs_signed_prekey_secret m,
      dl_otk_secret = map_option snd otk\<rparr> = Inr key"
    using crypto_contract.wrapped_key_unwraps [OF assms(1-3) len(1,2,5,3) env] by (simp add: mat_identity_def)
  note content = crypto_contract.content_decrypts [OF assms(1) len(3,4) enc]
  have "deferred_verify_metadata (be_C B) (bj_to_vec (be_J B)) metadata (de_sha256 enc) = Inr True"
    using content(4)
    by (simp add: crypto_contract.verify_metadata_iff [OF assms(1) crypto_contract.commitment_length [OF assms(1) content(4)]])
  then show ?thesis using key content by (simp add: decrypt_inbound_def crypto_result_def)
qed

definition wire_content_type :: "'j bot_json \<Rightarrow> 'j \<Rightarrow> string" where
  "wire_content_type J metadata =
     (case Option.bind (bj_get J metadata ''content_type'') (as_str (bj_ops J)) of None \<Rightarrow> ''text/plain'' | Some ct \<Rightarrow> ct)"

lemma handled_envelope:
  assumes "prepare_inbound E B mid bot_uid d es = Inr (sender_uid, metadata, body, master_key, used, m')"
    "(if used = None then (Inr (), es_bot es)
      else persist_material (be_db_ok B 2) B fresh bot_uid master_key m' (es_bot es)) = (Inr (), t)"
    "utf8_ok body" "fmlookup (ca_users (es_cache es)) bot_uid = Some user" "cu_webhook_url user = Some url"
  shows "\<exists>es'. handle_inbound_bot_envelope E B utf8_ok fresh mid bot_uid d es = (Inr (), es') \<and>
    es_webhooks es' = es_webhooks es @ [\<lparr>wp_url = url, wp_body = bj_object (be_J B)
      [(''mid'', bj_int (be_J B) mid), (''from_uid'', bj_int (be_J B) sender_uid),
       (''to_uid'', bj_int (be_J B) bot_uid), (''e2e'', bj_bool (be_J B) True), (''e2e_bot_decrypted'', bj_bool (be_J B) True),
       (''detail'', bj_object (be_J B) [(''type'', json_string (bj_ops (be_J B)) ''normal''),
          (''content_type'', json_string (bj_ops (be_J B)) (wire_content_type (be_J B) metadata)),
          (''content'', json_string (bj_ops (be_J B)) body)])]\<rparr>] \<and>
    bt_identity (es_bot es') = bt_identity t"
  unfolding handle_inbound_bot_envelope_def assms(1) sum.case prod.case assms(2) Let_def
  using assms(3-5) by (auto simp: deliver_bot_webhook_plaintext_def audit_def wire_content_type_def)

text \<open>
  C11 What a human seals for a bot reaches the bot: when a message was encrypted and its key wrapped for the keys that
  the vault of the bot backs, the arrival of the envelope hands the webhook of the bot exactly the text that was
  encrypted, with its sender and the content type of its metadata; and the one-time secret used is gone from the vault, which stays readable.
\<close>

theorem messages_to_bots_are_read:
  assumes "crypto_contract (be_C B)" "bot_json_contract (be_J B)" "load_master_key B = Inr master_key" "\<forall>n. be_db_ok B n"
    and row: "fmlookup (bt_identity (es_bot es)) bot_uid = Some row" "row_holds B master_key row m"
    and otk: "secrets_ok (mat_identity m) (bs_signed_prekey_secret m) otk" "has_otk_id otk" "otk_in_vault m otk"
    and len: "length x = 32" "length eka = 32" "length key = 32" "length nonce = 12" "length nonce' = 12" "length fresh = 12"
    and enc: "deferred_encrypt (be_C B) (bj_to_vec (be_J B)) key nonce body metadata = Inr enc"
    and env: "deferred_wrap_key (be_C B) x ed eka nonce' key
       (published_bundle (be_C B) (mat_identity m) BOT_KEY_ID (bs_signed_prekey_secret m) otk) = Inr env"
    and stored: "get_merged_message (en_K E) (en_C E) (sv_msg_db (es_server es)) mid = Inr (Some merged)"
       "cc_content_type (mp_content merged) = CONTENT_TYPE"
       "cc_content (mp_content merged) = dm_wire (be_C B) (be_J B) (de_ciphertext enc) (de_nonce enc) metadata"
       "latest_envelope (es_pending es) mid bot_uid d = Some e" "bj_of_envelope (be_J B) env = Inr s"
       "pe_envelope e = b64_encode (be_C B) s"
    and bot: "fmlookup (ca_users (es_cache es)) bot_uid = Some user" "cu_webhook_url user = Some url" "utf8_ok body"
    and seals: "\<forall>p. aes_encrypt (be_C B) master_key fresh p [] \<noteq> None"
  shows "\<exists>es'. handle_inbound_bot_envelope E B utf8_ok fresh mid bot_uid d es = (Inr (), es') \<and>
    es_webhooks es' = es_webhooks es @ [\<lparr>wp_url = url, wp_body = bj_object (be_J B)
      [(''mid'', bj_int (be_J B) mid), (''from_uid'', bj_int (be_J B) (mp_from_uid merged)),
       (''to_uid'', bj_int (be_J B) bot_uid), (''e2e'', bj_bool (be_J B) True), (''e2e_bot_decrypted'', bj_bool (be_J B) True),
       (''detail'', bj_object (be_J B) [(''type'', json_string (bj_ops (be_J B)) ''normal''),
          (''content_type'', json_string (bj_ops (be_J B)) (wire_content_type (be_J B) metadata)),
          (''content'', json_string (bj_ops (be_J B)) body)])]\<rparr>] \<and>
    (\<exists>row'. fmlookup (bt_identity (es_bot es')) bot_uid = Some row' \<and> row_holds B master_key row' (otk_rest m otk))"
proof -
  define used where "used = (case otk of None \<Rightarrow> None | Some (k, s) \<Rightarrow> k)"
  have m: "material_ok m" using row(2) by (simp add: row_holds_def)
  have used: "im_used_one_time_prekey_id (dv_x3dh_initial env) = used"
    using wrap_used_prekey [OF env] by (cases otk) (auto simp: published_bundle_def used_def)
  have "envelope_ok env"
    using wrapped_envelope_ok [OF env] otk(3)
    by (auto simp: published_bundle_def generate_signed_prekey_def Let_def BOT_KEY_ID_def otk_in_vault_def split: option.splits)
  then have env_read: "inbound_envelope B mid bot_uid d (es_pending es) = Inr env"
    using inbound_envelope_read [OF assms(1,2)] assms(4) stored(4-6) by blast
  have content: "inbound_content E B mid (sv_msg_db (es_server es)) = Inr (mp_from_uid merged, de_ciphertext enc, de_nonce enc, metadata)"
    using inbound_content_read [OF assms(1,2) stored(1-3)] crypto_contract.content_decrypts(3) [OF assms(1) len(3,4) enc] len(4)
    by simp
  have load: "load_and_decrypt_material True B bot_uid master_key (es_bot es) = Inr m"
    using row by (auto simp: load_and_decrypt_material_def load_identity_row_def row_holds_def json_result_def)
  have prep: "prepare_inbound E B mid bot_uid d es = Inr (mp_from_uid merged, metadata, body, master_key, used, otk_rest m otk)"
    using content env_read assms(3,4) load used take_otk_found [OF otk(3), folded used_def]
      inbound_decrypts [OF assms(1) otk(1,2) len(1-5) enc env]
    by (simp add: prepare_inbound_def Let_def)
  obtain s' where s': "bj_of_material (be_J B) (otk_rest m otk) = Inr s'"
    using bot_json_contract.material_codec [OF assms(2) otk_rest_ok [OF m otk(3)]] by blast
  have "length master_key = 32" using assms(3) by (auto simp: load_master_key_def try_res_Inr_iff split: if_splits)
  moreover obtain sealed where "aes_encrypt (be_C B) master_key fresh s' [] = Some sealed" using seals by blast
  ultimately have sealed: "seal_material B fresh master_key (otk_rest m otk) = Inr (fresh, sealed)"
    using s' by (simp add: seal_material_def json_result_def vault_seal_def)
  let ?row = "row\<lparr>bi_nonce := fresh, bi_ciphertext := sealed, bi_updated_at := be_now B\<rparr>"
  have "\<exists>t row'. (if used = None then (Inr (), es_bot es)
      else persist_material (be_db_ok B 2) B fresh bot_uid master_key (otk_rest m otk) (es_bot es)) = (Inr (), t) \<and>
      fmlookup (bt_identity t) bot_uid = Some row' \<and> row_holds B master_key row' (otk_rest m otk)"
  proof (cases "used = None")
    case True
    then have "otk_rest m otk = m" by (cases otk) (auto simp: otk_rest_def used_def split: option.splits)
    then show ?thesis using True row by auto
  next
    case False
    show ?thesis
      using sealed row(1) seal_material_holds [OF assms(1,2) otk_rest_ok [OF m otk(3)] len(6) sealed, of ?row]
      unfolding if_not_P [OF False] by (simp add: persist_material_def assms(4))
  qed
  then obtain t row' where t: "(if used = None then (Inr (), es_bot es)
      else persist_material (be_db_ok B 2) B fresh bot_uid master_key (otk_rest m otk) (es_bot es)) = (Inr (), t)"
    "fmlookup (bt_identity t) bot_uid = Some row'" "row_holds B master_key row' (otk_rest m otk)" by blast
  from handled_envelope [where utf8_ok = utf8_ok, OF prep t(1) bot(3,1,2)] t(2,3) show ?thesis by metis
qed

definition demo_material :: BotSecretMaterial where
  "demo_material = \<lparr>bs_identity_x25519 = replicate 32 CHR ''a'', bs_identity_ed25519 = replicate 32 CHR ''b'',
     bs_signed_prekey_secret = replicate 32 CHR ''c'',
     bs_one_time_prekeys = [\<lparr>os_key_id = 1, os_secret = replicate 32 CHR ''d''\<rparr>], bs_mls_seed = replicate 32 CHR ''e''\<rparr>"

definition demo_mail_env :: "string \<Rightarrow> (string, sorted_db) Env" where
  "demo_mail_env content =
     \<lparr> en_K = sorted_sled, en_C = \<lparr>enc_payload = (\<lambda>p. None), dec_payload = (\<lambda>b. None), enc_merged = (\<lambda>m. None),
         dec_merged = (\<lambda>b. Some \<lparr>mp_from_uid = 3, mp_target = TargetUser 7,
           mp_content = \<lparr>cc_properties = None, cc_content_type = CONTENT_TYPE, cc_content = content\<rparr>, mp_created_at = 0\<rparr>)\<rparr>,
       en_J = bj_ops text_json, en_now = 0, en_generation_two = True, en_dm_setting = (\<lambda>lo hi. Inr None),
       en_valid_millis = (\<lambda>t. True), en_pending_db_ok = (\<lambda>m. True), en_mls_db_ok = True,
       en_file_size = (\<lambda>p. None), en_file_meta = (\<lambda>p. None) \<rparr>"

definition demo_mailbox :: "bot_identity_row \<Rightarrow> string \<Rightarrow> (string, sorted_db) E2eServer" where
  "demo_mailbox row envelope = demo_bot_server
     \<lparr> es_server := (es_server demo_bot_server)\<lparr>
         sv_state := (sv_state (es_server demo_bot_server))\<lparr>st_msg_db := demo_db\<lparr>mdb_db := [(key_merged_msg 5, ''stored'')]\<rparr>\<rparr>,
         sv_pending := \<lparr>pd_message = fmempty, pd_envelope = [\<lparr>pe_mid = 5, pe_recipient_uid = 7, pe_device_id = ''bot:7'',
           pe_identity_version = 1, pe_envelope = envelope, pe_created_at = 0\<rparr>]\<rparr>\<rparr>,
       es_bot := (es_bot demo_bot_server)\<lparr>bt_identity := fmupd 7 row fmempty\<rparr> \<rparr>"

lemma demo_encrypts:
  "length key = 32 \<Longrightarrow> \<exists>enc. deferred_encrypt demo_crypto (bj_to_vec text_json) key nonce body metadata = Inr enc"
  by (simp add: deferred_encrypt_def deferred_metadata_commitment_def aes_key_def text_json_def demo_crypto_def)

lemma demo_stored: "map_of (sdb_norm [(key_merged_msg 5, ''stored'')]) (key_merged_msg 5) = Some ''stored''"
  by code_simp

text \<open>A message wrapped with a one-time prekey of the bot.\<close>

theorem messages_to_bots_are_read_witness:
  "\<exists>E (es :: (string, sorted_db) E2eServer) es'.
     handle_inbound_bot_envelope E demo_B (\<lambda>b. True) (replicate 12 CHR ''f'') 5 7 ''bot:7'' es = (Inr (), es') \<and>
     es_webhooks es = [] \<and> map wp_url (es_webhooks es') = [''http://bot'']"
proof -
  let ?key = "replicate 32 CHR ''k''" and ?nonce = "replicate 12 CHR ''n''" and ?meta = "text_object []"
  let ?otk = "Some (Some 1, replicate 32 CHR ''d'')"
  have ok: "secrets_ok (mat_identity demo_material) (bs_signed_prekey_secret demo_material) ?otk" "has_otk_id ?otk"
    "otk_in_vault demo_material ?otk" "material_ok demo_material"
    by (simp_all add: secrets_ok_def has_otk_id_def otk_in_vault_def mat_identity_def material_ok_def demo_material_def)
  obtain enc where enc: "deferred_encrypt demo_crypto (bj_to_vec text_json) ?key ?nonce ''hello'' ?meta = Inr enc"
    using demo_encrypts [of ?key ?nonce "''hello''" ?meta] by auto
  obtain env where env: "deferred_wrap_key demo_crypto (replicate 32 CHR ''x'') (replicate 32 CHR ''y'') (replicate 32 CHR ''z'')
      ?nonce ?key (published_bundle demo_crypto (mat_identity demo_material) BOT_KEY_ID (bs_signed_prekey_secret demo_material) ?otk)
      = Inr env"
    using demo_wraps [OF ok(1,2), of "replicate 32 CHR ''x''" "replicate 32 CHR ''z''" "replicate 32 CHR ''y''" ?nonce ?key BOT_KEY_ID] by auto
  obtain nonce sealed where seal: "seal_material demo_B ?nonce demo_key demo_material = Inr (nonce, sealed)"
    using demo_seals [OF demo_key_length, of ?nonce demo_material] by auto
  define row where "row = \<lparr>bi_device_id = ''bot:7'', bi_key_version = 1, bi_nonce = nonce, bi_ciphertext = sealed,
    bi_identity_key_pub = '''', bi_signed_prekey_pub = '''', bi_signed_prekey_sig = '''', bi_created_at = 0, bi_updated_at = 0,
    bi_rotated_at = None\<rparr>"
  have con: "crypto_contract (be_C demo_B)" "bot_json_contract (be_J demo_B)"
    using demo.crypto_contract_axioms demo_json.bot_json_contract_axioms by simp_all
  have row: "row_holds demo_B demo_key row demo_material"
    using seal_material_holds [OF con ok(4) _ seal] by (simp add: row_def)
  define E where "E = demo_mail_env (dm_wire demo_crypto text_json (de_ciphertext enc) (de_nonce enc) ?meta)"
  define es where "es = demo_mailbox row (b64_encode demo_crypto (envelope_parts env))"
  have look: "fmlookup (bt_identity (es_bot es)) 7 = Some row"
    "latest_envelope (es_pending es) 5 7 ''bot:7'' = Some \<lparr>pe_mid = 5, pe_recipient_uid = 7, pe_device_id = ''bot:7'',
       pe_identity_version = 1, pe_envelope = b64_encode demo_crypto (envelope_parts env), pe_created_at = 0\<rparr>"
    "fmlookup (ca_users (es_cache es)) 7 = Some demo_bot" "es_webhooks es = []"
    by (simp_all add: es_def demo_mailbox_def latest_envelope_def demo_bot_server_def)
  have get: "get_merged_message (en_K E) (en_C E) (sv_msg_db (es_server es)) 5 = Inr (Some \<lparr>mp_from_uid = 3,
      mp_target = TargetUser 7, mp_content = \<lparr>cc_properties = None, cc_content_type = CONTENT_TYPE,
        cc_content = dm_wire demo_crypto text_json (de_ciphertext enc) (de_nonce enc) ?meta\<rparr>, mp_created_at = 0\<rparr>)"
    by (simp add: E_def demo_mail_env_def es_def demo_mailbox_def get_merged_message_def get_merged_msg_def sorted_sled_def demo_stored)
  have rest: "load_master_key demo_B = Inr demo_key" "\<forall>n. be_db_ok demo_B n"
    "bj_of_envelope (be_J demo_B) env = Inr (envelope_parts env)" "cu_webhook_url demo_bot = Some ''http://bot''" "(\<lambda>b. True) ''hello''"
    "\<forall>p. aes_encrypt (be_C demo_B) demo_key (replicate 12 CHR ''f'') p [] \<noteq> None"
    by (simp_all add: text_json_def demo_bot_def demo_crypto_def)
  have here: "deferred_encrypt (be_C demo_B) (bj_to_vec (be_J demo_B)) ?key ?nonce ''hello'' ?meta = Inr enc"
    "deferred_wrap_key (be_C demo_B) (replicate 32 CHR ''x'') (replicate 32 CHR ''y'') (replicate 32 CHR ''z'') ?nonce ?key
      (published_bundle (be_C demo_B) (mat_identity demo_material) BOT_KEY_ID (bs_signed_prekey_secret demo_material) ?otk) = Inr env"
    using enc env by simp_all
  show ?thesis
    using messages_to_bots_are_read [where utf8_ok = "\<lambda>b. True", OF con rest(1,2) look(1) row ok(1-3) length_replicate
        length_replicate length_replicate length_replicate length_replicate length_replicate here get _ _ look(2) rest(3) _
        look(3) rest(4,5,6)] look(4)
    by fastforce
qed

end
