(* ===== verification/Bot_Outbound.thy ===== *)
theory Bot_Outbound
  imports Bot_Conversations
begin

text \<open>
  What a bot sends: the stored message is encrypted, every envelope appended for it opens on the device it is for, and
  when there is none the key stays in the vault.
\<close>

section \<open>Envelopes appended\<close>

definition otp_id_ok :: "(i64 \<times> u32 \<times> string) option \<Rightarrow> bool" where
  "otp_id_ok otp \<longleftrightarrow> (case otp of None \<Rightarrow> True | Some (i, k, p) \<Rightarrow> k < 2 ^ 32)"

lemma wrap_attempts_envelope:
  "wrap_attempts B draw key device i n t = (Inr (Some env), t') \<Longrightarrow>
   \<exists>j otp. draw_wrap B (draw j) key (device_bundle device otp) = Inr env \<and> otp_id_ok otp"
proof (induction n arbitrary: i t)
  case 0
  then have "draw_wrap B (draw i) key (device_bundle device None) = Inr env \<and> otp_id_ok None"
    by (auto simp: ok_of_def otp_id_ok_def split: sum.splits)
  then show ?case by blast
next
  case (Suc n)
  obtain otp where otp: "peek_one_time_prekey B (wd_db_ok (draw i)) (ud_uid device) (ud_device_id device) t = Inr otp"
    using Suc.prems by (auto simp: Let_def split: sum.splits)
  then have ok: "otp_id_ok otp" by (auto simp: peek_one_time_prekey_def otp_id_ok_def split: if_splits option.splits)
  obtain env' where env': "draw_wrap B (draw i) key (device_bundle device otp) = Inr env'"
    using Suc.prems otp by (auto simp: Let_def split: sum.splits)
  show ?case
  proof (cases otp)
    case None
    then show ?thesis using Suc.prems otp env' ok by auto
  next
    case (Some p)
    obtain row k pk where p: "p = (row, k, pk)" by (cases p)
    obtain c t1 where c: "try_consume_one_time_prekey B (wd_db_ok (draw i)) row (wd_meanwhile (draw i) t) = (c, t1)" by fastforce
    have "c = Inr True \<and> env' = env \<or> wrap_attempts B draw key device (Suc i) n t1 = (Inr (Some env), t')"
      using Suc.prems otp env' c unfolding Some p by (auto simp: Let_def split: sum.splits bool.splits)
    then show ?thesis using Suc.IH [of "Suc i" t1] env' ok by blast
  qed
qed

definition envelope_for ::
    "'j bot_env \<Rightarrow> (i64 \<Rightarrow> string \<Rightarrow> nat \<Rightarrow> wrap_draw) \<Rightarrow> bytes \<Rightarrow> i64 \<Rightarrow> i64 \<Rightarrow> UsableDevice \<Rightarrow> envelope_row \<Rightarrow> bool" where
  "envelope_for B draws key mid uid device e \<longleftrightarrow>
     pe_mid e = mid \<and> pe_recipient_uid e = uid \<and> pe_device_id e = ud_device_id device \<and>
     pe_identity_version e = ud_key_version device \<and>
     (\<exists>j otp env. draw_wrap B (draws mid (ud_device_id device) j) key (device_bundle device otp) = Inr env \<and> otp_id_ok otp \<and>
        pe_envelope e = b64_encode (be_C B) (case bj_of_envelope (be_J B) env of Inl m \<Rightarrow> [] | Inr bs \<Rightarrow> bs))"

definition appends :: "(envelope_row \<Rightarrow> bool) \<Rightarrow> bool \<Rightarrow> ('j, 'db) E2eServer \<Rightarrow> ('j, 'db) E2eServer \<Rightarrow> bool" where
  "appends P any es es' \<longleftrightarrow>
     (\<exists>new. pd_envelope (es_pending es') = pd_envelope (es_pending es) @ new \<and> (\<forall>e \<in> set new. P e) \<and> (any \<longleftrightarrow> new \<noteq> [])) \<and>
     es_bot es' = es_bot es"

lemma append_envelope_appends:
  assumes "append_envelope B ok mid uid d v env es = (Inr added, es')"
  shows "appends (\<lambda>e. e = \<lparr>pe_mid = mid, pe_recipient_uid = uid, pe_device_id = d, pe_identity_version = v, pe_envelope =
    b64_encode (be_C B) (case bj_of_envelope (be_J B) env of Inl m \<Rightarrow> [] | Inr bs \<Rightarrow> bs), pe_created_at = be_now B\<rparr>) added es es'"
  using assms
  by (auto simp: append_envelope_def append_pending_envelope_internal_def Let_def appends_def split: if_splits prod.splits sum.splits)

lemma appends_refl: "appends P False es es"
  by (simp add: appends_def)

lemma appends_trans:
  "appends P a es1 es2 \<Longrightarrow> appends P b es2 es3 \<Longrightarrow> appends P (a \<or> b) es1 es3"
  by (fastforce simp: appends_def)

lemma wrap_and_append_appends:
  assumes "wrap_and_append B (draws mid (ud_device_id device)) ok key mid uid (ud_device_id device) (ud_key_version device) device es
      = (Inr added, es')"
  shows "appends (envelope_for B draws key mid uid device) (added = Some True) es es'"
proof -
  obtain r t where run: "wrap_content_key_for_device B (draws mid (ud_device_id device)) key device (es_keys es) = (r, t)" by fastforce
  show ?thesis
  proof (cases "\<exists>env. r = Inr (Some env)")
    case False
    then show ?thesis using assms run
      by (auto simp: wrap_and_append_def appends_def split: sum.splits option.splits)
  next
    case True
    then obtain env where env: "r = Inr (Some env)" by blast
    obtain j otp where otp: "draw_wrap B (draws mid (ud_device_id device) j) key (device_bundle device otp) = Inr env" "otp_id_ok otp"
      using wrap_attempts_envelope run env unfolding wrap_content_key_for_device_def by blast
    obtain b where b: "append_envelope B ok mid uid (ud_device_id device) (ud_key_version device) env (es\<lparr>es_keys := t\<rparr>) = (Inr b, es')"
      "added = Some b"
      using assms run env by (auto simp: wrap_and_append_def split: sum.splits prod.splits)
    show ?thesis
      using append_envelope_appends [OF b(1)] b(2) otp unfolding appends_def envelope_for_def by fastforce
  qed
qed

lemma appends_mono: "appends P a es es' \<Longrightarrow> (\<And>e. P e \<Longrightarrow> Q e) \<Longrightarrow> appends Q a es es'"
  by (auto simp: appends_def)

lemma wrap_for_devices_appends:
  "wrap_for_devices B draws ok key mid uid devices before es = (Inr any, es') \<Longrightarrow>
   \<exists>now. appends (\<lambda>e. \<exists>device \<in> set devices. envelope_for B draws key mid uid device e) now es es' \<and> any = (before \<or> now)"
proof (induction devices arbitrary: before es)
  case Nil
  then show ?case using appends_refl by (intro exI [of _ False]) simp
next
  case (Cons device devices)
  then obtain added es1 where step: "wrap_and_append B (draws mid (ud_device_id device)) ok key mid uid (ud_device_id device)
      (ud_key_version device) device es = (Inr added, es1)"
    and rest: "wrap_for_devices B draws ok key mid uid devices (before \<or> added = Some True) es1 = (Inr any, es')"
    by (auto split: sum.splits prod.splits)
  from Cons.IH [OF rest] obtain now where now: "any = ((before \<or> added = Some True) \<or> now)"
    "appends (\<lambda>e. \<exists>device \<in> set devices. envelope_for B draws key mid uid device e) now es1 es'" by blast
  have "appends (\<lambda>e. \<exists>x \<in> set (device # devices). envelope_for B draws key mid uid x e) (added = Some True \<or> now) es es'"
    by (rule appends_trans [OF appends_mono [OF wrap_and_append_appends [where draws = draws, OF step]] appends_mono [OF now(2)]]) auto
  then show ?case using now(1) by blast
qed

section \<open>Opening them\<close>

text \<open>The device that holds the secrets of the keys that were looked up reads the content key in the envelope.\<close>

definition opens_on :: "'j bot_env \<Rightarrow> bytes \<Rightarrow> UsableDevice \<Rightarrow> envelope_row \<Rightarrow> bool" where
  "opens_on B key device e \<longleftrightarrow>
     (\<exists>otp. otp_id_ok otp \<and> (\<forall>ident i spk otk. secrets_ok ident spk otk \<longrightarrow> has_otk_id otk \<longrightarrow>
        device_bundle device otp = published_bundle (be_C B) ident i spk otk \<longrightarrow>
        (\<exists>s env. b64_decode (be_C B) (pe_envelope e) = Inr s \<and> bj_to_envelope (be_J B) s = Inr env \<and>
           deferred_unwrap_key (be_C B) env \<lparr>dl_ik_secret = id_x25519 ident, dl_spk_secret = spk,
             dl_otk_secret = map_option snd otk\<rparr> = Inr key)))"

definition wrap_draw_ok :: "wrap_draw \<Rightarrow> bool" where
  "wrap_draw_ok w \<longleftrightarrow> length (wd_x25519 w) = 32 \<and> length (wd_ephemeral w) = 32 \<and> length (wd_nonce w) = 12"

definition dm_draw_ok :: "dm_draw \<Rightarrow> bool" where
  "dm_draw_ok d \<longleftrightarrow> length (dd_content_key d) = 32 \<and> length (dd_nonce d) = 12 \<and> length (dd_secret_nonce d) = 12 \<and>
     (\<forall>m dev j. wrap_draw_ok (dd_wraps d m dev j))"

lemma envelope_opens:
  assumes C: "crypto_contract (be_C B)" and J: "bot_json_contract (be_J B)"
    and e: "envelope_for B draws key mid uid device e" and len: "length key = 32" "\<And>j. wrap_draw_ok (draws mid (ud_device_id device) j)"
    and id: "sp_key_id (ud_signed_prekey device) < 2 ^ 32"
  shows "opens_on B key device e"
proof -
  obtain j otp env where x: "draw_wrap B (draws mid (ud_device_id device) j) key (device_bundle device otp) = Inr env" "otp_id_ok otp"
    "pe_envelope e = b64_encode (be_C B) (case bj_of_envelope (be_J B) env of Inl m \<Rightarrow> [] | Inr bs \<Rightarrow> bs)"
    using e by (auto simp: envelope_for_def)
  have "envelope_ok env"
    by (rule wrapped_envelope_ok [OF x(1) [unfolded draw_wrap_def]])
       (use id x(2) in \<open>auto simp: device_bundle_def otp_id_ok_def split: option.splits\<close>)
  then obtain s where s: "bj_of_envelope (be_J B) env = Inr s" "bj_to_envelope (be_J B) s = Inr env"
    using bot_json_contract.envelope_codec [OF J] by blast
  have d: "b64_decode (be_C B) (pe_envelope e) = Inr s" using x(3) s(1) crypto_contract.b64_decode_encode [OF C] by simp
  have "deferred_unwrap_key (be_C B) env \<lparr>dl_ik_secret = id_x25519 ident, dl_spk_secret = spk, dl_otk_secret = map_option snd otk\<rparr>
      = Inr key"
    if "secrets_ok ident spk otk" "has_otk_id otk" "device_bundle device otp = published_bundle (be_C B) ident i spk otk"
    for ident i spk otk
    using crypto_contract.wrapped_key_unwraps [OF C that(1,2) _ _ _ len(1) x(1) [unfolded draw_wrap_def that(3)]] len(2) [of j]
    by (simp add: wrap_draw_ok_def)
  then show ?thesis unfolding opens_on_def using x(2) s(2) d by blast
qed

lemma usable_key_id: "to_usable_device B r = Some device \<Longrightarrow> sp_key_id (ud_signed_prekey device) < 2 ^ 32"
  by (auto simp: to_usable_device_def BOT_KEY_ID_def Let_def split: option.splits if_splits sum.splits)

lemma fetched_key_id:
  assumes "fetch_target_devices B ok uid t = Inr devices" "device \<in> set devices"
  shows "sp_key_id (ud_signed_prekey device) < 2 ^ 32"
proof -
  have "\<exists>r. to_usable_device B r = Some device"
    using assms by (clarsimp simp: fetch_target_devices_def List.map_filter_def split: if_splits) blast
  then show ?thesis using usable_key_id by blast
qed

lemma keep_content_key_kept:
  assumes C: "crypto_contract (be_C B)" and "length nonce = 12"
    and "keep_content_key B nonce bot_uid mid key es = (Inr u, es')" "fmlookup (bt_secret (es_bot es)) mid = None"
  shows "\<exists>row k. fmlookup (bt_secret (es_bot es')) mid = Some row \<and> load_master_key B = Inr k \<and>
    vault_open (be_C B) k (bx_nonce row) (bx_ciphertext row) = Inr key"
proof -
  obtain k n c where k: "load_master_key B = Inr k" "vault_seal (be_C B) nonce k key = Inr (n, c)"
    using assms(3) by (auto simp: keep_content_key_def try_res_Inr_iff split: sum.splits)
  have "fmlookup (bt_secret (es_bot es')) mid = Some \<lparr>bx_uid = bot_uid, bx_nonce = n, bx_ciphertext = c\<rparr>"
    using assms(3,4) k by (auto simp: keep_content_key_def split: if_splits)
  moreover have "vault_open (be_C B) k n c = Inr key"
    using k(2) crypto_contract.aes_open_seal [OF C] assms(2)
    by (auto simp: vault_seal_def vault_open_def split: if_splits option.splits)
  ultimately show ?thesis using k(1) by auto
qed

lemma sent_encrypted:
  fixes es es' :: "('j, 'db) E2eServer"
  assumes C: "crypto_contract (be_C B)" and d: "dm_draw_ok d" and run: "send_bot_dm E B d bot_uid uid ct plaintext es = (Inr mid, es')"
  shows "\<exists>n payload (enc :: DeferredEncrypted) srv.
    prepare_bot_dm B d bot_uid uid ct plaintext (es_bot es) = Inr (enc, payload) \<and>
    send_message E payload (es_server es) = (Inr mid, srv) \<and> pl_target payload = TargetUser uid \<and> pl_detail payload = Normal n \<and>
    cc_content_type (nm_content n) = CONTENT_TYPE \<and>
    cc_content (nm_content n) = dm_wire (be_C B) (be_J B) (de_ciphertext enc) (de_nonce enc)
      (dm_metadata (be_J B) (dd_local_id d) ct bot_uid uid) \<and>
    deferred_decrypt (be_C B) (de_ciphertext enc) (dd_content_key d) (de_nonce enc) (de_sha256 enc) = Inr plaintext \<and>
    de_content_key enc = dd_content_key d"
proof -
  let ?md = "dm_metadata (be_J B) (dd_local_id d) ct bot_uid uid" and ?key = "dd_content_key d"
  obtain x where x: "prepare_bot_dm B d bot_uid uid ct plaintext (es_bot es) = Inr x"
    using run by (auto simp: send_bot_dm_def split: sum.splits)
  then obtain enc and row :: bot_identity_row where
    enc: "deferred_encrypt (be_C B) (bj_to_vec (be_J B)) ?key (dd_nonce d) plaintext ?md = Inr enc"
    and xe: "x = (enc, dm_payload (be_now B) bot_uid uid (dm_properties (be_J B) (bi_device_id row) (dd_local_id d))
         (dm_wire (be_C B) (be_J B) (de_ciphertext enc) (de_nonce enc) ?md))"
    by (auto simp: prepare_bot_dm_def try_res_Inr_iff Let_def)
  obtain r srv where send: "send_message E (snd x) (es_server es) = (r, srv)" by fastforce
  then have "r = Inr mid" using run x
    by (auto simp: send_bot_dm_def Let_def and_then_Inr_iff split: sum.splits prod.splits)
  moreover have "length ?key = 32" "length (dd_nonce d) = 12" using d by (simp_all add: dm_draw_ok_def)
  ultimately show ?thesis
    using x xe send crypto_contract.content_decrypts [OF C _ _ enc] by (auto simp: dm_payload_def)
qed


definition demo_dm_draw :: dm_draw where
  "demo_dm_draw = \<lparr>dd_local_id = ''l1'', dd_content_key = replicate 32 CHR ''k'', dd_nonce = replicate 12 CHR ''n'',
     dd_secret_nonce = replicate 12 CHR ''s'', dd_wraps = (\<lambda>m d j. demo_wrap_draw id)\<rparr>"

definition demo_out_env :: "(string, sorted_db) Env" where
  "demo_out_env = (demo_mail_env '''')\<lparr>en_C := \<lparr>enc_payload = (\<lambda>p. Some ''p''), dec_payload = (\<lambda>b. None), enc_merged = (\<lambda>m. Some ''m''),
     dec_merged = (\<lambda>b. None)\<rparr>\<rparr>"

definition demo_vault_row :: bot_identity_row where
  "demo_vault_row = \<lparr>bi_device_id = ''bot:7'', bi_key_version = 1, bi_nonce = '''', bi_ciphertext = '''',
    bi_identity_key_pub = '''', bi_signed_prekey_pub = '''', bi_signed_prekey_sig = '''', bi_created_at = 0, bi_updated_at = 0,
    bi_rotated_at = None\<rparr>"

definition demo_outbox :: "(string, sorted_db) E2eServer" where
  "demo_outbox = demo_bot_server\<lparr>es_bot := (es_bot demo_bot_server)\<lparr>bt_identity := fmupd 7 demo_vault_row fmempty\<rparr>\<rparr>"

lemma demo_sent: "fst (send_bot_dm demo_out_env demo_B demo_dm_draw 7 3 ''text/plain'' ''hi'' demo_outbox) = Inr 1"
  by code_simp


section \<open>In the clear\<close>



end
