(* ===== verification/User_Settings.thy ===== *)
theory User_Settings
  imports User_Cache
begin

text \<open>
  The settings of a user (\<open>src/api/user.rs\<close>): mutes, burn-after-reading times and read indexes of users and groups.
  The three tables have one row per user and target (unique indexes); their statements are \<open>insert ... on conflict
  do update\<close> and \<open>delete\<close>. Each request checks its targets, writes the tables in one transaction, then the cache,
  and tells the other devices of the user.
\<close>

section \<open>Setting tables\<close>

type_synonym setting_key = "i64 \<times> i64 option \<times> i64 option"

definition user_key :: "i64 \<Rightarrow> i64 \<Rightarrow> setting_key" where
  "user_key uid t = (uid, Some t, None)"

definition group_key :: "i64 \<Rightarrow> i64 \<Rightarrow> setting_key" where
  "group_key uid g = (uid, None, Some g)"

definition row_key_of :: "'v setting_row \<Rightarrow> setting_key" where
  "row_key_of r = (sr_uid r, sr_target_uid r, sr_target_gid r)"

definition sql_upsert_setting :: "setting_key \<times> 'v \<Rightarrow> 'v setting_row list \<Rightarrow> 'v setting_row list" where
  "sql_upsert_setting kv rows =
     (case kv of ((uid, t, g), v) \<Rightarrow>
       if list_ex (\<lambda>r. row_key_of r = fst kv) rows
       then map (\<lambda>r. if row_key_of r = fst kv then r\<lparr>sr_value := v\<rparr> else r) rows
       else rows @ [\<lparr>sr_uid = uid, sr_target_uid = t, sr_target_gid = g, sr_value = v\<rparr>])"

definition sql_delete_setting :: "setting_key \<Rightarrow> 'v setting_row list \<Rightarrow> 'v setting_row list" where
  "sql_delete_setting k rows = filter (\<lambda>r. row_key_of r \<noteq> k) rows"

text \<open>The value stored under a key; the last row counts, as in the loop that loads the cache.\<close>

definition setting :: "'v setting_row list \<Rightarrow> setting_key \<Rightarrow> 'v option" where
  "setting rows = map_of (rev (map (\<lambda>r. (row_key_of r, sr_value r)) rows))"

lemma setting_upsert [simp]: "setting (sql_upsert_setting (k, v) rows) = (setting rows)(k \<mapsto> v)"
proof (cases "list_ex (\<lambda>r. row_key_of r = k) rows")
  case False
  then show ?thesis
    by (cases k) (auto simp: sql_upsert_setting_def setting_def row_key_of_def)
next
  case True
  have "map_of (map (\<lambda>r. (row_key_of (if row_key_of r = k then r\<lparr>sr_value := v\<rparr> else r),
        sr_value (if row_key_of r = k then r\<lparr>sr_value := v\<rparr> else r))) xs) k' =
      (if k' = k \<and> list_ex (\<lambda>r. row_key_of r = k) xs then Some v else map_of (map (\<lambda>r. (row_key_of r, sr_value r)) xs) k')"
    for xs :: "'a setting_row list" and k'
    by (induction xs) (auto simp: row_key_of_def)
  from this [of "rev rows"] True show ?thesis
    by (cases k) (auto simp: sql_upsert_setting_def setting_def rev_map o_def list_ex_iff fun_eq_iff)
qed

lemma setting_delete [simp]: "setting (sql_delete_setting k rows) = (setting rows)(k := None)"
proof -
  have "map_of (map (\<lambda>r. (row_key_of r, sr_value r)) (filter (\<lambda>r. row_key_of r \<noteq> k) xs)) k' =
      (if k' = k then None else map_of (map (\<lambda>r. (row_key_of r, sr_value r)) xs) k')"
    for xs :: "'a setting_row list" and k'
    by (induction xs) auto
  from this [of "rev rows"] show ?thesis
    by (auto simp: sql_delete_setting_def setting_def rev_map fun_eq_iff simp flip: rev_filter)
qed

lemma fmlookup_settings_user: "fmlookup (settings_user uid rows) t = setting rows (user_key uid t)"
  by (induction rows rule: rev_induct)
     (auto simp: settings_user_def setting_def user_key_def row_key_of_def split: option.splits)

lemma fmlookup_settings_group: "fmlookup (settings_group uid rows) g = setting rows (group_key uid g)"
  by (induction rows rule: rev_induct)
     (auto simp: settings_group_def setting_def group_key_def row_key_of_def split: option.splits)

lemma setting_filter:
  "(\<And>r. r \<in> set rows \<Longrightarrow> row_key_of r = k \<Longrightarrow> P r) \<Longrightarrow> setting (filter P rows) k = setting rows k"
proof (induction rows rule: rev_induct)
  case (snoc r rows)
  then show ?case by (auto simp: setting_def)
qed (simp add: setting_def)

text \<open>A list of changes of one user: \<open>Some v\<close> sets a target, \<open>None\<close> removes it.\<close>

definition apply_setting :: "(i64 \<Rightarrow> setting_key) \<Rightarrow> i64 \<times> 'v option \<Rightarrow> 'v setting_row list \<Rightarrow> 'v setting_row list" where
  "apply_setting key change rows =
     (case snd change of
        Some v \<Rightarrow> sql_upsert_setting (key (fst change), v) rows
      | None \<Rightarrow> sql_delete_setting (key (fst change)) rows)"

definition apply_cached :: "i64 \<times> 'v option \<Rightarrow> (i64, 'v) fmap \<Rightarrow> (i64, 'v) fmap" where
  "apply_cached change m = (case snd change of Some v \<Rightarrow> fmupd (fst change) v m | None \<Rightarrow> fmdrop (fst change) m)"

lemma apply_setting_lookup:
  "setting (apply_setting key c rows) = (setting rows)(key (fst c) := snd c)"
  by (cases c; cases "snd c") (simp_all add: apply_setting_def)

lemma apply_cached_lookup: "fmlookup (apply_cached c m) t = (if t = fst c then snd c else fmlookup m t)"
  by (cases c; cases "snd c") (auto simp: apply_cached_def)

lemma apply_settings_match:
  assumes "inj key" "\<And>t. t \<in> T \<Longrightarrow> fmlookup m t = setting rows (key t)"
  shows "t \<in> T \<Longrightarrow> fmlookup (fold apply_cached cs m) t = setting (fold (apply_setting key) cs rows) (key t)"
  using assms(2)
proof (induction cs arbitrary: m rows)
  case (Cons c cs)
  show ?case
    by (simp, rule Cons.IH) (use Cons.prems injD [OF assms(1)] in \<open>auto simp: apply_cached_lookup apply_setting_lookup\<close>)
qed simp

lemma apply_settings_other:
  "k \<notin> range key \<Longrightarrow> setting (fold (apply_setting key) cs rows) k = setting rows k"
  by (induction cs arbitrary: rows) (auto simp: apply_setting_lookup)

lemma inj_user_key [simp]: "inj (user_key uid)"
  by (auto simp: inj_def user_key_def)

lemma inj_group_key [simp]: "inj (group_key uid)"
  by (auto simp: inj_def group_key_def)

section \<open>Requests\<close>

definition find_user :: "('j, 'db) State \<Rightarrow> i64 \<Rightarrow> CacheUser option" where
  "find_user st uid = fmlookup (st_users st) uid"

definition put_user :: "i64 \<Rightarrow> CacheUser \<Rightarrow> ('j, 'db) State \<Rightarrow> ('j, 'db) State" where
  "put_user uid u st = st\<lparr>st_cache := (st_cache st)\<lparr>ca_users := fmupd uid u (st_users st)\<rparr>\<rparr>"

definition known_user :: "('j, 'db) State \<Rightarrow> i64 \<Rightarrow> bool" where
  "known_user st uid \<longleftrightarrow> fmlookup (st_users st) uid \<noteq> None"

definition known_group :: "('j, 'db) State \<Rightarrow> i64 \<Rightarrow> bool" where
  "known_group st gid \<longleftrightarrow> fmlookup (st_groups st) gid \<noteq> None"

text \<open>The foreign keys of a changed row; deletions need none.\<close>

definition targets_exist :: "tables \<Rightarrow> i64 \<Rightarrow> i64 list \<Rightarrow> i64 list \<Rightarrow> bool" where
  "targets_exist db uid us gs \<longleftrightarrow>
     (us = [] \<and> gs = [] \<or> fmlookup (tb_user db) uid \<noteq> None) \<and>
     list_all (\<lambda>u. fmlookup (tb_user db) u \<noteq> None) us \<and> list_all (\<lambda>g. fmlookup (tb_group db) g \<noteq> None) gs"

definition settings_event :: "UserSettingsChangedMessage \<Rightarrow> i64 \<Rightarrow> ('j, 'db) State \<Rightarrow> ('j, 'db) State" where
  "settings_event m uid st = broadcast [UserSettingsChanged uid m] st"

text \<open>The change message with empty lists.\<close>

definition no_settings :: "string \<Rightarrow> UserSettingsChangedMessage" where
  "no_settings device = \<lparr>us_from_device = device, us_add_mute_users = [], us_remove_mute_users = [], us_add_mute_groups = [],
     us_remove_mute_groups = [], us_read_index_users = [], us_read_index_groups = [], us_burn_after_reading_users = [],
     us_burn_after_reading_groups = []\<rparr>"

subsection \<open>Mute\<close>

record MuteRequest =
  mr_add_users :: "(i64 \<times> u32 option) list"
  mr_add_groups :: "(i64 \<times> u32 option) list"
  mr_remove_users :: "i64 list"
  mr_remove_groups :: "i64 list"

definition seconds :: "nat \<Rightarrow> DateTime" where
  "seconds n = int n * 1000000000"

definition muted_until :: "DateTime \<Rightarrow> i64 \<times> u32 option \<Rightarrow> i64 \<times> DateTime option" where
  "muted_until now item = (fst item, map_option (\<lambda>n. now + seconds n) (snd item))"

definition mute_forbidden :: "Token \<Rightarrow> MuteRequest \<Rightarrow> ('j, 'db) State \<Rightarrow> bool" where
  "mute_forbidden token req st \<longleftrightarrow>
     list_ex (\<lambda>(uid, e). uid = tk_uid token \<or> \<not> known_user st uid) (mr_add_users req) \<or>
     list_ex (\<lambda>(gid, e). \<not> known_group st gid) (mr_add_groups req) \<or>
     list_ex (\<lambda>uid. \<not> known_user st uid) (mr_remove_users req) \<or>
     list_ex (\<lambda>gid. \<not> known_group st gid) (mr_remove_groups req)"

definition added :: "(i64 \<times> 'v) list \<Rightarrow> (i64 \<times> 'v option) list" where
  "added items = map (\<lambda>(t, v). (t, Some v)) items"

definition removed :: "i64 list \<Rightarrow> (i64 \<times> 'v option) list" where
  "removed ts = map (\<lambda>t. (t, None)) ts"

definition mute_tables :: "i64 \<Rightarrow> (i64 \<times> DateTime option) list \<Rightarrow> (i64 \<times> DateTime option) list \<Rightarrow> i64 list \<Rightarrow> i64 list \<Rightarrow>
    tables \<Rightarrow> tables" where
  "mute_tables uid add_users add_groups remove_users remove_groups db =
     db\<lparr>tb_mute :=
       fold (apply_setting (group_key uid)) (removed remove_groups)
         (fold (apply_setting (user_key uid)) (removed remove_users)
           (fold (apply_setting (group_key uid)) (added add_groups)
             (fold (apply_setting (user_key uid)) (added add_users) (tb_mute db))))\<rparr>"

definition mute :: "bool \<Rightarrow> DateTime \<Rightarrow> Token \<Rightarrow> MuteRequest \<Rightarrow> ('j, 'db, unit) handler" where
  "mute db_ok now token req st =
     (if mute_forbidden token req st then (Inl (from_status BAD_REQUEST), st)
      else case find_user st (tk_uid token) of
        None \<Rightarrow> (Inl (from_status UNAUTHORIZED), st)
      | Some user \<Rightarrow>
          let uid = tk_uid token;
              add_users = map (muted_until now) (mr_add_users req);
              add_groups = map (muted_until now) (mr_add_groups req);
              remove_users = mr_remove_users req; remove_groups = mr_remove_groups req;
              db = st_tables st
          in if \<not> db_ok \<or> \<not> targets_exist db uid (map fst add_users) (map fst add_groups) then (Inl internal_error, st)
             else (Inr (), settings_event
               ((no_settings (tk_device token))\<lparr>us_add_mute_users := add_users, us_add_mute_groups := add_groups,
                  us_remove_mute_users := remove_users, us_remove_mute_groups := remove_groups\<rparr>) uid
               (put_user uid
                 (user\<lparr>cu_mute_user := fold apply_cached (removed remove_users) (fold apply_cached (added add_users) (cu_mute_user user)),
                    cu_mute_group := fold apply_cached (removed remove_groups)
                      (fold apply_cached (added add_groups) (cu_mute_group user))\<rparr>)
                 (set_tables (mute_tables uid add_users add_groups remove_users remove_groups db) st))))"

subsection \<open>Burn after reading\<close>

record UpdateBurnAfterReadingRequest =
  br_on_users :: "(i64 \<times> i64) list"
  br_on_groups :: "(i64 \<times> i64) list"

definition burn_forbidden :: "Token \<Rightarrow> UpdateBurnAfterReadingRequest \<Rightarrow> ('j, 'db) State \<Rightarrow> bool" where
  "burn_forbidden token req st \<longleftrightarrow>
     list_ex (\<lambda>(uid, e). uid = tk_uid token \<or> \<not> known_user st uid \<or> e < 0) (br_on_users req) \<or>
     list_ex (\<lambda>(gid, e). \<not> known_group st gid \<or> e < 0) (br_on_groups req)"

text \<open>A positive time is set, zero removes the row.\<close>

definition burn_change :: "i64 \<times> i64 \<Rightarrow> i64 \<times> i64 option" where
  "burn_change item = (fst item, if snd item > 0 then Some (snd item) else None)"

definition burn_targets :: "(i64 \<times> i64) list \<Rightarrow> i64 list" where
  "burn_targets items = map fst (filter (\<lambda>(t, e). e > 0) items)"

definition update_burn_after_reading ::
    "bool \<Rightarrow> Token \<Rightarrow> UpdateBurnAfterReadingRequest \<Rightarrow> ('j, 'db, unit) handler" where
  "update_burn_after_reading db_ok token req st =
     (if burn_forbidden token req st then (Inl (from_status BAD_REQUEST), st)
      else case find_user st (tk_uid token) of
        None \<Rightarrow> (Inl (from_status UNAUTHORIZED), st)
      | Some user \<Rightarrow>
          let uid = tk_uid token; on_users = map burn_change (br_on_users req); on_groups = map burn_change (br_on_groups req);
              db = st_tables st
          in if \<not> db_ok \<or> \<not> targets_exist db uid (burn_targets (br_on_users req)) (burn_targets (br_on_groups req))
             then (Inl internal_error, st)
             else (Inr (), settings_event
               ((no_settings (tk_device token))\<lparr>us_burn_after_reading_users := br_on_users req,
                  us_burn_after_reading_groups := br_on_groups req\<rparr>) uid
               (put_user uid
                 (user\<lparr>cu_burn_after_reading_user := fold apply_cached on_users (cu_burn_after_reading_user user),
                    cu_burn_after_reading_group := fold apply_cached on_groups (cu_burn_after_reading_group user)\<rparr>)
                 (set_tables (db\<lparr>tb_burn_after_reading := fold (apply_setting (group_key uid)) on_groups
                    (fold (apply_setting (user_key uid)) on_users (tb_burn_after_reading db))\<rparr>) st))))"

subsection \<open>Read index\<close>

record UpdateReadIndexRequest =
  rd_users :: "(i64 \<times> i64) list"
  rd_groups :: "(i64 \<times> i64) list"

definition read_forbidden :: "Token \<Rightarrow> UpdateReadIndexRequest \<Rightarrow> ('j, 'db) State \<Rightarrow> bool" where
  "read_forbidden token req st \<longleftrightarrow>
     list_ex (\<lambda>(uid, m). uid = tk_uid token \<or> \<not> known_user st uid) (rd_users req) \<or>
     list_ex (\<lambda>(gid, m). \<not> known_group st gid) (rd_groups req)"

text \<open>Each item is compared with the index before the request.\<close>

definition advances :: "(i64, i64) fmap \<Rightarrow> i64 \<times> i64 \<Rightarrow> bool" where
  "advances m item \<longleftrightarrow> (case fmlookup m (fst item) of Some prev_mid \<Rightarrow> snd item > prev_mid | None \<Rightarrow> True)"

definition update_read_index :: "bool \<Rightarrow> Token \<Rightarrow> UpdateReadIndexRequest \<Rightarrow> ('j, 'db, unit) handler" where
  "update_read_index db_ok token req st =
     (if read_forbidden token req st then (Inl (from_status BAD_REQUEST), st)
      else case find_user st (tk_uid token) of
        None \<Rightarrow> (Inl (from_status UNAUTHORIZED), st)
      | Some user \<Rightarrow>
          let uid = tk_uid token; db = st_tables st;
              on_users = filter (advances (cu_read_index_user user)) (rd_users req);
              on_groups = filter (advances (cu_read_index_group user)) (rd_groups req)
          in if on_users = [] \<and> on_groups = [] then (Inr (), st)
             else if \<not> db_ok \<or> \<not> targets_exist db uid (map fst on_users) (map fst on_groups) then (Inl internal_error, st)
             else (Inr (), settings_event
               ((no_settings (tk_device token))\<lparr>us_read_index_users := on_users, us_read_index_groups := on_groups\<rparr>) uid
               (put_user uid
                 (user\<lparr>cu_read_index_user := fold apply_cached (added on_users) (cu_read_index_user user),
                    cu_read_index_group := fold apply_cached (added on_groups) (cu_read_index_group user)\<rparr>)
                 (set_tables (db\<lparr>tb_read_index := fold (apply_setting (group_key uid)) (added on_groups)
                    (fold (apply_setting (user_key uid)) (added on_users) (tb_read_index db))\<rparr>) st))))"

end
