(* ===== verification/Password_Hash.thy ===== *)
theory Password_Hash
  imports Prelude
begin

text \<open>
  Stored passwords (\<open>src/password_hash.rs\<close>): new ones are Argon2id hashes; the values of older databases, MD5 of MD5 or
  the plain text, still match and are replaced at the next login. Argon2id and MD5 (in hexadecimal digits) are the argument
  \<open>hash_ops\<close>; \<open>salt\<close> is drawn.
\<close>

record hash_ops =
  ho_argon2id :: "string \<Rightarrow> string \<Rightarrow> string option"
  ho_verify :: "string \<Rightarrow> string \<Rightarrow> bool"
  ho_md5_hex :: "string \<Rightarrow> string"

definition ARGON2ID_PREFIX :: string where
  "ARGON2ID_PREFIX = ''$argon2id$''"

definition is_hex_digit :: "char \<Rightarrow> bool" where
  "is_hex_digit c \<longleftrightarrow> (let n = of_char c :: nat in 48 \<le> n \<and> n \<le> 57 \<or> 97 \<le> n \<and> n \<le> 102)"

text \<open>
  The laws: a hash is a PHC string of Argon2id and verifies against its password; an MD5 digest has 32
  lower-case digits.
\<close>

locale hash_contract =
  fixes H :: hash_ops
  assumes argon2id_prefix: "ho_argon2id H salt p = Some h \<Longrightarrow> starts_with h ARGON2ID_PREFIX"
    and argon2id_verify: "ho_argon2id H salt p = Some h \<Longrightarrow> ho_verify H p h"
    and md5_digits: "length (ho_md5_hex H m) = 32 \<and> list_all is_hex_digit (ho_md5_hex H m)"

section \<open>Operations\<close>

definition hash_password :: "hash_ops \<Rightarrow> string \<Rightarrow> string \<Rightarrow> string option" where
  "hash_password H salt password = ho_argon2id H salt password"

definition verify_password :: "hash_ops \<Rightarrow> string \<Rightarrow> string \<Rightarrow> bool" where
  "verify_password H password stored = ho_verify H password stored"

definition looks_like_argon2id :: "string \<Rightarrow> bool" where
  "looks_like_argon2id stored = starts_with stored ARGON2ID_PREFIX"

definition looks_like_double_md5 :: "string \<Rightarrow> bool" where
  "looks_like_double_md5 stored \<longleftrightarrow> length stored = 32 \<and> list_all is_hex_digit stored"

definition double_md5_hex :: "hash_ops \<Rightarrow> string \<Rightarrow> string" where
  "double_md5_hex H password = ho_md5_hex H (ho_md5_hex H password)"

record VerifyAndUpgrade =
  vu_matched :: bool
  vu_upgraded_hash :: "string option"

definition verify_and_upgrade :: "hash_ops \<Rightarrow> string \<Rightarrow> string \<Rightarrow> string \<Rightarrow> VerifyAndUpgrade" where
  "verify_and_upgrade H salt plaintext stored =
     (if looks_like_argon2id stored
      then \<lparr>vu_matched = verify_password H plaintext stored, vu_upgraded_hash = None\<rparr>
      else if (if looks_like_double_md5 stored then double_md5_hex H plaintext = stored else stored = plaintext)
      then \<lparr>vu_matched = True, vu_upgraded_hash = hash_password H salt plaintext\<rparr>
      else \<lparr>vu_matched = False, vu_upgraded_hash = None\<rparr>)"

section \<open>What a stored value accepts\<close>

text \<open>The value after a login: the new hash when there is one.\<close>

definition stored_after :: "VerifyAndUpgrade \<Rightarrow> string \<Rightarrow> string" where
  "stored_after v stored = (case vu_upgraded_hash v of None \<Rightarrow> stored | Some h \<Rightarrow> h)"

context hash_contract
begin

lemma digest_not_argon2id: "\<not> looks_like_argon2id (double_md5_hex H p)"
proof
  assume "looks_like_argon2id (double_md5_hex H p)"
  then have "set ARGON2ID_PREFIX \<subseteq> set (double_md5_hex H p)"
    unfolding looks_like_argon2id_def starts_with_def by (metis set_take_subset)
  then have "CHR ''$'' \<in> set (double_md5_hex H p)" by (simp add: ARGON2ID_PREFIX_def)
  then show False using md5_digits [of "ho_md5_hex H p"]
    by (auto simp: double_md5_hex_def list_all_iff is_hex_digit_def Let_def dest!: bspec)
qed

lemma digest_matches:
  "vu_matched (verify_and_upgrade H salt q (double_md5_hex H p)) \<longleftrightarrow> double_md5_hex H q = double_md5_hex H p"
  using digest_not_argon2id md5_digits [of "ho_md5_hex H p"]
  by (auto simp: verify_and_upgrade_def looks_like_double_md5_def double_md5_hex_def)

lemma hash_matches:
  assumes "hash_password H s p = Some h"
  shows "verify_and_upgrade H salt q h = \<lparr>vu_matched = ho_verify H q h, vu_upgraded_hash = None\<rparr>"
  using assms argon2id_prefix argon2id_verify
  by (simp add: verify_and_upgrade_def looks_like_argon2id_def hash_password_def verify_password_def)

lemma upgrade_keeps_password:
  assumes "vu_matched (verify_and_upgrade H salt p stored)" "vu_upgraded_hash (verify_and_upgrade H salt p stored) = Some h"
  shows "verify_and_upgrade H salt' q h = \<lparr>vu_matched = ho_verify H q h, vu_upgraded_hash = None\<rparr>"
proof -
  have "hash_password H salt p = Some h"
    using assms(2) by (auto simp: verify_and_upgrade_def split: if_splits)
  then show ?thesis by (rule hash_matches)
qed

lemma matched_again:
  assumes "vu_matched (verify_and_upgrade H salt p stored)"
  shows "vu_matched (verify_and_upgrade H salt' p (stored_after (verify_and_upgrade H salt p stored) stored))"
proof (cases "vu_upgraded_hash (verify_and_upgrade H salt p stored)")
  case None
  then show ?thesis using assms by (auto simp: stored_after_def verify_and_upgrade_def split: if_splits)
next
  case (Some h)
  then have "hash_password H salt p = Some h" by (auto simp: verify_and_upgrade_def split: if_splits)
  then show ?thesis
    using upgrade_keeps_password [OF assms Some] argon2id_verify Some by (simp add: stored_after_def hash_password_def)
qed

end

definition demo_hash :: hash_ops where
  "demo_hash = \<lparr>ho_argon2id = (\<lambda>salt p. if CHR ''$'' \<in> set salt then None else Some (ARGON2ID_PREFIX @ salt @ CHR ''$'' # p)),
     ho_verify = (\<lambda>p h. tl (dropWhile (\<lambda>c. c \<noteq> CHR ''$'') (drop (length ARGON2ID_PREFIX) h)) = p),
     ho_md5_hex = (\<lambda>m. 
       if m = ''pw'' then replicate 32 CHR ''a'' else if m = replicate 32 CHR ''a'' then replicate 32 CHR ''b''
       else replicate 32 CHR ''0'')\<rparr>"

lemma demo_dollar: "CHR ''$'' \<notin> set salt \<Longrightarrow> tl (dropWhile (\<lambda>c. c \<noteq> CHR ''$'') (salt @ CHR ''$'' # p)) = p"
  by (induction salt) auto

interpretation demo_hash: hash_contract demo_hash
proof
  show "length (ho_md5_hex demo_hash m) = 32 \<and> list_all is_hex_digit (ho_md5_hex demo_hash m)" for m
    by (simp add: demo_hash_def is_hex_digit_def list_all_iff)
qed (auto simp: demo_hash_def starts_with_def demo_dollar split: if_splits)

text \<open>
  C0 Passwords: the value stored for a password accepts it, and a login under an older format stores a value that accepts the
  same password from then on, unless hashing failed, and then nothing is stored. A stored digest accepts only texts
  with that double digest, so its own text does not log in.
\<close>

theorem stored_passwords_accept_their_password:
  assumes "hash_contract H"
  shows "(hash_password H salt p = Some stored \<longrightarrow>
       verify_and_upgrade H salt' p stored = \<lparr>vu_matched = True, vu_upgraded_hash = None\<rparr>) \<and>
    (vu_matched (verify_and_upgrade H salt p stored) \<longrightarrow>
       vu_matched (verify_and_upgrade H salt' p (stored_after (verify_and_upgrade H salt p stored) stored)) \<and>
       (looks_like_argon2id (stored_after (verify_and_upgrade H salt p stored) stored) \<or> hash_password H salt p = None)) \<and>
    (stored = double_md5_hex H p \<longrightarrow>
       (vu_matched (verify_and_upgrade H salt q stored) \<longleftrightarrow> double_md5_hex H q = stored) \<and>
       (vu_matched (verify_and_upgrade H salt stored stored) \<longleftrightarrow> double_md5_hex H stored = stored))"
proof -
  have "looks_like_argon2id (stored_after (verify_and_upgrade H salt p stored) stored) \<or> hash_password H salt p = None"
    if "vu_matched (verify_and_upgrade H salt p stored)"
    using that hash_contract.argon2id_prefix [OF assms, of salt p]
    by (auto simp: verify_and_upgrade_def stored_after_def hash_password_def looks_like_argon2id_def split: if_splits option.splits)
  then show ?thesis
    using hash_contract.hash_matches [OF assms, of salt p stored salt' p] hash_contract.argon2id_verify [OF assms, of salt p stored]
      hash_contract.matched_again [OF assms, of salt p stored salt'] hash_contract.digest_matches [OF assms]
    by (auto simp: hash_password_def)
qed

theorem stored_passwords_accept_their_password_witness:
  "verify_and_upgrade demo_hash ''t'' ''pw'' (ARGON2ID_PREFIX @ ''s$pw'') = \<lparr>vu_matched = True, vu_upgraded_hash = None\<rparr> \<and>
   \<not> vu_matched (verify_and_upgrade demo_hash ''s'' (replicate 32 CHR ''b'') (replicate 32 CHR ''b''))"
proof -
  have neq: "replicate 32 c \<noteq> ''pw''" for c by (auto dest: arg_cong [of _ _ length])
  note demo = stored_passwords_accept_their_password [OF demo_hash.hash_contract_axioms, of "''s''" "''pw''"]
  have "hash_password demo_hash ''s'' ''pw'' = Some (ARGON2ID_PREFIX @ ''s$pw'')"
    "replicate 32 (CHR ''b'') = double_md5_hex demo_hash ''pw''"
    "double_md5_hex demo_hash (replicate 32 (CHR ''b'')) \<noteq> replicate 32 (CHR ''b'')"
    using neq by (simp_all add: hash_password_def double_md5_hex_def demo_hash_def)
  then show ?thesis
    using demo [of "ARGON2ID_PREFIX @ ''s$pw''" "''t''" "''q''"] demo [of "replicate 32 CHR ''b''" "''t''" "''q''"] by metis
qed

end
