(* ===== verification/Auth_Token.thy ===== *)
theory Auth_Token
  imports Chat_State
begin

text \<open>
  Access and refresh tokens (\<open>crates/token\<close>) and the check of the caller (\<open>api_checker\<close> of \<open>src/api/token.rs\<close>). Signing and
  verifying JSON web tokens is the argument \<open>jwt_ops\<close>; nonces are drawn.
\<close>

datatype TokenType = AccessToken | RefreshToken

record TokenFields =
  tf_data :: Token
  tf_expire_at :: DateTime
  tf_nonce :: string
  tf_token_type :: TokenType

record jwt_ops =
  jw_sign :: "string \<Rightarrow> TokenFields \<Rightarrow> string option"
  jw_verify :: "string \<Rightarrow> string \<Rightarrow> TokenFields option"

text \<open>What was signed with a key verifies under it.\<close>

locale jwt_contract =
  fixes J :: jwt_ops
  assumes verify_sign: "jw_sign J k f = Some s \<Longrightarrow> jw_verify J k s = Some f"
begin

lemma sign_inj: "jw_sign J k f = Some s \<Longrightarrow> jw_sign J k g = Some s \<Longrightarrow> f = g"
  using verify_sign [of k f s] verify_sign [of k g s] by simp

end

datatype token_error = BadToken | Expired

definition create_token :: "jwt_ops \<Rightarrow> string \<Rightarrow> DateTime \<Rightarrow> string \<Rightarrow> Token \<Rightarrow> TokenType \<Rightarrow> i64 \<Rightarrow> token_error + string" where
  "create_token J server_key now nonce data ty expiry_seconds =
     ok_or BadToken (jw_sign J server_key
       \<lparr>tf_data = data, tf_expire_at = now + expiry_seconds * 1000000000, tf_nonce = nonce, tf_token_type = ty\<rparr>)"

text \<open>The refresh token and the access token.\<close>

definition create_token_pair ::
    "jwt_ops \<Rightarrow> string \<Rightarrow> DateTime \<Rightarrow> string \<times> string \<Rightarrow> Token \<Rightarrow> i64 \<Rightarrow> i64 \<Rightarrow> token_error + string \<times> string" where
  "create_token_pair J server_key now nonces data refresh_token_expiry_seconds token_expiry_seconds =
     try_res (create_token J server_key now (fst nonces) data RefreshToken refresh_token_expiry_seconds) (\<lambda>refresh_token.
     try_res (create_token J server_key now (snd nonces) data AccessToken token_expiry_seconds) (\<lambda>token.
       Inr (refresh_token, token)))"

definition parse_token :: "jwt_ops \<Rightarrow> string \<Rightarrow> DateTime \<Rightarrow> string \<Rightarrow> bool \<Rightarrow> token_error + TokenType \<times> Token" where
  "parse_token J server_key now token check_expired =
     try_res (ok_or BadToken (jw_verify J server_key token)) (\<lambda>f.
       if check_expired \<and> tf_expire_at f < now then Inl Expired
       else Inr (tf_token_type f, tf_data f))"

text \<open>Refresh tokens do not authenticate a request; nothing else than the token is looked at.\<close>

definition api_checker :: "jwt_ops \<Rightarrow> string \<Rightarrow> DateTime \<Rightarrow> string \<Rightarrow> Token option" where
  "api_checker J server_key now api_key =
     (case parse_token J server_key now api_key True of
        Inr (AccessToken, current_user) \<Rightarrow> Some current_user
      | _ \<Rightarrow> None)"

context jwt_contract
begin

lemma create_token_fields:
  "create_token J k now n d ty secs = Inr s \<Longrightarrow>
     jw_verify J k s = Some \<lparr>tf_data = d, tf_expire_at = now + secs * 1000000000, tf_nonce = n, tf_token_type = ty\<rparr>"
  by (auto simp: create_token_def verify_sign split: option.splits)

lemma create_pair_fields:
  assumes "create_token_pair J k now ns d rs ts = Inr (refresh, access)"
  shows "jw_verify J k refresh = Some \<lparr>tf_data = d, tf_expire_at = now + rs * 1000000000, tf_nonce = fst ns, tf_token_type = RefreshToken\<rparr>"
    "jw_verify J k access = Some \<lparr>tf_data = d, tf_expire_at = now + ts * 1000000000, tf_nonce = snd ns, tf_token_type = AccessToken\<rparr>"
  using assms create_token_fields by (auto simp: create_token_pair_def try_res_Inr_iff)

end

end
