(* ===== verification/Accounts.thy ===== *)
theory Accounts
  imports User_Settings Password_Hash Auth_Token Group_Api E2e_Keys
begin

text \<open>
  Accounts: creating users (\<open>src/create_user.rs\<close>), their profile, passwords and devices (\<open>src/api/user.rs\<close>), and their
  sessions (\<open>src/api/token.rs\<close>). Beside the shared state there are the tables \<open>refresh_token\<close>, the tables that tie an
  external identity to a user, and the key directory. As with groups, \<open>aq_db_ok\<close> says whether the database works for the
  request; a transaction that fails leaves nothing behind.
\<close>

section \<open>State\<close>

text \<open>A row of \<open>google_auth\<close>, \<open>github_auth\<close>, \<open>openid_connect\<close>, \<open>metamask_auth\<close> or \<open>third_party_users\<close>, by its primary key.\<close>

datatype auth_key =
    GoogleAuth string
  | GithubAuth string
  | OpenidAuth string string
  | MetamaskAuth string
  | ThirdPartyAuth string

record ('j, 'db) Accounts =
  ac_state :: "('j, 'db) State"
  ac_refresh :: "(i64 \<times> string, string) fmap"
  ac_auth :: "(auth_key, i64) fmap"
  ac_keys :: e2e_tables

type_synonym ('j, 'db, 'a) account_op = "('j, 'db) Accounts \<Rightarrow> (api_error + 'a) \<times> ('j, 'db) Accounts"

text \<open>What the operations take from the configuration.\<close>

record auth_env =
  au_jwt :: jwt_ops
  au_hash :: hash_ops
  au_server_id :: string
  au_server_key :: string
  au_refresh_token_expiry_seconds :: i64
  au_token_expiry_seconds :: i64
  au_user_limit :: nat

text \<open>What a request finds and draws.\<close>

record auth_call =
  aq_now :: DateTime
  aq_db_ok :: bool
  aq_salt :: string
  aq_nonces :: "string \<times> string"

abbreviation ac_tables :: "('j, 'db) Accounts \<Rightarrow> tables" where
  "ac_tables ac \<equiv> st_tables (ac_state ac)"

abbreviation ac_users :: "('j, 'db) Accounts \<Rightarrow> (i64, CacheUser) fmap" where
  "ac_users ac \<equiv> st_users (ac_state ac)"

definition on_state :: "('j, 'db, 'a) handler \<Rightarrow> ('j, 'db, 'a) account_op" where
  "on_state f ac = (case f (ac_state ac) of (r, st) \<Rightarrow> (r, ac\<lparr>ac_state := st\<rparr>))"

section \<open>Statements\<close>

definition sql_insert_user :: "user_row \<Rightarrow> tables \<Rightarrow> (i64 \<times> tables) option" where
  "sql_insert_user row db =
     (if fm_any (\<lambda>r. eq_ignore_ascii_case (ur_name r) (ur_name row) \<or>
           (case (ur_email r, ur_email row) of (Some a, Some b) \<Rightarrow> eq_ignore_ascii_case a b | _ \<Rightarrow> False)) (tb_user db)
      then None
      else let uid = tb_user_seq db + 1 in Some (uid, db\<lparr>tb_user := fmupd uid row (tb_user db), tb_user_seq := uid\<rparr>))"

definition sql_update_user :: "i64 \<Rightarrow> (user_row \<Rightarrow> user_row) \<Rightarrow> tables \<Rightarrow> tables" where
  "sql_update_user uid f db = db\<lparr>tb_user := fm_modify uid f (tb_user db)\<rparr>"

definition sql_upsert_device :: "i64 \<Rightarrow> string \<Rightarrow> string option \<Rightarrow> tables \<Rightarrow> tables option" where
  "sql_upsert_device uid device device_token db =
     (if fmlookup (tb_user db) uid = None then None
      else Some (db\<lparr>tb_device :=
        (if device_exists db uid device
         then map (\<lambda>(u, d, t). if u = uid \<and> d = device then (u, d, device_token) else (u, d, t)) (tb_device db)
         else tb_device db @ [(uid, device, device_token)])\<rparr>))"

definition sql_update_device :: "i64 \<Rightarrow> string \<Rightarrow> string option \<Rightarrow> tables \<Rightarrow> tables" where
  "sql_update_device uid device device_token db =
     db\<lparr>tb_device := map (\<lambda>(u, d, t). if u = uid \<and> d = device then (u, d, device_token) else (u, d, t)) (tb_device db)\<rparr>"

definition sql_delete_device :: "i64 \<Rightarrow> string \<Rightarrow> tables \<Rightarrow> tables" where
  "sql_delete_device uid device db = db\<lparr>tb_device := filter (\<lambda>(u, d, t). \<not> (u = uid \<and> d = device)) (tb_device db)\<rparr>"

text \<open>The unique indexes on the user: all but the third-party table have one.\<close>

definition one_per_user :: "auth_key \<Rightarrow> auth_key \<Rightarrow> bool" where
  "one_per_user a b \<longleftrightarrow>
     (case (a, b) of
        (GoogleAuth x, GoogleAuth y) \<Rightarrow> True
      | (GithubAuth x, GithubAuth y) \<Rightarrow> True
      | (OpenidAuth i x, OpenidAuth j y) \<Rightarrow> True
      | (MetamaskAuth x, MetamaskAuth y) \<Rightarrow> True
      | _ \<Rightarrow> False)"

definition sql_insert_auth :: "tables \<Rightarrow> auth_key \<Rightarrow> i64 \<Rightarrow> (auth_key, i64) fmap \<Rightarrow> (auth_key, i64) fmap option" where
  "sql_insert_auth db k uid auth =
     (if fmlookup auth k \<noteq> None \<or> fmlookup (tb_user db) uid = None \<or>
         (\<exists>k' \<in> fmdom' auth. one_per_user k k' \<and> fmlookup auth k' = Some uid)
      then None else Some (fmupd k uid auth))"

section \<open>Creating a user\<close>

datatype CreateUserBy =
    ByGuest
  | ByPassword string string
  | ByMagicLink string
  | ByGoogle string
  | ByGithub string
  | ByOpenIdConnect string string "string option"
  | ByMetaMask string
  | ByThirdParty string string

fun type_name :: "CreateUserBy \<Rightarrow> string" where
  "type_name ByGuest = ''guest''"
| "type_name (ByPassword email password) = ''password''"
| "type_name (ByMagicLink email) = ''magiclink''"
| "type_name (ByGoogle email) = ''google''"
| "type_name (ByGithub username) = ''github''"
| "type_name (ByOpenIdConnect issuer subject email) = ''oidc''"
| "type_name (ByMetaMask public_address) = ''metamask''"
| "type_name (ByThirdParty thirdparty_uid username) = ''thirdparty''"

fun create_by_email :: "CreateUserBy \<Rightarrow> string option" where
  "create_by_email ByGuest = None"
| "create_by_email (ByPassword email password) = Some email"
| "create_by_email (ByMagicLink email) = Some email"
| "create_by_email (ByGoogle email) = Some email"
| "create_by_email (ByGithub username) = Some username"
| "create_by_email (ByOpenIdConnect issuer subject email) = email"
| "create_by_email (ByMetaMask public_address) = None"
| "create_by_email (ByThirdParty thirdparty_uid username) = None"

fun create_by_password :: "CreateUserBy \<Rightarrow> string option" where
  "create_by_password (ByPassword email password) = Some password"
| "create_by_password _ = None"

fun create_by_auth :: "CreateUserBy \<Rightarrow> auth_key option" where
  "create_by_auth (ByGoogle email) = Some (GoogleAuth email)"
| "create_by_auth (ByGithub username) = Some (GithubAuth username)"
| "create_by_auth (ByOpenIdConnect issuer subject email) = Some (OpenidAuth issuer subject)"
| "create_by_auth (ByMetaMask public_address) = Some (MetamaskAuth public_address)"
| "create_by_auth (ByThirdParty thirdparty_uid username) = Some (ThirdPartyAuth thirdparty_uid)"
| "create_by_auth _ = None"

record CreateUser =
  nu_name :: string
  nu_gender :: i32
  nu_is_admin :: bool
  nu_language :: "LangId option"
  nu_avatar :: "bytes option"
  nu_create_by :: CreateUserBy
  nu_webhook_url :: "string option"
  nu_is_bot :: bool

definition create_user_new :: "string \<Rightarrow> CreateUserBy \<Rightarrow> bool \<Rightarrow> CreateUser" where
  "create_user_new name create_by is_admin =
     \<lparr>nu_name = name, nu_gender = 0, nu_is_admin = is_admin, nu_language = None, nu_avatar = None,
      nu_create_by = create_by, nu_webhook_url = None, nu_is_bot = False\<rparr>"

datatype CreateUserError = NameConflict | EmailConflict | PoemError api_error

definition LangId_default :: LangId where
  "LangId_default = ''en-US''"

definition nu_lang :: "CreateUser \<Rightarrow> LangId" where
  "nu_lang c = (case nu_language c of None \<Rightarrow> LangId_default | Some l \<Rightarrow> l)"

definition nu_avatar_time :: "DateTime \<Rightarrow> CreateUser \<Rightarrow> DateTime" where
  "nu_avatar_time now c = (if nu_avatar c = None then DateTime_zero else now)"

definition new_user_row :: "DateTime \<Rightarrow> string option \<Rightarrow> CreateUser \<Rightarrow> user_row" where
  "new_user_row now password c =
     \<lparr>ur_email = create_by_email (nu_create_by c), ur_name = nu_name c, ur_password = password, ur_gender = nu_gender c,
      ur_is_admin = nu_is_admin c, ur_language = nu_lang c, ur_create_by = type_name (nu_create_by c), ur_created_at = now,
      ur_updated_at = now, ur_avatar_updated_at = nu_avatar_time now c, ur_status = 0,
      ur_is_guest = (nu_create_by c = ByGuest), ur_webhook_url = nu_webhook_url c, ur_is_bot = nu_is_bot c\<rparr>"

definition new_cache_user :: "DateTime \<Rightarrow> string option \<Rightarrow> CreateUser \<Rightarrow> CacheUser" where
  "new_cache_user now password c =
     \<lparr>cu_email = create_by_email (nu_create_by c), cu_name = nu_name c, cu_password = password, cu_gender = nu_gender c,
      cu_is_admin = nu_is_admin c, cu_language = nu_lang c, cu_create_by = type_name (nu_create_by c), cu_devices = fmempty,
      cu_mute_user = fmempty, cu_mute_group = fmempty, cu_burn_after_reading_user = fmempty,
      cu_burn_after_reading_group = fmempty, cu_read_index_user = fmempty, cu_read_index_group = fmempty, cu_created_at = now,
      cu_updated_at = now, cu_avatar_updated_at = nu_avatar_time now c, cu_status = StatusNormal,
      cu_is_guest = (nu_create_by c = ByGuest), cu_webhook_url = nu_webhook_url c, cu_is_bot = nu_is_bot c, cu_bot_keys = fmempty\<rparr>"

definition user_count :: "(i64, CacheUser) fmap \<Rightarrow> nat" where
  "user_count users = card (fmdom' (fmfilter (\<lambda>uid. \<not> cu_is_guest (the (fmlookup users uid))) users))"

text \<open>The rows of the new user, \<open>None\<close> when a constraint is violated; guests are not in the log.\<close>

definition insert_new_user ::
    "DateTime \<Rightarrow> string option \<Rightarrow> CreateUser \<Rightarrow> tables \<Rightarrow> (auth_key, i64) fmap \<Rightarrow>
     (i64 \<times> i64 option \<times> tables \<times> (auth_key, i64) fmap) option" where
  "insert_new_user now password c db auth =
     Option.bind (sql_insert_user (new_user_row now password c) db) (\<lambda>(uid, db1).
     Option.bind (case create_by_auth (nu_create_by c) of None \<Rightarrow> Some auth | Some k \<Rightarrow> sql_insert_auth db1 k uid auth) (\<lambda>auth1.
       if nu_create_by c = ByGuest then Some (uid, None, db1, auth1)
       else case sql_insert_user_log db1 of (log_id, db2) \<Rightarrow> Some (uid, Some log_id, db2, auth1)))"

definition create_events :: "DateTime \<Rightarrow> CreateUser \<Rightarrow> i64 \<Rightarrow> i64 \<Rightarrow> ('j, 'db) State \<Rightarrow> 'j BroadcastEvent list" where
  "create_events now c uid log_id st =
     UserLog \<lparr>ul_log_id = log_id, ul_action = ActionCreate, ul_uid = uid, ul_email = create_by_email (nu_create_by c),
       ul_name = Some (nu_name c), ul_gender = Some (nu_gender c), ul_language = Some (nu_lang c),
       ul_is_admin = Some (nu_is_admin c), ul_is_bot = Some (nu_is_bot c), ul_avatar_updated_at = Some (nu_avatar_time now c)\<rparr> #
     map (\<lambda>gid. UserJoinedGroup (fmdom' (st_users st)) gid [uid])
       (filter (\<lambda>gid. gt_is_public (cg_ty (the (fmlookup (st_groups st) gid)))) (fm_keys (st_groups st)))"

text \<open>The avatar file is written best effort.\<close>

definition create_user ::
    "auth_env \<Rightarrow> auth_call \<Rightarrow> CreateUser \<Rightarrow> ('j, 'db) Accounts \<Rightarrow> (CreateUserError + i64) \<times> ('j, 'db) Accounts" where
  "create_user A q c ac =
     (let st = ac_state ac; now = aq_now q; email = create_by_email (nu_create_by c);
          password = (case create_by_password (nu_create_by c) of
              None \<Rightarrow> Inr None
            | Some p \<Rightarrow> map_sum (\<lambda>u. PoemError internal_error) Some (ok_or () (hash_password (au_hash A) (aq_salt q) p)))
      in case password of
          Inl e \<Rightarrow> (Inl e, ac)
        | Inr hashed \<Rightarrow>
            if user_count (st_users st) \<ge> au_user_limit A
            then (Inl (PoemError (from_string ''License error: Users reached limit.'' UNAVAILABLE_FOR_LEGAL_REASONS)), ac)
            else if \<not> check_name_conflict (st_cache st) (nu_name c) then (Inl NameConflict, ac)
            else if (case email of None \<Rightarrow> False | Some e \<Rightarrow> \<not> check_email_conflict (st_cache st) e) then (Inl EmailConflict, ac)
            else (case (if aq_db_ok q then insert_new_user now hashed c (st_tables st) (ac_auth ac) else None) of
                None \<Rightarrow> (Inl (PoemError internal_error), ac)
              | Some (uid, log_id, db, auth) \<Rightarrow>
                  let st1 = put_user uid (new_cache_user now hashed c) (set_tables db st)
                  in (Inr uid, ac\<lparr>ac_auth := auth,
                       ac_state := broadcast (case log_id of None \<Rightarrow> [] | Some i \<Rightarrow> create_events now c uid i st1) st1\<rparr>)))"

section \<open>Profile\<close>

record UpdateUserInfoRequest =
  uu_name :: "string option"
  uu_gender :: "i32 option"
  uu_language :: "LangId option"

definition uu_is_empty :: "UpdateUserInfoRequest \<Rightarrow> bool" where
  "uu_is_empty req \<longleftrightarrow> uu_name req = None \<and> uu_gender req = None \<and> uu_language req = None"

datatype 'a UpdateUserResponse = UpdateOk 'a | UpdateConflict

text \<open>The new row; its name must be free among the others (\<open>unique index\<close>).\<close>

definition update_user_row :: "DateTime \<Rightarrow> UpdateUserInfoRequest \<Rightarrow> user_row \<Rightarrow> user_row" where
  "update_user_row now req r =
     r\<lparr>ur_name := (case uu_name req of None \<Rightarrow> ur_name r | Some n \<Rightarrow> n),
       ur_gender := (case uu_gender req of None \<Rightarrow> ur_gender r | Some g \<Rightarrow> g),
       ur_language := (case uu_language req of None \<Rightarrow> ur_language r | Some l \<Rightarrow> l), ur_updated_at := now\<rparr>"

definition update_user_cached :: "UpdateUserInfoRequest \<Rightarrow> CacheUser \<Rightarrow> CacheUser" where
  "update_user_cached req u =
     u\<lparr>cu_name := (case uu_name req of None \<Rightarrow> cu_name u | Some n \<Rightarrow> n),
       cu_gender := (case uu_gender req of None \<Rightarrow> cu_gender u | Some g \<Rightarrow> g),
       cu_language := (case uu_language req of None \<Rightarrow> cu_language u | Some l \<Rightarrow> l)\<rparr>"

definition name_taken :: "i64 \<Rightarrow> string \<Rightarrow> tables \<Rightarrow> bool" where
  "name_taken uid name db \<longleftrightarrow> fm_any (\<lambda>r. eq_ignore_ascii_case (ur_name r) name) (fmdrop uid (tb_user db))"

definition no_log :: "i64 \<Rightarrow> i64 \<Rightarrow> UserUpdateLog" where
  "no_log log_id uid = \<lparr>ul_log_id = log_id, ul_action = ActionUpdate, ul_uid = uid, ul_email = None, ul_name = None,
     ul_gender = None, ul_language = None, ul_is_admin = None, ul_is_bot = None, ul_avatar_updated_at = None\<rparr>"

text \<open>\<open>a || b && c\<close> groups to the right.\<close>

definition update_logged :: "UpdateUserInfoRequest \<Rightarrow> bool" where
  "update_logged req \<longleftrightarrow> uu_name req \<noteq> None \<or> (uu_gender req \<noteq> None \<and> uu_language req \<noteq> None)"

definition update_user ::
    "auth_call \<Rightarrow> Token \<Rightarrow> UpdateUserInfoRequest \<Rightarrow> ('j, 'db, UserInfo UpdateUserResponse) handler" where
  "update_user q token req st =
     (if uu_is_empty req then (Inl (from_status BAD_REQUEST), st)
      else if (case uu_name req of None \<Rightarrow> False | Some n \<Rightarrow> \<not> check_name_conflict (st_cache st) n)
      then (Inr UpdateConflict, st)
      else case find_user st (tk_uid token) of
        None \<Rightarrow> (Inl (from_status UNAUTHORIZED), st)
      | Some user \<Rightarrow>
          let uid = tk_uid token; db = st_tables st in
          if \<not> aq_db_ok q \<or> (case uu_name req of None \<Rightarrow> False | Some n \<Rightarrow> name_taken uid n db) then (Inl internal_error, st)
          else
            let db1 = sql_update_user uid (update_user_row (aq_now q) req) db;
                (log_id, db2) = (if update_logged req then (case sql_insert_user_log db1 of (i, d) \<Rightarrow> (Some i, d)) else (None, db1));
                user' = update_user_cached req user
            in (Inr (UpdateOk (api_user_info user' uid)),
                broadcast (case log_id of
                    None \<Rightarrow> []
                  | Some i \<Rightarrow> [UserLog ((no_log i uid)\<lparr>ul_name := uu_name req, ul_gender := uu_gender req, ul_language := uu_language req\<rparr>)])
                  (put_user uid user' (set_tables db2 st))))"

definition user_upload_avatar ::
    "(i64 \<Rightarrow> bytes \<Rightarrow> api_error option) \<Rightarrow> auth_call \<Rightarrow> Token \<Rightarrow> upload_body \<Rightarrow> ('j, 'db, UploadAvatarApiResponse) handler" where
  "user_upload_avatar save_avatar q token req st =
     (case find_user st (tk_uid token) of
        None \<Rightarrow> (Inl (from_status UNAUTHORIZED), st)
      | Some user \<Rightarrow>
          (case req of
             BodyTooLarge \<Rightarrow> (Inr AvatarPayloadTooLarge, st)
           | BodyError e \<Rightarrow> (Inl e, st)
           | BodyBytes data \<Rightarrow>
               (case save_avatar (tk_uid token) data of
                  Some e \<Rightarrow> (Inl e, st)
                | None \<Rightarrow>
                    if \<not> aq_db_ok q then (Inl internal_error, st)
                    else
                      let uid = tk_uid token; now = aq_now q;
                          db1 = sql_update_user uid (\<lambda>r. r\<lparr>ur_avatar_updated_at := now\<rparr>) (st_tables st);
                          (log_id, db2) = sql_insert_user_log db1
                      in (Inr AvatarOk, broadcast [UserLog ((no_log log_id uid)\<lparr>ul_avatar_updated_at := Some now\<rparr>)]
                           (put_user uid (user\<lparr>cu_avatar_updated_at := now\<rparr>) (set_tables db2 st))))))"

definition change_password ::
    "auth_env \<Rightarrow> auth_call \<Rightarrow> Token \<Rightarrow> string \<Rightarrow> string \<Rightarrow> ('j, 'db, unit) handler" where
  "change_password A q token old_password new_password st =
     (case find_user st (tk_uid token) of
        None \<Rightarrow> (Inl (from_status UNAUTHORIZED), st)
      | Some user \<Rightarrow>
          (case cu_password user of
             None \<Rightarrow> (Inl (from_status FORBIDDEN), st)
           | Some stored \<Rightarrow>
               if \<not> vu_matched (verify_and_upgrade (au_hash A) (aq_salt q) old_password stored) then (Inl (from_status FORBIDDEN), st)
               else (case hash_password (au_hash A) (aq_salt q) new_password of
                   None \<Rightarrow> (Inl internal_error, st)
                 | Some h \<Rightarrow>
                     if \<not> aq_db_ok q then (Inl internal_error, st)
                     else (Inr (), put_user (tk_uid token) (user\<lparr>cu_password := Some h\<rparr>)
                       (set_tables (sql_update_user (tk_uid token) (\<lambda>r. r\<lparr>ur_password := Some h\<rparr>) (st_tables st)) st)))))"

section \<open>Devices\<close>

definition get_devices :: "Token \<Rightarrow> ('j, 'db) State \<Rightarrow> api_error + string set" where
  "get_devices token st =
     try_res (ok_or (from_status UNAUTHORIZED) (find_user st (tk_uid token))) (\<lambda>user. Inr (fmdom' (cu_devices user)))"

definition update_device_token :: "auth_call \<Rightarrow> Token \<Rightarrow> string option \<Rightarrow> ('j, 'db, unit) handler" where
  "update_device_token q token device_token st =
     (case find_user st (tk_uid token) of
        None \<Rightarrow> (Inl (from_status NOT_FOUND), st)
      | Some user \<Rightarrow>
          if \<not> aq_db_ok q then (Inl internal_error, st)
          else (Inr (), put_user (tk_uid token)
            (user\<lparr>cu_devices := fm_modify (tk_device token) (\<lambda>d. d\<lparr>dev_token := device_token\<rparr>) (cu_devices user)\<rparr>)
            (set_tables (sql_update_device (tk_uid token) (tk_device token) device_token (st_tables st)) st)))"

text \<open>\<open>entry(device).and_modify(..).or_insert_with(..)\<close>.\<close>

definition enter_device :: "string \<Rightarrow> string option \<Rightarrow> CacheUser \<Rightarrow> CacheUser" where
  "enter_device device device_token user =
     user\<lparr>cu_devices := fmupd device
       (case fmlookup (cu_devices user) device of
          Some d \<Rightarrow> d\<lparr>dev_token := device_token\<rparr>
        | None \<Rightarrow> \<lparr>dev_token = device_token, dev_sender = None\<rparr>) (cu_devices user)\<rparr>"

definition update_fcm_token :: "auth_call \<Rightarrow> Token \<Rightarrow> string \<Rightarrow> string \<Rightarrow> ('j, 'db, unit) handler" where
  "update_fcm_token q token device fcm_token st =
     (case find_user st (tk_uid token) of
        None \<Rightarrow> (Inl (from_status UNAUTHORIZED), st)
      | Some user \<Rightarrow>
          (case (if aq_db_ok q then sql_upsert_device (tk_uid token) device (Some fcm_token) (st_tables st) else None) of
             None \<Rightarrow> (Inl internal_error, st)
           | Some db \<Rightarrow> (Inr (), put_user (tk_uid token) (enter_device device (Some fcm_token) user) (set_tables db st))))"

definition kick_device :: "CacheDevice \<Rightarrow> KickReason \<Rightarrow> ('j, 'db) State \<Rightarrow> ('j, 'db) State" where
  "kick_device d reason st =
     (case dev_sender d of None \<Rightarrow> st | Some s \<Rightarrow> st\<lparr>st_stream_events := st_stream_events st @ [(s, reason)]\<rparr>)"

text \<open>The transaction is committed before the cache is looked at.\<close>

definition delete_device :: "auth_call \<Rightarrow> Token \<Rightarrow> string \<Rightarrow> ('j, 'db, unit) account_op" where
  "delete_device q token device ac =
     (let uid = tk_uid token in
      if \<not> aq_db_ok q then (Inl internal_error, ac)
      else if \<not> device_exists (ac_tables ac) uid device then (Inl (from_status UNAUTHORIZED), ac)
      else
        let st = set_tables (sql_delete_device uid device (ac_tables ac)) (ac_state ac);
            ac1 = ac\<lparr>ac_state := st, ac_keys := retire_identity (aq_now q) uid device (ac_keys ac)\<rparr>
        in (case Option.bind (find_user st uid) (\<lambda>user. map_option (\<lambda>d. (user, d)) (fmlookup (cu_devices user) device)) of
              None \<Rightarrow> (Inl (from_status UNAUTHORIZED), ac1)
            | Some (user, d) \<Rightarrow>
                (Inr (), ac1\<lparr>ac_state := kick_device d DeleteDevice
                   (put_user uid (user\<lparr>cu_devices := fmdrop device (cu_devices user)\<rparr>) st)\<rparr>)))"

section \<open>Sessions\<close>

record LoginResponse =
  lr_server_id :: string
  lr_token :: string
  lr_refresh_token :: string
  lr_expired_in :: i64
  lr_user :: UserInfo

datatype LoginApiResponse =
    LoginOk LoginResponse
  | LoginMethodNotSupported
  | InvalidAccount
  | UserDoesNotExist
  | LoginFrozen
  | LoginEmailConflict
  | AccountNotAssociated

definition mint :: "auth_env \<Rightarrow> auth_call \<Rightarrow> Token \<Rightarrow> api_error + string \<times> string" where
  "mint A q data =
     map_sum (\<lambda>e. internal_error) id (create_token_pair (au_jwt A) (au_server_key A) (aq_now q) (aq_nonces q) data
       (au_refresh_token_expiry_seconds A) (au_token_expiry_seconds A))"

definition do_login :: "auth_env \<Rightarrow> auth_call \<Rightarrow> i64 \<Rightarrow> string \<Rightarrow> string option \<Rightarrow> ('j, 'db, LoginApiResponse) account_op" where
  "do_login A q uid device device_token ac =
     (case find_user (ac_state ac) uid of
        None \<Rightarrow> (Inr UserDoesNotExist, ac)
      | Some user \<Rightarrow>
          if cu_status user = StatusFrozen then (Inr LoginFrozen, ac)
          else (case mint A q \<lparr>tk_uid = uid, tk_device = device, tk_is_admin = cu_is_admin user, tk_is_guest = cu_is_guest user\<rparr> of
              Inl e \<Rightarrow> (Inl e, ac)
            | Inr (refresh_token, token) \<Rightarrow>
                (case (if aq_db_ok q then sql_upsert_device uid device device_token (ac_tables ac) else None) of
                   None \<Rightarrow> (Inl internal_error, ac)
                 | Some db \<Rightarrow>
                     (Inr (LoginOk \<lparr>lr_server_id = au_server_id A, lr_token = token, lr_refresh_token = refresh_token,
                        lr_expired_in = au_token_expiry_seconds A, lr_user = api_user_info user uid\<rparr>),
                      ac\<lparr>ac_refresh := fmupd (uid, device) refresh_token (ac_refresh ac),
                         ac_state := put_user uid (enter_device device device_token user) (set_tables db (ac_state ac))\<rparr>))))"

datatype RenewTokenApiResponse = RenewOk string string i64 | RenewIllegalToken

text \<open>
  Two statements without a transaction: what is found out before the first one and by it, either the answer or the user to
  go on with, and then the update.
\<close>

definition renew_check ::
    "auth_env \<Rightarrow> auth_call \<Rightarrow> string \<Rightarrow> string \<Rightarrow> ('j, 'db) Accounts \<Rightarrow> (api_error + RenewTokenApiResponse) + Token" where
  "renew_check A q token refresh_token ac =
     (case (parse_token (au_jwt A) (au_server_key A) (aq_now q) token False,
            parse_token (au_jwt A) (au_server_key A) (aq_now q) refresh_token True) of
        (Inr (AccessToken, user1), Inr (RefreshToken, user2)) \<Rightarrow>
          if user1 \<noteq> user2 then Inl (Inr RenewIllegalToken)
          else if \<not> aq_db_ok q then Inl (Inl internal_error)
          else if fmlookup (ac_refresh ac) (tk_uid user1, tk_device user1) \<noteq> Some refresh_token then Inl (Inr RenewIllegalToken)
          else Inr user1
      | _ \<Rightarrow> Inl (Inr RenewIllegalToken))"

definition renew_store :: "auth_env \<Rightarrow> auth_call \<Rightarrow> Token \<Rightarrow> ('j, 'db, RenewTokenApiResponse) account_op" where
  "renew_store A q user ac =
     (case mint A q user of
        Inl e \<Rightarrow> (Inl e, ac)
      | Inr (refresh_token, token) \<Rightarrow>
          if \<not> aq_db_ok q then (Inl internal_error, ac)
          else (Inr (RenewOk token refresh_token (au_token_expiry_seconds A)),
                ac\<lparr>ac_refresh := fm_modify (tk_uid user, tk_device user) (\<lambda>old. refresh_token) (ac_refresh ac)\<rparr>))"

definition renew :: "auth_env \<Rightarrow> auth_call \<Rightarrow> string \<Rightarrow> string \<Rightarrow> ('j, 'db, RenewTokenApiResponse) account_op" where
  "renew A q token refresh_token ac =
     (case renew_check A q token refresh_token ac of
        Inl answer \<Rightarrow> (answer, ac)
      | Inr user \<Rightarrow> renew_store A q user ac)"

datatype LogoutApiResponse = LogoutOk | LogoutIllegalToken

definition logout :: "auth_call \<Rightarrow> Token \<Rightarrow> ('j, 'db, LogoutApiResponse) account_op" where
  "logout q token ac =
     (let uid = tk_uid token; device = tk_device token; st = ac_state ac in
      case find_user st uid of
        None \<Rightarrow> (Inr LogoutIllegalToken, ac)
      | Some user \<Rightarrow>
          if \<not> aq_db_ok q then (Inl internal_error, ac)
          else
            let st1 = put_user uid (user\<lparr>cu_devices := fmdrop device (cu_devices user)\<rparr>)
                  (set_tables (sql_delete_device uid device (st_tables st)) st)
            in (Inr LogoutOk, ac\<lparr>ac_refresh := fmdrop (uid, device) (ac_refresh ac),
                 ac_keys := retire_identity (aq_now q) uid device (ac_keys ac),
                 ac_state := (case fmlookup (cu_devices user) device of None \<Rightarrow> st1 | Some d \<Rightarrow> kick_device d Logout st1)\<rparr>))"

text \<open>The rows of a deleted user go with it (\<open>on delete cascade\<close>).\<close>

definition drop_user_rows :: "i64 \<Rightarrow> ('j, 'db) Accounts \<Rightarrow> ('j, 'db) Accounts" where
  "drop_user_rows uid ac = (let t = ac_keys ac in
     ac\<lparr>ac_refresh := fmfilter (\<lambda>(u, d). u \<noteq> uid) (ac_refresh ac),
        ac_auth := fmfilter (\<lambda>k. fmlookup (ac_auth ac) k \<noteq> Some uid) (ac_auth ac),
        ac_keys := t\<lparr>et_identity := filter (\<lambda>r. ei_uid r \<noteq> uid) (et_identity t),
          et_prekey := filter (\<lambda>p. ek_uid p \<noteq> uid) (et_prekey t), et_backup := fmdrop uid (et_backup t),
          et_dm_setting := fmfilter (\<lambda>(a, b). a \<noteq> uid \<and> b \<noteq> uid) (et_dm_setting t)\<rparr>\<rparr>)"

definition delete_current_user :: "auth_call \<Rightarrow> Token \<Rightarrow> ('j, 'db, unit) account_op" where
  "delete_current_user q token ac =
     (case on_state (delete_user (aq_db_ok q) (tk_uid token)) ac of
        (Inl e, ac') \<Rightarrow> (Inl e, ac')
      | (Inr u, ac') \<Rightarrow> (Inr (), drop_user_rows (tk_uid token) ac'))"

end
