(* ===== verification/Spec2Isabelle.thy ===== *)
theory Spec2Isabelle
  imports Msg_Contracts Group_Limits Message_History Mls_Delivery_Properties Session_Storage Deferred_Properties
    E2e_Api_Properties Bot_Outbound Accounts
begin

text \<open>placeholder\<close>

end
